(* ===== verification/Ipmi_Prelude.thy ===== *)
theory Ipmi_Prelude
  imports Main "HOL-Library.Word" "HOL-Library.Monad_Syntax"
begin

unbundle bit_operations_syntax

section \<open>Shared types, memory and byte order\<close>

text \<open>
  What every component of the IPMI stack shares: the UEFI scalar types, the status codes a
  routine returns, memory as a byte list, and the members of packed little-endian structures.

  \<^item> An operation that talks to hardware or to the BMC has the type
    \<open>'s \<Rightarrow> ('a \<times> 's) option\<close>: state passing, where \<^theory_text>\<open>None\<close> says that the
    call has no defined return (a loop that never ends, or an ASSERT that stops the machine).
  \<^item> Memory behind a pointer is the list of the bytes from that pointer on.  A write past the
    end of an object makes the list longer, so memory safety of a routine is the statement
    that the length of each buffer is what it was.
\<close>

subsection \<open>Scalar types and proof collections\<close>

type_synonym u8 = "8 word"
type_synonym u16 = "16 word"
type_synonym u32 = "32 word"
type_synonym u64 = "64 word"
type_synonym bytes = "u8 list"
type_synonym ('s, 'a) op = "'s \<Rightarrow> ('a \<times> 's) option"

named_theorems mem_simps \<open>lengths and contents of byte buffers\<close>
named_theorems ops \<open>defining equations of straight-line operations\<close>

lemma u8_bound: "unat (b :: u8) < 256"
  using unsigned_less [of b] by simp

lemma u16_bound: "unat (w :: u16) < 65536"
  using unsigned_less [of w] by simp

lemma u32_bound: "unat (w :: u32) < 4294967296"
  using unsigned_less [of w] by simp

subsection \<open>Status codes\<close>

text \<open>
  The status codes the sources name, and every other value a platform routine may return:
  \<open>EFI_WARNING\<close> (a code without the error bit) and \<open>EFI_OTHER_ERROR\<close>.
\<close>

datatype efi_status =
    EFI_SUCCESS | EFI_WARNING u64
  | EFI_INVALID_PARAMETER | EFI_UNSUPPORTED | EFI_BAD_BUFFER_SIZE | EFI_BUFFER_TOO_SMALL
  | EFI_NOT_READY | EFI_DEVICE_ERROR | EFI_OUT_OF_RESOURCES | EFI_NOT_FOUND | EFI_TIMEOUT
  | EFI_NOT_STARTED | EFI_ALREADY_STARTED | EFI_ABORTED | EFI_PROTOCOL_ERROR
  | EFI_SECURITY_VIOLATION | EFI_OTHER_ERROR u64

fun EFI_ERROR :: "efi_status \<Rightarrow> bool" where
  "EFI_ERROR EFI_SUCCESS = False"
| "EFI_ERROR (EFI_WARNING _) = False"
| "EFI_ERROR _ = True"

lemma EFI_ERROR_ne_success [simp]: "EFI_ERROR s \<Longrightarrow> s \<noteq> EFI_SUCCESS"
  by auto

subsection \<open>Memory operations\<close>

text \<open>\<open>CopyMem (buf + off, src, length src)\<close> and \<open>ZeroMem (buf, n)\<close>.\<close>

definition copy_mem :: "bytes \<Rightarrow> nat \<Rightarrow> bytes \<Rightarrow> bytes" where
  "copy_mem buf off src = take off buf @ src @ drop (off + length src) buf"

definition zero_mem :: "nat \<Rightarrow> bytes" where
  "zero_mem n = replicate n 0"

lemma length_copy_mem [mem_simps]:
  "off \<le> length buf \<Longrightarrow> length (copy_mem buf off src) = max (length buf) (off + length src)"
  by (simp add: copy_mem_def)

lemma length_copy_mem_fits [mem_simps]:
  "off + length src \<le> length buf \<Longrightarrow> length (copy_mem buf off src) = length buf"
  by (simp add: copy_mem_def)

lemma copy_mem_0: "length src = length buf \<Longrightarrow> copy_mem buf 0 src = src"
  by (simp add: copy_mem_def)

lemma nth_copy_mem_before [mem_simps]:
  "i < off \<Longrightarrow> off \<le> length buf \<Longrightarrow> copy_mem buf off src ! i = buf ! i"
  by (simp add: copy_mem_def nth_append)

lemma nth_copy_mem_in [mem_simps]:
  "off \<le> i \<Longrightarrow> i < off + length src \<Longrightarrow> off \<le> length buf \<Longrightarrow>
     copy_mem buf off src ! i = src ! (i - off)"
  by (auto simp: copy_mem_def nth_append min_def)

lemma take_copy_mem [mem_simps]:
  "off \<le> length buf \<Longrightarrow> take (off + length src) (copy_mem buf off src) = take off buf @ src"
  by (simp add: copy_mem_def)

lemma take_copy_mem_exact [mem_simps]:
  "off \<le> length buf \<Longrightarrow> n = off + length src \<Longrightarrow>
     take n (copy_mem buf off src) = take off buf @ src"
  by (simp add: take_copy_mem)

lemma length_zero_mem [simp]: "length (zero_mem n) = n"
  by (simp add: zero_mem_def)

text \<open>\<open>buf[i] = v\<close> through a pointer, and a run of bytes moved up by one place.\<close>

definition poke :: "bytes \<Rightarrow> nat \<Rightarrow> u8 \<Rightarrow> bytes" where
  "poke buf i v = copy_mem buf i [v]"

lemma poke_in: "i < length buf \<Longrightarrow> poke buf i v = buf[i := v]"
  by (simp add: poke_def copy_mem_def upd_conv_take_nth_drop)

lemma poke_0: "poke buf 0 v = v # drop 1 buf"
  by (simp add: poke_def copy_mem_def)

lemma length_poke [mem_simps]: "i < length buf \<Longrightarrow> length (poke buf i v) = length buf"
  by (simp add: poke_in)

subsection \<open>Little-endian values\<close>

primrec le_nat :: "bytes \<Rightarrow> nat" where
  "le_nat [] = 0"
| "le_nat (b # bs) = unat b + 256 * le_nat bs"

primrec nat_le :: "nat \<Rightarrow> nat \<Rightarrow> bytes" where
  "nat_le 0 n = []"
| "nat_le (Suc k) n = of_nat (n mod 256) # nat_le k (n div 256)"

lemma length_nat_le [simp]: "length (nat_le k n) = k"
  by (induction k arbitrary: n) auto

lemma unat_u8_of_nat_mod [simp]: "unat (of_nat (n mod 256) :: u8) = n mod 256"
  by (simp add: unat_of_nat)

lemma le_nat_nat_le: "le_nat (nat_le k n) = n mod 256 ^ k"
proof (induction k arbitrary: n)
  case 0
  then show ?case by simp
next
  case (Suc k)
  then show ?case by (simp add: mod_mult2_eq)
qed

lemma le_nat_bound: "le_nat bs < 256 ^ length bs"
proof (induction bs)
  case Nil
  then show ?case by simp
next
  case (Cons b bs)
  have "unat b < 256" by (rule u8_bound)
  with Cons show ?case by simp
qed

lemma nat_le_le_nat [simp]: "nat_le (length bs) (le_nat bs) = bs"
proof (induction bs)
  case Nil
  then show ?case by simp
next
  case (Cons b bs)
  have "unat b < 256" by (rule u8_bound)
  with Cons show ?case by simp
qed

lemma le_nat_replicate_0 [simp]: "le_nat (replicate n 0) = 0"
  by (induction n) auto

lemma le_nat_append: "le_nat (xs @ ys) = le_nat xs + 256 ^ length xs * le_nat ys"
  by (induction xs) (auto simp: algebra_simps)

definition le16 :: "u16 \<Rightarrow> bytes" where "le16 w = nat_le 2 (unat w)"
definition le32 :: "u32 \<Rightarrow> bytes" where "le32 w = nat_le 4 (unat w)"

lemma length_le16 [simp]: "length (le16 w) = 2"
  by (simp add: le16_def)

lemma length_le32 [simp]: "length (le32 w) = 4"
  by (simp add: le32_def)

lemma le16_inverse [simp]: "of_nat (le_nat (le16 w)) = w"
proof -
  have "unat w < 65536" by (rule u16_bound)
  then show ?thesis by (simp add: le16_def le_nat_nat_le)
qed

lemma le32_inverse [simp]: "of_nat (le_nat (le32 w)) = w"
proof -
  have "unat w < 4294967296" by (rule u32_bound)
  then show ?thesis by (simp add: le32_def le_nat_nat_le)
qed

subsection \<open>Members of packed structures\<close>

text \<open>
  A member is a range of bits of the little-endian value of the structure's bytes: \<open>o\<close> is the
  offset of its lowest bit, \<open>w\<close> its width.  Bit-fields and whole-byte members are the same thing.
\<close>

definition bits_get :: "nat \<Rightarrow> nat \<Rightarrow> bytes \<Rightarrow> nat" where
  "bits_get ofs w bs = take_bit w (drop_bit ofs (le_nat bs))"

definition bits_store :: "nat \<Rightarrow> nat \<Rightarrow> nat \<Rightarrow> nat \<Rightarrow> nat" where
  "bits_store ofs w v x =
     take_bit ofs x OR push_bit ofs (take_bit w v) OR push_bit (ofs + w) (drop_bit (ofs + w) x)"

definition bits_put :: "nat \<Rightarrow> nat \<Rightarrow> nat \<Rightarrow> bytes \<Rightarrow> bytes" where
  "bits_put ofs w v bs = nat_le (length bs) (bits_store ofs w v (le_nat bs))"

lemma length_bits_put [simp]: "length (bits_put ofs w v bs) = length bs"
  by (simp add: bits_put_def)

lemma bit_bits_store:
  "bit (bits_store ofs w v x) n =
     (if n < ofs then bit x n else if n < ofs + w then bit v (n - ofs) else bit x n)"
  by (auto simp: bits_store_def bit_simps)

lemma le_nat_bits_put:
  assumes "ofs + w \<le> 8 * length bs"
  shows "le_nat (bits_put ofs w v bs) = bits_store ofs w v (le_nat bs)"
proof -
  have "le_nat bs < 2 ^ (8 * length bs)"
    using le_nat_bound [of bs] by (simp add: power_mult)
  then have x: "take_bit (8 * length bs) (le_nat bs) = le_nat bs"
    by (simp add: take_bit_eq_mod)
  have "take_bit (8 * length bs) (bits_store ofs w v (le_nat bs)) = bits_store ofs w v (le_nat bs)"
  proof (rule bit_eqI)
    fix n
    have "bit (le_nat bs) n \<Longrightarrow> n < 8 * length bs"
      using x by (metis bit_take_bit_iff)
    then show "bit (take_bit (8 * length bs) (bits_store ofs w v (le_nat bs))) n =
               bit (bits_store ofs w v (le_nat bs)) n"
      using assms by (auto simp: bit_bits_store bit_take_bit_iff)
  qed
  then show ?thesis
    by (simp add: bits_put_def le_nat_nat_le take_bit_eq_mod power_mult)
qed

lemma bits_get_put_same:
  "ofs + w \<le> 8 * length bs \<Longrightarrow> bits_get ofs w (bits_put ofs w v bs) = take_bit w v"
  unfolding bits_get_def
  by (rule bit_eqI) (auto simp: le_nat_bits_put bit_take_bit_iff bit_drop_bit_eq bit_bits_store)

lemma bits_get_put_other:
  assumes "ofs + w \<le> 8 * length bs" and "ofs + w \<le> ofs' \<or> ofs' + w' \<le> ofs"
  shows "bits_get ofs' w' (bits_put ofs w v bs) = bits_get ofs' w' bs"
  unfolding bits_get_def
  using assms
  by (intro bit_eqI) (auto simp: le_nat_bits_put bit_take_bit_iff bit_drop_bit_eq bit_bits_store)

lemma bits_get_bound: "bits_get ofs w bs < 2 ^ w"
  by (simp add: bits_get_def)

lemma bits_get_zero [simp]: "bits_get ofs w (zero_mem n) = 0"
  by (simp add: bits_get_def zero_mem_def)

text \<open>A member of a structure that lies in the first bytes of a longer buffer.\<close>

lemma take_nat_le: "n \<le> k \<Longrightarrow> take n (nat_le k x) = nat_le n x"
proof (induction k arbitrary: n x)
  case 0
  then show ?case by simp
next
  case (Suc k)
  then show ?case by (cases n) auto
qed

lemma le_nat_take: "le_nat (take n bs) = take_bit (8 * n) (le_nat bs)"
proof (cases "n \<le> length bs")
  case True
  have "le_nat bs = le_nat (take n bs) + 256 ^ n * le_nat (drop n bs)"
    using le_nat_append [of "take n bs" "drop n bs"] True by (simp add: min_def)
  moreover have "le_nat (take n bs) < 256 ^ n"
    using le_nat_bound [of "take n bs"] True by (simp add: min_absorb2)
  ultimately show ?thesis by (simp add: take_bit_eq_mod power_mult)
next
  case False
  have "256 ^ length bs \<le> (256 ^ n :: nat)"
    using False by (intro power_increasing) auto
  then have "le_nat bs < 256 ^ n" using le_nat_bound [of bs] by linarith
  then show ?thesis using False by (simp add: take_bit_eq_mod power_mult)
qed

lemma nat_le_take_bit: "nat_le n (take_bit (8 * n) x) = nat_le n x"
proof (induction n arbitrary: x)
  case 0
  then show ?case by simp
next
  case (Suc n)
  have "take_bit (8 * Suc n) x mod 256 = x mod 256"
    using take_bit_take_bit [of 8 "8 * Suc n" x] by (simp add: take_bit_eq_mod min_def)
  moreover have "take_bit (8 * Suc n) x div 256 = take_bit (8 * n) (x div 256)"
    using drop_bit_take_bit [of 8 "8 * Suc n" x] by (simp add: drop_bit_eq_div)
  ultimately show ?case using Suc by simp
qed

lemma take_bits_put:
  assumes "ofs + w \<le> 8 * n" "n \<le> length bs"
  shows "take n (bits_put ofs w v bs) = bits_put ofs w v (take n bs)"
proof -
  have "take_bit (8 * n) (bits_store ofs w v (le_nat bs)) =
        take_bit (8 * n) (bits_store ofs w v (take_bit (8 * n) (le_nat bs)))"
    by (rule bit_eqI) (auto simp: bit_take_bit_iff bit_bits_store)
  then show ?thesis
    using assms nat_le_take_bit [of n "bits_store ofs w v (le_nat bs)"]
      nat_le_take_bit [of n "bits_store ofs w v (take_bit (8 * n) (le_nat bs))"]
    by (simp add: bits_put_def take_nat_le le_nat_take min_def)
qed

lemma bits_get_take:
  "ofs + w \<le> 8 * n \<Longrightarrow> bits_get ofs w (take n bs) = bits_get ofs w bs"
  unfolding bits_get_def le_nat_take
  by (rule bit_eqI) (auto simp: bit_take_bit_iff bit_drop_bit_eq)

lemma take_bit_unat [simp]:
  "take_bit 8 (unat (a :: u8)) = unat a"
  "take_bit 16 (unat (b :: u16)) = unat b"
  "take_bit 32 (unat (c :: u32)) = unat c"
  by (simp_all add: take_bit_nat_eq_self u8_bound u16_bound u32_bound)

lemma take_bit_le_nat: "length bs = n \<Longrightarrow> k = 8 * n \<Longrightarrow> take_bit k (le_nat bs) = le_nat bs"
  using le_nat_take [of n bs] by simp

end
