(* ===== verification/Ipmi_Headers.thy ===== *)
theory Ipmi_Headers
  imports Ipmi_Prelude
begin

section \<open>The IPMI headers as a parameter\<close>

text \<open>
  The sources include \<open>IndustryStandard/Ipmi*.h\<close> of MdePkg, which is not part of the
  repository: the values of the defined constants, the sizes of the message structures and the
  places of their members are therefore a parameter \<open>M\<close> of the model, a record
  \<open>ipmi_hdr\<close>.  Its domain is made of the names the sources use, as constructors.
  \<open>hdr_ok M\<close> is what the sources rely on: the members of a structure lie inside it and do not
  overlap, they have the width of their declared type, the completion code is the first byte of
  every response, the completion codes are pairwise distinct, a network function has six bits
  and a SEL record 16 bytes.  \<open>ipmi_v2\<close> is the instance
  given by the tables of the IPMI 2.0 specification; it satisfies \<open>hdr_ok\<close>.
\<close>

subsection \<open>Names of constants\<close>

datatype net_fn =
    IPMI_NETFN_CHASSIS | IPMI_NETFN_SENSOR_EVENT | IPMI_NETFN_APP | IPMI_NETFN_FIRMWARE
  | IPMI_NETFN_STORAGE | IPMI_NETFN_TRANSPORT

datatype (plugins only:) ipmi_cmd =
    IPMI_APP_GET_DEVICE_ID | IPMI_APP_GET_SELFTEST_RESULTS | IPMI_APP_SET_ACPI_POWERSTATE
  | IPMI_APP_RESET_WATCHDOG_TIMER | IPMI_APP_SET_WATCHDOG_TIMER | IPMI_APP_GET_WATCHDOG_TIMER
  | IPMI_APP_SET_BMC_GLOBAL_ENABLES | IPMI_APP_GET_BMC_GLOBAL_ENABLES
  | IPMI_APP_CLEAR_MESSAGE_FLAGS | IPMI_APP_GET_MESSAGE_FLAGS
  | IPMI_APP_GET_MESSAGE | IPMI_APP_SEND_MESSAGE | IPMI_APP_GET_SYSTEM_GUID
  | IPMI_APP_GET_SYSTEM_INTERFACE_CAPABILITIES | IPMI_APP_GET_CHANNEL_INFO
  | IPMI_GET_BMC_EXECUTION_CONTEXT
  | IPMI_STORAGE_GET_FRU_INVENTORY_AREAINFO | IPMI_STORAGE_READ_FRU_DATA
  | IPMI_STORAGE_WRITE_FRU_DATA | IPMI_STORAGE_GET_SEL_INFO | IPMI_STORAGE_GET_SEL_ENTRY
  | IPMI_STORAGE_ADD_SEL_ENTRY | IPMI_STORAGE_PARTIAL_ADD_SEL_ENTRY | IPMI_STORAGE_CLEAR_SEL
  | IPMI_STORAGE_GET_SEL_TIME | IPMI_STORAGE_SET_SEL_TIME
  | IPMI_STORAGE_GET_SDR_REPOSITORY_INFO | IPMI_STORAGE_GET_SDR
  | IPMI_CHASSIS_GET_CAPABILITIES | IPMI_CHASSIS_GET_STATUS | IPMI_CHASSIS_CONTROL
  | IPMI_CHASSIS_SET_POWER_RESTORE_POLICY | IPMI_CHASSIS_SET_SYSTEM_BOOT_OPTIONS
  | IPMI_CHASSIS_GET_SYSTEM_BOOT_OPTIONS
  | IPMI_SENSOR_SET_SENSOR_THRESHOLDS | IPMI_SENSOR_GET_SENSOR_THRESHOLDS
  | IPMI_TRANSPORT_SOL_ACTIVATING | IPMI_TRANSPORT_SET_SOL_CONFIG_PARAM
  | IPMI_TRANSPORT_GET_SOL_CONFIG_PARAM | IPMI_TRANSPORT_GET_LAN_CONFIG_PARAMETERS

datatype comp_code =
    IPMI_COMP_CODE_NORMAL | IPMI_COMP_CODE_NODE_BUSY | IPMI_COMP_CODE_INVALID_COMMAND
  | IPMI_COMP_CODE_INVALID_FOR_GIVEN_LUN | IPMI_COMP_CODE_TIMEOUT
  | IPMI_COMP_CODE_OUT_OF_SPACE | IPMI_COMP_CODE_INVALID_REQUEST_DATA_LENGTH
  | IPMI_COMP_CODE_OUT_OF_RANGE | IPMI_COMP_CODE_NOT_PRESENT
  | IPMI_COMP_CODE_INVALID_DATA_FIELD | IPMI_COMP_CODE_COMMAND_ILLEGAL
  | IPMI_COMP_CODE_CMD_RESP_NOT_PROVIDED | IPMI_COMP_CODE_FAIL_DUP_REQUEST
  | IPMI_COMP_CODE_SDR_REP_IN_UPDATE_MODE | IPMI_COMP_CODE_DEV_IN_FW_UPDATE_MODE
  | IPMI_COMP_CODE_BMC_INIT_IN_PROGRESS | IPMI_COMP_CODE_INSUFFICIENT_PRIVILEGE
  | IPMI_COMP_CODE_UNSPECIFIED

datatype (plugins only:) ipmi_val =
    IPMI_APP_SELFTEST_NO_ERROR | IPMI_APP_SELFTEST_NOT_IMPLEMENTED | IPMI_APP_SELFTEST_ERROR
  | IPMI_APP_SELFTEST_FATAL_HW_ERROR | IPMI_APP_SELFTEST_FRU_CORRUPT
  | IPMI_APP_SELFTEST_FW_BOOTBLOCK_CORRUPT | IPMI_APP_SELFTEST_FW_CORRUPT
  | IPMI_APP_SELFTEST_SDR_REPOSITORY_EMPTY | IPMI_BMC_IN_FORCED_UPDATE_MODE
  | IPMI_SEL_SYSTEM_RECORD | IPMI_EVM_REVISION
  | IPMI_SEL_OEM_TIME_STAMP_RECORD_START | IPMI_SEL_OEM_TIME_STAMP_RECORD_END
  | IPMI_SEL_OEM_NO_TIME_STAMP_RECORD_START
  | IPMI_CLEAR_SEL_REQUEST_INITIALIZE_ERASE | IPMI_CLEAR_SEL_REQUEST_GET_ERASE_STATUS
  | IPMI_CLEAR_SEL_RESPONSE_ERASURE_IN_PROGRESS | IPMI_CLEAR_SEL_RESPONSE_ERASURE_COMPLETED
  | IPMI_GET_SEL_INFO_OPERATION_SUPPORT_OVERFLOW_FLAG
  | IPMI_BOOT_OPTIONS_PARAMETER_SELECTOR_SET_IN_PROGRESS
  | IPMI_BOOT_OPTIONS_PARAMETER_BOOT_INFO_ACK | IPMI_BOOT_OPTIONS_PARAMETER_BOOT_FLAGS
  | BOOT_OPTION_HANDLED_BY_BIOS
  | IPMI_WATCHDOG_TIMER_BIOS_FRB2 | IPMI_WATCHDOG_TIMER_OS_LOADER
  | IPMI_WATCHDOG_TIMER_EXPIRATION_FLAG_BIOS_FRB2 | IPMI_WATCHDOG_TIMER_EXPIRATION_FLAG_OS_LOAD
  | IPMI_SYSTEM_POWER_STATE_S5_G2 | IPMI_SYSTEM_POWER_STATE_S0_G0
  | IPMI_DEVICE_POWER_STATE_D3 | IPMI_DEVICE_POWER_STATE_D0
  | IPMI_SOL_CONFIGURATION_PARAMETER_SOL_ENABLE
  | IPMI_WATCHDOG_TIMER_ACTION_HARD_RESET | BootCd
  | IPMI_WATCHDOG_TIMER_BIOS_POST | IPMI_WATCHDOG_TIMER_ACTION_NO_ACTION
  | IPMI_WATCHDOG_PRE_TIMEOUT_INTERRUPT_NONE | IPMI_WATCHDOG_TIMER_EXPIRATION_FLAG_BIOS_POST

subsection \<open>Names of structures and members\<close>

datatype (plugins only:) ipmi_struct =
    IPMI_SELF_TEST_RESULT_RESPONSE | IPMI_MSG_GET_BMC_EXEC_RSP | IPMI_GET_DEVICE_ID_RESPONSE
  | IPMI_GET_WATCHDOG_TIMER_RESPONSE | IPMI_SET_WATCHDOG_TIMER_REQUEST
  | IPMI_SET_BMC_GLOBAL_ENABLES_REQUEST | IPMI_GET_BMC_GLOBAL_ENABLES_RESPONSE
  | IPMI_CLEAR_MESSAGE_FLAGS_REQUEST | IPMI_GET_MESSAGE_FLAGS_RESPONSE
  | IPMI_GET_DEVICE_GUID_RESPONSE | IPMI_GET_CHANNEL_INFO_REQUEST
  | IPMI_GET_CHANNEL_INFO_RESPONSE
  | IPMI_SET_ACPI_POWER_STATE_REQUEST
  | IPMI_GET_FRU_INVENTORY_AREA_INFO_REQUEST | IPMI_GET_FRU_INVENTORY_AREA_INFO_RESPONSE
  | IPMI_READ_FRU_DATA_REQUEST | IPMI_WRITE_FRU_DATA_RESPONSE
  | IPMI_GET_SEL_INFO_RESPONSE | IPMI_GET_SEL_ENTRY_REQUEST | IPMI_GET_SEL_ENTRY_RESPONSE
  | IPMI_ADD_SEL_ENTRY_REQUEST | IPMI_ADD_SEL_ENTRY_RESPONSE
  | IPMI_PARTIAL_ADD_SEL_ENTRY_RESPONSE
  | IPMI_CLEAR_SEL_REQUEST | IPMI_CLEAR_SEL_RESPONSE
  | IPMI_GET_SEL_TIME_RESPONSE | IPMI_SET_SEL_TIME_REQUEST
  | IPMI_GET_SDR_REPOSITORY_INFO_RESPONSE | IPMI_GET_SDR_REQUEST
  | IPMI_GET_CHASSIS_CAPABILITIES_RESPONSE | IPMI_GET_CHASSIS_STATUS_RESPONSE
  | IPMI_CHASSIS_CONTROL_REQUEST | IPMI_SET_POWER_RESTORE_POLICY_REQUEST
  | IPMI_SET_POWER_RESTORE_POLICY_RESPONSE
  | IPMI_SET_BOOT_OPTIONS_REQUEST | IPMI_SET_BOOT_OPTIONS_RESPONSE
  | IPMI_GET_BOOT_OPTIONS_REQUEST | IPMI_GET_BOOT_OPTIONS_RESPONSE
  | IPMI_GET_BOOT_OPTIONS_PARAMETER_VERSION | IPMI_GET_BOOT_OPTIONS_PARAMETER_VALID
  | IPMI_SET_BOOT_OPTIONS_PARAMETER_VALID
  | IPMI_BOOT_OPTIONS_RESPONSE_PARAMETER_0 | IPMI_BOOT_OPTIONS_RESPONSE_PARAMETER_4
  | IPMI_BOOT_OPTIONS_RESPONSE_PARAMETER_5
  | IPMI_SENSOR_SET_SENSOR_THRESHOLD_REQUEST_DATA
  | IPMI_SENSOR_GET_SENSOR_THRESHOLD_RESPONSE_DATA
  | IPMI_SOL_ACTIVATING_REQUEST | IPMI_SET_SOL_CONFIGURATION_PARAMETERS_REQUEST
  | IPMI_GET_SOL_CONFIGURATION_PARAMETERS_REQUEST
  | IPMI_GET_SOL_CONFIGURATION_PARAMETERS_RESPONSE
  | IPMI_GET_LAN_CONFIGURATION_PARAMETERS_REQUEST

datatype (plugins only:) ipmi_field =
    CompletionCode
  | SelfTest_Result | SelfTest_Param
  | CurrentExecutionContext
  | DevId_DeviceId | DevId_DeviceRevision | DevId_FirmwareRev1 | DevId_MinorFirmwareRev
  | DevId_SpecificationVersion | DevId_DeviceSupport | DevId_FruInventorySupport
  | DevId_ManufacturerId0 | DevId_ManufacturerId1 | DevId_ManufacturerId2
  | DevId_ProductId | DevId_AuxFirmwareRevInfo
  | GetWdt_TimerUse | GetWdt_TimerRunning | GetWdt_TimeoutAction
  | GetWdt_ExpirationFlagsClear | GetWdt_InitialCountdownValue | GetWdt_PresentCountdownValue
  | SetWdt_TimerUse | SetWdt_TimerRunning | SetWdt_TimeoutAction | SetWdt_PreTimeoutInterrupt
  | SetWdt_ExpirationFlagsClear | SetWdt_InitialCountdownValue
  | AddSel_RecordData | AddSel_RecordId
  | GetSelTime_Timestamp | SetSelTime_Timestamp
  | ClearSel_AscC | ClearSel_AscL | ClearSel_AscR | ClearSel_Erase | ClearSel_ErasureProgress
  | SelInfo_Version | SelInfo_NoOfEntries | SelInfo_FreeSpace | SelInfo_RecentAddTimeStamp
  | SelInfo_RecentEraseTimeStamp | SelInfo_OperationSupport
  | GetSel_ReserveId0 | GetSel_ReserveId1 | GetSel_SelRecID0 | GetSel_SelRecID1
  | GetSel_Offset | GetSel_BytesToRead | GetSel_NextSelRecordId | GetSel_RecordData
  | GetBoot_ParameterSelector | GetBoot_SetSelector | GetBoot_BlockSelector
  | GetBootResp_ParameterSelector
  | GetValid_ParameterSelector | GetValid_ParameterValid
  | SetValid_ParameterSelector | SetValid_MarkParameterInvalid | SetBoot_ParameterSelector
  | Param0_SetInProgress | Param4_WriteMask | Param4_BootInitiatorAcknowledgeData
  | Param5_BootFlagValid | Param5_PersistentOptions | Param5_CmosClear
  | Param5_BootDeviceSelector
  | Chassis_CurrentPowerState | PowerRestore_Policy | PowerRestore_Reserved
  | PowerRestore_Support
  | GetSol_ChannelNumber | GetSol_ParameterSelector | GetSol_ParameterData0
  | SetSol_ChannelNumber | SetSol_ParameterSelector | SetSol_ParameterData0
  | Acpi_SystemStateChange | Acpi_SystemPowerState | Acpi_DeviceStateChange
  | Acpi_DevicePowerState
  | FruArea_DeviceId

record ipmi_hdr =
  netfn_of :: "net_fn \<Rightarrow> u8"
  cmd_of :: "ipmi_cmd \<Rightarrow> u8"
  cc_of :: "comp_code \<Rightarrow> u8"
  val_of :: "ipmi_val \<Rightarrow> u8"
  IPMI_SOFTWARE_ID :: u16
  sizeof :: "ipmi_struct \<Rightarrow> nat"
  layout :: "ipmi_field \<Rightarrow> nat \<times> nat"

subsection \<open>Access to a member\<close>

text \<open>
  \<open>fget M base f bs\<close> reads member \<open>f\<close> of the structure that starts at byte \<open>base\<close> of
  \<open>bs\<close>; \<open>fput M base f v bs\<close> assigns \<open>v\<close> to it (the bits that fit).
\<close>

definition fget :: "ipmi_hdr \<Rightarrow> nat \<Rightarrow> ipmi_field \<Rightarrow> bytes \<Rightarrow> nat" where
  "fget M base f bs = bits_get (8 * base + fst (layout M f)) (snd (layout M f)) bs"

definition fput :: "ipmi_hdr \<Rightarrow> nat \<Rightarrow> ipmi_field \<Rightarrow> nat \<Rightarrow> bytes \<Rightarrow> bytes" where
  "fput M base f v bs = bits_put (8 * base + fst (layout M f)) (snd (layout M f)) v bs"

definition fget8 :: "ipmi_hdr \<Rightarrow> nat \<Rightarrow> ipmi_field \<Rightarrow> bytes \<Rightarrow> u8" where
  "fget8 M base f bs = of_nat (fget M base f bs)"

lemma length_fput [simp]: "length (fput M base f v bs) = length bs"
  by (simp add: fput_def)

lemma fget_zero [simp]: "fget M base f (zero_mem n) = 0"
  by (simp add: fget_def)

subsection \<open>What the sources rely on\<close>

fun fields_of :: "ipmi_struct \<Rightarrow> ipmi_field list" where
  "fields_of IPMI_SELF_TEST_RESULT_RESPONSE = [CompletionCode, SelfTest_Result, SelfTest_Param]"
| "fields_of IPMI_MSG_GET_BMC_EXEC_RSP = [CurrentExecutionContext]"
| "fields_of IPMI_GET_DEVICE_ID_RESPONSE =
     [CompletionCode, DevId_DeviceId, DevId_DeviceRevision, DevId_FirmwareRev1,
      DevId_MinorFirmwareRev, DevId_SpecificationVersion, DevId_DeviceSupport,
      DevId_ManufacturerId0, DevId_ManufacturerId1, DevId_ManufacturerId2, DevId_ProductId,
      DevId_AuxFirmwareRevInfo]"
| "fields_of IPMI_GET_WATCHDOG_TIMER_RESPONSE =
     [CompletionCode, GetWdt_TimerUse, GetWdt_TimerRunning, GetWdt_TimeoutAction,
      GetWdt_ExpirationFlagsClear, GetWdt_InitialCountdownValue, GetWdt_PresentCountdownValue]"
| "fields_of IPMI_SET_WATCHDOG_TIMER_REQUEST =
     [SetWdt_TimerUse, SetWdt_TimerRunning, SetWdt_TimeoutAction, SetWdt_PreTimeoutInterrupt,
      SetWdt_ExpirationFlagsClear, SetWdt_InitialCountdownValue]"
| "fields_of IPMI_ADD_SEL_ENTRY_REQUEST = [AddSel_RecordData]"
| "fields_of IPMI_ADD_SEL_ENTRY_RESPONSE = [CompletionCode, AddSel_RecordId]"
| "fields_of IPMI_GET_SEL_TIME_RESPONSE = [CompletionCode, GetSelTime_Timestamp]"
| "fields_of IPMI_SET_SEL_TIME_REQUEST = [SetSelTime_Timestamp]"
| "fields_of IPMI_CLEAR_SEL_REQUEST =
     [ClearSel_AscC, ClearSel_AscL, ClearSel_AscR, ClearSel_Erase]"
| "fields_of IPMI_CLEAR_SEL_RESPONSE = [CompletionCode, ClearSel_ErasureProgress]"
| "fields_of IPMI_GET_SEL_INFO_RESPONSE =
     [CompletionCode, SelInfo_Version, SelInfo_NoOfEntries, SelInfo_FreeSpace,
      SelInfo_RecentAddTimeStamp, SelInfo_RecentEraseTimeStamp, SelInfo_OperationSupport]"
| "fields_of IPMI_GET_SEL_ENTRY_REQUEST =
     [GetSel_ReserveId0, GetSel_ReserveId1, GetSel_SelRecID0, GetSel_SelRecID1,
      GetSel_Offset, GetSel_BytesToRead]"
| "fields_of IPMI_GET_SEL_ENTRY_RESPONSE =
     [CompletionCode, GetSel_NextSelRecordId, GetSel_RecordData]"
| "fields_of IPMI_GET_BOOT_OPTIONS_REQUEST =
     [GetBoot_ParameterSelector, GetBoot_SetSelector, GetBoot_BlockSelector]"
| "fields_of IPMI_GET_BOOT_OPTIONS_RESPONSE = [CompletionCode, GetBootResp_ParameterSelector]"
| "fields_of IPMI_GET_BOOT_OPTIONS_PARAMETER_VALID =
     [GetValid_ParameterSelector, GetValid_ParameterValid]"
| "fields_of IPMI_SET_BOOT_OPTIONS_PARAMETER_VALID =
     [SetValid_ParameterSelector, SetValid_MarkParameterInvalid]"
| "fields_of IPMI_SET_BOOT_OPTIONS_REQUEST = [SetBoot_ParameterSelector]"
| "fields_of IPMI_SET_BOOT_OPTIONS_RESPONSE = [CompletionCode]"
| "fields_of IPMI_BOOT_OPTIONS_RESPONSE_PARAMETER_0 = [Param0_SetInProgress]"
| "fields_of IPMI_BOOT_OPTIONS_RESPONSE_PARAMETER_4 =
     [Param4_WriteMask, Param4_BootInitiatorAcknowledgeData]"
| "fields_of IPMI_BOOT_OPTIONS_RESPONSE_PARAMETER_5 =
     [Param5_BootFlagValid, Param5_PersistentOptions, Param5_CmosClear,
      Param5_BootDeviceSelector]"
| "fields_of IPMI_GET_CHASSIS_STATUS_RESPONSE = [CompletionCode, Chassis_CurrentPowerState]"
| "fields_of IPMI_SET_POWER_RESTORE_POLICY_REQUEST =
     [PowerRestore_Policy, PowerRestore_Reserved]"
| "fields_of IPMI_SET_POWER_RESTORE_POLICY_RESPONSE = [CompletionCode, PowerRestore_Support]"
| "fields_of IPMI_GET_SOL_CONFIGURATION_PARAMETERS_REQUEST =
     [GetSol_ChannelNumber, GetSol_ParameterSelector]"
| "fields_of IPMI_GET_SOL_CONFIGURATION_PARAMETERS_RESPONSE =
     [CompletionCode, GetSol_ParameterData0]"
| "fields_of IPMI_SET_SOL_CONFIGURATION_PARAMETERS_REQUEST =
     [SetSol_ChannelNumber, SetSol_ParameterSelector, SetSol_ParameterData0]"
| "fields_of IPMI_SET_ACPI_POWER_STATE_REQUEST =
     [Acpi_SystemStateChange, Acpi_SystemPowerState, Acpi_DeviceStateChange,
      Acpi_DevicePowerState]"
| "fields_of IPMI_GET_FRU_INVENTORY_AREA_INFO_REQUEST = [FruArea_DeviceId]"
| "fields_of _ = []"

text \<open>The width in bits of a member's declared type.\<close>

fun width_of :: "ipmi_field \<Rightarrow> nat" where
  "width_of DevId_FruInventorySupport = 1"
| "width_of DevId_ProductId = 16" | "width_of DevId_AuxFirmwareRevInfo = 32"
| "width_of GetWdt_TimerUse = 3" | "width_of GetWdt_TimerRunning = 1"
| "width_of GetWdt_TimeoutAction = 3"
| "width_of GetWdt_InitialCountdownValue = 16" | "width_of GetWdt_PresentCountdownValue = 16"
| "width_of SetWdt_TimerUse = 3" | "width_of SetWdt_TimerRunning = 1"
| "width_of SetWdt_TimeoutAction = 3" | "width_of SetWdt_PreTimeoutInterrupt = 3"
| "width_of SetWdt_InitialCountdownValue = 16"
| "width_of AddSel_RecordData = 128" | "width_of AddSel_RecordId = 16"
| "width_of GetSelTime_Timestamp = 32" | "width_of SetSelTime_Timestamp = 32"
| "width_of SelInfo_NoOfEntries = 16" | "width_of SelInfo_FreeSpace = 16"
| "width_of SelInfo_RecentAddTimeStamp = 32" | "width_of SelInfo_RecentEraseTimeStamp = 32"
| "width_of GetSel_NextSelRecordId = 16" | "width_of GetSel_RecordData = 128"
| "width_of GetBoot_ParameterSelector = 7" | "width_of GetBootResp_ParameterSelector = 7"
| "width_of GetValid_ParameterSelector = 7" | "width_of GetValid_ParameterValid = 1"
| "width_of SetValid_ParameterSelector = 7" | "width_of SetValid_MarkParameterInvalid = 1"
| "width_of SetBoot_ParameterSelector = 7" | "width_of Param0_SetInProgress = 2"
| "width_of Param5_BootFlagValid = 1" | "width_of Param5_PersistentOptions = 1"
| "width_of Param5_CmosClear = 1" | "width_of Param5_BootDeviceSelector = 4"
| "width_of PowerRestore_Policy = 3" | "width_of PowerRestore_Reserved = 5"
| "width_of GetSol_ChannelNumber = 4" | "width_of SetSol_ChannelNumber = 4"
| "width_of Acpi_SystemStateChange = 1" | "width_of Acpi_SystemPowerState = 7"
| "width_of Acpi_DeviceStateChange = 1" | "width_of Acpi_DevicePowerState = 7"
| "width_of _ = 8"

definition disjoint_bits :: "nat \<times> nat \<Rightarrow> nat \<times> nat \<Rightarrow> bool" where
  "disjoint_bits p q \<longleftrightarrow> fst p + snd p \<le> fst q \<or> fst q + snd q \<le> fst p"

definition struct_ok :: "ipmi_hdr \<Rightarrow> ipmi_struct \<Rightarrow> bool" where
  "struct_ok M S \<longleftrightarrow>
     list_all (\<lambda>f. snd (layout M f) = width_of f \<and>
                   fst (layout M f) + snd (layout M f) \<le> 8 * sizeof M S) (fields_of S) \<and>
     list_all (\<lambda>f. list_all (\<lambda>g. f = g \<or> disjoint_bits (layout M f) (layout M g)) (fields_of S))
       (fields_of S)"

definition hdr_ok :: "ipmi_hdr \<Rightarrow> bool" where
  "hdr_ok M \<longleftrightarrow> (\<forall>S. struct_ok M S) \<and> (\<forall>S. sizeof M S < 250) \<and>
     layout M CompletionCode = (0, 8) \<and> inj (cc_of M) \<and> (\<forall>f. netfn_of M f < 64) \<and>
     sizeof M IPMI_ADD_SEL_ENTRY_REQUEST = 16"

lemma hdr_ok_struct: "hdr_ok M \<Longrightarrow> struct_ok M S"
  by (simp add: hdr_ok_def)

lemma hdr_ok_cc_inj [simp]: "hdr_ok M \<Longrightarrow> cc_of M c = cc_of M d \<longleftrightarrow> c = d"
  by (auto simp: hdr_ok_def inj_eq)

lemma hdr_ok_CompletionCode: "hdr_ok M \<Longrightarrow> layout M CompletionCode = (0, 8)"
  by (simp add: hdr_ok_def)

lemma hdr_ok_netfn: "hdr_ok M \<Longrightarrow> netfn_of M f < 64"
  by (simp add: hdr_ok_def)

lemma hdr_ok_sel_size: "hdr_ok M \<Longrightarrow> sizeof M IPMI_ADD_SEL_ENTRY_REQUEST = 16"
  by (simp add: hdr_ok_def)

lemma hdr_ok_width: "hdr_ok M \<Longrightarrow> f \<in> set (fields_of S) \<Longrightarrow> snd (layout M f) = width_of f"
  using hdr_ok_struct [of M S] by (auto simp: struct_ok_def list_all_iff)

lemma hdr_ok_inside:
  "hdr_ok M \<Longrightarrow> f \<in> set (fields_of S) \<Longrightarrow> fst (layout M f) + snd (layout M f) \<le> 8 * sizeof M S"
  using hdr_ok_struct [of M S] by (auto simp: struct_ok_def list_all_iff)

lemma hdr_ok_disjoint:
  "hdr_ok M \<Longrightarrow> f \<in> set (fields_of S) \<Longrightarrow> g \<in> set (fields_of S) \<Longrightarrow> f \<noteq> g \<Longrightarrow>
     disjoint_bits (layout M f) (layout M g)"
  using hdr_ok_struct [of M S] by (fastforce simp: struct_ok_def list_all_iff)

lemma fget_fput_same:
  assumes "hdr_ok M" "f \<in> set (fields_of S)" "base + sizeof M S \<le> length bs"
  shows "fget M base f (fput M base f v bs) = take_bit (width_of f) v"
proof -
  have "8 * base + fst (layout M f) + snd (layout M f) \<le> 8 * length bs"
    using hdr_ok_inside [OF assms(1,2)] assms(3) by linarith
  then show ?thesis
    using hdr_ok_width [OF assms(1,2)] by (simp add: fget_def fput_def bits_get_put_same)
qed

lemma fget_fput_other:
  assumes "hdr_ok M" "f \<in> set (fields_of S)" "g \<in> set (fields_of S)" "f \<noteq> g"
    and "base + sizeof M S \<le> length bs"
  shows "fget M base g (fput M base f v bs) = fget M base g bs"
proof -
  have "8 * base + fst (layout M f) + snd (layout M f) \<le> 8 * length bs"
    using hdr_ok_inside [OF assms(1,2)] assms(5) by linarith
  moreover have "disjoint_bits (layout M f) (layout M g)"
    using hdr_ok_disjoint assms(1-4) by blast
  ultimately show ?thesis
    by (simp add: fget_def fput_def disjoint_bits_def bits_get_put_other)
qed

lemma fget_bound:
  "hdr_ok M \<Longrightarrow> f \<in> set (fields_of S) \<Longrightarrow> fget M base f bs < 2 ^ width_of f"
  using bits_get_bound by (simp add: fget_def hdr_ok_width)

text \<open>The completion code is the byte at the start of a response.\<close>

lemma fget8_CompletionCode:
  assumes "hdr_ok M" and "bs \<noteq> []"
  shows "fget8 M 0 CompletionCode bs = hd bs"
proof -
  obtain b cs where bs: "bs = b # cs" using assms(2) by (cases bs) auto
  have "take_bit 8 (unat b + 256 * le_nat cs) = unat b"
    using u8_bound [of b] by (simp add: take_bit_eq_mod)
  then show ?thesis
    using hdr_ok_CompletionCode [OF assms(1)] by (simp add: fget8_def fget_def bits_get_def bs)
qed

lemma take_fput:
  assumes "hdr_ok M" "f \<in> set (fields_of S)" "sizeof M S \<le> n" "n \<le> length bs"
  shows "take n (fput M 0 f v bs) = fput M 0 f v (take n bs)"
proof -
  have "fst (layout M f) + snd (layout M f) \<le> 8 * n"
    using hdr_ok_inside [OF assms(1,2)] assms(3) by linarith
  then show ?thesis using assms(4) by (simp add: fput_def take_bits_put)
qed

lemma fget_take:
  assumes "hdr_ok M" "f \<in> set (fields_of S)" "sizeof M S \<le> n"
  shows "fget M 0 f (take n bs) = fget M 0 f bs"
proof -
  have "fst (layout M f) + snd (layout M f) \<le> 8 * n"
    using hdr_ok_inside [OF assms(1,2)] assms(3) by linarith
  then show ?thesis by (simp add: fget_def bits_get_take)
qed

lemma fget_fput:
  assumes "hdr_ok M" "f \<in> set (fields_of S)" "g \<in> set (fields_of S)" "sizeof M S \<le> length bs"
  shows "fget M 0 g (fput M 0 f v bs) = (if f = g then take_bit (width_of f) v else fget M 0 g bs)"
  using fget_fput_same [of M f S 0 bs v] fget_fput_other [of M f S g 0 bs v] assms by auto

end
