(* ===== verification/Transport.thy ===== *)
theory Transport
  imports Ipmi_Headers
begin

section \<open>The transport interface\<close>

text \<open>
  \<open>Include/Library/IpmiTransportLib.h\<close>: the two routines a transport library offers to the
  generic driver.  \<open>SendDataToBmcPort\<close> takes the timeout, the bytes at \<open>Data\<close> and
  \<open>DataSize\<close>; \<open>ReceiveBmcDataFromPort\<close> takes the timeout, the buffer at \<open>Data\<close>
  and \<open>*DataSize\<close> on entry, and gives the status, the buffer and \<open>*DataSize\<close> on return.
  The locale states the contract the generic driver relies on: a send depends on the first
  \<open>DataSize\<close> bytes only, a receive stays inside its buffer and never reports more bytes than it
  was given.  The KCS, SSIF, mock and null
  libraries are
  interpretations of it.
\<close>

type_synonym 't send_fn = "u64 \<Rightarrow> bytes \<Rightarrow> u8 \<Rightarrow> ('t, efi_status) op"
type_synonym 't recv_fn = "u64 \<Rightarrow> bytes \<Rightarrow> u8 \<Rightarrow> ('t, efi_status \<times> bytes \<times> u8) op"

locale transport =
  fixes send :: "'t send_fn" and recv :: "'t recv_fn"
  assumes send_reads:
      "unat n \<le> length d \<Longrightarrow> unat n \<le> length d' \<Longrightarrow> take (unat n) d = take (unat n) d' \<Longrightarrow>
         send P d n t = send P d' n t"
    and recv_frame:
      "recv P buf n t = Some ((st, buf', n'), t') \<Longrightarrow> unat n \<le> length buf \<Longrightarrow>
         length buf' = length buf"
    and recv_size: "recv P buf n t = Some ((EFI_SUCCESS, buf', n'), t') \<Longrightarrow> n' \<le> n"

subsection \<open>The null library\<close>

text \<open>\<open>Library/IpmiTransportLibNull\<close>: every routine returns EFI_SUCCESS and touches nothing.\<close>

definition SendDataToBmcPort_Null :: "'t send_fn" where
  "SendDataToBmcPort_Null IpmiTimeoutPeriod Data DataSize t = Some (EFI_SUCCESS, t)"

definition ReceiveBmcDataFromPort_Null :: "'t recv_fn" where
  "ReceiveBmcDataFromPort_Null IpmiTimeoutPeriod Data DataSize t =
     Some ((EFI_SUCCESS, Data, DataSize), t)"

definition InitializeIpmiTransportHardware_Null :: "('t, efi_status) op" where
  "InitializeIpmiTransportHardware_Null t = Some (EFI_SUCCESS, t)"

lemmas transport_null_defs =
  SendDataToBmcPort_Null_def ReceiveBmcDataFromPort_Null_def InitializeIpmiTransportHardware_Null_def

interpretation null_transport: transport SendDataToBmcPort_Null ReceiveBmcDataFromPort_Null
  by unfold_locales (auto simp: transport_null_defs)

end
