(* ===== verification/Ipmi_V2.thy ===== *)
theory Ipmi_V2
  imports Ipmi_Headers
begin

section \<open>The header values of the IPMI 2.0 specification\<close>

text \<open>
  An instance of the header parameter, taken from the tables of the IPMI 2.0 specification:
  the numbers of the network functions, commands and completion codes, and the layouts of the
  messages.  Concrete runs of the model use it; no general theorem depends on it.
\<close>

fun v2_netfn :: "net_fn \<Rightarrow> u8" where
  "v2_netfn IPMI_NETFN_CHASSIS = 0x00" | "v2_netfn IPMI_NETFN_SENSOR_EVENT = 0x04"
| "v2_netfn IPMI_NETFN_APP = 0x06" | "v2_netfn IPMI_NETFN_FIRMWARE = 0x08"
| "v2_netfn IPMI_NETFN_STORAGE = 0x0A" | "v2_netfn IPMI_NETFN_TRANSPORT = 0x0C"

fun v2_cmd :: "ipmi_cmd \<Rightarrow> u8" where
  "v2_cmd IPMI_APP_GET_DEVICE_ID = 0x01" | "v2_cmd IPMI_APP_GET_SELFTEST_RESULTS = 0x04"
| "v2_cmd IPMI_APP_SET_ACPI_POWERSTATE = 0x06" | "v2_cmd IPMI_APP_RESET_WATCHDOG_TIMER = 0x22"
| "v2_cmd IPMI_APP_SET_WATCHDOG_TIMER = 0x24" | "v2_cmd IPMI_APP_GET_WATCHDOG_TIMER = 0x25"
| "v2_cmd IPMI_APP_SET_BMC_GLOBAL_ENABLES = 0x2E"
| "v2_cmd IPMI_APP_GET_BMC_GLOBAL_ENABLES = 0x2F"
| "v2_cmd IPMI_APP_CLEAR_MESSAGE_FLAGS = 0x30" | "v2_cmd IPMI_APP_GET_MESSAGE_FLAGS = 0x31"
| "v2_cmd IPMI_APP_GET_MESSAGE = 0x33" | "v2_cmd IPMI_APP_SEND_MESSAGE = 0x34"
| "v2_cmd IPMI_APP_GET_SYSTEM_GUID = 0x37"
| "v2_cmd IPMI_APP_GET_SYSTEM_INTERFACE_CAPABILITIES = 0x57"
| "v2_cmd IPMI_APP_GET_CHANNEL_INFO = 0x42" | "v2_cmd IPMI_GET_BMC_EXECUTION_CONTEXT = 0x23"
| "v2_cmd IPMI_STORAGE_GET_FRU_INVENTORY_AREAINFO = 0x10"
| "v2_cmd IPMI_STORAGE_READ_FRU_DATA = 0x11" | "v2_cmd IPMI_STORAGE_WRITE_FRU_DATA = 0x12"
| "v2_cmd IPMI_STORAGE_GET_SEL_INFO = 0x40" | "v2_cmd IPMI_STORAGE_GET_SEL_ENTRY = 0x43"
| "v2_cmd IPMI_STORAGE_ADD_SEL_ENTRY = 0x44"
| "v2_cmd IPMI_STORAGE_PARTIAL_ADD_SEL_ENTRY = 0x45" | "v2_cmd IPMI_STORAGE_CLEAR_SEL = 0x47"
| "v2_cmd IPMI_STORAGE_GET_SEL_TIME = 0x48" | "v2_cmd IPMI_STORAGE_SET_SEL_TIME = 0x49"
| "v2_cmd IPMI_STORAGE_GET_SDR_REPOSITORY_INFO = 0x20" | "v2_cmd IPMI_STORAGE_GET_SDR = 0x23"
| "v2_cmd IPMI_CHASSIS_GET_CAPABILITIES = 0x00" | "v2_cmd IPMI_CHASSIS_GET_STATUS = 0x01"
| "v2_cmd IPMI_CHASSIS_CONTROL = 0x02" | "v2_cmd IPMI_CHASSIS_SET_POWER_RESTORE_POLICY = 0x06"
| "v2_cmd IPMI_CHASSIS_SET_SYSTEM_BOOT_OPTIONS = 0x08"
| "v2_cmd IPMI_CHASSIS_GET_SYSTEM_BOOT_OPTIONS = 0x09"
| "v2_cmd IPMI_SENSOR_SET_SENSOR_THRESHOLDS = 0x26"
| "v2_cmd IPMI_SENSOR_GET_SENSOR_THRESHOLDS = 0x27"
| "v2_cmd IPMI_TRANSPORT_SOL_ACTIVATING = 0x20"
| "v2_cmd IPMI_TRANSPORT_SET_SOL_CONFIG_PARAM = 0x21"
| "v2_cmd IPMI_TRANSPORT_GET_SOL_CONFIG_PARAM = 0x22"
| "v2_cmd IPMI_TRANSPORT_GET_LAN_CONFIG_PARAMETERS = 0x02"

fun v2_cc :: "comp_code \<Rightarrow> u8" where
  "v2_cc IPMI_COMP_CODE_NORMAL = 0x00" | "v2_cc IPMI_COMP_CODE_NODE_BUSY = 0xC0"
| "v2_cc IPMI_COMP_CODE_INVALID_COMMAND = 0xC1"
| "v2_cc IPMI_COMP_CODE_INVALID_FOR_GIVEN_LUN = 0xC2" | "v2_cc IPMI_COMP_CODE_TIMEOUT = 0xC3"
| "v2_cc IPMI_COMP_CODE_OUT_OF_SPACE = 0xC4"
| "v2_cc IPMI_COMP_CODE_INVALID_REQUEST_DATA_LENGTH = 0xC7"
| "v2_cc IPMI_COMP_CODE_OUT_OF_RANGE = 0xC9" | "v2_cc IPMI_COMP_CODE_NOT_PRESENT = 0xCB"
| "v2_cc IPMI_COMP_CODE_INVALID_DATA_FIELD = 0xCC"
| "v2_cc IPMI_COMP_CODE_COMMAND_ILLEGAL = 0xCD"
| "v2_cc IPMI_COMP_CODE_CMD_RESP_NOT_PROVIDED = 0xCE"
| "v2_cc IPMI_COMP_CODE_FAIL_DUP_REQUEST = 0xCF"
| "v2_cc IPMI_COMP_CODE_SDR_REP_IN_UPDATE_MODE = 0xD0"
| "v2_cc IPMI_COMP_CODE_DEV_IN_FW_UPDATE_MODE = 0xD1"
| "v2_cc IPMI_COMP_CODE_BMC_INIT_IN_PROGRESS = 0xD2"
| "v2_cc IPMI_COMP_CODE_INSUFFICIENT_PRIVILEGE = 0xD4" | "v2_cc IPMI_COMP_CODE_UNSPECIFIED = 0xFF"

fun v2_val :: "ipmi_val \<Rightarrow> u8" where
  "v2_val IPMI_APP_SELFTEST_NO_ERROR = 0x55" | "v2_val IPMI_APP_SELFTEST_NOT_IMPLEMENTED = 0x56"
| "v2_val IPMI_APP_SELFTEST_ERROR = 0x57" | "v2_val IPMI_APP_SELFTEST_FATAL_HW_ERROR = 0x58"
| "v2_val IPMI_APP_SELFTEST_FRU_CORRUPT = 0x04"
| "v2_val IPMI_APP_SELFTEST_FW_BOOTBLOCK_CORRUPT = 0x02"
| "v2_val IPMI_APP_SELFTEST_FW_CORRUPT = 0x01"
| "v2_val IPMI_APP_SELFTEST_SDR_REPOSITORY_EMPTY = 0x08"
| "v2_val IPMI_BMC_IN_FORCED_UPDATE_MODE = 0x11"
| "v2_val IPMI_SEL_SYSTEM_RECORD = 0x02" | "v2_val IPMI_EVM_REVISION = 0x04"
| "v2_val IPMI_SEL_OEM_TIME_STAMP_RECORD_START = 0xC0"
| "v2_val IPMI_SEL_OEM_TIME_STAMP_RECORD_END = 0xDF"
| "v2_val IPMI_SEL_OEM_NO_TIME_STAMP_RECORD_START = 0xE0"
| "v2_val IPMI_CLEAR_SEL_REQUEST_INITIALIZE_ERASE = 0xAA"
| "v2_val IPMI_CLEAR_SEL_REQUEST_GET_ERASE_STATUS = 0x00"
| "v2_val IPMI_CLEAR_SEL_RESPONSE_ERASURE_IN_PROGRESS = 0x00"
| "v2_val IPMI_CLEAR_SEL_RESPONSE_ERASURE_COMPLETED = 0x01"
| "v2_val IPMI_GET_SEL_INFO_OPERATION_SUPPORT_OVERFLOW_FLAG = 0x80"
| "v2_val IPMI_BOOT_OPTIONS_PARAMETER_SELECTOR_SET_IN_PROGRESS = 0x00"
| "v2_val IPMI_BOOT_OPTIONS_PARAMETER_BOOT_INFO_ACK = 0x04"
| "v2_val IPMI_BOOT_OPTIONS_PARAMETER_BOOT_FLAGS = 0x05"
| "v2_val BOOT_OPTION_HANDLED_BY_BIOS = 0x01"
| "v2_val IPMI_WATCHDOG_TIMER_BIOS_FRB2 = 0x01" | "v2_val IPMI_WATCHDOG_TIMER_OS_LOADER = 0x03"
| "v2_val IPMI_WATCHDOG_TIMER_EXPIRATION_FLAG_BIOS_FRB2 = 0x02"
| "v2_val IPMI_WATCHDOG_TIMER_EXPIRATION_FLAG_OS_LOAD = 0x08"
| "v2_val IPMI_SYSTEM_POWER_STATE_S5_G2 = 0x05" | "v2_val IPMI_SYSTEM_POWER_STATE_S0_G0 = 0x00"
| "v2_val IPMI_DEVICE_POWER_STATE_D3 = 0x03" | "v2_val IPMI_DEVICE_POWER_STATE_D0 = 0x00"
| "v2_val IPMI_SOL_CONFIGURATION_PARAMETER_SOL_ENABLE = 0x01"
| "v2_val IPMI_WATCHDOG_TIMER_ACTION_HARD_RESET = 0x01" | "v2_val BootCd = 0x05"
| "v2_val IPMI_WATCHDOG_TIMER_BIOS_POST = 0x02" | "v2_val IPMI_WATCHDOG_TIMER_ACTION_NO_ACTION = 0x00"
| "v2_val IPMI_WATCHDOG_PRE_TIMEOUT_INTERRUPT_NONE = 0x00"
| "v2_val IPMI_WATCHDOG_TIMER_EXPIRATION_FLAG_BIOS_POST = 0x04"

fun v2_sizeof :: "ipmi_struct \<Rightarrow> nat" where
  "v2_sizeof IPMI_SELF_TEST_RESULT_RESPONSE = 3" | "v2_sizeof IPMI_MSG_GET_BMC_EXEC_RSP = 2"
| "v2_sizeof IPMI_GET_DEVICE_ID_RESPONSE = 16" | "v2_sizeof IPMI_GET_WATCHDOG_TIMER_RESPONSE = 9"
| "v2_sizeof IPMI_SET_WATCHDOG_TIMER_REQUEST = 6"
| "v2_sizeof IPMI_SET_BMC_GLOBAL_ENABLES_REQUEST = 1"
| "v2_sizeof IPMI_GET_BMC_GLOBAL_ENABLES_RESPONSE = 2"
| "v2_sizeof IPMI_CLEAR_MESSAGE_FLAGS_REQUEST = 1"
| "v2_sizeof IPMI_GET_MESSAGE_FLAGS_RESPONSE = 2"
| "v2_sizeof IPMI_GET_DEVICE_GUID_RESPONSE = 17" | "v2_sizeof IPMI_GET_CHANNEL_INFO_REQUEST = 1"
| "v2_sizeof IPMI_GET_CHANNEL_INFO_RESPONSE = 10"
| "v2_sizeof IPMI_SET_ACPI_POWER_STATE_REQUEST = 2"
| "v2_sizeof IPMI_GET_FRU_INVENTORY_AREA_INFO_REQUEST = 1"
| "v2_sizeof IPMI_GET_FRU_INVENTORY_AREA_INFO_RESPONSE = 4"
| "v2_sizeof IPMI_READ_FRU_DATA_REQUEST = 4" | "v2_sizeof IPMI_WRITE_FRU_DATA_RESPONSE = 2"
| "v2_sizeof IPMI_GET_SEL_INFO_RESPONSE = 15" | "v2_sizeof IPMI_GET_SEL_ENTRY_REQUEST = 6"
| "v2_sizeof IPMI_GET_SEL_ENTRY_RESPONSE = 19" | "v2_sizeof IPMI_ADD_SEL_ENTRY_REQUEST = 16"
| "v2_sizeof IPMI_ADD_SEL_ENTRY_RESPONSE = 3" | "v2_sizeof IPMI_PARTIAL_ADD_SEL_ENTRY_RESPONSE = 3"
| "v2_sizeof IPMI_CLEAR_SEL_REQUEST = 6" | "v2_sizeof IPMI_CLEAR_SEL_RESPONSE = 2"
| "v2_sizeof IPMI_GET_SEL_TIME_RESPONSE = 5" | "v2_sizeof IPMI_SET_SEL_TIME_REQUEST = 4"
| "v2_sizeof IPMI_GET_SDR_REPOSITORY_INFO_RESPONSE = 15" | "v2_sizeof IPMI_GET_SDR_REQUEST = 6"
| "v2_sizeof IPMI_GET_CHASSIS_CAPABILITIES_RESPONSE = 7"
| "v2_sizeof IPMI_GET_CHASSIS_STATUS_RESPONSE = 5" | "v2_sizeof IPMI_CHASSIS_CONTROL_REQUEST = 1"
| "v2_sizeof IPMI_SET_POWER_RESTORE_POLICY_REQUEST = 1"
| "v2_sizeof IPMI_SET_POWER_RESTORE_POLICY_RESPONSE = 2"
| "v2_sizeof IPMI_SET_BOOT_OPTIONS_REQUEST = 1" | "v2_sizeof IPMI_SET_BOOT_OPTIONS_RESPONSE = 1"
| "v2_sizeof IPMI_GET_BOOT_OPTIONS_REQUEST = 3" | "v2_sizeof IPMI_GET_BOOT_OPTIONS_RESPONSE = 3"
| "v2_sizeof IPMI_GET_BOOT_OPTIONS_PARAMETER_VERSION = 1"
| "v2_sizeof IPMI_GET_BOOT_OPTIONS_PARAMETER_VALID = 1"
| "v2_sizeof IPMI_SET_BOOT_OPTIONS_PARAMETER_VALID = 1"
| "v2_sizeof IPMI_BOOT_OPTIONS_RESPONSE_PARAMETER_0 = 1"
| "v2_sizeof IPMI_BOOT_OPTIONS_RESPONSE_PARAMETER_4 = 2"
| "v2_sizeof IPMI_BOOT_OPTIONS_RESPONSE_PARAMETER_5 = 5"
| "v2_sizeof IPMI_SENSOR_SET_SENSOR_THRESHOLD_REQUEST_DATA = 8"
| "v2_sizeof IPMI_SENSOR_GET_SENSOR_THRESHOLD_RESPONSE_DATA = 8"
| "v2_sizeof IPMI_SOL_ACTIVATING_REQUEST = 6"
| "v2_sizeof IPMI_SET_SOL_CONFIGURATION_PARAMETERS_REQUEST = 3"
| "v2_sizeof IPMI_GET_SOL_CONFIGURATION_PARAMETERS_REQUEST = 4"
| "v2_sizeof IPMI_GET_SOL_CONFIGURATION_PARAMETERS_RESPONSE = 3"
| "v2_sizeof IPMI_GET_LAN_CONFIGURATION_PARAMETERS_REQUEST = 4"

text \<open>The offset in bits of a member; its width is that of its type.\<close>

fun v2_offset :: "ipmi_field \<Rightarrow> nat" where
  "v2_offset SelfTest_Result = 8" | "v2_offset SelfTest_Param = 16"
| "v2_offset DevId_DeviceId = 8" | "v2_offset DevId_DeviceRevision = 16"
| "v2_offset DevId_FirmwareRev1 = 24" | "v2_offset DevId_MinorFirmwareRev = 32"
| "v2_offset DevId_SpecificationVersion = 40" | "v2_offset DevId_DeviceSupport = 48"
| "v2_offset DevId_FruInventorySupport = 51" | "v2_offset DevId_ManufacturerId0 = 56"
| "v2_offset DevId_ManufacturerId1 = 64" | "v2_offset DevId_ManufacturerId2 = 72"
| "v2_offset DevId_ProductId = 80" | "v2_offset DevId_AuxFirmwareRevInfo = 96"
| "v2_offset GetWdt_TimerUse = 8" | "v2_offset GetWdt_TimerRunning = 14"
| "v2_offset GetWdt_TimeoutAction = 16" | "v2_offset GetWdt_ExpirationFlagsClear = 32"
| "v2_offset GetWdt_InitialCountdownValue = 40" | "v2_offset GetWdt_PresentCountdownValue = 56"
| "v2_offset SetWdt_TimerRunning = 6" | "v2_offset SetWdt_TimeoutAction = 8"
| "v2_offset SetWdt_PreTimeoutInterrupt = 12"
| "v2_offset SetWdt_ExpirationFlagsClear = 24" | "v2_offset SetWdt_InitialCountdownValue = 32"
| "v2_offset AddSel_RecordId = 8" | "v2_offset GetSelTime_Timestamp = 8"
| "v2_offset ClearSel_AscC = 16" | "v2_offset ClearSel_AscL = 24"
| "v2_offset ClearSel_AscR = 32" | "v2_offset ClearSel_Erase = 40"
| "v2_offset ClearSel_ErasureProgress = 8"
| "v2_offset SelInfo_Version = 8" | "v2_offset SelInfo_NoOfEntries = 16"
| "v2_offset SelInfo_FreeSpace = 32" | "v2_offset SelInfo_RecentAddTimeStamp = 48"
| "v2_offset SelInfo_RecentEraseTimeStamp = 80" | "v2_offset SelInfo_OperationSupport = 112"
| "v2_offset GetSel_ReserveId1 = 8" | "v2_offset GetSel_SelRecID0 = 16"
| "v2_offset GetSel_SelRecID1 = 24" | "v2_offset GetSel_Offset = 32"
| "v2_offset GetSel_BytesToRead = 40" | "v2_offset GetSel_NextSelRecordId = 8"
| "v2_offset GetSel_RecordData = 24"
| "v2_offset GetBoot_SetSelector = 8" | "v2_offset GetBoot_BlockSelector = 16"
| "v2_offset GetBootResp_ParameterSelector = 16" | "v2_offset GetValid_ParameterValid = 7"
| "v2_offset SetValid_MarkParameterInvalid = 7"
| "v2_offset Param4_BootInitiatorAcknowledgeData = 8"
| "v2_offset Param5_BootFlagValid = 7" | "v2_offset Param5_PersistentOptions = 6"
| "v2_offset Param5_CmosClear = 15" | "v2_offset Param5_BootDeviceSelector = 10"
| "v2_offset Chassis_CurrentPowerState = 8" | "v2_offset PowerRestore_Reserved = 3"
| "v2_offset PowerRestore_Support = 8"
| "v2_offset GetSol_ParameterSelector = 8" | "v2_offset GetSol_ParameterData0 = 16"
| "v2_offset SetSol_ParameterSelector = 8" | "v2_offset SetSol_ParameterData0 = 16"
| "v2_offset Acpi_SystemStateChange = 7" | "v2_offset Acpi_DeviceStateChange = 15"
| "v2_offset Acpi_DevicePowerState = 8"
| "v2_offset _ = 0"

definition ipmi_v2 :: ipmi_hdr where
  "ipmi_v2 = \<lparr>netfn_of = v2_netfn, cmd_of = v2_cmd, cc_of = v2_cc, val_of = v2_val,
     IPMI_SOFTWARE_ID = 0x21, sizeof = v2_sizeof, layout = (\<lambda>f. (v2_offset f, width_of f))\<rparr>"

lemma ipmi_v2_simps [simp]:
  "netfn_of ipmi_v2 = v2_netfn" "cmd_of ipmi_v2 = v2_cmd" "cc_of ipmi_v2 = v2_cc"
  "val_of ipmi_v2 = v2_val" "sizeof ipmi_v2 = v2_sizeof" "IPMI_SOFTWARE_ID ipmi_v2 = 0x21"
  "layout ipmi_v2 f = (v2_offset f, width_of f)"
  by (simp_all add: ipmi_v2_def)

lemma ipmi_v2_struct_ok: "struct_ok ipmi_v2 S"
  by (cases S) (simp_all add: struct_ok_def disjoint_bits_def)

lemma ipmi_v2_cc_inj: "inj v2_cc"
proof (rule injI)
  fix c d
  assume "v2_cc c = v2_cc d"
  then show "c = d" by (cases c; cases d) simp_all
qed

lemma ipmi_v2_size: "v2_sizeof S < 250"
  by (cases S) simp_all

lemma ipmi_v2_netfn: "v2_netfn f < 64"
  by (cases f) simp_all

lemma ipmi_v2_ok [simp]: "hdr_ok ipmi_v2"
  by (simp add: hdr_ok_def ipmi_v2_struct_ok ipmi_v2_cc_inj ipmi_v2_size ipmi_v2_netfn)

end
