(* ===== verification/Generic_Ipmi.thy ===== *)
theory Generic_Ipmi
  imports Transport Ipmi_V2
begin

section \<open>The generic IPMI driver: sending one command\<close>

text \<open>
  \<open>GenericIpmi/Common/GenericIpmi.h\<close>, \<open>GenericIpmi.c\<close> and \<open>IpmiHooks.c\<close>: the
  instance data, the framing of a command and of its response in \<open>TempData\<close>, the retry loop,
  the error accounting and the BMC status.  The transport library is a parameter (\<open>send\<close>,
  \<open>recv\<close>); its own state is the field \<open>Port\<close> of the instance.
\<close>

subsection \<open>Instance data\<close>

definition BMC_OK :: u32 where "BMC_OK = 0"
definition BMC_SOFTFAIL :: u32 where "BMC_SOFTFAIL = 1"
definition BMC_HARDFAIL :: u32 where "BMC_HARDFAIL = 2"
definition BMC_UPDATE_IN_PROGRESS :: u32 where "BMC_UPDATE_IN_PROGRESS = 3"
definition BMC_NOTREADY :: u32 where "BMC_NOTREADY = 4"

lemmas bmc_status_defs =
  BMC_OK_def BMC_SOFTFAIL_def BMC_HARDFAIL_def BMC_UPDATE_IN_PROGRESS_def BMC_NOTREADY_def

definition MAX_TEMP_DATA :: nat where "MAX_TEMP_DATA = 255"
definition MAX_SOFT_COUNT :: u8 where "MAX_SOFT_COUNT = 10"
definition BMC_SLAVE_ADDRESS :: u8 where "BMC_SLAVE_ADDRESS = 0x20"
definition IPMI_DELAY_UNIT :: nat where "IPMI_DELAY_UNIT = 50"
definition IPMI_COMMAND_HEADER_SIZE :: nat where "IPMI_COMMAND_HEADER_SIZE = 2"
definition IPMI_RESPONSE_HEADER_SIZE :: nat where "IPMI_RESPONSE_HEADER_SIZE = 3"

lemmas size_defs = MAX_TEMP_DATA_def IPMI_COMMAND_HEADER_SIZE_def IPMI_RESPONSE_HEADER_SIZE_def

record 't ipmi_bmc_instance =
  Signature :: u64
  IpmiTimeoutPeriod :: u64
  SlaveAddress :: u8
  TempData :: bytes
  BmcStatus :: u32
  ErrorStatus :: u64
  SoftErrorCount :: u8
  Port :: 't

definition COMPLETION_CODES :: "ipmi_hdr \<Rightarrow> bytes" where
  "COMPLETION_CODES M = map (cc_of M)
     [IPMI_COMP_CODE_NODE_BUSY, IPMI_COMP_CODE_TIMEOUT, IPMI_COMP_CODE_OUT_OF_SPACE,
      IPMI_COMP_CODE_OUT_OF_RANGE, IPMI_COMP_CODE_CMD_RESP_NOT_PROVIDED,
      IPMI_COMP_CODE_FAIL_DUP_REQUEST, IPMI_COMP_CODE_SDR_REP_IN_UPDATE_MODE,
      IPMI_COMP_CODE_DEV_IN_FW_UPDATE_MODE, IPMI_COMP_CODE_BMC_INIT_IN_PROGRESS,
      IPMI_COMP_CODE_INSUFFICIENT_PRIVILEGE, IPMI_COMP_CODE_UNSPECIFIED]"

subsection \<open>The first byte of a message: LUN and network function\<close>

text \<open>\<open>IPMI_COMMAND\<close> and \<open>IPMI_RESPONSE\<close> begin with \<open>Lun : 2\<close> and \<open>NetFunction : 6\<close>.\<close>

definition hdr_byte :: "u8 \<Rightarrow> u8 \<Rightarrow> u8" where
  "hdr_byte Lun NetFunction = (Lun AND 3) OR push_bit 2 NetFunction"

definition hdr_lun :: "u8 \<Rightarrow> u8" where "hdr_lun b = b AND 3"
definition hdr_netfn :: "u8 \<Rightarrow> u8" where "hdr_netfn b = drop_bit 2 b"

subsection \<open>UpdateErrorStatus\<close>

fun UpdateErrorStatus_loop ::
    "u8 \<Rightarrow> bytes \<Rightarrow> 't ipmi_bmc_instance \<Rightarrow> 't ipmi_bmc_instance" where
  "UpdateErrorStatus_loop BmcError [] inst = inst"
| "UpdateErrorStatus_loop BmcError (e # es) inst =
     (if BmcError = e then
        (let inst1 = (if BmcStatus inst \<noteq> BMC_UPDATE_IN_PROGRESS
                      then inst\<lparr>BmcStatus := BMC_SOFTFAIL\<rparr> else inst)
         in inst1\<lparr>SoftErrorCount := SoftErrorCount inst1 + 1\<rparr>)
      else UpdateErrorStatus_loop BmcError es inst)"

definition UpdateErrorStatus ::
    "ipmi_hdr \<Rightarrow> u8 \<Rightarrow> 't ipmi_bmc_instance \<Rightarrow> efi_status \<times> 't ipmi_bmc_instance" where
  "UpdateErrorStatus M BmcError inst =
     (EFI_SUCCESS, UpdateErrorStatus_loop BmcError (COMPLETION_CODES M) inst)"

subsection \<open>IpmiSendCommandInternal\<close>

text \<open>
  The response pointer of a call: NULL, a buffer of the caller (the memory from the pointer on),
  or the instance's own \<open>TempData\<close>, as the initialisation code passes it.
\<close>

datatype resp_ptr = RespNull | RespCaller bytes | RespTemp

text \<open>How one pass of the retry loop ends: a return with the new \<open>*ResponseDataSize\<close>,
  \<open>continue\<close>, or \<open>break\<close> with \<open>DataSize\<close>.\<close>

datatype pass_exit = PassReturn efi_status "u8 option" | PassContinue | PassBreak u8

definition command_frame ::
    "u8 \<Rightarrow> u8 \<Rightarrow> u8 \<Rightarrow> bytes \<Rightarrow> u8 \<Rightarrow> bytes \<Rightarrow> bytes" where
  "command_frame Lun NetFunction Command CommandData CommandDataSize Temp =
     (let Temp1 = copy_mem Temp 0 [hdr_byte Lun NetFunction, Command]
      in if CommandDataSize > 0
         then copy_mem Temp1 IPMI_COMMAND_HEADER_SIZE (take (unat CommandDataSize) CommandData)
         else Temp1)"

definition soft_fail :: "'t ipmi_bmc_instance \<Rightarrow> 't ipmi_bmc_instance" where
  "soft_fail inst = inst\<lparr>BmcStatus := BMC_SOFTFAIL, SoftErrorCount := SoftErrorCount inst + 1\<rparr>"

text \<open>
  From the length check of a received message on.  \<open>RetryCnt\<close> is the counter after the
  decrement in the loop head.
\<close>

definition check_response ::
    "ipmi_hdr \<Rightarrow> nat \<Rightarrow> u8 \<Rightarrow> u8 \<Rightarrow> u8 option \<Rightarrow> u8 \<Rightarrow> 't ipmi_bmc_instance \<Rightarrow>
       pass_exit \<times> 't ipmi_bmc_instance" where
  "check_response M RetryCnt NetFunction Command RespSize DataSize inst =
     (let RespNetFn = hdr_netfn (TempData inst ! 0);
          RespCmd = TempData inst ! 1;
          CC = TempData inst ! 2;
          NORMAL = cc_of M IPMI_COMP_CODE_NORMAL
      in
      if unat DataSize < IPMI_RESPONSE_HEADER_SIZE then (PassReturn EFI_DEVICE_ERROR RespSize, inst)
      else if CC \<noteq> NORMAL \<and> BmcStatus inst = BMC_UPDATE_IN_PROGRESS then
        (PassReturn EFI_UNSUPPORTED RespSize, snd (UpdateErrorStatus M CC inst))
      else if CC \<noteq> NORMAL then
        (PassReturn (if CC = cc_of M IPMI_COMP_CODE_INSUFFICIENT_PRIVILEGE
                     then EFI_SECURITY_VIOLATION else EFI_DEVICE_ERROR) RespSize,
         snd (UpdateErrorStatus M CC inst))
      else
        (case RespSize of
           None \<Rightarrow> (PassBreak DataSize, inst)
         | Some sz \<Rightarrow>
             if unat DataSize - IPMI_RESPONSE_HEADER_SIZE > unat sz then
               (if RespNetFn \<noteq> NetFunction OR 1 \<or> RespCmd \<noteq> Command then
                  (if RetryCnt = 0 then (PassReturn EFI_DEVICE_ERROR RespSize, inst)
                   else (PassContinue, inst))
                else
                  (PassReturn EFI_BUFFER_TOO_SMALL
                     (Some (of_nat (unat DataSize - IPMI_RESPONSE_HEADER_SIZE + 1))), inst))
             else (PassBreak DataSize, inst)))"

definition SendCommand_pass ::
    "ipmi_hdr \<Rightarrow> 't send_fn \<Rightarrow> 't recv_fn \<Rightarrow> u8 \<Rightarrow> u8 \<Rightarrow> u8 \<Rightarrow> bytes \<Rightarrow> u8 \<Rightarrow> u8 option \<Rightarrow>
       nat \<Rightarrow> ('t ipmi_bmc_instance, pass_exit) op" where
  "SendCommand_pass M send recv NetFunction Lun Command CommandData CommandDataSize RespSize
       RetryCnt inst =
     (let inst1 = inst\<lparr>TempData := command_frame Lun NetFunction Command CommandData
                         CommandDataSize (TempData inst)\<rparr>
      in do {
        (st, p1) \<leftarrow> send (IpmiTimeoutPeriod inst1) (TempData inst1)
                       (CommandDataSize + of_nat IPMI_COMMAND_HEADER_SIZE) (Port inst1);
        let inst2 = inst1\<lparr>Port := p1\<rparr>;
        if st \<noteq> EFI_SUCCESS then Some (PassReturn st RespSize, soft_fail inst2)
        else do {
          ((st', buf, DataSize), p2) \<leftarrow> recv (IpmiTimeoutPeriod inst2) (TempData inst2)
                                          (of_nat (MAX_TEMP_DATA - 1)) (Port inst2);
          let inst3 = inst2\<lparr>TempData := buf, Port := p2\<rparr>;
          if st' \<noteq> EFI_SUCCESS then Some (PassReturn st' RespSize, soft_fail inst3)
          else Some (check_response M RetryCnt NetFunction Command RespSize DataSize inst3)
        }
      })"

text \<open>\<open>while (RetryCnt--)\<close>: \<open>Inl\<close> is a return out of the loop, \<open>Inr\<close> the value of
  \<open>DataSize\<close> after it (\<open>None\<close>: still uninitialised).\<close>

fun SendCommand_loop ::
    "ipmi_hdr \<Rightarrow> 't send_fn \<Rightarrow> 't recv_fn \<Rightarrow> u8 \<Rightarrow> u8 \<Rightarrow> u8 \<Rightarrow> bytes \<Rightarrow> u8 \<Rightarrow> u8 option \<Rightarrow>
       nat \<Rightarrow> ('t ipmi_bmc_instance, efi_status \<times> u8 option + u8 option) op" where
  "SendCommand_loop M send recv NetFunction Lun Command CommandData CommandDataSize RespSize
     0 inst = Some (Inr None, inst)"
| "SendCommand_loop M send recv NetFunction Lun Command CommandData CommandDataSize RespSize
     (Suc RetryCnt) inst =
     do {
       (e, inst1) \<leftarrow> SendCommand_pass M send recv NetFunction Lun Command CommandData
                         CommandDataSize RespSize RetryCnt inst;
       (case e of
          PassReturn st sz \<Rightarrow> Some (Inl (st, sz), inst1)
        | PassContinue \<Rightarrow> SendCommand_loop M send recv NetFunction Lun Command CommandData
                            CommandDataSize RespSize RetryCnt inst1
        | PassBreak d \<Rightarrow> Some (Inr (Some d), inst1))
     }"

text \<open>
  \<open>CopyMem (ResponseData, IpmiResponse->ResponseData, n)\<close> and the loop that moves the data
  up by one byte, on the memory from \<open>ResponseData\<close> on.
\<close>

definition shift_response :: "nat \<Rightarrow> bytes \<Rightarrow> bytes" where
  "shift_response N m =
     foldl (\<lambda>r Index. poke r (N - Index) (r ! (N - (Index + 1)))) m [1 ..< N]"

definition copy_response :: "nat \<Rightarrow> bytes \<Rightarrow> bytes \<Rightarrow> bytes" where
  "copy_response n data m = shift_response (n + 1) (copy_mem m 0 (take n data))"

definition finish_response ::
    "u8 \<Rightarrow> resp_ptr \<Rightarrow> 't ipmi_bmc_instance \<Rightarrow> resp_ptr \<times> 't ipmi_bmc_instance" where
  "finish_response DataSize Resp inst =
     (let n = unat DataSize - IPMI_RESPONSE_HEADER_SIZE;
          data = drop IPMI_RESPONSE_HEADER_SIZE (TempData inst)
      in case Resp of
           RespNull \<Rightarrow> (RespNull, inst)
         | RespCaller m \<Rightarrow> (RespCaller (poke (copy_response n data m) 0 (TempData inst ! 2)), inst)
         | RespTemp \<Rightarrow>
             (let T = copy_response n data (TempData inst)
              in (RespTemp, inst\<lparr>TempData := poke T 0 (T ! 2)\<rparr>)))"

text \<open>The code after the loop; \<open>r\<close> is how the loop ended.\<close>

definition finish_call ::
    "u8 option \<Rightarrow> resp_ptr \<Rightarrow> efi_status \<times> u8 option + u8 option \<Rightarrow>
       ('t ipmi_bmc_instance, efi_status \<times> resp_ptr \<times> u8 option) op" where
  "finish_call RespSize Resp r inst =
     (case r of
        Inl (st, sz) \<Rightarrow> Some ((st, Resp, sz), inst)
      | Inr d \<Rightarrow>
          (case RespSize of
             None \<Rightarrow> Some ((EFI_SUCCESS, Resp, None), inst\<lparr>BmcStatus := BMC_OK\<rparr>)
           | Some _ \<Rightarrow>
               (case d of
                  None \<Rightarrow> None
                | Some DataSize \<Rightarrow>
                    (let (Resp', inst1) = finish_response DataSize Resp inst
                     in Some ((EFI_SUCCESS, Resp',
                               Some (of_nat (unat DataSize - IPMI_RESPONSE_HEADER_SIZE) + 1)),
                              inst1\<lparr>BmcStatus := BMC_OK\<rparr>)))))"

definition IpmiSendCommandInternal ::
    "ipmi_hdr \<Rightarrow> 't send_fn \<Rightarrow> 't recv_fn \<Rightarrow> u8 \<Rightarrow> u8 \<Rightarrow> u8 \<Rightarrow> u8 \<Rightarrow> bytes option \<Rightarrow> u8 \<Rightarrow>
       resp_ptr \<Rightarrow> u8 option \<Rightarrow>
       ('t ipmi_bmc_instance, efi_status \<times> resp_ptr \<times> u8 option) op" where
  "IpmiSendCommandInternal M send recv PcdIpmiCommandMaxReties NetFunction Lun Command
       CommandData CommandDataSize Resp RespSize inst =
     (if CommandDataSize > 0 \<and> CommandData = None then
        Some ((EFI_INVALID_PARAMETER, Resp, RespSize), inst)
      else if (Resp \<noteq> RespNull) \<noteq> (RespSize \<noteq> None) then
        Some ((EFI_INVALID_PARAMETER, Resp, RespSize), inst)
      else do {
        (r, inst1) \<leftarrow> SendCommand_loop M send recv NetFunction Lun Command
                          (case CommandData of None \<Rightarrow> [] | Some d \<Rightarrow> d) CommandDataSize RespSize
                          (unat PcdIpmiCommandMaxReties) inst;
        finish_call RespSize Resp r inst1
      })"

subsection \<open>IpmiSendCommand: the hook behind the protocol\<close>

text \<open>
  \<open>(UINT8)CommandDataSize\<close> keeps the low byte; \<open>(UINT8 *)ResponseDataSize\<close> makes the
  internal routine read and write the low byte of the caller's 32-bit size.
\<close>

definition set_low8 :: "u32 \<Rightarrow> u8 \<Rightarrow> u32" where
  "set_low8 w b = (w AND NOT 0xFF) OR ucast b"

definition IpmiSendCommand ::
    "ipmi_hdr \<Rightarrow> 't send_fn \<Rightarrow> 't recv_fn \<Rightarrow> u8 \<Rightarrow> u8 \<Rightarrow> u8 \<Rightarrow> u8 \<Rightarrow> bytes option \<Rightarrow> u32 \<Rightarrow>
       resp_ptr \<Rightarrow> u32 option \<Rightarrow>
       ('t ipmi_bmc_instance, efi_status \<times> resp_ptr \<times> u32 option) op" where
  "IpmiSendCommand M send recv PcdIpmiCommandMaxReties NetFunction Lun Command CommandData
       CommandDataSize Resp RespSize inst =
     do {
       ((st, Resp', sz), inst1) \<leftarrow> IpmiSendCommandInternal M send recv PcdIpmiCommandMaxReties
          NetFunction Lun Command CommandData (ucast CommandDataSize) Resp
          (map_option ucast RespSize) inst;
       Some ((st, Resp',
              (case (RespSize, sz) of (Some w, Some b) \<Rightarrow> Some (set_low8 w b) | _ \<Rightarrow> RespSize)),
             inst1)
     }"

subsection \<open>IpmiBmcStatus\<close>

record sm_com_address =
  ChannelType_SmBmc :: bool
  LunAddress :: u8
  ComSlaveAddress :: u8
  ChannelAddress :: u8

definition IpmiBmcStatus ::
    "'t ipmi_bmc_instance \<Rightarrow> (efi_status \<times> u32 \<times> sm_com_address) \<times> 't ipmi_bmc_instance" where
  "IpmiBmcStatus inst =
     (let inst1 = (if BmcStatus inst = BMC_SOFTFAIL \<and> SoftErrorCount inst \<ge> MAX_SOFT_COUNT
                   then inst\<lparr>BmcStatus := BMC_HARDFAIL\<rparr> else inst)
      in ((EFI_SUCCESS, BmcStatus inst1,
           \<lparr>ChannelType_SmBmc = True, LunAddress = 0, ComSlaveAddress = SlaveAddress inst1,
            ChannelAddress = 0\<rparr>), inst1))"

definition IpmiGetBmcStatus ::
    "'t ipmi_bmc_instance \<Rightarrow> (efi_status \<times> u32 \<times> sm_com_address) \<times> 't ipmi_bmc_instance" where
  "IpmiGetBmcStatus inst = IpmiBmcStatus inst"

section \<open>What sending a command guarantees\<close>

subsection \<open>The copy into the response buffer\<close>

lemma poke_eq: "poke m j v = take j m @ v # drop (Suc j) m"
  by (simp add: poke_def copy_mem_def)

lemma shift_response_prefix:
  assumes "n \<le> length m" "k \<le> n"
  shows "foldl (\<lambda>r Index. poke r (n + 1 - Index) (r ! (n + 1 - (Index + 1)))) m [1 ..< k + 1] =
     take (n - k + 1) m @ drop (n - k) (take n m) @ drop (n + 1) m"
  using assms(2)
proof (induction k)
  case 0
  then show ?case by (simp add: drop_take)
next
  case (Suc k)
  define j where "j = n - Suc k"
  have n: "n - k = Suc j" "j < n" "j < length m" using Suc.prems assms(1) by (auto simp: j_def)
  let ?r = "take (Suc j + 1) m @ drop (Suc j) (take n m) @ drop (n + 1) m"
  have "poke ?r (Suc j) (?r ! j) = take (Suc j) m @ m ! j # drop (Suc j) (take n m) @ drop (n + 1) m"
  proof (cases "Suc j = n")
    case True
    then show ?thesis using n by (simp add: poke_eq nth_append min_def)
  next
    case False
    then show ?thesis using n assms(1) by (simp add: poke_eq nth_append min_def)
  qed
  moreover have "m ! j # drop (Suc j) (take n m) = drop j (take n m)"
    using n assms(1) Cons_nth_drop_Suc [of j "take n m"] by simp
  ultimately show ?case using Suc n by (simp add: j_def)
qed

lemma shift_response_eq:
  "0 < n \<Longrightarrow> n \<le> length m \<Longrightarrow>
     shift_response (n + 1) m = hd m # take n m @ drop (n + 1) m"
  using shift_response_prefix [of n m n]
  by (cases m) (auto simp: shift_response_def)

lemma copy_response_eq:
  assumes "n \<le> length data"
  shows "poke (copy_response n data m) 0 c = c # take n data @ drop (Suc n) m"
proof (cases "n = 0")
  case True
  then show ?thesis by (simp add: copy_response_def shift_response_def copy_mem_def poke_eq)
next
  case False
  have "shift_response (n + 1) (copy_mem m 0 (take n data)) = data ! 0 # take n data @ drop (n + 1) m"
    using assms False
    by (subst shift_response_eq) (auto simp: copy_mem_def min_def hd_conv_nth hd_append drop_Cons')
  then show ?thesis by (simp add: copy_response_def poke_eq)
qed

lemmas response_simps = finish_call_def finish_response_def size_defs

subsection \<open>Framing\<close>

definition inst_ok :: "'t ipmi_bmc_instance \<Rightarrow> bool" where
  "inst_ok inst \<longleftrightarrow> length (TempData inst) = MAX_TEMP_DATA"

lemma hdr_fields [simp]:
  "hdr_lun (hdr_byte Lun NetFunction) = Lun AND 3"
  "NetFunction < 64 \<Longrightarrow> hdr_netfn (hdr_byte Lun NetFunction) = NetFunction"
proof -
  have and3: "b AND 3 = take_bit 2 b" for b :: u8
    by (simp add: take_bit_eq_mask mask_eq_exp_minus_1)
  show "hdr_lun (hdr_byte Lun NetFunction) = Lun AND 3"
    unfolding hdr_lun_def hdr_byte_def and3
    by (rule bit_eqI) (auto simp: bit_simps)
  assume "NetFunction < 64"
  then have "unat NetFunction < 64" by (simp add: word_less_nat_alt)
  then have "take_bit 6 NetFunction = NetFunction"
    unfolding word_unat_eq_iff unsigned_take_bit_eq by (simp add: take_bit_nat_eq_self)
  then have nb: "bit NetFunction n \<Longrightarrow> n < 6" for n
    by (metis bit_take_bit_iff)
  show "hdr_netfn (hdr_byte Lun NetFunction) = NetFunction"
    unfolding hdr_netfn_def hdr_byte_def
    by (rule bit_eqI) (auto simp: bit_simps dest: nb)
qed

lemma length_command_frame:
  assumes "length Temp = MAX_TEMP_DATA" "unat CommandDataSize \<le> 253"
  shows "length (command_frame Lun NetFunction Command d CommandDataSize Temp) = MAX_TEMP_DATA"
  using assms by (simp add: command_frame_def size_defs Let_def mem_simps)

text \<open>The bytes handed to the transport are the header and the command data, in this order.\<close>

lemma take_command_frame:
  assumes "length Temp = MAX_TEMP_DATA" "unat CommandDataSize \<le> length d"
  shows "take (unat CommandDataSize + 2)
           (command_frame Lun NetFunction Command d CommandDataSize Temp) =
         [hdr_byte Lun NetFunction, Command] @ take (unat CommandDataSize) d"
proof -
  let ?T = "copy_mem Temp 0 [hdr_byte Lun NetFunction, Command]"
  have T: "take 2 ?T = [hdr_byte Lun NetFunction, Command]" "2 \<le> length ?T"
    by (simp_all add: copy_mem_def numeral_2_eq_2)
  show ?thesis
  proof (cases "CommandDataSize = 0")
    case True
    then show ?thesis by (simp add: command_frame_def copy_mem_def)
  next
    case False
    then show ?thesis
      using T assms
        take_copy_mem_exact [of 2 ?T "unat CommandDataSize + 2" "take (unat CommandDataSize) d"]
      by (simp add: command_frame_def size_defs word_gt_0)
  qed
qed

subsection \<open>Every pass over a lawful transport\<close>

lemma UpdateErrorStatus_loop_frame:
  "TempData (UpdateErrorStatus_loop e es inst) = TempData inst \<and>
   Port (UpdateErrorStatus_loop e es inst) = Port inst \<and>
   SlaveAddress (UpdateErrorStatus_loop e es inst) = SlaveAddress inst \<and>
   IpmiTimeoutPeriod (UpdateErrorStatus_loop e es inst) = IpmiTimeoutPeriod inst"
  by (induction es) (auto simp: Let_def)

lemma UpdateErrorStatus_frame [simp]:
  "TempData (snd (UpdateErrorStatus M e inst)) = TempData inst"
  "Port (snd (UpdateErrorStatus M e inst)) = Port inst"
  "SlaveAddress (snd (UpdateErrorStatus M e inst)) = SlaveAddress inst"
  "IpmiTimeoutPeriod (snd (UpdateErrorStatus M e inst)) = IpmiTimeoutPeriod inst"
  using UpdateErrorStatus_loop_frame [of e "COMPLETION_CODES M" inst]
  by (auto simp: UpdateErrorStatus_def)

text \<open>What holds when the loop is left by \<open>break\<close>: the message fits the caller's buffer.\<close>

definition break_ok :: "ipmi_hdr \<Rightarrow> u8 option \<Rightarrow> u8 \<Rightarrow> 't ipmi_bmc_instance \<Rightarrow> bool" where
  "break_ok M RespSize d inst \<longleftrightarrow>
     3 \<le> unat d \<and> TempData inst ! 2 = cc_of M IPMI_COMP_CODE_NORMAL \<and>
     (\<forall>sz. RespSize = Some sz \<longrightarrow> unat d - 3 \<le> unat sz)"

lemma check_response_frame:
  assumes "check_response M r nf c sz d inst = (e, inst')"
  shows "TempData inst' = TempData inst" "Port inst' = Port inst"
    "SlaveAddress inst' = SlaveAddress inst"
    "e = PassBreak d' \<Longrightarrow> d' = d \<and> inst' = inst \<and> break_ok M sz d inst"
  using assms
  by (auto simp: check_response_def Let_def size_defs break_ok_def
      split: if_splits option.splits)

lemma check_response_return_error:
  "check_response M r nf c sz d inst = (PassReturn st sz', inst') \<Longrightarrow> EFI_ERROR st"
  by (auto simp: check_response_def Let_def split: if_splits option.splits)

lemma pass_return_error:
  "SendCommand_pass M send recv nf lun c d n sz r inst = Some (PassReturn st sz', inst') \<Longrightarrow>
     st \<noteq> EFI_SUCCESS"
  by (auto simp: SendCommand_pass_def bind_eq_Some_conv Let_def split: if_splits
      dest: check_response_return_error)

lemma loop_return_error:
  "SendCommand_loop M send recv nf lun c d n sz r inst = Some (Inl (st, sz'), inst') \<Longrightarrow>
     st \<noteq> EFI_SUCCESS"
proof (induction r arbitrary: inst)
  case 0
  then show ?case by simp
next
  case (Suc r)
  then obtain x inst1 where
    p: "SendCommand_pass M send recv nf lun c d n sz r inst = Some (x, inst1)"
    by (auto simp: bind_eq_Some_conv)
  show ?case
    using Suc p pass_return_error [of M send recv nf lun c d n sz r inst] by (cases x) auto
qed

context transport
begin

lemma pass_ok:
  assumes "SendCommand_pass M send recv nf lun c d n sz r inst = Some (e, inst')"
    and "inst_ok inst" "unat n \<le> 253"
  shows "inst_ok inst' \<and> (\<forall>k. e = PassBreak k \<longrightarrow> break_ok M sz k inst' \<and> unat k \<le> 254)"
proof -
  let ?T = "command_frame lun nf c d n (TempData inst)"
  have len: "length ?T = MAX_TEMP_DATA"
    using assms(2,3) by (simp add: inst_ok_def length_command_frame)
  obtain st p1 where snd: "send (IpmiTimeoutPeriod inst) ?T (n + 2) (Port inst) = Some (st, p1)"
    using assms(1) by (auto simp: SendCommand_pass_def size_defs bind_eq_Some_conv)
  show ?thesis
  proof (cases "st = EFI_SUCCESS")
    case False
    then show ?thesis
      using assms(1) snd len
      by (auto simp: SendCommand_pass_def size_defs inst_ok_def soft_fail_def)
  next
    case True
    obtain st' buf k p2 where rcv: "recv (IpmiTimeoutPeriod inst) ?T 254 p1 = Some ((st', buf, k), p2)"
      using assms(1) snd True by (auto simp: SendCommand_pass_def size_defs bind_eq_Some_conv)
    have buf: "length buf = MAX_TEMP_DATA"
      using recv_frame [OF rcv] len by (simp add: size_defs)
    show ?thesis
    proof (cases "st' = EFI_SUCCESS")
      case False
      then show ?thesis
        using assms(1) snd True rcv buf
        by (auto simp: SendCommand_pass_def size_defs inst_ok_def soft_fail_def)
    next
      case True
      then have "k \<le> 254" using recv_size rcv by blast
      then have "unat k \<le> 254" by (simp add: word_le_nat_alt)
      moreover have "check_response M r nf c sz k (inst\<lparr>TempData := buf, Port := p2\<rparr>) = (e, inst')"
        using assms(1) snd \<open>st = EFI_SUCCESS\<close> rcv True by (simp add: SendCommand_pass_def size_defs)
      ultimately show ?thesis
        using buf check_response_frame by (fastforce simp: inst_ok_def)
    qed
  qed
qed

lemma loop_ok:
  "SendCommand_loop M send recv nf lun c d n sz r inst = Some (e, inst') \<Longrightarrow>
     inst_ok inst \<Longrightarrow> unat n \<le> 253 \<Longrightarrow>
     inst_ok inst' \<and> (\<forall>k. e = Inr (Some k) \<longrightarrow> break_ok M sz k inst' \<and> unat k \<le> 254)"
proof (induction r arbitrary: inst)
  case 0
  then show ?case by auto
next
  case (Suc r)
  then obtain x inst1 where
    "SendCommand_pass M send recv nf lun c d n sz r inst = Some (x, inst1)"
    by (auto simp: bind_eq_Some_conv)
  with Suc show ?case
    using pass_ok by (fastforce split: pass_exit.splits)
qed


text \<open>A call with a buffer of its caller: on success the buffer begins with the completion
  code and the data, and the rest of the memory behind it is as it was.\<close>

lemma internal_caller:
  assumes run: "IpmiSendCommandInternal M send recv r nf lun c d n (RespCaller m) (Some sz) inst =
      Some ((st, Resp', sz'), inst')"
    and ok: "inst_ok inst" "unat n \<le> 253"
  shows "inst_ok inst'"
    and "st \<noteq> EFI_SUCCESS \<Longrightarrow> Resp' = RespCaller m"
    and "st = EFI_SUCCESS \<Longrightarrow>
      (\<exists>data. Resp' = RespCaller (cc_of M IPMI_COMP_CODE_NORMAL # data @ drop (length data + 1) m) \<and>
         sz' = Some (of_nat (length data + 1)) \<and> length data \<le> unat sz \<and> length data \<le> 251 \<and>
         BmcStatus inst' = BMC_OK)"
proof -
  let ?d = "case d of None \<Rightarrow> [] | Some d \<Rightarrow> d"
  have "inst_ok inst' \<and> (st \<noteq> EFI_SUCCESS \<longrightarrow> Resp' = RespCaller m) \<and> (st = EFI_SUCCESS \<longrightarrow>
      (\<exists>data. Resp' = RespCaller (cc_of M IPMI_COMP_CODE_NORMAL # data @ drop (length data + 1) m) \<and>
         sz' = Some (of_nat (length data + 1)) \<and> length data \<le> unat sz \<and> length data \<le> 251 \<and>
         BmcStatus inst' = BMC_OK))"
  proof (cases "n > 0 \<and> d = None")
    case True
    then show ?thesis using run ok by (simp add: IpmiSendCommandInternal_def)
  next
    case False
    then obtain e inst1 where loop:
      "SendCommand_loop M send recv nf lun c ?d n (Some sz) (unat r) inst = Some (e, inst1)"
      using run by (auto simp: IpmiSendCommandInternal_def bind_eq_Some_conv)
    note l = loop_ok [OF loop ok]
    show ?thesis
    proof (cases e)
      case (Inl p)
      then show ?thesis
        using run False loop l loop_return_error [of M send recv nf lun c ?d n "Some sz" "unat r" inst]
        by (cases p) (auto simp: IpmiSendCommandInternal_def finish_call_def)
    next
      case (Inr o')
      then obtain k where k: "e = Inr (Some k)" "break_ok M (Some sz) k inst1" "unat k \<le> 254"
        using run False loop l
        by (cases o') (auto simp: IpmiSendCommandInternal_def finish_call_def)
      define data where "data = take (unat k - 3) (drop 3 (TempData inst1))"
      have "length (TempData inst1) = 255" using l by (simp add: inst_ok_def size_defs)
      then have len: "length data = unat k - 3" "unat k - 3 \<le> length (drop 3 (TempData inst1))"
        using k(3) by (simp_all add: data_def)
      have res: "Resp' = RespCaller (cc_of M IPMI_COMP_CODE_NORMAL # data @ drop (length data + 1) m)"
        "sz' = Some (of_nat (unat k - 3) + 1)" "inst' = inst1\<lparr>BmcStatus := BMC_OK\<rparr>"
        "st = EFI_SUCCESS"
        using run False loop k(1,2) len copy_response_eq [OF len(2), of m]
        by (simp_all add: IpmiSendCommandInternal_def response_simps break_ok_def
            data_def)
      have "inst_ok inst'" using l res(3) by (simp add: inst_ok_def)
      then show ?thesis
        using res k(2,3) len by (auto simp: break_ok_def intro!: exI [of _ data])
    qed
  qed
  then show "inst_ok inst'"
    and "st \<noteq> EFI_SUCCESS \<Longrightarrow> Resp' = RespCaller m"
    and "st = EFI_SUCCESS \<Longrightarrow>
      (\<exists>data. Resp' = RespCaller (cc_of M IPMI_COMP_CODE_NORMAL # data @ drop (length data + 1) m) \<and>
         sz' = Some (of_nat (length data + 1)) \<and> length data \<le> unat sz \<and> length data \<le> 251 \<and>
         BmcStatus inst' = BMC_OK)"
    by simp_all
qed

end

subsection \<open>One exchange, computed\<close>

lemma pass_exchange:
  assumes "send (IpmiTimeoutPeriod inst) (command_frame lun nf c d n (TempData inst)) (n + 2)
             (Port inst) = Some (EFI_SUCCESS, p1)"
    and "recv (IpmiTimeoutPeriod inst) (command_frame lun nf c d n (TempData inst)) 254 p1 =
           Some ((EFI_SUCCESS, reply, k), p2)"
  shows "SendCommand_pass M send recv nf lun c d n sz r inst =
    Some (check_response M r nf c sz k (inst\<lparr>TempData := reply, Port := p2\<rparr>))"
  using assms by (simp add: SendCommand_pass_def size_defs)

lemma UpdateErrorStatus_loop_eq:
  "UpdateErrorStatus_loop e es inst =
     (if e \<in> set es
      then inst\<lparr>BmcStatus := (if BmcStatus inst = BMC_UPDATE_IN_PROGRESS then BMC_UPDATE_IN_PROGRESS
                             else BMC_SOFTFAIL),
                SoftErrorCount := SoftErrorCount inst + 1\<rparr>
      else inst)"
  by (induction es) auto

lemma internal_reply:
  assumes snd: "send (IpmiTimeoutPeriod inst) (command_frame lun nf c d n (TempData inst)) (n + 2)
             (Port inst) = Some (EFI_SUCCESS, p1)"
    and rcv: "recv (IpmiTimeoutPeriod inst) (command_frame lun nf c d n (TempData inst)) 254 p1 =
           Some ((EFI_SUCCESS, reply, k), p2)"
    and reply: "length reply = 255" "3 \<le> unat k" "unat k \<le> 254"
      "reply ! 2 = cc_of M IPMI_COMP_CODE_NORMAL"
    and fits: "unat k - 3 \<le> unat sz" and retries: "0 < r"
  shows "IpmiSendCommandInternal M send recv r nf lun c (Some d) n (RespCaller m) (Some sz) inst =
    Some ((EFI_SUCCESS, RespCaller (take (unat k - 2) (drop 2 reply) @ drop (unat k - 2) m),
           Some (of_nat (unat k - 2))),
          inst\<lparr>TempData := reply, Port := p2, BmcStatus := BMC_OK\<rparr>)"
proof -
  obtain r' where r: "unat r = Suc r'"
    using retries by (metis gr0_conv_Suc unat_gt_0 word_gt_0)
  have data: "take (unat k - 2) (drop 2 reply) =
      reply ! 2 # take (unat k - 3) (drop 3 reply)" "Suc (unat k - 3) = unat k - 2"
    using reply Cons_nth_drop_Suc [of 2 reply, symmetric] by (simp_all add: take_Cons')
  show ?thesis
    using reply fits data copy_response_eq [of "unat k - 3" "drop 3 reply" m]
    by (simp add: IpmiSendCommandInternal_def r pass_exchange [where send = send and recv = recv, OF snd rcv] check_response_def
        response_simps flip: of_nat_Suc)
qed

text \<open>C1 A command that the BMC answers in one exchange: the caller gets EFI_SUCCESS, its
  buffer begins with the completion code and the data of the reply, the memory behind these
  bytes is unchanged, the size is the number of these bytes, and the BMC is marked healthy.\<close>

theorem IpmiSendCommandInternal_reply:
  assumes snd: "send (IpmiTimeoutPeriod inst) (command_frame lun nf c d n (TempData inst)) (n + 2)
             (Port inst) = Some (EFI_SUCCESS, p1)"
    and rcv: "recv (IpmiTimeoutPeriod inst) (command_frame lun nf c d n (TempData inst)) 254 p1 =
           Some ((EFI_SUCCESS, reply, k), p2)"
    and reply: "length reply = 255" "3 \<le> unat k" "unat k \<le> 254"
      "reply ! 2 = cc_of M IPMI_COMP_CODE_NORMAL"
    and fits: "unat k - 3 \<le> unat sz" and retries: "0 < r"
  shows "IpmiSendCommandInternal M send recv r nf lun c (Some d) n (RespCaller m) (Some sz) inst =
    Some ((EFI_SUCCESS, RespCaller (take (unat k - 2) (drop 2 reply) @ drop (unat k - 2) m),
           Some (of_nat (unat k - 2))),
          inst\<lparr>TempData := reply, Port := p2, BmcStatus := BMC_OK\<rparr>)"
  using assms by (rule internal_reply)

theorem IpmiSendCommandInternal_reply_witness:
  "IpmiSendCommandInternal ipmi_v2 SendDataToBmcPort_Null ReceiveBmcDataFromPort_Null 3 6 0 1
     (Some []) 0 (RespCaller (replicate 300 7)) (Some 255)
     \<lparr>Signature = 0, IpmiTimeoutPeriod = 0, SlaveAddress = 0, TempData = replicate 255 0,
      BmcStatus = BMC_NOTREADY, ErrorStatus = 0, SoftErrorCount = 0, Port = ()\<rparr> =
   Some ((EFI_SUCCESS, RespCaller (replicate 252 0 @ replicate 48 7), Some 252),
     \<lparr>Signature = 0, IpmiTimeoutPeriod = 0, SlaveAddress = 0,
      TempData = [0x18, 1] @ replicate 253 0,
      BmcStatus = BMC_OK, ErrorStatus = 0, SoftErrorCount = 0, Port = ()\<rparr>)"
  by (subst IpmiSendCommandInternal_reply [where reply = "[0x18, 1] @ replicate 253 0" and k = 254])
    (simp_all add: transport_null_defs command_frame_def copy_mem_def hdr_byte_def)

text \<open>C37 The size check of the driver admits replies whose data are exactly as long as the
  caller's buffer although one more byte, the completion code, is stored: the byte behind the
  buffer is overwritten with the last byte of the data.\<close>

theorem IpmiSendCommandInternal_off_by_one:
  assumes snd: "send (IpmiTimeoutPeriod inst) (command_frame lun nf c d n (TempData inst)) (n + 2)
             (Port inst) = Some (EFI_SUCCESS, p1)"
    and rcv: "recv (IpmiTimeoutPeriod inst) (command_frame lun nf c d n (TempData inst)) 254 p1 =
           Some ((EFI_SUCCESS, reply, k), p2)"
    and reply: "length reply = 255" "unat k \<le> 254" "reply ! 2 = cc_of M IPMI_COMP_CODE_NORMAL"
    and exact: "unat k = unat sz + 3" "0 < sz" and retries: "0 < r"
    and buffer: "length buf = unat sz"
  shows "\<exists>out inst'. IpmiSendCommandInternal M send recv r nf lun c (Some d) n
           (RespCaller (buf @ behind)) (Some sz) inst =
         Some ((EFI_SUCCESS, RespCaller (out @ reply ! (unat sz + 2) # drop 1 behind),
                Some (sz + 1)), inst') \<and> length out = length buf"
proof -
  have "take (unat k - 2) (drop 2 reply) =
      take (unat sz) (drop 2 reply) @ [reply ! (unat sz + 2)]"
    using reply exact take_Suc_conv_app_nth [of "unat sz" "drop 2 reply"] by (simp add: add.commute)
  moreover have "drop (unat k - 2) (buf @ behind) = drop 1 behind"
    using exact buffer by simp
  ultimately show ?thesis
    using internal_reply [where send = send and recv = recv and M = M and
        m = "buf @ behind" and sz = sz and r = r, OF snd rcv reply(1) _ reply(2,3) _ retries]
      reply exact buffer
    by (intro exI [of _ "take (unat sz) (drop 2 reply)"] exI) (simp add: add.commute)
qed

theorem IpmiSendCommandInternal_off_by_one_witness:
  "\<exists>out inst'. IpmiSendCommandInternal ipmi_v2 SendDataToBmcPort_Null ReceiveBmcDataFromPort_Null 3 6 0
      1 (Some []) 0 (RespCaller (replicate 251 7 @ [7, 9])) (Some 251)
     \<lparr>Signature = 0, IpmiTimeoutPeriod = 0, SlaveAddress = 0, TempData = replicate 255 0,
      BmcStatus = BMC_NOTREADY, ErrorStatus = 0, SoftErrorCount = 0, Port = ()\<rparr> =
     Some ((EFI_SUCCESS, RespCaller (out @ 0 # [9]), Some 252), inst') \<and> length out = 251"
  using IpmiSendCommandInternal_off_by_one [where send = SendDataToBmcPort_Null and
      recv = ReceiveBmcDataFromPort_Null and M = ipmi_v2 and sz = 251 and r = 3 and
      reply = "[0x18, 1] @ replicate 253 0" and k = 254 and d = "[]" and n = 0 and lun = 0 and
      nf = 6 and c = 1 and buf = "replicate 251 7" and behind = "[7, 9]" and ?p1.0 = "()" and
      ?p2.0 = "()" and inst = "\<lparr>Signature = 0, IpmiTimeoutPeriod = 0, SlaveAddress = 0,
      TempData = replicate 255 0, BmcStatus = BMC_NOTREADY, ErrorStatus = 0, SoftErrorCount = 0,
      Port = ()\<rparr>"]
  by (simp add: transport_null_defs command_frame_def copy_mem_def hdr_byte_def)

lemma internal_refused:
  assumes snd: "send (IpmiTimeoutPeriod inst) (command_frame lun nf c d n (TempData inst)) (n + 2)
             (Port inst) = Some (EFI_SUCCESS, p1)"
    and rcv: "recv (IpmiTimeoutPeriod inst) (command_frame lun nf c d n (TempData inst)) 254 p1 =
           Some ((EFI_SUCCESS, reply, k), p2)"
    and reply: "3 \<le> unat k" "reply ! 2 \<noteq> cc_of M IPMI_COMP_CODE_NORMAL"
    and retries: "0 < r" and resp: "(Resp = RespNull) = (sz = None)"
  shows "IpmiSendCommandInternal M send recv r nf lun c (Some d) n Resp sz inst =
    Some ((if BmcStatus inst = BMC_UPDATE_IN_PROGRESS then EFI_UNSUPPORTED
           else if reply ! 2 = cc_of M IPMI_COMP_CODE_INSUFFICIENT_PRIVILEGE
           then EFI_SECURITY_VIOLATION else EFI_DEVICE_ERROR, Resp, sz),
      if reply ! 2 \<in> set (COMPLETION_CODES M)
      then inst\<lparr>TempData := reply, Port := p2,
             BmcStatus := (if BmcStatus inst = BMC_UPDATE_IN_PROGRESS then BMC_UPDATE_IN_PROGRESS
                           else BMC_SOFTFAIL),
             SoftErrorCount := SoftErrorCount inst + 1\<rparr>
      else inst\<lparr>TempData := reply, Port := p2\<rparr>)"
proof -
  obtain r' where r: "unat r = Suc r'"
    using retries by (metis gr0_conv_Suc unat_gt_0 word_gt_0)
  show ?thesis
    using reply resp
    by (simp add: IpmiSendCommandInternal_def r pass_exchange [where send = send and recv = recv,
          OF snd rcv] check_response_def response_simps UpdateErrorStatus_def UpdateErrorStatus_loop_eq)
qed

lemma internal_too_small:
  assumes ex: "send (IpmiTimeoutPeriod inst) (command_frame lun nf c d n (TempData inst)) (n + 2)
             (Port inst) = Some (EFI_SUCCESS, p1)"
      "recv (IpmiTimeoutPeriod inst) (command_frame lun nf c d n (TempData inst)) 254 p1 =
           Some ((EFI_SUCCESS, reply, k), p2)"
    and reply: "3 \<le> unat k" "reply ! 2 = cc_of M IPMI_COMP_CODE_NORMAL"
      "hdr_netfn (reply ! 0) = nf OR 1" "reply ! 1 = c"
    and fits: "unat sz < unat k - 3" and retries: "0 < r"
  shows "IpmiSendCommandInternal M send recv r nf lun c (Some d) n (RespCaller m) (Some sz) inst =
    Some ((EFI_BUFFER_TOO_SMALL, RespCaller m, Some (of_nat (unat k - 3 + 1))),
          inst\<lparr>TempData := reply, Port := p2\<rparr>)"
proof -
  obtain r' where r: "unat r = Suc r'"
    using retries by (metis gr0_conv_Suc unat_gt_0 word_gt_0)
  show ?thesis
    using reply fits
    by (simp add: IpmiSendCommandInternal_def r pass_exchange [where send = send and recv = recv, OF ex]
        check_response_def response_simps)
qed

text \<open>A NULL command without data is the same as an empty one.\<close>

lemma internal_None:
  "IpmiSendCommandInternal M send recv r nf lun c None 0 Resp sz inst =
   IpmiSendCommandInternal M send recv r nf lun c (Some []) 0 Resp sz inst"
  by (cases sz) (simp_all add: IpmiSendCommandInternal_def)

text \<open>C3 A command the BMC refuses: the caller's buffer and size stay as they were, the status
  follows the completion code and the state of the BMC, and the error counts as a soft failure
  exactly when the code is one of the listed ones.\<close>

theorem IpmiSendCommandInternal_refused:
  assumes snd: "send (IpmiTimeoutPeriod inst) (command_frame lun nf c d n (TempData inst)) (n + 2)
             (Port inst) = Some (EFI_SUCCESS, p1)"
    and rcv: "recv (IpmiTimeoutPeriod inst) (command_frame lun nf c d n (TempData inst)) 254 p1 =
           Some ((EFI_SUCCESS, reply, k), p2)"
    and reply: "3 \<le> unat k" "reply ! 2 \<noteq> cc_of M IPMI_COMP_CODE_NORMAL"
    and retries: "0 < r" and resp: "(Resp = RespNull) = (sz = None)"
  shows "IpmiSendCommandInternal M send recv r nf lun c (Some d) n Resp sz inst =
    Some ((if BmcStatus inst = BMC_UPDATE_IN_PROGRESS then EFI_UNSUPPORTED
           else if reply ! 2 = cc_of M IPMI_COMP_CODE_INSUFFICIENT_PRIVILEGE
           then EFI_SECURITY_VIOLATION else EFI_DEVICE_ERROR, Resp, sz),
      if reply ! 2 \<in> set (COMPLETION_CODES M)
      then inst\<lparr>TempData := reply, Port := p2,
             BmcStatus := (if BmcStatus inst = BMC_UPDATE_IN_PROGRESS then BMC_UPDATE_IN_PROGRESS
                           else BMC_SOFTFAIL),
             SoftErrorCount := SoftErrorCount inst + 1\<rparr>
      else inst\<lparr>TempData := reply, Port := p2\<rparr>)"
  using assms by (rule internal_refused)

theorem IpmiSendCommandInternal_refused_witness:
  "IpmiSendCommandInternal ipmi_v2 SendDataToBmcPort_Null ReceiveBmcDataFromPort_Null 3 6 0 1
     (Some [0xC3]) 1 (RespCaller [1, 2]) (Some 2)
     \<lparr>Signature = 0, IpmiTimeoutPeriod = 0, SlaveAddress = 0, TempData = replicate 255 0,
      BmcStatus = BMC_OK, ErrorStatus = 0, SoftErrorCount = 0, Port = ()\<rparr> =
   Some ((EFI_DEVICE_ERROR, RespCaller [1, 2], Some 2),
     \<lparr>Signature = 0, IpmiTimeoutPeriod = 0, SlaveAddress = 0,
      TempData = [0x18, 1, 0xC3] @ replicate 252 0,
      BmcStatus = BMC_SOFTFAIL, ErrorStatus = 0, SoftErrorCount = 1, Port = ()\<rparr>)"
  by (subst IpmiSendCommandInternal_refused
        [where reply = "[0x18, 1, 0xC3] @ replicate 252 0" and k = 254])
    (simp_all add: transport_null_defs command_frame_def copy_mem_def hdr_byte_def
      IPMI_COMMAND_HEADER_SIZE_def COMPLETION_CODES_def bmc_status_defs)

text \<open>A call whose response goes to \<open>TempData\<close> itself keeps the size of \<open>TempData\<close>.\<close>

lemma length_copy_response:
  assumes "n \<le> length data" "n < length m"
  shows "length (copy_response n data m) = length m"
proof -
  have "0 # drop 1 (copy_response n data m) = 0 # take n data @ drop (Suc n) m"
    using copy_response_eq [OF assms(1), of m 0] by (simp add: poke_0)
  then have "length (drop 1 (copy_response n data m)) = length m - 1"
    using assms by (simp add: min_def)
  moreover have "copy_response n data m \<noteq> []"
  proof (cases "n = 0")
    case True
    then show ?thesis using assms(2) by (simp add: copy_response_def shift_response_def copy_mem_def)
  next
    case False
    then show ?thesis
      using assms shift_response_eq [of n "copy_mem m 0 (take n data)"]
      by (simp add: copy_response_def copy_mem_def min_def)
  qed
  ultimately show ?thesis using assms(2) by (cases "copy_response n data m") auto
qed

context transport
begin

lemma internal_temp:
  assumes run: "IpmiSendCommandInternal M send recv r nf lun c d n RespTemp (Some sz) inst =
      Some ((st, Resp', sz'), inst')"
    and ok: "inst_ok inst" "unat n \<le> 253"
  shows "inst_ok inst'"
proof (cases "n > 0 \<and> d = None")
  case True
  then show ?thesis using run ok by (simp add: IpmiSendCommandInternal_def)
next
  case False
  let ?d = "case d of None \<Rightarrow> [] | Some d \<Rightarrow> d"
  obtain e inst1 where loop:
    "SendCommand_loop M send recv nf lun c ?d n (Some sz) (unat r) inst = Some (e, inst1)"
    using run False by (auto simp: IpmiSendCommandInternal_def bind_eq_Some_conv)
  note l = loop_ok [OF loop ok]
  have fin: "finish_call (Some sz) RespTemp e inst1 = Some ((st, Resp', sz'), inst')"
    using run False loop by (auto simp: IpmiSendCommandInternal_def)
  show ?thesis
  proof (cases "\<exists>k. e = Inr (Some k)")
    case True
    then obtain k where k: "e = Inr (Some k)" "unat k \<le> 254" using l by auto
    have len: "length (TempData inst1) = 255" using l by (simp add: inst_ok_def size_defs)
    then have "length (copy_response (unat k - 3) (drop 3 (TempData inst1)) (TempData inst1)) = 255"
      using k(2) by (simp add: length_copy_response)
    then show ?thesis
      using fin k by (auto simp: response_simps inst_ok_def Let_def mem_simps)
  next
    case False
    then show ?thesis
      using fin l by (cases e) (auto simp: finish_call_def split: option.splits)
  qed
qed

end

text \<open>C2 Memory safety over any lawful transport, for every outcome of the call: with at most
  253 bytes of command data \<open>TempData\<close> keeps its size, and of the caller's memory at most the
  first \<open>*ResponseDataSize + 1\<close> bytes change.\<close>

theorem IpmiSendCommandInternal_memory:
  assumes "transport send recv"
    and "IpmiSendCommandInternal M send recv r nf lun c d n (RespCaller m) (Some sz) inst =
      Some ((st, RespCaller m', sz'), inst')"
    and "inst_ok inst" "unat n \<le> 253" "unat sz < length m"
  shows "inst_ok inst' \<and> length m' = length m \<and> drop (unat sz + 1) m' = drop (unat sz + 1) m"
proof -
  note result = transport.internal_caller [OF assms(1-4)]
  show ?thesis
  proof (cases "st = EFI_SUCCESS")
    case True
    then show ?thesis using result assms(5) by auto
  next
    case False
    then show ?thesis using result by simp
  qed
qed



lemma null_reply_run:
  "IpmiSendCommandInternal ipmi_v2 SendDataToBmcPort_Null ReceiveBmcDataFromPort_Null 3 6 0 1
     (Some []) 0 (RespCaller (replicate 300 7)) (Some 255)
     \<lparr>Signature = 0, IpmiTimeoutPeriod = 0, SlaveAddress = 0, TempData = replicate 255 0,
      BmcStatus = BMC_NOTREADY, ErrorStatus = 0, SoftErrorCount = 0, Port = ()\<rparr> =
   Some ((EFI_SUCCESS, RespCaller (replicate 252 0 @ replicate 48 7), Some 252),
     \<lparr>Signature = 0, IpmiTimeoutPeriod = 0, SlaveAddress = 0,
      TempData = [0x18, 1] @ replicate 253 0,
      BmcStatus = BMC_OK, ErrorStatus = 0, SoftErrorCount = 0, Port = ()\<rparr>)"
  by (subst internal_reply [where reply = "[0x18, 1] @ replicate 253 0" and k = 254])
    (simp_all add: transport_null_defs command_frame_def copy_mem_def hdr_byte_def)

theorem IpmiSendCommandInternal_memory_witness:
  "inst_ok \<lparr>Signature = 0, IpmiTimeoutPeriod = 0, SlaveAddress = 0,
      TempData = [0x18, 1] @ replicate 253 0,
      BmcStatus = BMC_OK, ErrorStatus = 0, SoftErrorCount = 0, Port = ()\<rparr> \<and>
   length (replicate 252 0 @ replicate 48 (7 :: u8)) = length (replicate 300 (7 :: u8)) \<and>
   drop (unat (255 :: u8) + 1) (replicate 252 0 @ replicate 48 (7 :: u8)) =
   drop (unat (255 :: u8) + 1) (replicate 300 7)"
  by (rule IpmiSendCommandInternal_memory [OF null_transport.transport_axioms null_reply_run])
    (simp_all add: inst_ok_def size_defs)

lemma pass_total:
  assumes "\<And>P d n t. \<exists>x. send P d n t = Some x" "\<And>P b n t. \<exists>x. recv P b n t = Some x"
  shows "\<exists>x. SendCommand_pass M send recv nf lun c d n sz r inst = Some x"
proof -
  let ?T = "command_frame lun nf c d n (TempData inst)"
  obtain st p1 where "send (IpmiTimeoutPeriod inst) ?T (n + 2) (Port inst) = Some (st, p1)"
    using assms(1) by (metis surj_pair)
  moreover obtain st' buf k p2 where
    "recv (IpmiTimeoutPeriod inst) ?T 254 p1 = Some ((st', buf, k), p2)"
    using assms(2) by (metis surj_pair)
  ultimately have "SendCommand_pass M send recv nf lun c d n sz r inst \<noteq> None"
    by (simp add: SendCommand_pass_def size_defs Let_def)
  then show ?thesis by simp
qed

lemma pass_continue:
  "SendCommand_pass M send recv nf lun c d n sz r inst = Some (PassContinue, inst') \<Longrightarrow> r \<noteq> 0"
  by (auto simp: SendCommand_pass_def bind_eq_Some_conv Let_def check_response_def
      split: if_splits option.splits)

lemma loop_total:
  assumes "\<And>P d n t. \<exists>x. send P d n t = Some x" "\<And>P b n t. \<exists>x. recv P b n t = Some x"
  shows "\<exists>e inst'. SendCommand_loop M send recv nf lun c d n sz r inst = Some (e, inst') \<and>
           (0 < r \<longrightarrow> e \<noteq> Inr None)"
proof (induction r arbitrary: inst)
  case 0
  then show ?case by simp
next
  case (Suc r)
  obtain x inst1 where p: "SendCommand_pass M send recv nf lun c d n sz r inst = Some (x, inst1)"
    using pass_total [of send recv, OF assms] by (metis surj_pair)
  then show ?case
    using Suc pass_continue [of M send recv nf lun c d n sz r inst] by (cases x) auto
qed

lemma pass_count:
  assumes "\<And>P d n t x t'. send P d n t = Some (x, t') \<Longrightarrow> cnt t' \<le> cnt t + (1 :: nat)"
    and "\<And>P b n t x t'. recv P b n t = Some (x, t') \<Longrightarrow> cnt t' \<le> cnt t"
    and "SendCommand_pass M send recv nf lun c d n sz r inst = Some (e, inst')"
  shows "cnt (Port inst') \<le> cnt (Port inst) + 1"
  using assms(3)
  by (auto simp: SendCommand_pass_def bind_eq_Some_conv Let_def soft_fail_def
      check_response_frame(2) split: if_splits dest!: assms(1,2))

lemma loop_count:
  assumes "\<And>P d n t x t'. send P d n t = Some (x, t') \<Longrightarrow> cnt t' \<le> cnt t + (1 :: nat)"
    and "\<And>P b n t x t'. recv P b n t = Some (x, t') \<Longrightarrow> cnt t' \<le> cnt t"
  shows "SendCommand_loop M send recv nf lun c d n sz r inst = Some (e, inst') \<Longrightarrow>
           cnt (Port inst') \<le> cnt (Port inst) + r"
proof (induction r arbitrary: inst)
  case 0
  then show ?case by simp
next
  case (Suc r)
  obtain x inst1 where p: "SendCommand_pass M send recv nf lun c d n sz r inst = Some (x, inst1)"
    using Suc.prems by (auto simp: bind_eq_Some_conv)
  show ?case
    using Suc p pass_count [of send cnt recv, OF assms p] by (cases x) fastforce+
qed

lemma internal_returns:
  assumes "\<And>P d n t. \<exists>x. send P d n t = Some x" "\<And>P b n t. \<exists>x. recv P b n t = Some x"
    and "\<And>P d n t x t'. send P d n t = Some (x, t') \<Longrightarrow> cnt t' \<le> cnt t + (1 :: nat)"
    and "\<And>P b n t x t'. recv P b n t = Some (x, t') \<Longrightarrow> cnt t' \<le> cnt t"
    and "0 < r \<or> sz = None"
  shows "\<exists>res inst'. IpmiSendCommandInternal M send recv r nf lun c d n Resp sz inst =
           Some (res, inst') \<and> cnt (Port inst') \<le> cnt (Port inst) + unat r"
proof -
  let ?d = "case d of None \<Rightarrow> [] | Some d \<Rightarrow> d"
  obtain e inst1 where l:
    "SendCommand_loop M send recv nf lun c ?d n sz (unat r) inst = Some (e, inst1)"
    "0 < unat r \<Longrightarrow> e \<noteq> Inr None"
    using loop_total [of send recv, OF assms(1,2)] by metis
  have cnt: "cnt (Port inst1) \<le> cnt (Port inst) + unat r"
    by (rule loop_count [of send cnt recv, OF assms(3,4) l(1)])
  have fin: "finish_response k Resp inst1 = (x, inst2) \<Longrightarrow> Port inst2 = Port inst1" for k x inst2
    by (cases Resp) (auto simp: finish_response_def Let_def)
  show ?thesis
  proof (cases "(n > 0 \<and> d = None) \<or> (Resp \<noteq> RespNull) \<noteq> (sz \<noteq> None)")
    case True
    then show ?thesis by (auto simp: IpmiSendCommandInternal_def)
  next
    case False
    then have run: "IpmiSendCommandInternal M send recv r nf lun c d n Resp sz inst =
        finish_call sz Resp e inst1"
      using l(1) by (auto simp: IpmiSendCommandInternal_def finish_call_def split: sum.splits)
    have "e \<noteq> Inr None \<or> sz = None"
      using l(2) assms(5) by (auto simp: word_gt_0 unat_gt_0)
    then show ?thesis
      using cnt fin unfolding run
      by (cases sz; cases e; cases "projr e") (auto simp: finish_call_def Let_def fin split: prod.splits)
  qed
qed

text \<open>C4 Every call returns when the transport does, unless the retry count is zero and a
  response is wanted (there the code reads a size it never set), and no call sends more messages
  than the retry count: a counter that \<open>send\<close> advances by at most one, and \<open>recv\<close> not at
  all, advances by at most \<open>PcdIpmiCommandMaxReties\<close>.\<close>

theorem IpmiSendCommandInternal_returns:
  assumes "\<And>P d n t. \<exists>x. send P d n t = Some x" "\<And>P b n t. \<exists>x. recv P b n t = Some x"
    and "\<And>P d n t x t'. send P d n t = Some (x, t') \<Longrightarrow> cnt t' \<le> cnt t + (1 :: nat)"
    and "\<And>P b n t x t'. recv P b n t = Some (x, t') \<Longrightarrow> cnt t' \<le> cnt t"
    and "0 < r \<or> sz = None"
  shows "\<exists>res inst'. IpmiSendCommandInternal M send recv r nf lun c d n Resp sz inst =
           Some (res, inst') \<and> cnt (Port inst') \<le> cnt (Port inst) + unat r"
  using internal_returns [where send = send and recv = recv and cnt = cnt, OF assms] .

theorem IpmiSendCommandInternal_returns_witness:
  "\<exists>res inst'. IpmiSendCommandInternal ipmi_v2 (\<lambda>P d n t. Some (EFI_SUCCESS, t + 1))
      ReceiveBmcDataFromPort_Null 3 6 0 1 None 0 (RespCaller [1, 2, 3]) (Some 2)
     \<lparr>Signature = 0, IpmiTimeoutPeriod = 0, SlaveAddress = 0, TempData = replicate 255 0,
      BmcStatus = BMC_OK, ErrorStatus = 0, SoftErrorCount = 0, Port = (0 :: nat)\<rparr> =
     Some (res, inst') \<and> id (Port inst') \<le> id (0 :: nat) + unat (3 :: u8)"
  using IpmiSendCommandInternal_returns [where send = "\<lambda>P d n t. Some (EFI_SUCCESS, t + 1)" and
      recv = ReceiveBmcDataFromPort_Null and cnt = id and r = 3 and sz = "Some 2" and M = ipmi_v2
      and inst = "\<lparr>Signature = 0, IpmiTimeoutPeriod = 0, SlaveAddress = 0,
      TempData = replicate 255 0, BmcStatus = BMC_OK, ErrorStatus = 0, SoftErrorCount = 0,
      Port = (0 :: nat)\<rparr>"]
  by (simp add: transport_null_defs)

text \<open>The size the protocol entry returns.\<close>

lemma unat_set_low8: "unat (set_low8 w b) = 256 * (unat w div 256) + unat b"
proof -
  have ff: "(0xFF :: u32) = mask 8" by (simp add: mask_eq_exp_minus_1)
  have "w AND NOT 0xFF = push_bit 8 (drop_bit 8 w)"
    unfolding ff by (rule bit_eqI) (auto simp: bit_simps)
  moreover have "push_bit 8 (drop_bit 8 w) AND ucast b = 0"
    by (rule bit_eqI) (auto simp: bit_simps dest: bit_imp_le_length)
  ultimately have "set_low8 w b = 256 * (w div 256) + ucast b"
    by (simp add: set_low8_def flip: disjunctive_add_eq_or)
      (simp add: push_bit_eq_mult drop_bit_eq_div)
  moreover have "unat w < 2 ^ LENGTH(32)" by (rule unsigned_less)
  then have "unat w div 256 < 2 ^ 24" by (intro less_mult_imp_div_less) simp
  then have "256 * (unat w div 256) + unat b < 2 ^ 32" using u8_bound [of b] by simp
  ultimately show ?thesis
    by (simp add: unat_word_ariths unat_div unsigned_ucast_eq take_bit_nat_eq_self)
qed

lemma unat_low8: "unat (ucast (w :: u32) :: u8) = unat w mod 256"
  by (simp add: unsigned_ucast_eq take_bit_eq_mod)

text \<open>C40 The protocol entry takes a 32-bit response size and uses its low byte.  A normal reply to the
  command is delivered only if its data fit that byte, so a buffer of 256 bytes is refused a reply
  with one byte of data as too small; and whether it is delivered or refused, the size that comes
  back is the number of bytes of the reply plus the upper bytes of the size that went in: right for
  buffers below 256 bytes, and at least 256 too large for all others.\<close>

theorem IpmiSendCommand_truncates:
  assumes snd: "send (IpmiTimeoutPeriod inst) (command_frame lun nf c d (ucast n) (TempData inst)) (ucast n + 2)
             (Port inst) = Some (EFI_SUCCESS, p1)"
    and rcv: "recv (IpmiTimeoutPeriod inst) (command_frame lun nf c d (ucast n) (TempData inst)) 254 p1 =
           Some ((EFI_SUCCESS, reply, k), p2)"
    and reply: "length reply = 255" "3 \<le> unat k" "unat k \<le> 254" "hdr_netfn (reply ! 0) = nf OR 1" "reply ! 1 = c"
      "reply ! 2 = cc_of M IPMI_COMP_CODE_NORMAL"
    and retries: "0 < r"
  shows "\<exists>st Resp' w' inst'.
    IpmiSendCommand M send recv r nf lun c (Some d) n (RespCaller m) (Some w) inst =
      Some ((st, Resp', Some w'), inst') \<and>
    (if unat k - 3 \<le> unat w mod 256
     then st = EFI_SUCCESS \<and> Resp' = RespCaller (take (unat k - 2) (drop 2 reply) @ drop (unat k - 2) m)
     else st = EFI_BUFFER_TOO_SMALL \<and> Resp' = RespCaller m) \<and>
    unat w' = (unat k - 2) + 256 * (unat w div 256)"
proof -
  have w: "unat (ucast w :: u8) = unat w mod 256" by (rule unat_low8)
  have k: "unat (of_nat (unat k - 2) :: u8) = unat k - 2" "unat k - 3 + 1 = unat k - 2"
    using reply(2) by (simp_all add: unat_sub word_le_nat_alt)
  show ?thesis
  proof (cases "unat k - 3 \<le> unat w mod 256")
    case True
    then show ?thesis
      using internal_reply [where send = send and recv = recv and M = M and m = m and sz = "ucast w",
          OF snd rcv reply(1-3,6) _ retries] w k(1)
      by (simp add: IpmiSendCommand_def unat_set_low8)
  next
    case False
    then show ?thesis
      using internal_too_small [where send = send and recv = recv and M = M and m = m and sz = "ucast w",
          OF snd rcv reply(2,6,4,5) _ retries] w k
      by (simp add: IpmiSendCommand_def unat_set_low8 add.commute)
  qed
qed

text \<open>A buffer of 256 bytes and a reply of two: it is refused, and the caller is told to come back with
  room for 258.\<close>

theorem IpmiSendCommand_truncates_witness:
  "\<exists>w' inst'. IpmiSendCommand ipmi_v2 SendDataToBmcPort_Null
      (\<lambda>P D n t. Some ((EFI_SUCCESS, [0x1C, 1, 0, 5] @ replicate 251 0, 4), t)) 1 6 0 1 (Some []) 0
      (RespCaller (replicate 256 7)) (Some 256)
      \<lparr>Signature = 0, IpmiTimeoutPeriod = 0, SlaveAddress = 0, TempData = replicate 255 0,
       BmcStatus = BMC_OK, ErrorStatus = 0, SoftErrorCount = 0, Port = ()\<rparr> =
    Some ((EFI_BUFFER_TOO_SMALL, RespCaller (replicate 256 7), Some w'), inst') \<and> unat w' = 258"
proof -
  let ?recv = "\<lambda>(P :: u64) (D :: bytes) (n :: u8) (t :: unit).
    Some ((EFI_SUCCESS, [0x1C, 1, 0, 5] @ replicate 251 (0 :: u8), 4 :: u8), t)"
  show ?thesis
    using IpmiSendCommand_truncates [where send = SendDataToBmcPort_Null and recv = ?recv and r = 1 and nf = 6
        and lun = 0 and c = 1 and d = "[]" and n = 0 and m = "replicate 256 7" and w = 256 and M = ipmi_v2
        and reply = "[0x1C, 1, 0, 5] @ replicate 251 0" and k = 4 and ?p1.0 = "()" and ?p2.0 = "()" and
        inst = "\<lparr>Signature = 0, IpmiTimeoutPeriod = 0, SlaveAddress = 0, TempData = replicate 255 0,
          BmcStatus = BMC_OK, ErrorStatus = 0, SoftErrorCount = 0, Port = ()\<rparr>"]
    by (simp add: transport_null_defs hdr_netfn_def)
qed

end
