(* ===== verification/Generic_Init.thy ===== *)
theory Generic_Init
  imports Generic_Ipmi
begin

section \<open>The generic IPMI driver: initialisation and entry points\<close>

text \<open>
  \<open>GenericIpmi/Common/IpmiInitialize.c\<close> and the entry points of the DXE, PEI, SMM and
  Standalone MM drivers.  What the platform gives is the record \<open>gi_env\<close>: the transport
  library, the platform library, the delay and the PCDs.  The calls of the firmware core
  (allocation, HOBs, interface installation) are arguments of the entry points.  A failing ASSERT
  is \<^theory_text>\<open>None\<close>.  Debug prints are left out.
\<close>

subsection \<open>Platform\<close>

record 't gi_env =
  env_hdr :: ipmi_hdr
  env_send :: "'t send_fn"
  env_recv :: "'t recv_fn"
  env_init :: "('t, efi_status) op"
  env_delay :: "nat \<Rightarrow> 't \<Rightarrow> 't"
  PlatformIpmiInitialize :: "('t, efi_status) op"
  GetDeviceSpecificTestResults :: "bytes \<Rightarrow> u32 \<Rightarrow> u32"
  PcdIpmiCommandMaxReties :: u8
  PcdIpmiBmcReadyDelayTimer :: u8
  PcdBmcTimeoutSeconds :: u8
  PcdIpmiCommandTimeoutSeconds :: u8
  PcdIpmiCheckSelfTestResults :: bool

text \<open>\<open>Library/IpmiPlatformLibNull\<close>.\<close>

definition GetDeviceSpecificTestResults_Null :: "bytes \<Rightarrow> u32 \<Rightarrow> u32" where
  "GetDeviceSpecificTestResults_Null Result old = BMC_HARDFAIL"

definition PlatformIpmiIoRangeSet_Null :: "u16 \<Rightarrow> efi_status" where
  "PlatformIpmiIoRangeSet_Null IpmiIoBase = EFI_SUCCESS"

definition PlatformIpmiInitialize_Null :: "('t, efi_status) op" where
  "PlatformIpmiInitialize_Null t = Some (EFI_SUCCESS, t)"

text \<open>The status code values reported to the error manager, and the array of at most
  \<open>MAX_SOFT_COUNT\<close> of them.\<close>

datatype status_code = EFI_CU_FP_EC_COMM_ERROR | EFI_CU_FP_EC_HARD_FAIL | EFI_CU_FP_EC_SOFT_FAIL
  | CU_FP_EC_SDR_EMPTY

definition add_code :: "status_code \<Rightarrow> status_code list \<Rightarrow> status_code list" where
  "add_code c codes = (if length codes < unat MAX_SOFT_COUNT then codes @ [c] else codes)"

text \<open>\<open>IpmiSendCommand\<close> as the initialisation calls it: no command data, the response goes to
  \<open>TempData\<close>, \<open>DataSize\<close> is threaded through.\<close>

definition query ::
    "'t gi_env \<Rightarrow> net_fn \<Rightarrow> ipmi_cmd \<Rightarrow> u32 \<Rightarrow> ('t ipmi_bmc_instance, efi_status \<times> u32) op" where
  "query E nf c DataSize inst =
     do {
       ((st, _, sz), inst1) \<leftarrow> IpmiSendCommand (env_hdr E) (env_send E) (env_recv E)
          (PcdIpmiCommandMaxReties E) (netfn_of (env_hdr E) nf) 0 (cmd_of (env_hdr E) c) None 0
          RespTemp (Some DataSize) inst;
       Some ((st, the sz), inst1)
     }"

definition MicroSecondDelay ::
    "'t gi_env \<Rightarrow> nat \<Rightarrow> 't ipmi_bmc_instance \<Rightarrow> 't ipmi_bmc_instance" where
  "MicroSecondDelay E us inst = inst\<lparr>Port := env_delay E us (Port inst)\<rparr>"

subsection \<open>GetSelfTest\<close>

definition self_test_known :: "ipmi_hdr \<Rightarrow> u8 \<Rightarrow> bool" where
  "self_test_known M Result \<longleftrightarrow> Result \<in> set (map (val_of M)
     [IPMI_APP_SELFTEST_NO_ERROR, IPMI_APP_SELFTEST_NOT_IMPLEMENTED, IPMI_APP_SELFTEST_ERROR,
      IPMI_APP_SELFTEST_FATAL_HW_ERROR])"

text \<open>\<open>do ... while (--Retries > 0)\<close>, with the value of \<open>Retries\<close> after the loop.\<close>

function GetSelfTest_loop ::
    "'t gi_env \<Rightarrow> u32 \<Rightarrow> u32 \<Rightarrow>
       ('t ipmi_bmc_instance, efi_status \<times> u32 \<times> u32) op" where
  "GetSelfTest_loop E Retries DataSize inst =
     (case query E IPMI_NETFN_APP IPMI_APP_GET_SELFTEST_RESULTS DataSize inst of
        None \<Rightarrow> None
      | Some ((Status, DataSize1), inst1) \<Rightarrow>
          if Status = EFI_SUCCESS \<and>
             self_test_known (env_hdr E) (fget8 (env_hdr E) 0 SelfTest_Result (TempData inst1))
          then Some ((Status, Retries, DataSize1), inst1)
          else
            (let inst2 = MicroSecondDelay E 500000 inst1 in
             if Retries - 1 > 0 then GetSelfTest_loop E (Retries - 1) DataSize1 inst2
             else Some ((Status, Retries - 1, DataSize1), inst2)))"
  by pat_completeness auto

lemma unat_pred_pred_less:
  assumes "(r :: u32) - 1 > 0"
  shows "unat (r - 2) < unat (r - 1)"
proof -
  have "r - 2 = r - 1 - 1" by simp
  moreover have "r - 1 \<noteq> 0" using assms by (simp only: word_gt_0)
  ultimately show ?thesis
    by (metis diff_less unat_minus_one unat_gt_0 zero_less_one)
qed

termination GetSelfTest_loop
  by (relation "measure (\<lambda>(E, r, d, i). unat (r - 1))") (auto intro: unat_pred_pred_less)

declare GetSelfTest_loop.simps [simp del]

definition store_error_status :: "u32 \<Rightarrow> 't ipmi_bmc_instance \<Rightarrow> 't ipmi_bmc_instance" where
  "store_error_status DataSize inst =
     inst\<lparr>ErrorStatus := of_nat (le_nat (copy_mem (nat_le 8 (unat (ErrorStatus inst))) 0
                           (take (min (unat DataSize) 8) (TempData inst))))\<rparr>"

definition classify_self_test ::
    "'t gi_env \<Rightarrow> status_code list \<Rightarrow> 't ipmi_bmc_instance \<Rightarrow>
       status_code list \<times> 't ipmi_bmc_instance" where
  "classify_self_test E codes inst =
     (let M = env_hdr E;
          V = val_of M;
          Result = fget8 M 0 SelfTest_Result (TempData inst)
      in
      if Result = V IPMI_APP_SELFTEST_NO_ERROR \<or> Result = V IPMI_APP_SELFTEST_NOT_IMPLEMENTED
      then (codes, inst\<lparr>BmcStatus := BMC_OK\<rparr>)
      else if Result = V IPMI_APP_SELFTEST_ERROR then
        (let inst1 =
               (if TempData inst ! 1 AND (V IPMI_APP_SELFTEST_FRU_CORRUPT OR
                     V IPMI_APP_SELFTEST_FW_BOOTBLOCK_CORRUPT OR V IPMI_APP_SELFTEST_FW_CORRUPT) \<noteq> 0
                then inst\<lparr>BmcStatus := BMC_HARDFAIL\<rparr> else inst\<lparr>BmcStatus := BMC_SOFTFAIL\<rparr>)
         in (if TempData inst ! 1 AND V IPMI_APP_SELFTEST_SDR_REPOSITORY_EMPTY \<noteq> 0
             then add_code CU_FP_EC_SDR_EMPTY codes else codes, inst1))
      else if Result = V IPMI_APP_SELFTEST_FATAL_HW_ERROR
      then (codes, inst\<lparr>BmcStatus := BMC_HARDFAIL\<rparr>)
      else (codes, inst\<lparr>BmcStatus := GetDeviceSpecificTestResults E (TempData inst)
                                     (BmcStatus inst)\<rparr>))"

definition GetSelfTest ::
    "'t gi_env \<Rightarrow> status_code list \<Rightarrow>
       ('t ipmi_bmc_instance, efi_status \<times> status_code list) op" where
  "GetSelfTest E codes inst =
     do {
       let Retries = (if PcdIpmiBmcReadyDelayTimer E < PcdBmcTimeoutSeconds E then 1
                      else ucast (PcdIpmiBmcReadyDelayTimer E));
       ((Status, Retries1, DataSize), inst1) \<leftarrow>
          GetSelfTest_loop E Retries (of_nat MAX_TEMP_DATA)
            (inst\<lparr>TempData := poke (TempData inst) 1 0\<rparr>);
       if EFI_ERROR Status \<or> Retries1 = 0 then
         Some ((Status, add_code EFI_CU_FP_EC_COMM_ERROR codes), inst1\<lparr>BmcStatus := BMC_HARDFAIL\<rparr>)
       else
         (let (codes1, inst2) = classify_self_test E codes (store_error_status DataSize inst1)
          in Some ((EFI_SUCCESS,
                if BmcStatus inst2 = BMC_HARDFAIL then add_code EFI_CU_FP_EC_HARD_FAIL codes1
                else if BmcStatus inst2 = BMC_SOFTFAIL then add_code EFI_CU_FP_EC_SOFT_FAIL codes1
                else codes1), inst2))
     }"

subsection \<open>GetDeviceId\<close>

text \<open>\<open>SM_CTRL_INFO.UpdateMode\<close> is bit 7 of byte 3 (\<open>Include/ServerManagement.h\<close>).\<close>

definition UpdateMode :: "bytes \<Rightarrow> bool" where
  "UpdateMode T \<longleftrightarrow> bit (T ! 3) 7"

fun GetDeviceId_loop ::
    "'t gi_env \<Rightarrow> nat \<Rightarrow> u32 \<Rightarrow> ('t ipmi_bmc_instance, efi_status \<times> u32) op" where
  "GetDeviceId_loop E Retries DataSize inst =
     (case query E IPMI_NETFN_APP IPMI_APP_GET_DEVICE_ID DataSize inst of
        None \<Rightarrow> None
      | Some ((Status, DataSize1), inst1) \<Rightarrow>
          if \<not> EFI_ERROR Status then Some ((Status, DataSize1), inst1)
          else (case Retries of
                  0 \<Rightarrow> Some ((Status, DataSize1), inst1\<lparr>BmcStatus := BMC_HARDFAIL\<rparr>)
                | Suc r \<Rightarrow> GetDeviceId_loop E r DataSize1 (MicroSecondDelay E 1000000 inst1)))"

declare GetDeviceId_loop.simps [simp del]

text \<open>\<open>while (Retries-- != 0)\<close>: the last status, and whether the BMC became ready.\<close>

primrec UpdateMode_loop ::
    "'t gi_env \<Rightarrow> nat \<Rightarrow> efi_status \<Rightarrow> u32 \<Rightarrow> ('t ipmi_bmc_instance, efi_status) op" where
  "UpdateMode_loop E 0 Status DataSize inst = Some (Status, inst\<lparr>BmcStatus := BMC_HARDFAIL\<rparr>)"
| "UpdateMode_loop E (Suc r) Status DataSize inst =
     do {
       ((Status1, DataSize1), inst1) \<leftarrow>
          query E IPMI_NETFN_APP IPMI_APP_GET_DEVICE_ID DataSize (MicroSecondDelay E 1000000 inst);
       if \<not> EFI_ERROR Status1 \<and> \<not> UpdateMode (TempData inst1)
       then Some (EFI_SUCCESS, inst1\<lparr>BmcStatus := BMC_OK\<rparr>)
       else UpdateMode_loop E r Status1 DataSize1 inst1
     }"

definition GetDeviceId :: "'t gi_env \<Rightarrow> ('t ipmi_bmc_instance, efi_status) op" where
  "GetDeviceId E inst =
     do {
       ((Status, DataSize), inst1) \<leftarrow>
          GetDeviceId_loop E (unat (PcdIpmiBmcReadyDelayTimer E)) (of_nat MAX_TEMP_DATA) inst;
       if EFI_ERROR Status then Some (Status, inst1)
       else if \<not> UpdateMode (TempData inst1) then Some (EFI_SUCCESS, inst1\<lparr>BmcStatus := BMC_OK\<rparr>)
       else do {
         ((Status1, DataSize1), inst2) \<leftarrow>
            query E IPMI_NETFN_FIRMWARE IPMI_GET_BMC_EXECUTION_CONTEXT DataSize inst1;
         if \<not> EFI_ERROR Status1 \<and>
            fget8 (env_hdr E) 0 CurrentExecutionContext (TempData inst2) =
              val_of (env_hdr E) IPMI_BMC_IN_FORCED_UPDATE_MODE
         then Some (Status1, inst2\<lparr>BmcStatus := BMC_UPDATE_IN_PROGRESS\<rparr>)
         else UpdateMode_loop E (unat (PcdIpmiBmcReadyDelayTimer E)) Status1 DataSize1 inst2
       }
     }"

subsection \<open>IpmiInitializeBmc\<close>

text \<open>The result is the status and the codes reported to the error manager, in order.\<close>

definition lift_port ::
    "('t, 'a) op \<Rightarrow> ('t ipmi_bmc_instance, 'a) op" where
  "lift_port f inst = map_option (\<lambda>(x, t). (x, inst\<lparr>Port := t\<rparr>)) (f (Port inst))"

definition IpmiInitializeBmc ::
    "'t gi_env \<Rightarrow> ('t ipmi_bmc_instance, efi_status \<times> status_code list) op" where
  "IpmiInitializeBmc E inst =
     do {
       (Status, inst1) \<leftarrow> lift_port (PlatformIpmiInitialize E) inst;
       if EFI_ERROR Status then Some ((Status, []), inst1)
       else do {
         (Status1, inst2) \<leftarrow> GetDeviceId E inst1;
         if PcdIpmiCheckSelfTestResults E \<and> BmcStatus inst2 \<noteq> BMC_UPDATE_IN_PROGRESS \<and>
            BmcStatus inst2 \<noteq> BMC_HARDFAIL
         then GetSelfTest E [] inst2
         else Some ((Status1, []), inst2)
       }
     }"

subsection \<open>Entry points\<close>

definition SM_IPMI_BMC_SIGNATURE :: u64 where "SM_IPMI_BMC_SIGNATURE = 0x696D7069"

text \<open>The instance as every entry point sets it up: zeroed memory, then the assignments.\<close>

definition new_instance :: "'t gi_env \<Rightarrow> 't \<Rightarrow> 't ipmi_bmc_instance" where
  "new_instance E t =
     \<lparr>Signature = SM_IPMI_BMC_SIGNATURE,
      IpmiTimeoutPeriod =
        of_nat (unat (PcdIpmiCommandTimeoutSeconds E) * 1000000 div IPMI_DELAY_UNIT),
      SlaveAddress = BMC_SLAVE_ADDRESS, TempData = zero_mem MAX_TEMP_DATA,
      BmcStatus = BMC_NOTREADY, ErrorStatus = 0, SoftErrorCount = 0, Port = t\<rparr>"

text \<open>What an entry point leaves behind besides its status: the codes reported, whether the
  transport interface is published, the HOB it built, and the instance (or only the transport,
  when the allocation failed).\<close>

record 't entry_result =
  Reported :: "status_code list"
  Installed :: bool
  NewHob :: "u32 option"
  Instance :: "'t ipmi_bmc_instance option"

text \<open>\<open>DxeGenericIpmiEntry\<close>.  \<open>GuidHob\<close> is the BMC status in the HOB of the PEI phase, if
  there is one; \<open>InstallStatus\<close> what the boot service returns.\<close>

definition DxeGenericIpmiEntry ::
    "'t gi_env \<Rightarrow> bool \<Rightarrow> u32 option \<Rightarrow> efi_status \<Rightarrow> 't \<Rightarrow> (efi_status \<times> 't entry_result) option" where
  "DxeGenericIpmiEntry E AllocOk GuidHob InstallStatus t =
     (if \<not> AllocOk then None
      else do {
        (Status, inst) \<leftarrow> lift_port (env_init E) (new_instance E t);
        if EFI_ERROR Status
        then Some (Status, \<lparr>Reported = [], Installed = False, NewHob = None, Instance = Some inst\<rparr>)
        else do {
          ((Status1, codes), inst1) \<leftarrow>
            (case GuidHob of
               None \<Rightarrow> IpmiInitializeBmc E inst
             | Some b \<Rightarrow> Some ((EFI_SUCCESS, []), inst\<lparr>BmcStatus := b\<rparr>));
          if EFI_ERROR Status1
          then Some (Status1, \<lparr>Reported = codes, Installed = False, NewHob = None,
                               Instance = Some inst1\<rparr>)
          else if BmcStatus inst1 \<noteq> BMC_HARDFAIL \<and> BmcStatus inst1 \<noteq> BMC_UPDATE_IN_PROGRESS then
            (if EFI_ERROR InstallStatus then None
             else Some (EFI_SUCCESS, \<lparr>Reported = codes, Installed = True, NewHob = None,
                                      Instance = Some inst1\<rparr>))
          else Some (EFI_SUCCESS, \<lparr>Reported = codes, Installed = False, NewHob = None,
                                   Instance = Some inst1\<rparr>)
        }
      })"

text \<open>\<open>InitializeSmmGenericIpmi\<close> and \<open>InitializeStandaloneMmGenericIpmi\<close>: the transport
  hardware is not initialised, the BMC state is not looked at, and only the second returns the
  status of the installation.\<close>

definition mm_entry ::
    "'t gi_env \<Rightarrow> bool \<Rightarrow> u32 option \<Rightarrow> efi_status \<Rightarrow> efi_status \<Rightarrow> 't \<Rightarrow>
       (efi_status \<times> 't entry_result) option" where
  "mm_entry E AllocOk GuidHob InstallStatus result t =
     (if \<not> AllocOk then None
      else do {
        let inst = new_instance E t;
        ((Status1, codes), inst1) \<leftarrow>
          (case GuidHob of
             None \<Rightarrow> IpmiInitializeBmc E inst
           | Some b \<Rightarrow> Some ((EFI_SUCCESS, []), inst\<lparr>BmcStatus := b\<rparr>));
        if EFI_ERROR Status1
        then Some (Status1, \<lparr>Reported = codes, Installed = False, NewHob = None,
                             Instance = Some inst1\<rparr>)
        else if EFI_ERROR InstallStatus then None
        else Some (result, \<lparr>Reported = codes, Installed = True, NewHob = None,
                            Instance = Some inst1\<rparr>)
      })"

definition InitializeSmmGenericIpmi ::
    "'t gi_env \<Rightarrow> bool \<Rightarrow> u32 option \<Rightarrow> efi_status \<Rightarrow> 't \<Rightarrow> (efi_status \<times> 't entry_result) option" where
  "InitializeSmmGenericIpmi E AllocOk GuidHob InstallStatus t =
     mm_entry E AllocOk GuidHob InstallStatus EFI_SUCCESS t"

definition InitializeStandaloneMmGenericIpmi ::
    "'t gi_env \<Rightarrow> bool \<Rightarrow> u32 option \<Rightarrow> efi_status \<Rightarrow> 't \<Rightarrow> (efi_status \<times> 't entry_result) option" where
  "InitializeStandaloneMmGenericIpmi E AllocOk GuidHob InstallStatus t =
     mm_entry E AllocOk GuidHob InstallStatus InstallStatus t"

text \<open>\<open>PeimIpmiInterfaceInit\<close>, first execution (\<open>PeiServicesRegisterForShadow\<close> succeeded).\<close>

definition PeimIpmiInterfaceInit_first ::
    "'t gi_env \<Rightarrow> bool \<Rightarrow> bool \<Rightarrow> efi_status \<Rightarrow> 't \<Rightarrow> (efi_status \<times> 't entry_result) option" where
  "PeimIpmiInterfaceInit_first E AllocOk HobOk InstallStatus t =
     (if \<not> AllocOk
      then Some (EFI_OUT_OF_RESOURCES, \<lparr>Reported = [], Installed = False, NewHob = None,
                                        Instance = None\<rparr>)
      else do {
        (Status, inst) \<leftarrow> lift_port (env_init E) (new_instance E t);
        if EFI_ERROR Status
        then Some (Status, \<lparr>Reported = [], Installed = False, NewHob = None, Instance = Some inst\<rparr>)
        else do {
          ((_, codes), inst1) \<leftarrow> IpmiInitializeBmc E inst;
          let b = BmcStatus inst1;
          if \<not> HobOk
          then Some (EFI_OUT_OF_RESOURCES, \<lparr>Reported = codes, Installed = False, NewHob = None,
                                            Instance = Some inst1\<rparr>)
          else if b = BMC_UPDATE_IN_PROGRESS \<or> b = BMC_HARDFAIL
          then Some (EFI_UNSUPPORTED, \<lparr>Reported = codes, Installed = False, NewHob = Some b,
                                       Instance = Some inst1\<rparr>)
          else Some (if EFI_ERROR InstallStatus then InstallStatus else EFI_SUCCESS,
                     \<lparr>Reported = codes, Installed = \<not> EFI_ERROR InstallStatus, NewHob = Some b,
                      Instance = Some inst1\<rparr>)
        }
      })"

text \<open>
  The second execution, from permanent memory: the memory pool HOBs in order, each with its
  \<open>HobLength\<close> and the instance that its data would be; \<open>hob_size\<close> is
  \<open>sizeof (EFI_HOB_MEMORY_POOL)\<close>.  The result names the instance whose PPI is reinstalled.
  The subtraction is in the unsigned type of \<open>sizeof\<close>.
\<close>

fun find_shadow ::
    "u64 \<Rightarrow> (u16 \<times> 't ipmi_bmc_instance) list \<Rightarrow> 't ipmi_bmc_instance option" where
  "find_shadow hob_size [] = None"
| "find_shadow hob_size ((HobLength, inst) # hobs) =
     (if ucast HobLength - hob_size \<ge> 8 \<and> Signature inst = SM_IPMI_BMC_SIGNATURE then Some inst
      else find_shadow hob_size hobs)"

definition PeimIpmiInterfaceInit ::
    "'t gi_env \<Rightarrow> efi_status \<Rightarrow> bool \<Rightarrow> bool \<Rightarrow> efi_status \<Rightarrow> efi_status \<Rightarrow> u64 \<Rightarrow>
       (u16 \<times> 't ipmi_bmc_instance) list \<Rightarrow> 't \<Rightarrow> (efi_status \<times> 't entry_result) option" where
  "PeimIpmiInterfaceInit E ShadowStatus AllocOk HobOk InstallStatus LocateStatus hob_size hobs t =
     (if \<not> EFI_ERROR ShadowStatus then PeimIpmiInterfaceInit_first E AllocOk HobOk InstallStatus t
      else if ShadowStatus = EFI_ALREADY_STARTED \<and> \<not> EFI_ERROR LocateStatus
      then Some (EFI_SUCCESS, \<lparr>Reported = [], Installed = False, NewHob = None,
                               Instance = find_shadow hob_size hobs\<rparr>)
      else Some (EFI_SUCCESS, \<lparr>Reported = [], Installed = False, NewHob = None,
                               Instance = None\<rparr>))"

section \<open>What the initialisation guarantees\<close>

definition env_ok :: "'t gi_env \<Rightarrow> bool" where
  "env_ok E \<longleftrightarrow> transport (env_send E) (env_recv E) \<and> 0 < PcdIpmiCommandMaxReties E \<and>
     (\<forall>P d n t. env_send E P d n t \<noteq> None) \<and> (\<forall>P b n t. env_recv E P b n t \<noteq> None) \<and>
     (\<forall>t. PlatformIpmiInitialize E t \<noteq> None)"

lemma bmc_status_distinct [simp]:
  "BMC_OK \<noteq> BMC_SOFTFAIL" "BMC_OK \<noteq> BMC_HARDFAIL" "BMC_OK \<noteq> BMC_UPDATE_IN_PROGRESS"
  "BMC_SOFTFAIL \<noteq> BMC_OK" "BMC_SOFTFAIL \<noteq> BMC_HARDFAIL" "BMC_SOFTFAIL \<noteq> BMC_UPDATE_IN_PROGRESS"
  "BMC_HARDFAIL \<noteq> BMC_OK" "BMC_HARDFAIL \<noteq> BMC_SOFTFAIL" "BMC_HARDFAIL \<noteq> BMC_UPDATE_IN_PROGRESS"
  "BMC_UPDATE_IN_PROGRESS \<noteq> BMC_OK" "BMC_UPDATE_IN_PROGRESS \<noteq> BMC_SOFTFAIL"
  "BMC_UPDATE_IN_PROGRESS \<noteq> BMC_HARDFAIL"
  by (simp_all add: bmc_status_defs)

lemma env_okD:
  assumes "env_ok E"
  shows "transport (env_send E) (env_recv E)" "0 < PcdIpmiCommandMaxReties E"
    "\<exists>x. env_send E P d n t = Some x" "\<exists>x. env_recv E P b n t = Some x"
    "\<exists>x. PlatformIpmiInitialize E t = Some x"
  using assms by (auto simp: env_ok_def)

lemma inst_ok_update [simp]:
  "inst_ok (inst\<lparr>BmcStatus := b\<rparr>) = inst_ok inst"
  "inst_ok (inst\<lparr>Port := p\<rparr>) = inst_ok inst"
  "inst_ok (inst\<lparr>ErrorStatus := s\<rparr>) = inst_ok inst"
  "inst_ok (MicroSecondDelay E us inst) = inst_ok inst"
  "inst_ok (store_error_status ds inst) = inst_ok inst"
  by (simp_all add: inst_ok_def MicroSecondDelay_def store_error_status_def)

lemma query_total:
  assumes "env_ok E" "inst_ok inst"
  shows "\<exists>Status DataSize1 inst1. query E nf c DataSize inst = Some ((Status, DataSize1), inst1) \<and>
           inst_ok inst1"
proof -
  obtain st R sz inst1 where run: "IpmiSendCommandInternal (env_hdr E) (env_send E) (env_recv E)
      (PcdIpmiCommandMaxReties E) (netfn_of (env_hdr E) nf) 0 (cmd_of (env_hdr E) c) None 0
      RespTemp (Some (ucast DataSize)) inst = Some ((st, R, sz), inst1)"
    using internal_returns [where send = "env_send E" and recv = "env_recv E" and cnt = "\<lambda>_. 0",
        OF env_okD(3,4) [OF assms(1)]]
      env_okD(2) [OF assms(1)]
    by (metis (no_types, lifting) le0 prod.exhaust)
  have "inst_ok inst1"
    using transport.internal_temp [OF env_okD(1) [OF assms(1)] run assms(2)] by simp
  then show ?thesis
    using run by (simp add: query_def IpmiSendCommand_def)
qed


lemma GetSelfTest_loop_total:
  assumes "env_ok E" "inst_ok inst"
  shows "\<exists>Status r ds inst1. GetSelfTest_loop E Retries DataSize inst = Some ((Status, r, ds), inst1) \<and>
     inst_ok inst1 \<and> (r \<noteq> 0 \<longrightarrow> Status = EFI_SUCCESS \<and>
       self_test_known (env_hdr E) (fget8 (env_hdr E) 0 SelfTest_Result (TempData inst1)))"
  using assms
proof (induction E Retries DataSize inst rule: GetSelfTest_loop.induct)
  case (1 E Retries DataSize inst)
  obtain Status ds inst1 where q: "inst_ok inst1"
    "query E IPMI_NETFN_APP IPMI_APP_GET_SELFTEST_RESULTS DataSize inst = Some ((Status, ds), inst1)"
    using query_total [OF 1(2,3)] by blast
  let ?known = "Status = EFI_SUCCESS \<and>
    self_test_known (env_hdr E) (fget8 (env_hdr E) 0 SelfTest_Result (TempData inst1))"
  show ?case
  proof (cases "?known \<or> \<not> Retries - 1 > 0")
    case True
    then show ?thesis
      using q by (auto simp: GetSelfTest_loop.simps [of E Retries DataSize inst] word_gt_0)
  next
    case False
    then show ?thesis
      using q 1 by (simp add: GetSelfTest_loop.simps [of E Retries DataSize inst])
  qed
qed

lemma GetDeviceId_loop_total:
  assumes "env_ok E" "inst_ok inst"
  shows "\<exists>Status ds inst1. GetDeviceId_loop E r DataSize inst = Some ((Status, ds), inst1) \<and>
     inst_ok inst1 \<and> (EFI_ERROR Status \<longrightarrow> BmcStatus inst1 = BMC_HARDFAIL)"
  using assms(2)
proof (induction r arbitrary: DataSize inst)
  case 0
  show ?case
    using query_total [OF assms(1) 0, of IPMI_NETFN_APP IPMI_APP_GET_DEVICE_ID DataSize]
    by (auto simp: GetDeviceId_loop.simps)
next
  case (Suc r)
  obtain Status ds inst1 where q: "inst_ok inst1"
    "query E IPMI_NETFN_APP IPMI_APP_GET_DEVICE_ID DataSize inst = Some ((Status, ds), inst1)"
    using query_total [OF assms(1) Suc(2)] by blast
  then show ?case
    using Suc(1) [of "MicroSecondDelay E 1000000 inst1" ds]
    by (auto simp: GetDeviceId_loop.simps [of E "Suc r" DataSize inst])
qed

lemma UpdateMode_loop_total:
  assumes "env_ok E" "inst_ok inst"
  shows "\<exists>Status1 inst1. UpdateMode_loop E r Status DataSize inst = Some (Status1, inst1) \<and>
     inst_ok inst1 \<and> (BmcStatus inst1 = BMC_HARDFAIL \<or>
       BmcStatus inst1 = BMC_OK \<and> Status1 = EFI_SUCCESS)"
  using assms(2)
proof (induction r arbitrary: Status DataSize inst)
  case 0
  then show ?case by simp
next
  case (Suc r)
  obtain Status1 ds inst1 where q: "inst_ok inst1"
    "query E IPMI_NETFN_APP IPMI_APP_GET_DEVICE_ID DataSize (MicroSecondDelay E 1000000 inst) =
       Some ((Status1, ds), inst1)"
    using query_total [OF assms(1)] Suc(2) by (metis inst_ok_update(4))
  then show ?case
    using Suc(1) [of inst1 Status1 ds] by auto
qed

lemma GetDeviceId_total:
  assumes "env_ok E" "inst_ok inst"
  shows "\<exists>Status inst1. GetDeviceId E inst = Some (Status, inst1) \<and> inst_ok inst1 \<and>
     (BmcStatus inst1 = BMC_HARDFAIL \<or>
      BmcStatus inst1 \<in> {BMC_OK, BMC_UPDATE_IN_PROGRESS} \<and> \<not> EFI_ERROR Status)"
proof -
  obtain Status ds inst1 where l: "inst_ok inst1"
    "GetDeviceId_loop E (unat (PcdIpmiBmcReadyDelayTimer E)) (of_nat MAX_TEMP_DATA) inst =
       Some ((Status, ds), inst1)" "EFI_ERROR Status \<longrightarrow> BmcStatus inst1 = BMC_HARDFAIL"
    using GetDeviceId_loop_total [OF assms] by blast
  obtain Status1 ds1 inst2 where q: "inst_ok inst2"
    "query E IPMI_NETFN_FIRMWARE IPMI_GET_BMC_EXECUTION_CONTEXT ds inst1 =
       Some ((Status1, ds1), inst2)"
    using query_total [OF assms(1) l(1)] by blast
  show ?thesis
    using l q UpdateMode_loop_total [OF assms(1) q(1), of "unat (PcdIpmiBmcReadyDelayTimer E)"
        Status1 ds1]
    by (auto simp: GetDeviceId_def)
qed

lemma length_add_code [simp]:
  "length codes \<le> unat MAX_SOFT_COUNT \<Longrightarrow> length (add_code c codes) \<le> unat MAX_SOFT_COUNT"
  by (simp add: add_code_def)

lemma classify_known:
  assumes "self_test_known (env_hdr E) (fget8 (env_hdr E) 0 SelfTest_Result (TempData inst))"
    and "length codes \<le> unat MAX_SOFT_COUNT" "classify_self_test E codes inst = (codes1, inst1)"
  shows "length codes1 \<le> unat MAX_SOFT_COUNT \<and> inst_ok inst1 = inst_ok inst \<and>
    BmcStatus inst1 \<in> {BMC_OK, BMC_SOFTFAIL, BMC_HARDFAIL}"
  using assms
  by (auto simp: classify_self_test_def self_test_known_def Let_def split: if_splits)

lemma GetSelfTest_total:
  assumes "env_ok E" "inst_ok inst" "length codes \<le> unat MAX_SOFT_COUNT"
  shows "\<exists>Status codes1 inst1. GetSelfTest E codes inst = Some ((Status, codes1), inst1) \<and>
     inst_ok inst1 \<and> length codes1 \<le> unat MAX_SOFT_COUNT \<and>
     BmcStatus inst1 \<in> {BMC_OK, BMC_SOFTFAIL, BMC_HARDFAIL} \<and>
     (EFI_ERROR Status \<longrightarrow> BmcStatus inst1 = BMC_HARDFAIL)"
proof -
  let ?inst = "inst\<lparr>TempData := poke (TempData inst) 1 0\<rparr>"
  let ?r = "if PcdIpmiBmcReadyDelayTimer E < PcdBmcTimeoutSeconds E then 1
            else ucast (PcdIpmiBmcReadyDelayTimer E)"
  have "inst_ok ?inst" using assms(2) by (simp add: inst_ok_def size_defs mem_simps)
  then obtain Status r ds inst1 where l: "inst_ok inst1"
    "GetSelfTest_loop E ?r (of_nat MAX_TEMP_DATA) ?inst = Some ((Status, r, ds), inst1)"
    "r \<noteq> 0 \<Longrightarrow> Status = EFI_SUCCESS \<and>
       self_test_known (env_hdr E) (fget8 (env_hdr E) 0 SelfTest_Result (TempData inst1))"
    using GetSelfTest_loop_total [OF assms(1)] by blast
  show ?thesis
  proof (cases "EFI_ERROR Status \<or> r = 0")
    case True
    then show ?thesis using l(1,2) assms(3) by (simp add: GetSelfTest_def)
  next
    case False
    obtain codes1 inst2 where
      c: "classify_self_test E codes (store_error_status ds inst1) = (codes1, inst2)"
      by fastforce
    have known: "self_test_known (env_hdr E)
        (fget8 (env_hdr E) 0 SelfTest_Result (TempData (store_error_status ds inst1)))"
      using l(3) False by (simp add: store_error_status_def)
    show ?thesis
      using False l(1,2) c classify_known [OF known assms(3) c]
      by (auto simp: GetSelfTest_def)
  qed
qed


lemma initialize_total:
  assumes "env_ok E" "inst_ok inst"
  shows "\<exists>Status codes inst1. IpmiInitializeBmc E inst = Some ((Status, codes), inst1) \<and>
     inst_ok inst1 \<and> length codes \<le> unat MAX_SOFT_COUNT \<and>
     (BmcStatus inst1 \<in> {BMC_OK, BMC_SOFTFAIL, BMC_HARDFAIL, BMC_UPDATE_IN_PROGRESS} \<and>
        (EFI_ERROR Status \<longrightarrow> BmcStatus inst1 = BMC_HARDFAIL) \<or>
      BmcStatus inst1 = BmcStatus inst \<and> codes = [] \<and> EFI_ERROR Status \<and>
        fst (the (PlatformIpmiInitialize E (Port inst))) = Status)"
proof -
  obtain Status t where p: "PlatformIpmiInitialize E (Port inst) = Some (Status, t)"
    using env_okD(5) [OF assms(1)] by (metis surj_pair)
  let ?inst = "inst\<lparr>Port := t\<rparr>"
  obtain Status1 inst1 where d: "GetDeviceId E ?inst = Some (Status1, inst1)" "inst_ok inst1"
    "BmcStatus inst1 = BMC_HARDFAIL \<or>
      BmcStatus inst1 \<in> {BMC_OK, BMC_UPDATE_IN_PROGRESS} \<and> \<not> EFI_ERROR Status1"
    using GetDeviceId_total [OF assms(1), of ?inst] assms(2) by auto
  consider "EFI_ERROR Status"
    | "\<not> EFI_ERROR Status" "PcdIpmiCheckSelfTestResults E"
      "BmcStatus inst1 \<notin> {BMC_UPDATE_IN_PROGRESS, BMC_HARDFAIL}"
    | "\<not> EFI_ERROR Status"
      "\<not> PcdIpmiCheckSelfTestResults E \<or> BmcStatus inst1 \<in> {BMC_UPDATE_IN_PROGRESS, BMC_HARDFAIL}"
    by blast
  then show ?thesis
  proof cases
    case 1
    then show ?thesis using p assms(2) by (simp add: IpmiInitializeBmc_def lift_port_def)
  next
    case 2
    then show ?thesis
      using p d(1) GetSelfTest_total [OF assms(1) d(2), of "[]"]
      by (auto simp: IpmiInitializeBmc_def lift_port_def)
  next
    case 3
    then show ?thesis using p d by (auto simp: IpmiInitializeBmc_def lift_port_def)
  qed
qed

text \<open>A platform made of the null libraries of the repository, with the PCD defaults.\<close>

definition null_env :: "'t gi_env" where
  "null_env = \<lparr>env_hdr = ipmi_v2, env_send = SendDataToBmcPort_Null,
     env_recv = ReceiveBmcDataFromPort_Null, env_init = InitializeIpmiTransportHardware_Null,
     env_delay = (\<lambda>_ t. t), PlatformIpmiInitialize = PlatformIpmiInitialize_Null,
     GetDeviceSpecificTestResults = GetDeviceSpecificTestResults_Null,
     PcdIpmiCommandMaxReties = 3, PcdIpmiBmcReadyDelayTimer = 120, PcdBmcTimeoutSeconds = 30,
     PcdIpmiCommandTimeoutSeconds = 5, PcdIpmiCheckSelfTestResults = False\<rparr>"

lemma env_ok_null [simp]: "env_ok null_env"
  using null_transport.transport_axioms
  by (auto simp: env_ok_def null_env_def transport_null_defs PlatformIpmiInitialize_Null_def)

lemma new_instance_port [simp]:
  "Port (new_instance E t) = t" "(new_instance E t)\<lparr>Port := u\<rparr> = new_instance E u"
  by (simp_all add: new_instance_def)

lemma inst_ok_new [simp]: "inst_ok (new_instance E t)"
  by (simp add: inst_ok_def new_instance_def)

text \<open>C11 Initialisation over a platform whose transport is lawful and returns: it always
  returns, keeps \<open>TempData\<close> in shape, reports at most \<open>MAX_SOFT_COUNT\<close> codes and, when the
  platform part succeeds, decides the state of the BMC: OK, failing softly or hard, or updating.
  An error status goes with a hard failure.\<close>

theorem IpmiInitializeBmc_decides:
  assumes "env_ok E" "inst_ok inst"
  shows "\<exists>Status codes inst1. IpmiInitializeBmc E inst = Some ((Status, codes), inst1) \<and>
     inst_ok inst1 \<and> length codes \<le> unat MAX_SOFT_COUNT \<and>
     (BmcStatus inst1 \<in> {BMC_OK, BMC_SOFTFAIL, BMC_HARDFAIL, BMC_UPDATE_IN_PROGRESS} \<and>
        (EFI_ERROR Status \<longrightarrow> BmcStatus inst1 = BMC_HARDFAIL) \<or>
      BmcStatus inst1 = BmcStatus inst \<and> codes = [] \<and> EFI_ERROR Status \<and>
        fst (the (PlatformIpmiInitialize E (Port inst))) = Status)"
  using assms by (rule initialize_total)

theorem IpmiInitializeBmc_decides_witness:
  "\<exists>Status codes inst1. IpmiInitializeBmc null_env (new_instance null_env ()) =
       Some ((Status, codes), inst1) \<and>
     inst_ok inst1 \<and> length codes \<le> unat MAX_SOFT_COUNT \<and>
     (BmcStatus inst1 \<in> {BMC_OK, BMC_SOFTFAIL, BMC_HARDFAIL, BMC_UPDATE_IN_PROGRESS} \<and>
        (EFI_ERROR Status \<longrightarrow> BmcStatus inst1 = BMC_HARDFAIL) \<or>
      BmcStatus inst1 = BmcStatus (new_instance null_env ()) \<and> codes = [] \<and> EFI_ERROR Status \<and>
        fst (the (PlatformIpmiInitialize null_env (Port (new_instance null_env ())))) = Status)"
  by (rule IpmiInitializeBmc_decides [of null_env "new_instance null_env ()"]) simp_all

text \<open>The device specific results of the platform library are never asked for: the loop
  leaves with a result only for the four results the specification names, so the outcome of
  \<open>GetSelfTest\<close> is the same for every platform routine.\<close>

theorem GetSelfTest_never_device_specific:
  assumes "env_ok E" "inst_ok inst"
  shows "GetSelfTest (E\<lparr>GetDeviceSpecificTestResults := f\<rparr>) codes inst = GetSelfTest E codes inst"
proof -
  let ?F = "E\<lparr>GetDeviceSpecificTestResults := f\<rparr>"
  have q: "query ?F nf c ds i = query E nf c ds i" for nf c ds i
    by (simp add: query_def)
  have loop: "GetSelfTest_loop ?F r ds i = GetSelfTest_loop E r ds i" for r ds i
  proof (induction E r ds i rule: GetSelfTest_loop.induct)
    case (1 E r ds i)
    then show ?case
      by (subst (1 2) GetSelfTest_loop.simps)
        (auto simp: query_def MicroSecondDelay_def Let_def split: option.splits)
  qed
  let ?inst = "inst\<lparr>TempData := poke (TempData inst) 1 0\<rparr>"
  let ?r = "if PcdIpmiBmcReadyDelayTimer E < PcdBmcTimeoutSeconds E then 1
            else ucast (PcdIpmiBmcReadyDelayTimer E)"
  have "inst_ok ?inst" using assms(2) by (simp add: inst_ok_def size_defs mem_simps)
  then obtain Status r ds inst1 where l:
    "GetSelfTest_loop E ?r (of_nat MAX_TEMP_DATA) ?inst = Some ((Status, r, ds), inst1)"
    "r \<noteq> 0 \<Longrightarrow> self_test_known (env_hdr E)
        (fget8 (env_hdr E) 0 SelfTest_Result (TempData inst1))"
    using GetSelfTest_loop_total [OF assms(1)] by blast
  have "r \<noteq> 0 \<Longrightarrow> classify_self_test ?F codes (store_error_status ds inst1) =
      classify_self_test E codes (store_error_status ds inst1)"
    using l(2) by (auto simp: classify_self_test_def store_error_status_def self_test_known_def Let_def)
  then show ?thesis
    using l(1)
    by (cases "r = 0"; cases "PcdIpmiBmcReadyDelayTimer E < PcdBmcTimeoutSeconds E")
      (simp_all add: GetSelfTest_def loop)
qed

text \<open>With the constants of the IPMI specification, a self test that reports an error is a
  hard failure whatever its second byte says, and an empty SDR repository is never reported:
  the bits are looked up in the result code instead of in the byte that holds them.\<close>

theorem self_test_error_always_hard:
  assumes "env_hdr E = ipmi_v2" "length (TempData inst) = 255"
    and "fget8 ipmi_v2 0 SelfTest_Result (TempData inst) = val_of ipmi_v2 IPMI_APP_SELFTEST_ERROR"
  shows "classify_self_test E codes inst = (codes, inst\<lparr>BmcStatus := BMC_HARDFAIL\<rparr>)"
proof -
  obtain a b cs where T: "TempData inst = a # b # cs"
    using assms(2) by (cases "TempData inst"; cases "tl (TempData inst)") auto
  have "drop_bit 8 (unat a + 256 * le_nat (b # cs)) = le_nat (b # cs)"
    using u8_bound [of a] by (simp add: drop_bit_eq_div)
  moreover have "take_bit 8 (unat b + 256 * le_nat cs) = unat b"
    using u8_bound [of b] by (simp add: take_bit_eq_mod)
  ultimately have "fget8 ipmi_v2 0 SelfTest_Result (TempData inst) = b"
    by (simp add: T fget8_def fget_def bits_get_def)
  then have "b = 0x57" using assms(3) by simp
  then show ?thesis
    using assms by (simp add: classify_self_test_def Let_def T)
qed

theorem self_test_error_always_hard_witness:
  "classify_self_test null_env []
     ((new_instance null_env ())\<lparr>TempData := 0 # 0x57 # replicate 253 0\<rparr>) =
   ([], (new_instance null_env ())\<lparr>TempData := 0 # 0x57 # replicate 253 0,
          BmcStatus := BMC_HARDFAIL\<rparr>)"
proof -
  have "drop_bit 8 (le_nat (0 # 0x57 # replicate 253 0)) = 0x57"
    by (simp add: drop_bit_eq_div)
  then have "fget8 ipmi_v2 0 SelfTest_Result (0 # 0x57 # replicate 253 0) = 0x57"
    by (simp add: fget8_def fget_def bits_get_def)
  then show ?thesis
    by (subst self_test_error_always_hard) (simp_all add: null_env_def)
qed

theorem GetSelfTest_never_device_specific_witness:
  "GetSelfTest (null_env\<lparr>GetDeviceSpecificTestResults := \<lambda>_ _. BMC_OK\<rparr>) []
     (new_instance null_env ()) = GetSelfTest null_env [] (new_instance null_env ())"
  by (rule GetSelfTest_never_device_specific) simp_all

text \<open>C12 Hand-over from PEI to DXE and SMM: a PEI run that built its HOB has initialised an instance,
  and the state it left that instance in, whichever of the four it is, is the state the DXE and the
  SMM driver start from.  Neither of them sends a command to the BMC or reports a code: their
  instances are new ones but for that state.  PEI publishes its PPI, and DXE its protocol, exactly
  when the BMC has not failed hard and is not being updated, and PEI ends with EFI_UNSUPPORTED
  otherwise; the SMM driver publishes its protocol in every state of the BMC.\<close>

theorem pei_dxe_smm_handoff:
  assumes "PeimIpmiInterfaceInit_first E True True EFI_SUCCESS t = Some (s, r)"
    and "NewHob r \<noteq> None" and "env_init E u = Some (EFI_SUCCESS, u')"
  shows "\<exists>st0 t' st codes inst rd rs.
    env_init E t = Some (st0, t') \<and> IpmiInitializeBmc E (new_instance E t') = Some ((st, codes), inst) \<and>
    Instance r = Some inst \<and> Reported r = codes \<and>
    (Installed r \<longleftrightarrow> BmcStatus inst \<noteq> BMC_HARDFAIL \<and> BmcStatus inst \<noteq> BMC_UPDATE_IN_PROGRESS) \<and>
    s = (if Installed r then EFI_SUCCESS else EFI_UNSUPPORTED) \<and>
    DxeGenericIpmiEntry E True (NewHob r) EFI_SUCCESS u = Some (EFI_SUCCESS, rd) \<and>
    Instance rd = Some ((new_instance E u')\<lparr>BmcStatus := BmcStatus inst\<rparr>) \<and> Reported rd = [] \<and>
    Installed rd = Installed r \<and>
    InitializeSmmGenericIpmi E True (NewHob r) EFI_SUCCESS u = Some (EFI_SUCCESS, rs) \<and>
    Instance rs = Some ((new_instance E u)\<lparr>BmcStatus := BmcStatus inst\<rparr>) \<and> Reported rs = [] \<and> Installed rs"
proof -
  have port: "new_instance E v\<lparr>Port := w\<rparr> = new_instance E w" "Port (new_instance E v) = v" for v w
    by (simp_all add: new_instance_def)
  obtain st0 t' where init: "env_init E t = Some (st0, t')"
    using assms(1) by (cases "env_init E t") (auto simp: PeimIpmiInterfaceInit_first_def lift_port_def port)
  have "\<not> EFI_ERROR st0"
    using assms(1,2) by (auto simp: PeimIpmiInterfaceInit_first_def lift_port_def port init)
  moreover from this obtain st codes inst where run: "IpmiInitializeBmc E (new_instance E t') = Some ((st, codes), inst)"
    using assms(1) by (cases "IpmiInitializeBmc E (new_instance E t')")
      (auto simp: PeimIpmiInterfaceInit_first_def lift_port_def port init)
  ultimately have pei: "Instance r = Some inst" "Reported r = codes" "NewHob r = Some (BmcStatus inst)"
      "Installed r \<longleftrightarrow> BmcStatus inst \<noteq> BMC_HARDFAIL \<and> BmcStatus inst \<noteq> BMC_UPDATE_IN_PROGRESS"
      "s = (if Installed r then EFI_SUCCESS else EFI_UNSUPPORTED)"
    using assms(1) by (auto simp: PeimIpmiInterfaceInit_first_def lift_port_def port init Let_def split: if_splits)
  then show ?thesis
    using init run assms(3)
    by (simp add: DxeGenericIpmiEntry_def InitializeSmmGenericIpmi_def mm_entry_def lift_port_def port Let_def)
qed

theorem pei_dxe_smm_handoff_witness:
  "\<exists>s r st codes inst rd rs.
    PeimIpmiInterfaceInit_first null_env True True EFI_SUCCESS () = Some (s, r) \<and>
    IpmiInitializeBmc null_env (new_instance null_env ()) = Some ((st, codes), inst) \<and> Instance r = Some inst \<and>
    DxeGenericIpmiEntry null_env True (NewHob r) EFI_SUCCESS () = Some (EFI_SUCCESS, rd) \<and>
    Instance rd = Some ((new_instance null_env ())\<lparr>BmcStatus := BmcStatus inst\<rparr>) \<and>
    InitializeSmmGenericIpmi null_env True (NewHob r) EFI_SUCCESS () = Some (EFI_SUCCESS, rs) \<and>
    Instance rs = Some ((new_instance null_env ())\<lparr>BmcStatus := BmcStatus inst\<rparr>) \<and> Installed rs"
proof -
  have init: "env_init null_env () = Some (EFI_SUCCESS, ())"
    by (simp add: null_env_def transport_null_defs)
  obtain Status codes inst1 where run:
    "IpmiInitializeBmc null_env (new_instance null_env ()) = Some ((Status, codes), inst1)"
    using initialize_total [of null_env "new_instance null_env ()"] by auto
  obtain s r where pei: "PeimIpmiInterfaceInit_first null_env True True EFI_SUCCESS () = Some (s, r)" "NewHob r \<noteq> None"
    using init run by (cases "BmcStatus inst1 = BMC_UPDATE_IN_PROGRESS \<or> BmcStatus inst1 = BMC_HARDFAIL")
      (simp_all add: PeimIpmiInterfaceInit_first_def lift_port_def Let_def)
  from pei_dxe_smm_handoff [OF pei init] show ?thesis using pei(1) by (auto simp: run)
qed

section \<open>The life of an instance\<close>

text \<open>
  The instance as a state machine: its clients send commands through the protocol, with a buffer
  for the response or without one, and ask for the BMC status, in any order.
\<close>

inductive bmc_step :: "'t gi_env \<Rightarrow> 't ipmi_bmc_instance \<Rightarrow> 't ipmi_bmc_instance \<Rightarrow> bool"
  for E :: "'t gi_env" where
  command: "IpmiSendCommand (env_hdr E) (env_send E) (env_recv E) (PcdIpmiCommandMaxReties E)
      nf lun c d n (RespCaller m) (Some w) inst = Some (res, inst') \<Longrightarrow> unat n \<le> 253 \<Longrightarrow>
      bmc_step E inst inst'"
| command_only: "IpmiSendCommand (env_hdr E) (env_send E) (env_recv E) (PcdIpmiCommandMaxReties E)
      nf lun c d n RespNull None inst = Some (res, inst') \<Longrightarrow> unat n \<le> 253 \<Longrightarrow>
      bmc_step E inst inst'"
| status: "IpmiGetBmcStatus inst = (res, inst') \<Longrightarrow> bmc_step E inst inst'"

inductive_cases bmc_stepE: "bmc_step E inst inst'"


text \<open>What a step keeps of the instance besides the shape of \<open>TempData\<close>.\<close>

definition same_setup :: "'t ipmi_bmc_instance \<Rightarrow> 't ipmi_bmc_instance \<Rightarrow> bool" where
  "same_setup i j \<longleftrightarrow> Signature j = Signature i \<and> IpmiTimeoutPeriod j = IpmiTimeoutPeriod i \<and>
     SlaveAddress j = SlaveAddress i \<and> ErrorStatus j = ErrorStatus i"

definition status_kept :: "'t ipmi_bmc_instance \<Rightarrow> 't ipmi_bmc_instance \<Rightarrow> bool" where
  "status_kept i j \<longleftrightarrow> BmcStatus j = BmcStatus i \<or> BmcStatus j \<in> {BMC_OK, BMC_SOFTFAIL}"

lemmas kept_defs = same_setup_def status_kept_def

lemma kept_refl [simp]: "same_setup i i" "status_kept i i"
  by (simp_all add: kept_defs)












subsection \<open>From soft failures to a hard failure\<close>

text \<open>\<open>k\<close> calls in a row.\<close>

primrec repeat_call ::
    "nat \<Rightarrow> ('t ipmi_bmc_instance, 'a) op \<Rightarrow> 't ipmi_bmc_instance \<Rightarrow> 't ipmi_bmc_instance option" where
  "repeat_call 0 f inst = Some inst"
| "repeat_call (Suc k) f inst =
     do { inst1 \<leftarrow> repeat_call k f inst; (_, inst2) \<leftarrow> f inst1; Some inst2 }"

text \<open>C13 A BMC that stops taking messages is reported as failing hard after ten failed calls, but
  the eight bit counter wraps: after 256 calls the count starts again and the status query reports
  a soft failure.\<close>

theorem soft_failures_escalate:
  assumes fail: "\<And>P d n t. send P d n t = Some (st, t)" "st \<noteq> EFI_SUCCESS"
    and "0 < r" "SoftErrorCount inst = 0" "0 < k"
  shows "\<exists>inst'. repeat_call k (IpmiSendCommandInternal M send recv r nf lun c d 0 RespNull None) inst =
      Some inst' \<and>
    fst (snd (fst (IpmiGetBmcStatus inst'))) =
      (if k mod 256 \<ge> 10 then BMC_HARDFAIL else BMC_SOFTFAIL)"
proof -
  obtain r' where r: "unat r = Suc r'"
    using assms(3) by (metis gr0_conv_Suc unat_gt_0 word_gt_0)
  let ?f = "IpmiSendCommandInternal M send recv r nf lun c d 0 RespNull None"
  have one: "\<exists>res T. ?f i = Some (res, soft_fail (i\<lparr>TempData := T\<rparr>))" for i
    by (simp add: IpmiSendCommandInternal_def r SendCommand_pass_def fail finish_call_def Let_def)
      (auto simp: soft_fail_def)
  have "\<exists>i. repeat_call k ?f inst = Some i \<and> SoftErrorCount i = of_nat k \<and>
      (0 < k \<longrightarrow> BmcStatus i = BMC_SOFTFAIL)" for k
  proof (induction k)
    case 0
    then show ?case using assms(4) by simp
  next
    case (Suc k)
    then obtain i where "repeat_call k ?f inst = Some i" "SoftErrorCount i = of_nat k" by auto
    then show ?case using one [of i] by (auto simp: soft_fail_def)
  qed
  then obtain i where i: "repeat_call k ?f inst = Some i" "SoftErrorCount i = of_nat k"
    "BmcStatus i = BMC_SOFTFAIL"
    using assms(5) by blast
  have "MAX_SOFT_COUNT \<le> (of_nat k :: u8) \<longleftrightarrow> 10 \<le> k mod 256"
    by (simp add: MAX_SOFT_COUNT_def word_le_nat_alt unat_of_nat)
  then show ?thesis
    using i by (auto simp: IpmiGetBmcStatus_def IpmiBmcStatus_def Let_def)
qed

theorem soft_failures_escalate_witness:
  "(\<exists>inst'. repeat_call 255 (IpmiSendCommandInternal ipmi_v2 (\<lambda>_ _ _ t. Some (EFI_TIMEOUT, t))
        ReceiveBmcDataFromPort_Null 3 6 0 1 None 0 RespNull None) (new_instance null_env ()) = Some inst' \<and>
      fst (snd (fst (IpmiGetBmcStatus inst'))) = (if 255 mod 256 \<ge> (10 :: nat) then BMC_HARDFAIL
        else BMC_SOFTFAIL)) \<and>
   (\<exists>inst'. repeat_call 256 (IpmiSendCommandInternal ipmi_v2 (\<lambda>_ _ _ t. Some (EFI_TIMEOUT, t))
        ReceiveBmcDataFromPort_Null 3 6 0 1 None 0 RespNull None) (new_instance null_env ()) = Some inst' \<and>
      fst (snd (fst (IpmiGetBmcStatus inst'))) = (if 256 mod 256 \<ge> (10 :: nat) then BMC_HARDFAIL
        else BMC_SOFTFAIL))"
  by (intro conjI soft_failures_escalate [where st = EFI_TIMEOUT]) (simp_all add: new_instance_def)

end
