(* ===== verification/Transport_Kcs.thy ===== *)
theory Transport_Kcs
  imports Transport
begin

section \<open>The KCS transport library\<close>

text \<open>
  \<open>Library/IpmiTransportLibKcs/KcsBmc.h\<close> and \<open>KcsBmc.c\<close>: the Keyboard Controller Style
  interface over two I/O ports.  The ports and the timer are the hardware, the parameter
  \<open>kcs_hw\<close>; its state \<open>'w\<close> is threaded.  Every polling loop of the driver but one is bounded by
  the timeout period; the loop at the head of \<open>SendDataToBmc\<close> is not, and is a partial function.
\<close>

subsection \<open>Hardware\<close>

record 'w kcs_hw =
  IoRead8 :: "u16 \<Rightarrow> 'w \<Rightarrow> u8 \<times> 'w"
  IoWrite8 :: "u16 \<Rightarrow> u8 \<Rightarrow> 'w \<Rightarrow> 'w"
  IoDelay :: "nat \<Rightarrow> 'w \<Rightarrow> 'w"
  PcdIpmiIoBaseAddress :: u16
  PcdIpmiIoCmdRegister :: u16

definition KCS_WRITE_START :: u8 where "KCS_WRITE_START = 0x61"
definition KCS_WRITE_END :: u8 where "KCS_WRITE_END = 0x62"
definition KCS_READ :: u8 where "KCS_READ = 0x68"
definition KCS_ABORT :: u8 where "KCS_ABORT = 0x60"
definition KCS_DELAY_UNIT :: nat where "KCS_DELAY_UNIT = 50"
definition KCS_ABORT_RETRY_COUNT :: nat where "KCS_ABORT_RETRY_COUNT = 1"

datatype KCS_STATE = KcsIdleState | KcsReadState | KcsWriteState | KcsErrorState

text \<open>The bits of the status register: \<open>Obf\<close>, \<open>Ibf\<close> and the two bits of \<open>State\<close>.\<close>

definition Obf :: "u8 \<Rightarrow> bool" where "Obf st = bit st 0"
definition Ibf :: "u8 \<Rightarrow> bool" where "Ibf st = bit st 1"

definition kcs_state :: "u8 \<Rightarrow> KCS_STATE" where
  "kcs_state st =
     (if bit st 7 then (if bit st 6 then KcsErrorState else KcsWriteState)
      else (if bit st 6 then KcsReadState else KcsIdleState))"

text \<open>
  \<open>do \{ delay; read status; fail on 0xFF or timeout; TimeOut++; \} while (busy)\<close>: the last
  status read, or \<^theory_text>\<open>None\<close> on failure.
\<close>

function kcs_poll ::
    "'w kcs_hw \<Rightarrow> u64 \<Rightarrow> u64 \<Rightarrow> (u8 \<Rightarrow> bool) \<Rightarrow> 'w \<Rightarrow> u8 option \<times> 'w" where
  "kcs_poll hw IpmiTimeoutPeriod TimeOut busy w =
     (let (st, w1) = IoRead8 hw (PcdIpmiIoCmdRegister hw) (IoDelay hw KCS_DELAY_UNIT w) in
      if st = 0xFF \<or> TimeOut \<ge> IpmiTimeoutPeriod then (None, w1)
      else if busy st then kcs_poll hw IpmiTimeoutPeriod (TimeOut + 1) busy w1
      else (Some st, w1))"
  by pat_completeness auto

lemma u64_bound: "unat (w :: u64) < 18446744073709551616"
  using unsigned_less [of w] by simp

lemma unat_Suc_less: "(t :: u64) < p \<Longrightarrow> unat (t + 1) = Suc (unat t)"
  using u64_bound [of p] by (simp add: word_less_nat_alt unat_word_ariths)

termination kcs_poll
  by (relation "measure (\<lambda>(hw, p, t, b, w). unat p - unat t)")
    (auto simp: word_le_nat_alt word_less_nat_alt not_le unat_Suc_less)

declare kcs_poll.simps [simp del]

subsection \<open>KcsErrorExit\<close>

text \<open>\<open>while (RetryCount < KCS_ABORT_RETRY_COUNT)\<close> with the number of tries that are left.\<close>

primrec KcsErrorExit_loop :: "'w kcs_hw \<Rightarrow> u64 \<Rightarrow> nat \<Rightarrow> 'w \<Rightarrow> efi_status \<times> 'w" where
  "KcsErrorExit_loop hw P 0 w = (EFI_DEVICE_ERROR, w)"
| "KcsErrorExit_loop hw P (Suc k) w =
     (case kcs_poll hw P 0 Ibf w of (None, w1) \<Rightarrow> (EFI_DEVICE_ERROR, w1) | (Some _, w1) \<Rightarrow>
      (case kcs_poll hw P 0 Ibf (IoWrite8 hw (PcdIpmiIoCmdRegister hw) KCS_ABORT w1) of
         (None, w2) \<Rightarrow> (EFI_DEVICE_ERROR, w2)
       | (Some _, w2) \<Rightarrow>
      (let (_, w3) = IoRead8 hw (PcdIpmiIoBaseAddress hw) w2 in
      (case kcs_poll hw P 0 Ibf (IoWrite8 hw (PcdIpmiIoBaseAddress hw) 0 w3) of
         (None, w4) \<Rightarrow> (EFI_DEVICE_ERROR, w4)
       | (Some st, w4) \<Rightarrow>
      if kcs_state st = KcsReadState then
        (case kcs_poll hw P 0 (\<lambda>s. \<not> Obf s) w4 of
           (None, w5) \<Rightarrow> (EFI_DEVICE_ERROR, w5)
         | (Some _, w5) \<Rightarrow>
        (let (_, w6) = IoRead8 hw (PcdIpmiIoBaseAddress hw) w5 in
        (case kcs_poll hw P 0 Ibf (IoWrite8 hw (PcdIpmiIoBaseAddress hw) KCS_READ w6) of
           (None, w7) \<Rightarrow> (EFI_DEVICE_ERROR, w7)
         | (Some st', w7) \<Rightarrow>
        if kcs_state st' = KcsIdleState then
          (case kcs_poll hw P 0 (\<lambda>s. \<not> Obf s) w7 of
             (None, w8) \<Rightarrow> (EFI_DEVICE_ERROR, w8)
           | (Some _, w8) \<Rightarrow> (EFI_SUCCESS, snd (IoRead8 hw (PcdIpmiIoBaseAddress hw) w8)))
        else KcsErrorExit_loop hw P k w7)))
      else KcsErrorExit_loop hw P k w4))))"

definition KcsErrorExit :: "'w kcs_hw \<Rightarrow> u64 \<Rightarrow> 'w \<Rightarrow> efi_status \<times> 'w" where
  "KcsErrorExit hw IpmiTimeoutPeriod w =
     KcsErrorExit_loop hw IpmiTimeoutPeriod KCS_ABORT_RETRY_COUNT w"

subsection \<open>KcsCheckStatus\<close>

text \<open>The result is the status and \<open>*Idle\<close>; the caller's pointer is never NULL.\<close>

definition KcsCheckStatus ::
    "'w kcs_hw \<Rightarrow> u64 \<Rightarrow> KCS_STATE \<Rightarrow> 'w \<Rightarrow> (efi_status \<times> bool) \<times> 'w" where
  "KcsCheckStatus hw P KcsState w =
     (case kcs_poll hw P 0 Ibf w of
        (None, w1) \<Rightarrow> ((EFI_DEVICE_ERROR, False), w1)
      | (Some st, w1) \<Rightarrow>
          (let w2 = (if KcsState = KcsWriteState
                     then snd (IoRead8 hw (PcdIpmiIoBaseAddress hw) w1) else w1);
               Idle = (kcs_state st \<noteq> KcsState \<and> kcs_state st = KcsIdleState \<and>
                       KcsState = KcsReadState)
           in
           if kcs_state st \<noteq> KcsState \<and> \<not> Idle then
             (let (Status, w3) = KcsErrorExit hw P w2 in ((Status, False), w3))
           else
             (case (if KcsState = KcsReadState then kcs_poll hw P 0 (\<lambda>s. \<not> Obf s) w2
                    else (Some st, w2)) of
                (None, w3) \<Rightarrow> ((EFI_DEVICE_ERROR, Idle), w3)
              | (Some _, w3) \<Rightarrow>
                  ((EFI_SUCCESS, Idle),
                   if KcsState = KcsWriteState \<or> Idle
                   then snd (IoRead8 hw (PcdIpmiIoBaseAddress hw) w3) else w3))))"

subsection \<open>SendDataToBmc\<close>

text \<open>The loop at the head: a failing poll only leaves it when the error exit fails too.\<close>

partial_function (option) SendDataToBmc_wait ::
    "'w kcs_hw \<Rightarrow> u64 \<Rightarrow> u64 \<Rightarrow> 'w \<Rightarrow> (efi_status \<times> 'w) option" where
  "SendDataToBmc_wait hw P TimeOut w =
     (let (st, w1) = IoRead8 hw (PcdIpmiIoCmdRegister hw) (IoDelay hw KCS_DELAY_UNIT w);
          (Status, w2) = (if st = 0xFF \<or> TimeOut \<ge> P then KcsErrorExit hw P w1
                          else (EFI_SUCCESS, w1))
      in
      if Status \<noteq> EFI_SUCCESS then Some (Status, w2)
      else if Ibf st then SendDataToBmc_wait hw P (TimeOut + 1) w2
      else Some (EFI_SUCCESS, w2))"

text \<open>\<open>for (i = 0; i < DataSize; i++)\<close>, from \<open>i\<close> on, with the number of bytes left.\<close>

primrec SendDataToBmc_bytes ::
    "'w kcs_hw \<Rightarrow> u64 \<Rightarrow> bytes \<Rightarrow> nat \<Rightarrow> nat \<Rightarrow> 'w \<Rightarrow> efi_status \<times> 'w" where
  "SendDataToBmc_bytes hw P Data i 0 w = (EFI_SUCCESS, w)"
| "SendDataToBmc_bytes hw P Data i (Suc left) w =
     (let ((Status0, _), w1) =
            (if left = 0 then KcsCheckStatus hw P KcsWriteState w else ((EFI_SUCCESS, False), w))
      in if Status0 \<noteq> EFI_SUCCESS then (Status0, w1)
      else
      (let w2 = (if left = 0 then IoWrite8 hw (PcdIpmiIoCmdRegister hw) KCS_WRITE_END w1 else w1);
           ((Status, _), w3) = KcsCheckStatus hw P KcsWriteState w2
       in if EFI_ERROR Status then (Status, w3)
       else SendDataToBmc_bytes hw P Data (Suc i) left
              (IoWrite8 hw (PcdIpmiIoBaseAddress hw) (Data ! i) w3)))"

definition SendDataToBmc :: "'w kcs_hw \<Rightarrow> 'w send_fn" where
  "SendDataToBmc hw P Data DataSize w =
     (case SendDataToBmc_wait hw P 0 w of
        None \<Rightarrow> None
      | Some (Status, w1) \<Rightarrow>
          if Status \<noteq> EFI_SUCCESS then Some (Status, w1)
          else
          (let ((Status1, _), w2) = KcsCheckStatus hw P KcsWriteState
                 (IoWrite8 hw (PcdIpmiIoCmdRegister hw) KCS_WRITE_START w1)
           in if Status1 \<noteq> EFI_SUCCESS then Some (Status1, w2)
           else Some (SendDataToBmc_bytes hw P Data 0 (unat DataSize) w2)))"

subsection \<open>ReceiveBmcData\<close>

text \<open>\<open>while (TRUE)\<close> with the number of bytes the buffer still takes, \<open>*DataSize - Count\<close>.\<close>

primrec ReceiveBmcData_loop ::
    "'w kcs_hw \<Rightarrow> u64 \<Rightarrow> nat \<Rightarrow> bytes \<Rightarrow> nat \<Rightarrow> 'w \<Rightarrow> (efi_status \<times> bytes \<times> nat) \<times> 'w" where
  "ReceiveBmcData_loop hw P Count Data 0 w =
     (let ((Status, Idle), w1) = KcsCheckStatus hw P KcsReadState w in
      if Status \<noteq> EFI_SUCCESS then ((Status, Data, Count), w1)
      else if Idle then ((EFI_SUCCESS, Data, Count), w1)
      else ((EFI_DEVICE_ERROR, Data, Count), w1))"
| "ReceiveBmcData_loop hw P Count Data (Suc room) w =
     (let ((Status, Idle), w1) = KcsCheckStatus hw P KcsReadState w in
      if Status \<noteq> EFI_SUCCESS then ((Status, Data, Count), w1)
      else if Idle then ((EFI_SUCCESS, Data, Count), w1)
      else
      (let (b, w2) = IoRead8 hw (PcdIpmiIoBaseAddress hw) w1
       in ReceiveBmcData_loop hw P (Suc Count) (poke Data Count b) room
            (IoWrite8 hw (PcdIpmiIoBaseAddress hw) KCS_READ w2)))"

text \<open>\<open>*DataSize\<close> is only written on success.\<close>

definition ReceiveBmcData ::
    "'w kcs_hw \<Rightarrow> u64 \<Rightarrow> bytes \<Rightarrow> u8 \<Rightarrow> 'w \<Rightarrow> (efi_status \<times> bytes \<times> u8) \<times> 'w" where
  "ReceiveBmcData hw P Data DataSize w =
     (let ((Status, Data1, Count), w1) = ReceiveBmcData_loop hw P 0 Data (unat DataSize) w
      in ((Status, Data1, if Status = EFI_SUCCESS then of_nat Count else DataSize), w1))"

subsection \<open>The library interface\<close>

primrec ReceiveBmcDataFromPort_loop ::
    "'w kcs_hw \<Rightarrow> u64 \<Rightarrow> u8 \<Rightarrow> nat \<Rightarrow> bytes \<Rightarrow> u8 \<Rightarrow> 'w \<Rightarrow> (efi_status \<times> bytes \<times> u8) \<times> 'w" where
  "ReceiveBmcDataFromPort_loop hw P MyDataSize 0 Data DataSize w =
     ((EFI_DEVICE_ERROR, Data, DataSize), w)"
| "ReceiveBmcDataFromPort_loop hw P MyDataSize (Suc k) Data DataSize w =
     (let ((Status, Data1, DataSize1), w1) = ReceiveBmcData hw P Data DataSize w in
      if EFI_ERROR Status then
        (let (Status1, w2) = KcsErrorExit hw P w1 in
         if Status1 \<noteq> EFI_SUCCESS then ((Status1, Data1, DataSize1), w2)
         else ReceiveBmcDataFromPort_loop hw P MyDataSize k Data1 MyDataSize w2)
      else ((Status, Data1, DataSize1), w1))"

definition ReceiveBmcDataFromPort_Kcs :: "'w kcs_hw \<Rightarrow> 'w recv_fn" where
  "ReceiveBmcDataFromPort_Kcs hw P Data DataSize w =
     Some (ReceiveBmcDataFromPort_loop hw P DataSize KCS_ABORT_RETRY_COUNT Data DataSize w)"

primrec SendDataToBmcPort_loop :: "'w kcs_hw \<Rightarrow> u64 \<Rightarrow> bytes \<Rightarrow> u8 \<Rightarrow> nat \<Rightarrow> ('w, efi_status) op" where
  "SendDataToBmcPort_loop hw P Data DataSize 0 w = Some (EFI_DEVICE_ERROR, w)"
| "SendDataToBmcPort_loop hw P Data DataSize (Suc k) w =
     (case SendDataToBmc hw P Data DataSize w of
        None \<Rightarrow> None
      | Some (Status, w1) \<Rightarrow>
          if EFI_ERROR Status then
            (let (Status1, w2) = KcsErrorExit hw P w1 in
             if Status1 \<noteq> EFI_SUCCESS then Some (Status1, w2)
             else SendDataToBmcPort_loop hw P Data DataSize k w2)
          else Some (Status, w1))"

definition SendDataToBmcPort_Kcs :: "'w kcs_hw \<Rightarrow> 'w send_fn" where
  "SendDataToBmcPort_Kcs hw P Data DataSize w =
     SendDataToBmcPort_loop hw P Data DataSize KCS_ABORT_RETRY_COUNT w"

text \<open>\<open>InitializeIpmiTransportHardware\<close> passes the base address to the platform library;
  the constructor does nothing.\<close>

definition InitializeIpmiTransportHardware_Kcs ::
    "'w kcs_hw \<Rightarrow> (u16 \<Rightarrow> ('w, efi_status) op) \<Rightarrow> ('w, efi_status) op" where
  "InitializeIpmiTransportHardware_Kcs hw PlatformIpmiIoRangeSet w =
     PlatformIpmiIoRangeSet (PcdIpmiIoBaseAddress hw) w"

definition BmcKcsConstructor :: "('w, efi_status) op" where
  "BmcKcsConstructor w = Some (EFI_SUCCESS, w)"


section \<open>The KCS library is a lawful transport\<close>

lemma ReceiveBmcData_loop_frame:
  assumes "ReceiveBmcData_loop hw P Count Data room w = ((st, Data', Count'), w')"
  shows "Count' \<le> Count + room"
    "Count + room \<le> length Data \<Longrightarrow> length Data' = length Data"
proof -
  have "Count' \<le> Count + room \<and> (Count + room \<le> length Data \<longrightarrow> length Data' = length Data)"
    using assms
  proof (induction room arbitrary: Count Data w)
    case 0
    then show ?case by (auto simp: Let_def split: prod.splits if_splits)
  next
    case (Suc room)
    from Suc.prems show ?case
      by (auto simp: Let_def mem_simps split: prod.splits if_splits dest!: Suc.IH)
  qed
  then show "Count' \<le> Count + room"
    "Count + room \<le> length Data \<Longrightarrow> length Data' = length Data" by auto
qed

lemma ReceiveBmcData_frame:
  assumes "ReceiveBmcData hw P Data n w = ((st, Data', n'), w')"
  shows "n' \<le> n" "unat n \<le> length Data \<Longrightarrow> length Data' = length Data"
proof -
  obtain Count where l: "ReceiveBmcData_loop hw P 0 Data (unat n) w = ((st, Data', Count), w')"
    and n': "n' = (if st = EFI_SUCCESS then of_nat Count else n)"
    using assms by (auto simp: ReceiveBmcData_def Let_def split: prod.splits)
  note c = ReceiveBmcData_loop_frame [OF l]
  have "(of_nat Count :: u8) \<le> n"
    using c(1) u8_bound [of n] by (simp add: word_le_nat_alt unat_of_nat)
  then show "n' \<le> n" "unat n \<le> length Data \<Longrightarrow> length Data' = length Data"
    using c n' by auto
qed

text \<open>Every status is EFI_SUCCESS or EFI_DEVICE_ERROR.\<close>

lemma KcsErrorExit_loop_status:
  "fst (KcsErrorExit_loop hw P k w) \<in> {EFI_SUCCESS, EFI_DEVICE_ERROR}"
  by (induction k arbitrary: w) (simp_all add: Let_def split: prod.splits option.splits)

lemma KcsErrorExit_status: "KcsErrorExit hw P w = (st, w') \<Longrightarrow> st = EFI_SUCCESS \<or> st = EFI_DEVICE_ERROR"
  using KcsErrorExit_loop_status [of hw P KCS_ABORT_RETRY_COUNT w] by (simp add: KcsErrorExit_def)

lemma KcsCheckStatus_status:
  "KcsCheckStatus hw P s w = ((st, idle), w') \<Longrightarrow> st = EFI_SUCCESS \<or> st = EFI_DEVICE_ERROR"
  by (auto simp: KcsCheckStatus_def Let_def split: prod.splits option.splits if_splits
      dest: KcsErrorExit_status)

lemma ReceiveBmcData_loop_status:
  "ReceiveBmcData_loop hw P Count Data room w = ((st, Data', Count'), w') \<Longrightarrow>
     st = EFI_SUCCESS \<or> st = EFI_DEVICE_ERROR"
proof (induction room arbitrary: Count Data w)
  case 0
  then show ?case
    by (auto simp: Let_def split: prod.splits if_splits dest: KcsCheckStatus_status)
next
  case (Suc room)
  then show ?case
    by (auto simp: Let_def split: prod.splits if_splits dest: KcsCheckStatus_status)
qed

lemma ReceiveBmcDataFromPort_frame:
  assumes "ReceiveBmcDataFromPort_Kcs hw P Data n w = Some ((st, Data', n'), w')"
  shows "n' \<le> n" "unat n \<le> length Data \<Longrightarrow> length Data' = length Data"
proof -
  obtain st1 Data1 n1 w1 where r: "ReceiveBmcData hw P Data n w = ((st1, Data1, n1), w1)"
    by (metis prod.exhaust)
  show "n' \<le> n" "unat n \<le> length Data \<Longrightarrow> length Data' = length Data"
    using assms r ReceiveBmcData_frame [OF r]
    by (auto simp: ReceiveBmcDataFromPort_Kcs_def KCS_ABORT_RETRY_COUNT_def Let_def
        split: if_splits prod.splits)
qed

lemma SendDataToBmc_bytes_reads:
  "take (i + left) d = take (i + left) d' \<Longrightarrow>
     SendDataToBmc_bytes hw P d i left w = SendDataToBmc_bytes hw P d' i left w"
proof (induction left arbitrary: i w)
  case 0
  then show ?case by simp
next
  case (Suc left)
  have "d ! i = take (i + Suc left) d ! i" by simp
  also have "\<dots> = take (i + Suc left) d' ! i" by (simp only: Suc.prems)
  finally have "d ! i = d' ! i" by simp
  moreover have "take (Suc i + left) d = take (Suc i + left) d'" using Suc.prems by simp
  ultimately show ?case using Suc.IH by (simp add: Let_def split: prod.splits)
qed

lemma SendDataToBmc_reads:
  assumes "take (unat n) d = take (unat n) d'"
  shows "SendDataToBmc hw P d n w = SendDataToBmc hw P d' n w"
proof -
  have "SendDataToBmc_bytes hw P d 0 (unat n) = SendDataToBmc_bytes hw P d' 0 (unat n)"
    using SendDataToBmc_bytes_reads [of 0 "unat n" d d' hw P] assms by auto
  then show ?thesis by (simp add: SendDataToBmc_def Let_def split: option.splits prod.splits)
qed

interpretation kcs_transport: transport "SendDataToBmcPort_Kcs hw" "ReceiveBmcDataFromPort_Kcs hw"
  for hw :: "'w kcs_hw"
proof unfold_locales
  fix P :: u64 and d d' :: bytes and n :: u8 and w :: 'w
  assume "unat n \<le> length d" "unat n \<le> length d'" "take (unat n) d = take (unat n) d'"
  then show "SendDataToBmcPort_Kcs hw P d n w = SendDataToBmcPort_Kcs hw P d' n w"
    by (simp add: SendDataToBmcPort_Kcs_def KCS_ABORT_RETRY_COUNT_def Let_def
        SendDataToBmc_reads [of n d d'] split: option.splits prod.splits)
qed (auto dest: ReceiveBmcDataFromPort_frame)


section \<open>Exchange with a conforming BMC\<close>

text \<open>
  The KCS interface of a BMC, as chapter 9 of the IPMI specification describes it, is an
  interface contract: \<open>ph\<close> is the phase of the transfer, \<open>lag\<close> the number of further polls for
  which the BMC still holds \<open>Ibf\<close>.  The BMC behind the interface is a state of any type, which the
  phases carry, and \<open>serve\<close>, what it answers to a message and the state this leaves.  The status
  register never reads 0xFF, shows the state of the phase once \<open>Ibf\<close> is clear, and \<open>Obf\<close>
  while there is a byte to read; every write is processed in less than the timeout period.
\<close>

datatype 'm kcs_phase =
    is_KIdle: KIdle (kcs_dev: 'm) | KWrite (kcs_dev: 'm) bytes | KEnd (kcs_dev: 'm) bytes
  | KRead (kcs_dev: 'm) bytes | KDone (kcs_dev: 'm)

fun phase_state :: "'m kcs_phase \<Rightarrow> KCS_STATE" where
  "phase_state (KIdle e) = KcsIdleState" | "phase_state (KDone e) = KcsIdleState"
| "phase_state (KRead e bs) = KcsReadState"
| "phase_state (KWrite e bs) = KcsWriteState" | "phase_state (KEnd e bs) = KcsWriteState"

fun has_output :: "'m kcs_phase \<Rightarrow> bool" where
  "has_output (KRead e bs) = (bs \<noteq> [])" | "has_output (KDone e) = True" | "has_output _ = False"

fun after_read :: "'m kcs_phase \<Rightarrow> 'm kcs_phase" where
  "after_read (KDone e) = KIdle e" | "after_read p = p"

locale kcs_bmc =
  fixes hw :: "'w kcs_hw" and ph :: "'w \<Rightarrow> 'm kcs_phase" and lag :: "'w \<Rightarrow> nat"
    and serve :: "bytes \<Rightarrow> 'm \<Rightarrow> (bytes \<times> 'm) option" and P :: u64
  assumes delay: "ph (IoDelay hw us w) = ph w" "lag (IoDelay hw us w) \<le> lag w"
    and status: "IoRead8 hw (PcdIpmiIoCmdRegister hw) w = (st, w') \<Longrightarrow>
        ph w' = ph w \<and> lag w' \<le> lag w - 1 \<and> st \<noteq> 0xFF \<and> (Ibf st \<longleftrightarrow> 0 < lag w) \<and>
        (lag w = 0 \<longrightarrow> kcs_state st = phase_state (ph w) \<and> (has_output (ph w) \<longrightarrow> Obf st))"
    and data: "IoRead8 hw (PcdIpmiIoBaseAddress hw) w = (b, w') \<Longrightarrow>
        ph w' = after_read (ph w) \<and> lag w' \<le> lag w \<and> (\<forall>e x xs. ph w = KRead e (x # xs) \<longrightarrow> b = x)"
    and write_start: "ph w = KIdle e \<Longrightarrow> lag w = 0 \<Longrightarrow>
        ph (IoWrite8 hw (PcdIpmiIoCmdRegister hw) KCS_WRITE_START w) = KWrite e []"
    and write_end: "ph w = KWrite e bs \<Longrightarrow> lag w = 0 \<Longrightarrow>
        ph (IoWrite8 hw (PcdIpmiIoCmdRegister hw) KCS_WRITE_END w) = KEnd e bs"
    and write_data: "ph w = KWrite e bs \<Longrightarrow> lag w = 0 \<Longrightarrow>
        ph (IoWrite8 hw (PcdIpmiIoBaseAddress hw) b w) = KWrite e (bs @ [b])"
    and write_last: "ph w = KEnd e bs \<Longrightarrow> lag w = 0 \<Longrightarrow> serve (bs @ [b]) e = Some (m, e') \<Longrightarrow>
        ph (IoWrite8 hw (PcdIpmiIoBaseAddress hw) b w) = KRead e' m"
    and read_next: "ph w = KRead e (x # xs) \<Longrightarrow> lag w = 0 \<Longrightarrow>
        ph (IoWrite8 hw (PcdIpmiIoBaseAddress hw) KCS_READ w) = (if xs = [] then KDone e else KRead e xs)"
    and write_lag: "lag w = 0 \<Longrightarrow> lag (IoWrite8 hw port b w) < unat P"
begin

lemma poll_ibf:
  "lag w + unat T < unat P \<Longrightarrow>
     \<exists>st w'. kcs_poll hw P T Ibf w = (Some st, w') \<and> ph w' = ph w \<and> lag w' = 0 \<and>
       kcs_state st = phase_state (ph w)"
proof (induction "lag w" arbitrary: w T rule: less_induct)
  case less
  obtain st w1 where r: "IoRead8 hw (PcdIpmiIoCmdRegister hw) (IoDelay hw KCS_DELAY_UNIT w) = (st, w1)"
    by fastforce
  note s = status [OF r]
  have T: "\<not> T \<ge> P" using less.prems by (simp add: word_le_nat_alt)
  show ?case
  proof (cases "Ibf st")
    case False
    then show ?thesis
      using s T delay by (simp add: kcs_poll.simps [of hw P T] r)
  next
    case True
    have "unat (T + 1) = Suc (unat T)" using T by (intro unat_Suc_less [of T P]) (simp add: not_le)
    moreover have "lag w1 < lag w" "lag w1 + Suc (unat T) \<le> lag w + unat T"
      using s True delay(2) [of KCS_DELAY_UNIT w] by auto
    ultimately show ?thesis
      using less.hyps [of w1 "T + 1"] less.prems s True T delay(1)
      by (simp add: kcs_poll.simps [of hw P T] r)
  qed
qed

lemma poll_obf:
  assumes "lag w = 0" "has_output (ph w)" "0 < unat P"
  shows "\<exists>st w'. kcs_poll hw P 0 (\<lambda>s. \<not> Obf s) w = (Some st, w') \<and> ph w' = ph w \<and> lag w' = 0"
proof -
  obtain st w1 where r: "IoRead8 hw (PcdIpmiIoCmdRegister hw) (IoDelay hw KCS_DELAY_UNIT w) = (st, w1)"
    by fastforce
  note s = status [OF r]
  have "lag (IoDelay hw KCS_DELAY_UNIT w) = 0" using delay(2) [of KCS_DELAY_UNIT w] assms(1) by simp
  moreover have "\<not> P \<le> 0" using assms(3) by (simp add: word_le_nat_alt)
  ultimately show ?thesis
    using s assms(2) delay(1) by (simp add: kcs_poll.simps [of hw P 0] r)
qed

end

context kcs_bmc
begin

lemma data_read:
  "ph (snd (IoRead8 hw (PcdIpmiIoBaseAddress hw) w)) = after_read (ph w)"
  "lag w = 0 \<Longrightarrow> lag (snd (IoRead8 hw (PcdIpmiIoBaseAddress hw) w)) = 0"
  using data [of w] by (metis prod.collapse, metis le_zero_eq prod.collapse)

lemma check_write:
  assumes "lag w < unat P" "phase_state (ph w) = KcsWriteState"
  shows "\<exists>w'. KcsCheckStatus hw P KcsWriteState w = ((EFI_SUCCESS, False), w') \<and>
    ph w' = ph w \<and> lag w' = 0"
proof -
  obtain st w1 where p: "kcs_poll hw P 0 Ibf w = (Some st, w1)" "ph w1 = ph w" "lag w1 = 0"
    "kcs_state st = phase_state (ph w)"
    using poll_ibf [of w 0] assms(1) by auto
  have "after_read (ph w) = ph w" using assms(2) by (cases "ph w") auto
  then show ?thesis
    using p assms(2) by (simp add: KcsCheckStatus_def data_read)
qed

lemma check_read:
  assumes "lag w < unat P" "ph w = KRead e (x # xs)"
  shows "\<exists>w'. KcsCheckStatus hw P KcsReadState w = ((EFI_SUCCESS, False), w') \<and>
    ph w' = ph w \<and> lag w' = 0"
proof -
  obtain st w1 where p: "kcs_poll hw P 0 Ibf w = (Some st, w1)" "ph w1 = ph w" "lag w1 = 0"
    "kcs_state st = phase_state (ph w)"
    using poll_ibf [of w 0] assms(1) by auto
  obtain st' w2 where "kcs_poll hw P 0 (\<lambda>s. \<not> Obf s) w1 = (Some st', w2)" "ph w2 = ph w" "lag w2 = 0"
    using poll_obf [of w1] p assms by auto
  then show ?thesis using p assms(2) by (simp add: KcsCheckStatus_def)
qed

lemma check_done:
  assumes "lag w < unat P" "ph w = KDone e"
  shows "\<exists>w'. KcsCheckStatus hw P KcsReadState w = ((EFI_SUCCESS, True), w') \<and>
    ph w' = KIdle e \<and> lag w' = 0"
proof -
  obtain st w1 where p: "kcs_poll hw P 0 Ibf w = (Some st, w1)" "ph w1 = ph w" "lag w1 = 0"
    "kcs_state st = phase_state (ph w)"
    using poll_ibf [of w 0] assms(1) by auto
  obtain st' w2 where "kcs_poll hw P 0 (\<lambda>s. \<not> Obf s) w1 = (Some st', w2)" "ph w2 = ph w" "lag w2 = 0"
    using poll_obf [of w1] p assms by auto
  then show ?thesis using p assms(2) by (simp add: KcsCheckStatus_def data_read)
qed

lemma wait_idle:
  "lag w + unat T < unat P \<Longrightarrow> \<exists>w'. SendDataToBmc_wait hw P T w = Some (EFI_SUCCESS, w') \<and>
     ph w' = ph w \<and> lag w' = 0"
proof (induction "lag w" arbitrary: w T rule: less_induct)
  case less
  obtain st w1 where r: "IoRead8 hw (PcdIpmiIoCmdRegister hw) (IoDelay hw KCS_DELAY_UNIT w) = (st, w1)"
    by fastforce
  note s = status [OF r]
  have T: "\<not> T \<ge> P" using less.prems by (simp add: word_le_nat_alt)
  show ?case
  proof (cases "Ibf st")
    case False
    then show ?thesis
      using s T delay by (simp add: SendDataToBmc_wait.simps [of hw P T] r)
  next
    case True
    have "unat (T + 1) = Suc (unat T)" using T by (intro unat_Suc_less [of T P]) (simp add: not_le)
    moreover have "lag w1 < lag w" "lag w1 + Suc (unat T) \<le> lag w + unat T"
      using s True delay(2) [of KCS_DELAY_UNIT w] by auto
    ultimately show ?thesis
      using less.hyps [of w1 "T + 1"] less.prems s True T delay(1)
      by (simp add: SendDataToBmc_wait.simps [of hw P T] r)
  qed
qed

lemma send_bytes:
  "ph w = KWrite e (take i d) \<Longrightarrow> lag w < unat P \<Longrightarrow> 0 < left \<Longrightarrow> i + left \<le> length d \<Longrightarrow>
     serve (take (i + left) d) e = Some (m, e') \<Longrightarrow>
     \<exists>w'. SendDataToBmc_bytes hw P d i left w = (EFI_SUCCESS, w') \<and>
       ph w' = KRead e' m \<and> lag w' < unat P"
proof (induction left arbitrary: i w)
  case 0
  then show ?case by simp
next
  case (Suc left)
  obtain w1 where c1: "KcsCheckStatus hw P KcsWriteState w = ((EFI_SUCCESS, False), w1)"
    "ph w1 = KWrite e (take i d)" "lag w1 = 0"
    using check_write [of w] Suc.prems by auto
  have nth: "take i d @ [d ! i] = take (Suc i) d"
    using Suc.prems by (simp add: take_Suc_conv_app_nth)
  show ?case
  proof (cases "left = 0")
    case True
    let ?w2 = "IoWrite8 hw (PcdIpmiIoCmdRegister hw) KCS_WRITE_END w1"
    have "ph ?w2 = KEnd e (take i d)" "lag ?w2 < unat P"
      using write_end [OF c1(2,3)] write_lag [OF c1(3)] by auto
    then obtain w3 where c3: "KcsCheckStatus hw P KcsWriteState ?w2 = ((EFI_SUCCESS, False), w3)"
      "ph w3 = KEnd e (take i d)" "lag w3 = 0"
      using check_write [of ?w2] by auto
    show ?thesis
      using c1 c3 True write_last [OF c3(2,3), of "d ! i"] Suc.prems(5) write_lag [OF c3(3)] nth by simp
  next
    case False
    let ?w2 = "IoWrite8 hw (PcdIpmiIoBaseAddress hw) (d ! i) w1"
    have "ph ?w2 = KWrite e (take (Suc i) d)" "lag ?w2 < unat P"
      using write_data [OF c1(2,3)] write_lag [OF c1(3)] nth by auto
    then show ?thesis
      using Suc.IH [of ?w2 "Suc i"] Suc.prems False c1 by simp
  qed
qed

lemma send_message:
  assumes "ph w = KIdle e" "lag w < unat P" "0 < n" "unat n \<le> length d"
    and "serve (take (unat n) d) e = Some (m, e')"
  shows "\<exists>w'. SendDataToBmcPort_Kcs hw P d n w = Some (EFI_SUCCESS, w') \<and>
    ph w' = KRead e' m \<and> lag w' < unat P"
proof -
  obtain w1 where w1: "SendDataToBmc_wait hw P 0 w = Some (EFI_SUCCESS, w1)" "ph w1 = KIdle e" "lag w1 = 0"
    using wait_idle [of w 0] assms by auto
  let ?w2 = "IoWrite8 hw (PcdIpmiIoCmdRegister hw) KCS_WRITE_START w1"
  have "ph ?w2 = KWrite e []" "lag ?w2 < unat P"
    using write_start [OF w1(2,3)] write_lag [OF w1(3)] by auto
  then obtain w3 where w3: "KcsCheckStatus hw P KcsWriteState ?w2 = ((EFI_SUCCESS, False), w3)"
    "ph w3 = KWrite e []" "lag w3 = 0"
    using check_write [of ?w2] by auto
  moreover have "P \<noteq> 0" using assms(2) by auto
  moreover obtain w4 where "SendDataToBmc_bytes hw P d 0 (unat n) w3 = (EFI_SUCCESS, w4)"
    "ph w4 = KRead e' m" "lag w4 < unat P"
    using send_bytes [where w = w3 and e = e and i = 0 and d = d and left = "unat n"] w3 assms \<open>P \<noteq> 0\<close> by (auto simp: unat_gt_0 word_gt_0)
  ultimately show ?thesis
    using w1 by (simp add: SendDataToBmcPort_Kcs_def KCS_ABORT_RETRY_COUNT_def SendDataToBmc_def)
qed

lemma receive_loop:
  "ph w = (if bs = [] then KDone e else KRead e bs) \<Longrightarrow> lag w < unat P \<Longrightarrow> length bs \<le> room \<Longrightarrow>
     Count + length bs \<le> length buf \<Longrightarrow>
     \<exists>w'. ReceiveBmcData_loop hw P Count buf room w =
       ((EFI_SUCCESS, take Count buf @ bs @ drop (Count + length bs) buf, Count + length bs), w') \<and>
       ph w' = KIdle e \<and> lag w' = 0"
proof (induction bs arbitrary: w Count buf room)
  case Nil
  then obtain w' where "KcsCheckStatus hw P KcsReadState w = ((EFI_SUCCESS, True), w')"
    "ph w' = KIdle e" "lag w' = 0"
    using check_done [of w] by auto
  then show ?case by (cases room) auto
next
  case (Cons b bs)
  then obtain room' where room: "room = Suc room'" by (cases room) auto
  obtain w1 where c: "KcsCheckStatus hw P KcsReadState w = ((EFI_SUCCESS, False), w1)"
    "ph w1 = KRead e (b # bs)" "lag w1 = 0"
    using check_read [of w e b bs] Cons.prems by auto
  obtain x w2 where r: "IoRead8 hw (PcdIpmiIoBaseAddress hw) w1 = (x, w2)" by fastforce
  then have r2: "x = b" "ph w2 = KRead e (b # bs)" "lag w2 = 0"
    using data [OF r] c by auto
  let ?w3 = "IoWrite8 hw (PcdIpmiIoBaseAddress hw) KCS_READ w2"
  have "ph ?w3 = (if bs = [] then KDone e else KRead e bs)" "lag ?w3 < unat P"
    using read_next [OF r2(2,3)] write_lag [OF r2(3)] by auto
  moreover have "take (Suc Count) (poke buf Count b) = take Count buf @ [b]"
    "drop (Suc Count + length bs) (poke buf Count b) = drop (Suc Count + length bs) buf"
    using Cons.prems by (simp_all add: poke_in take_Suc_conv_app_nth)
  ultimately show ?case
    using Cons.IH [of ?w3 room' "Suc Count" "poke buf Count b"] Cons.prems c r r2(1) room
    by (simp add: mem_simps)
qed

lemma receive_message:
  assumes "ph w = KRead e bs" "lag w < unat P" "bs \<noteq> []" "length bs \<le> unat n" "unat n \<le> length buf"
  shows "\<exists>w'. ReceiveBmcDataFromPort_Kcs hw P buf n w =
      Some ((EFI_SUCCESS, bs @ drop (length bs) buf, of_nat (length bs)), w') \<and>
    ph w' = KIdle e \<and> lag w' = 0"
  using receive_loop [where w = w and bs = bs and e = e and room = "unat n" and Count = 0 and buf = buf] assms
  by (auto simp: ReceiveBmcDataFromPort_Kcs_def KCS_ABORT_RETRY_COUNT_def ReceiveBmcData_def)

end

subsection \<open>A BMC that meets the contract\<close>

text \<open>The phase of the transfer and the number of polls the last write still takes (two).\<close>

definition ideal_status :: "'m kcs_phase \<times> nat \<Rightarrow> u8" where
  "ideal_status w =
     (case phase_state (fst w) of KcsIdleState \<Rightarrow> 0 | KcsReadState \<Rightarrow> 0x40 | KcsWriteState \<Rightarrow> 0x80
        | KcsErrorState \<Rightarrow> 0xC0) OR
     (if 0 < snd w then 2 else 0) OR (if has_output (fst w) then 1 else 0)"

definition ideal_read :: "u16 \<Rightarrow> 'm kcs_phase \<times> nat \<Rightarrow> u8 \<times> 'm kcs_phase \<times> nat" where
  "ideal_read port w =
     (if port = 0xCA3 then (ideal_status w, fst w, snd w - 1)
      else (case fst w of KRead e (b # _) \<Rightarrow> b | _ \<Rightarrow> 0, after_read (fst w), snd w))"

definition ideal_write ::
    "(bytes \<Rightarrow> 'm \<Rightarrow> (bytes \<times> 'm) option) \<Rightarrow> u16 \<Rightarrow> u8 \<Rightarrow> 'm kcs_phase \<times> nat \<Rightarrow> 'm kcs_phase \<times> nat" where
  "ideal_write serve port b w =
     (if port = 0xCA3
      then (case fst w of
              KIdle e \<Rightarrow> if b = KCS_WRITE_START then KWrite e [] else KIdle e
            | KWrite e bs \<Rightarrow> if b = KCS_WRITE_END then KEnd e bs else KWrite e bs
            | p \<Rightarrow> p)
      else (case fst w of
              KWrite e bs \<Rightarrow> KWrite e (bs @ [b])
            | KEnd e bs \<Rightarrow> (case serve (bs @ [b]) e of Some (m, e') \<Rightarrow> KRead e' m | None \<Rightarrow> KIdle e)
            | KRead e (_ # xs) \<Rightarrow> if xs = [] then KDone e else KRead e xs
            | p \<Rightarrow> p), 2)"

definition ideal_kcs :: "(bytes \<Rightarrow> 'm \<Rightarrow> (bytes \<times> 'm) option) \<Rightarrow> ('m kcs_phase \<times> nat) kcs_hw" where
  "ideal_kcs serve = \<lparr>IoRead8 = ideal_read, IoWrite8 = ideal_write serve, IoDelay = (\<lambda>_ w. w),
     PcdIpmiIoBaseAddress = 0xCA2, PcdIpmiIoCmdRegister = 0xCA3\<rparr>"

lemma ideal_status_bits:
  "Obf (ideal_status w) = has_output (fst w)" "Ibf (ideal_status w) = (0 < snd w)"
  "kcs_state (ideal_status w) = phase_state (fst w)" "ideal_status w \<noteq> 0xFF"
  by (cases "fst w"; simp add: ideal_status_def Obf_def Ibf_def kcs_state_def)+

interpretation ideal_bmc: kcs_bmc "ideal_kcs serve" fst snd serve 100000 for serve
  by unfold_locales
    (auto simp: ideal_kcs_def ideal_read_def ideal_write_def ideal_status_bits)

text \<open>C5 Against every BMC that keeps to the KCS protocol and answers within the timeout, a send
  delivers exactly the \<open>DataSize\<close> bytes of the message, and the receive that follows fills the
  buffer with exactly the bytes of the reply, reports their number and leaves the interface idle,
  with the BMC in the state in which serving the message left it.\<close>

theorem kcs_exchange:
  assumes "kcs_bmc hw ph lag serve P" "ph w = KIdle e" "lag w < unat P"
    and "0 < n" "unat n \<le> length d" and "serve (take (unat n) d) e = Some (msg, e')"
    and "msg \<noteq> []" "length msg \<le> unat k" "unat k \<le> length buf"
  shows "\<exists>w1 w2. SendDataToBmcPort_Kcs hw P d n w = Some (EFI_SUCCESS, w1) \<and>
    ReceiveBmcDataFromPort_Kcs hw P buf k w1 =
      Some ((EFI_SUCCESS, msg @ drop (length msg) buf, of_nat (length msg)), w2) \<and>
    ph w2 = KIdle e' \<and> lag w2 < unat P"
  using kcs_bmc.send_message [OF assms(1-6)]
    kcs_bmc.receive_message [OF assms(1) _ _ assms(7-9)] assms(3)
  by (metis (no_types, lifting) gr_implies_not0 gr0I)

text \<open>A BMC that counts the messages it has answered.\<close>

definition counting :: "bytes \<Rightarrow> nat \<Rightarrow> (bytes \<times> nat) option" where
  "counting m e = Some (hd m # tl m @ [0], e + 1)"

theorem kcs_exchange_witness:
  "\<exists>w1 w2. SendDataToBmcPort_Kcs (ideal_kcs counting) 100000 [0x18, 1] 2 (KIdle 41, 7) =
       Some (EFI_SUCCESS, w1) \<and>
    ReceiveBmcDataFromPort_Kcs (ideal_kcs counting) 100000 [9, 9, 9, 9] 4 w1 =
      Some ((EFI_SUCCESS, [0x18, 1, 0] @ drop (length [0x18, 1, 0 :: u8]) [9, 9, 9, 9],
             of_nat (length [0x18, 1, 0 :: u8])), w2) \<and>
    fst w2 = KIdle 42 \<and> snd w2 < unat (100000 :: u64)"
  by (rule kcs_exchange [OF ideal_bmc.kcs_bmc_axioms, where e = 41]) (simp_all add: counting_def)

text \<open>With nothing behind the ports (the bus reads 0xFF) both directions return
  EFI_DEVICE_ERROR, the loop without a bound included, and no byte of the buffer changes.\<close>

theorem kcs_absent:
  assumes "\<And>port w. fst (IoRead8 hw port w) = 0xFF"
  shows "(\<exists>w'. SendDataToBmcPort_Kcs hw P d n w = Some (EFI_DEVICE_ERROR, w')) \<and>
    (\<exists>w'. ReceiveBmcDataFromPort_Kcs hw P buf k w = Some ((EFI_DEVICE_ERROR, buf, k), w'))"
proof -
  have poll: "\<exists>w'. kcs_poll hw P T busy w = (None, w')" for T busy w
    using assms [of "PcdIpmiIoCmdRegister hw" "IoDelay hw KCS_DELAY_UNIT w"]
    by (auto simp: kcs_poll.simps [of hw P T] split: prod.splits)
  have exit: "\<exists>w'. KcsErrorExit hw P w = (EFI_DEVICE_ERROR, w')" for w
    using poll [of 0 Ibf w] by (auto simp: KcsErrorExit_def KCS_ABORT_RETRY_COUNT_def)
  have check: "\<exists>w'. KcsCheckStatus hw P s w = ((EFI_DEVICE_ERROR, False), w')" for s w
    using poll [of 0 Ibf w] by (auto simp: KcsCheckStatus_def)
  have wait: "\<exists>w'. SendDataToBmc_wait hw P 0 w = Some (EFI_DEVICE_ERROR, w')"
  proof -
    obtain w1 where "IoRead8 hw (PcdIpmiIoCmdRegister hw) (IoDelay hw KCS_DELAY_UNIT w) = (0xFF, w1)"
      using assms by (metis prod.collapse)
    then show ?thesis using exit [of w1] by (auto simp: SendDataToBmc_wait.simps [of hw P 0])
  qed
  have send: "\<exists>w'. SendDataToBmcPort_Kcs hw P d n w = Some (EFI_DEVICE_ERROR, w')"
  proof -
    obtain w1 where "SendDataToBmc_wait hw P 0 w = Some (EFI_DEVICE_ERROR, w1)" using wait by blast
    then show ?thesis using exit [of w1]
      by (auto simp: SendDataToBmcPort_Kcs_def KCS_ABORT_RETRY_COUNT_def SendDataToBmc_def)
  qed
  have "\<exists>w'. ReceiveBmcData hw P buf k w = ((EFI_DEVICE_ERROR, buf, k), w')"
    using check [of KcsReadState w] by (cases "unat k") (auto simp: ReceiveBmcData_def)
  then obtain w1 where "ReceiveBmcData hw P buf k w = ((EFI_DEVICE_ERROR, buf, k), w1)" by blast
  then show ?thesis
    using send exit [of w1]
    by (auto simp: ReceiveBmcDataFromPort_Kcs_def KCS_ABORT_RETRY_COUNT_def)
qed

theorem kcs_absent_witness:
  "(\<exists>w'. SendDataToBmcPort_Kcs \<lparr>IoRead8 = (\<lambda>_ w. (0xFF, w)), IoWrite8 = (\<lambda>_ _ w. w),
        IoDelay = (\<lambda>_ w. w), PcdIpmiIoBaseAddress = 0xCA2, PcdIpmiIoCmdRegister = 0xCA3\<rparr> 100000
        [0x18, 1] 2 () = Some (EFI_DEVICE_ERROR, w')) \<and>
   (\<exists>w'. ReceiveBmcDataFromPort_Kcs \<lparr>IoRead8 = (\<lambda>_ w. (0xFF, w)), IoWrite8 = (\<lambda>_ _ w. w),
        IoDelay = (\<lambda>_ w. w), PcdIpmiIoBaseAddress = 0xCA2, PcdIpmiIoCmdRegister = 0xCA3\<rparr> 100000
        [5, 6] 2 () = Some ((EFI_DEVICE_ERROR, [5, 6], 2), w'))"
  by (rule kcs_absent) simp

end
