(* ===== verification/Transport_Ssif.thy ===== *)
theory Transport_Ssif
  imports Transport
begin

section \<open>The SSIF transport library\<close>

text \<open>
  \<open>Library/IpmiTransportLibSsif/Ssif.c\<close> and \<open>Include/Ssif.h\<close>: messages over SMBus block
  transfers.  The SMBus library is the record \<open>smbus_lib\<close> of the four routines of
  \<open>Include/Library/BmcSmbusLib.h\<close>; the null library of the repository and the library of its SSIF
  unit test are instances.  A failing ASSERT is \<^theory_text>\<open>None\<close>.
\<close>

subsection \<open>The SMBus library interface\<close>

record 'b smbus_lib =
  BmcSmbusOpen :: "('b, efi_status) op"
  BmcSmbusClose :: "('b, efi_status) op"
  BmcSmbusBlockWrite :: "u8 \<Rightarrow> bytes \<Rightarrow> u8 \<Rightarrow> ('b, efi_status) op"
  BmcSmbusBlockRead :: "u8 \<Rightarrow> bytes \<Rightarrow> u8 \<Rightarrow> ('b, efi_status \<times> bytes \<times> u8) op"

definition SSIF_MAX_WRITE_SIZE :: u8 where "SSIF_MAX_WRITE_SIZE = 32"
definition SSIF_MAX_READ_SIZE :: nat where "SSIF_MAX_READ_SIZE = 32"
definition SSIF_MAX_READ_BUFFER_SIZE :: u8 where "SSIF_MAX_READ_BUFFER_SIZE = 64"
definition SMBUS_CMD_WRITE :: u8 where "SMBUS_CMD_WRITE = 0x2"
definition SMBUS_CMD_READ :: u8 where "SMBUS_CMD_READ = 0x3"
definition SMBUS_CMD_MULT_WRITE_START :: u8 where "SMBUS_CMD_MULT_WRITE_START = 0x6"
definition SMBUS_CMD_MULT_WRITE_MIDDLE :: u8 where "SMBUS_CMD_MULT_WRITE_MIDDLE = 0x7"
definition SMBUS_CMD_MULT_WRITE_END :: u8 where "SMBUS_CMD_MULT_WRITE_END = 0x8"
definition SMBUS_CMD_MULT_READ :: u8 where "SMBUS_CMD_MULT_READ = 0x9"

lemmas ssif_defs = SSIF_MAX_WRITE_SIZE_def SSIF_MAX_READ_SIZE_def SSIF_MAX_READ_BUFFER_SIZE_def
  SMBUS_CMD_WRITE_def SMBUS_CMD_READ_def SMBUS_CMD_MULT_WRITE_START_def
  SMBUS_CMD_MULT_WRITE_MIDDLE_def SMBUS_CMD_MULT_WRITE_END_def SMBUS_CMD_MULT_READ_def

subsection \<open>SendDataToBmcPort\<close>

text \<open>
  \<open>while (RemainingSize > 0)\<close>; \<open>RemainingSize\<close> is \<open>DataSize - DataOffset\<close> at the head of
  every pass.  \<open>Status\<close> is that of the last write.
\<close>

function SendDataToBmcPort_Ssif_loop ::
    "'b smbus_lib \<Rightarrow> bytes \<Rightarrow> u8 \<Rightarrow> u8 \<Rightarrow> u8 \<Rightarrow> efi_status \<Rightarrow> ('b, efi_status) op" where
  "SendDataToBmcPort_Ssif_loop bus Data DataSize SMBusCmd DataOffset Status b =
     (let RemainingSize = DataSize - DataOffset in
      if RemainingSize > 0 then
        (let WriteSize = (if RemainingSize < SSIF_MAX_WRITE_SIZE then RemainingSize
                          else SSIF_MAX_WRITE_SIZE)
         in
         (case BmcSmbusBlockWrite bus SMBusCmd (drop (unat DataOffset) Data) WriteSize b of
            None \<Rightarrow> None
          | Some (Status1, b1) \<Rightarrow>
              if EFI_ERROR Status1 then Some (Status1, b1)
              else
                (let DataOffset1 = DataOffset + WriteSize;
                     RemainingSize1 = DataSize - DataOffset1;
                     SMBusCmd1 = (if SMBusCmd = SMBUS_CMD_MULT_WRITE_START
                                  then SMBUS_CMD_MULT_WRITE_MIDDLE else SMBusCmd)
                 in
                 if SMBusCmd = SMBUS_CMD_MULT_WRITE_START \<and> \<not> RemainingSize1 > 0 then None
                 else SendDataToBmcPort_Ssif_loop bus Data DataSize
                        (if SMBusCmd1 = SMBUS_CMD_MULT_WRITE_MIDDLE \<and>
                            RemainingSize1 \<le> SSIF_MAX_WRITE_SIZE
                         then SMBUS_CMD_MULT_WRITE_END else SMBusCmd1)
                        DataOffset1 Status1 b1)))
      else Some (Status, b))"
  by pat_completeness auto

lemma full_write_less:
  assumes "\<not> n - ofs < SSIF_MAX_WRITE_SIZE"
  shows "unat (n - (ofs + SSIF_MAX_WRITE_SIZE)) < unat (n - ofs)"
proof -
  have "n - (ofs + SSIF_MAX_WRITE_SIZE) = (n - ofs) - SSIF_MAX_WRITE_SIZE" by simp
  moreover have "SSIF_MAX_WRITE_SIZE \<le> n - ofs" using assms by (simp only: not_less)
  moreover from this have "32 \<le> unat (n - ofs)" by (simp add: SSIF_MAX_WRITE_SIZE_def word_le_nat_alt)
  ultimately show ?thesis by (simp only: unat_sub) (simp add: SSIF_MAX_WRITE_SIZE_def)
qed

termination SendDataToBmcPort_Ssif_loop
  by (relation "measure (\<lambda>(bus, d, n, c, ofs, s, b). unat (n - ofs))")
    (auto simp: full_write_less word_gt_0 unat_gt_0)

declare SendDataToBmcPort_Ssif_loop.simps [simp del]

definition SendDataToBmcPort_Ssif :: "'b smbus_lib \<Rightarrow> 'b send_fn" where
  "SendDataToBmcPort_Ssif bus IpmiTimeoutPeriod Data DataSize b =
     (if DataSize = 0 then Some (EFI_INVALID_PARAMETER, b)
      else do {
        (Status, b1) \<leftarrow> BmcSmbusOpen bus b;
        if EFI_ERROR Status then Some (Status, b1)
        else do {
          (Status1, b2) \<leftarrow> SendDataToBmcPort_Ssif_loop bus Data DataSize
             (if DataSize > SSIF_MAX_WRITE_SIZE then SMBUS_CMD_MULT_WRITE_START else SMBUS_CMD_WRITE)
             0 Status b1;
          (_, b3) \<leftarrow> BmcSmbusClose bus b2;
          Some (Status1, b3)
        }
      })"

subsection \<open>ReceiveBmcDataFromPort\<close>

text \<open>
  One block: from the check of the status on.  \<open>Block\<close> is the memory from \<open>BlockBuffer\<close> on, its
  64 bytes and what lies behind it on the stack.  \<open>BlockDataSize\<close> is an eight bit difference.
  A pass stops with the status, the caller's buffer and \<open>DataOffset\<close>, or goes on with the next
  block number expected, the buffer and \<open>DataOffset\<close>.
\<close>

datatype ssif_pass = SsifAssert | SsifStop efi_status bytes u8 | SsifMore u8 bytes u8

definition ssif_block ::
    "u8 \<Rightarrow> u8 \<Rightarrow> efi_status \<Rightarrow> bytes \<Rightarrow> u8 \<Rightarrow> bytes \<Rightarrow> u8 \<Rightarrow> u8 \<Rightarrow> ssif_pass" where
  "ssif_block SMBusCmd BlockNumber Status Block ReadSize Data DataOffset DataSize =
     (if EFI_ERROR Status then SsifStop Status Data DataOffset
      else
        (let First = (SMBusCmd = SMBUS_CMD_READ);
             Multi = (First \<and> Block ! 0 = 0 \<and> Block ! 1 = 1);
             Done = (if First then \<not> Multi else Block ! 0 = 0xFF);
             BlockDataOffset = (if Multi then 2 else if First then 0 else 1);
             BlockDataSize = ReadSize - BlockDataOffset
         in
         if Multi \<and> DataOffset \<noteq> 0 then SsifAssert
         else if \<not> First \<and> \<not> Done \<and> Block ! 0 \<noteq> BlockNumber
         then SsifStop EFI_DEVICE_ERROR Data DataOffset
         else if unat DataOffset + unat BlockDataSize > unat DataSize
         then SsifStop EFI_BUFFER_TOO_SMALL Data DataOffset
         else
           (let Data1 = copy_mem Data (unat DataOffset)
                          (take (unat BlockDataSize) (drop (unat BlockDataOffset) Block));
                DataOffset1 = DataOffset + BlockDataSize
            in
            if Done then SsifStop Status Data1 DataOffset1
            else SsifMore (if First then 0 else Block ! 0 + 1) Data1 DataOffset1)))"

lemma unat_plus_one_u8: "(x :: u8) \<noteq> 0xFF \<Longrightarrow> unat (x + 1) = Suc (unat x)"
  using u8_bound [of x] by (simp add: unat_word_ariths word_unat_eq_iff)

lemma ssif_block_more:
  assumes "ssif_block c k st Block r Data ofs n = SsifMore k' Data' ofs'"
  shows "c = SMBUS_CMD_READ \<and> k' = 0 \<or> c \<noteq> SMBUS_CMD_READ \<and> unat k' = Suc (unat k)"
  using assms by (auto simp: ssif_block_def Let_def unat_plus_one_u8 split: if_splits)

text \<open>\<open>while (!Done)\<close>: the block number grows with every pass.\<close>

function ReceiveBmcDataFromPort_Ssif_loop ::
    "'b smbus_lib \<Rightarrow> u8 \<Rightarrow> u8 \<Rightarrow> bytes \<Rightarrow> bytes \<Rightarrow> u8 \<Rightarrow> u8 \<Rightarrow> ('b, efi_status \<times> bytes \<times> u8) op" where
  "ReceiveBmcDataFromPort_Ssif_loop bus SMBusCmd BlockNumber Block Data DataOffset DataSize b =
     (case BmcSmbusBlockRead bus SMBusCmd Block SSIF_MAX_READ_BUFFER_SIZE b of
        None \<Rightarrow> None
      | Some ((Status, Block1, ReadSize), b1) \<Rightarrow>
          (case ssif_block SMBusCmd BlockNumber Status Block1 ReadSize Data DataOffset DataSize of
             SsifAssert \<Rightarrow> None
           | SsifStop Status1 Data1 DataOffset1 \<Rightarrow> Some ((Status1, Data1, DataOffset1), b1)
           | SsifMore BlockNumber1 Data1 DataOffset1 \<Rightarrow>
               ReceiveBmcDataFromPort_Ssif_loop bus SMBUS_CMD_MULT_READ BlockNumber1 Block1 Data1
                 DataOffset1 DataSize b1))"
  by pat_completeness auto

lemma ssif_measure_less:
  assumes "ssif_block c k st Block r Data ofs n = SsifMore k' Data' ofs'"
  shows "256 - unat k' < (if c = SMBUS_CMD_READ then 257 else 256 - unat k)"
  using ssif_block_more [OF assms] u8_bound [of k'] by auto

termination ReceiveBmcDataFromPort_Ssif_loop
  by (relation "measure (\<lambda>(bus, c, k, bl, d, ofs, sz, b).
        if c = SMBUS_CMD_READ then 257 else 256 - unat k)")
    (auto simp: SMBUS_CMD_READ_def SMBUS_CMD_MULT_READ_def
      dest!: ssif_measure_less split: if_splits)

declare ReceiveBmcDataFromPort_Ssif_loop.simps [simp del]

text \<open>\<open>BlockBuffer\<close> is uninitialised at first, an argument of the model.  \<open>*DataSize\<close> is only
  written when the loop ends by itself.\<close>

definition ReceiveBmcDataFromPort_Ssif :: "'b smbus_lib \<Rightarrow> bytes \<Rightarrow> 'b recv_fn" where
  "ReceiveBmcDataFromPort_Ssif bus BlockBuffer IpmiTimeoutPeriod Data DataSize b =
     do {
       (Status, b1) \<leftarrow> BmcSmbusOpen bus b;
       if EFI_ERROR Status then Some ((Status, Data, DataSize), b1)
       else do {
         ((Status1, Data1, DataOffset), b2) \<leftarrow>
            ReceiveBmcDataFromPort_Ssif_loop bus SMBUS_CMD_READ 0 BlockBuffer Data 0 DataSize b1;
         (_, b3) \<leftarrow> BmcSmbusClose bus b2;
         Some ((Status1, Data1, if EFI_ERROR Status1 then DataSize else DataOffset), b3)
       }
     }"

definition InitializeIpmiTransportHardware_Ssif :: "('b, efi_status) op" where
  "InitializeIpmiTransportHardware_Ssif b = Some (EFI_SUCCESS, b)"

subsection \<open>The SMBus libraries of the repository\<close>

text \<open>\<open>Library/BmcSmbusLibNull\<close>.\<close>

definition BmcSmbusLibNull :: "'b smbus_lib" where
  "BmcSmbusLibNull = \<lparr>BmcSmbusOpen = (\<lambda>b. Some (EFI_SUCCESS, b)),
     BmcSmbusClose = (\<lambda>b. Some (EFI_SUCCESS, b)),
     BmcSmbusBlockWrite = (\<lambda>Command WriteBlock BlockLength b. Some (EFI_SUCCESS, b)),
     BmcSmbusBlockRead = (\<lambda>Command ReadBlock BlockLength b. Some ((EFI_SUCCESS, ReadBlock, 0), b))\<rparr>"

text \<open>\<open>Test/UnitTest/SsifUnitTest/BmcSmbusLibTest.c\<close>: the transmit and receive buffers of a
  BMC at the other end of the bus.\<close>

record smbus_test =
  RxBuffer :: bytes
  TxBuffer :: bytes
  RxOffset :: u32
  RxSize :: u32
  TxSize :: u32
  RxBlock :: u8

definition TEST_BUFFER_SIZE :: nat where "TEST_BUFFER_SIZE = 1024"

definition SmbusTestLibReset :: "smbus_test \<Rightarrow> smbus_test" where
  "SmbusTestLibReset b = \<lparr>RxBuffer = zero_mem TEST_BUFFER_SIZE, TxBuffer = zero_mem TEST_BUFFER_SIZE,
     RxOffset = 0, RxSize = 0, TxSize = 0, RxBlock = 0xFF\<rparr>"

definition test_BlockWrite :: "u8 \<Rightarrow> bytes \<Rightarrow> u8 \<Rightarrow> (smbus_test, efi_status) op" where
  "test_BlockWrite Command WriteBlock BlockLength b =
     (let WriteSize = (if BlockLength < SSIF_MAX_WRITE_SIZE then BlockLength else SSIF_MAX_WRITE_SIZE) in
      if Command \<notin> {SMBUS_CMD_WRITE, SMBUS_CMD_MULT_WRITE_START, SMBUS_CMD_MULT_WRITE_MIDDLE,
                      SMBUS_CMD_MULT_WRITE_END}
      then Some (EFI_INVALID_PARAMETER, b)
      else if Command \<in> {SMBUS_CMD_WRITE, SMBUS_CMD_MULT_WRITE_START} \<and> TxSize b \<noteq> 0
      then Some (EFI_ALREADY_STARTED, b)
      else if Command \<in> {SMBUS_CMD_MULT_WRITE_MIDDLE, SMBUS_CMD_MULT_WRITE_END} \<and> TxSize b = 0
      then Some (EFI_NOT_STARTED, b)
      else Some (EFI_SUCCESS,
             b\<lparr>TxBuffer := copy_mem (TxBuffer b) (unat (TxSize b)) (take (unat WriteSize) WriteBlock),
               TxSize := TxSize b + ucast WriteSize\<rparr>))"

definition test_BlockRead :: "u8 \<Rightarrow> bytes \<Rightarrow> u8 \<Rightarrow> (smbus_test, efi_status \<times> bytes \<times> u8) op" where
  "test_BlockRead Command ReadBlock BlockLength b =
     (let Rx = drop (unat (RxOffset b)) (RxBuffer b) in
      if RxSize b = 0 then Some ((EFI_NOT_FOUND, ReadBlock, BlockLength), b)
      else if Command = SMBUS_CMD_READ then
        (if RxOffset b \<noteq> 0 then Some ((EFI_ALREADY_STARTED, ReadBlock, BlockLength), b)
         else if RxSize b > of_nat SSIF_MAX_READ_SIZE
         then Some ((EFI_SUCCESS,
                     copy_mem (poke (poke ReadBlock 0 0) 1 1) 2 (take (SSIF_MAX_READ_SIZE - 2) Rx),
                     of_nat SSIF_MAX_READ_SIZE),
                    b\<lparr>RxOffset := RxOffset b + of_nat (SSIF_MAX_READ_SIZE - 2), RxBlock := 0\<rparr>)
         else Some ((EFI_SUCCESS, copy_mem ReadBlock 0 (take (unat (RxSize b)) Rx),
                     ucast (RxSize b)),
                    b\<lparr>RxOffset := RxOffset b + RxSize b\<rparr>))
      else if Command = SMBUS_CMD_MULT_READ then
        (if RxOffset b = 0 then Some ((EFI_NOT_STARTED, ReadBlock, BlockLength), b)
         else
           (let ReadSize = (if RxSize b - RxOffset b < of_nat (SSIF_MAX_READ_SIZE - 1)
                            then ucast (RxSize b - RxOffset b)
                            else of_nat (SSIF_MAX_READ_SIZE - 1) :: u8)
            in Some ((EFI_SUCCESS,
                      copy_mem (poke ReadBlock 0 (RxBlock b)) 1 (take (unat ReadSize) Rx),
                      ReadSize + 1),
                     b\<lparr>RxBlock := RxBlock b + 1, RxOffset := RxOffset b + ucast ReadSize\<rparr>)))
      else Some ((EFI_INVALID_PARAMETER, ReadBlock, BlockLength), b))"

definition BmcSmbusLibTest :: "smbus_test smbus_lib" where
  "BmcSmbusLibTest = \<lparr>BmcSmbusOpen = (\<lambda>b. Some (EFI_SUCCESS, b)),
     BmcSmbusClose = (\<lambda>b. Some (EFI_SUCCESS, b)),
     BmcSmbusBlockWrite = test_BlockWrite, BmcSmbusBlockRead = test_BlockRead\<rparr>"

definition CheckTxBuffer :: "bytes \<Rightarrow> u32 \<Rightarrow> smbus_test \<Rightarrow> bool" where
  "CheckTxBuffer Data DataSize b \<longleftrightarrow>
     DataSize = TxSize b \<and> take (unat DataSize) Data = take (unat DataSize) (TxBuffer b)"

definition SetRxBuffer :: "bytes \<Rightarrow> u32 \<Rightarrow> smbus_test \<Rightarrow> smbus_test option" where
  "SetRxBuffer Data DataSize b =
     (if unat DataSize \<le> TEST_BUFFER_SIZE
      then Some (b\<lparr>RxBuffer := copy_mem (RxBuffer b) 0 (take (unat DataSize) Data),
                   RxSize := DataSize, RxOffset := 0\<rparr>)
      else None)"

section \<open>The SSIF library over a lawful SMBus library is a lawful transport\<close>

text \<open>The contract of \<open>BmcSmbusLib.h\<close> the SSIF code relies on: a block write depends on the
  \<open>BlockLength\<close> bytes it is given only.\<close>

locale smbus =
  fixes bus :: "'b smbus_lib"
  assumes write_reads: "unat n \<le> length d \<Longrightarrow> unat n \<le> length d' \<Longrightarrow>
      take (unat n) d = take (unat n) d' \<Longrightarrow>
      BmcSmbusBlockWrite bus c d n b = BmcSmbusBlockWrite bus c d' n b"

lemma unat_add_fits: "\<not> unat (z :: u8) < unat (x :: u8) + unat y \<Longrightarrow> unat (x + y) \<le> unat z"
  using u8_bound [of z] by (simp add: unat_word_ariths)

lemma ssif_block_frame:
  assumes "ssif_block c k st Block r Data ofs n = p" "ofs \<le> n"
    "p = SsifStop st' Data' ofs' \<or> p = SsifMore k' Data' ofs'"
  shows "ofs' \<le> n" "unat n \<le> length Data \<Longrightarrow> length Data' = length Data"
  using assms
  by (auto simp: ssif_block_def Let_def word_le_nat_alt unat_add_fits mem_simps split: if_splits)

lemma ssif_receive_frame:
  assumes "ReceiveBmcDataFromPort_Ssif_loop bus c k Block Data ofs n b = Some ((st, Data', ofs'), b')"
    and "ofs \<le> n"
  shows "ofs' \<le> n \<and> (unat n \<le> length Data \<longrightarrow> length Data' = length Data)"
  using assms
proof (induction bus c k Block Data ofs n b rule: ReceiveBmcDataFromPort_Ssif_loop.induct)
  case (1 bus c k Block Data ofs n b)
  from "1.prems" obtain Status Block1 ReadSize b1 where
    r: "BmcSmbusBlockRead bus c Block SSIF_MAX_READ_BUFFER_SIZE b = Some ((Status, Block1, ReadSize), b1)"
    by (subst (asm) ReceiveBmcDataFromPort_Ssif_loop.simps) (auto split: option.splits)
  let ?p = "ssif_block c k Status Block1 ReadSize Data ofs n"
  have run: "(case ?p of SsifAssert \<Rightarrow> None
      | SsifStop st1 d1 o1 \<Rightarrow> Some ((st1, d1, o1), b1)
      | SsifMore k1 d1 o1 \<Rightarrow> ReceiveBmcDataFromPort_Ssif_loop bus SMBUS_CMD_MULT_READ k1 Block1 d1 o1 n b1) =
      Some ((st, Data', ofs'), b')"
    using "1.prems"(1) r by (subst (asm) ReceiveBmcDataFromPort_Ssif_loop.simps) simp
  show ?case
  proof (cases ?p)
    case SsifAssert
    then show ?thesis using run by simp
  next
    case (SsifStop st1 d1 o1)
    then show ?thesis using run ssif_block_frame [OF SsifStop "1.prems"(2)] by auto
  next
    case (SsifMore k1 d1 o1)
    note f = ssif_block_frame [OF SsifMore "1.prems"(2)]
    have "ofs' \<le> n \<and> (unat n \<le> length d1 \<longrightarrow> length Data' = length d1)"
      using run SsifMore r f(1) by (intro "1.IH" [OF r refl refl refl SsifMore]) auto
    then show ?thesis using f(2) by auto
  qed
qed

subsection \<open>The packets of a message\<close>

text \<open>The reference: a message is cut into blocks of 32 bytes; a single block goes out with the
  write command, several with start, middle and end commands.\<close>

function ssif_chunks :: "bytes \<Rightarrow> bytes list" where
  "ssif_chunks d = (if d = [] then [] else take 32 d # ssif_chunks (drop 32 d))"
  by pat_completeness auto

termination ssif_chunks
  by (relation "measure length") auto

declare ssif_chunks.simps [simp del]

fun ssif_label_rest :: "bytes list \<Rightarrow> (u8 \<times> bytes) list" where
  "ssif_label_rest [] = []"
| "ssif_label_rest [c] = [(SMBUS_CMD_MULT_WRITE_END, c)]"
| "ssif_label_rest (c # cs) = (SMBUS_CMD_MULT_WRITE_MIDDLE, c) # ssif_label_rest cs"

fun ssif_label :: "bytes list \<Rightarrow> (u8 \<times> bytes) list" where
  "ssif_label [c] = [(SMBUS_CMD_WRITE, c)]"
| "ssif_label (c # cs) = (SMBUS_CMD_MULT_WRITE_START, c) # ssif_label_rest cs"
| "ssif_label [] = []"

definition ssif_packets :: "bytes \<Rightarrow> (u8 \<times> bytes) list" where
  "ssif_packets d = ssif_label (ssif_chunks d)"

text \<open>Write the packets in order and stop at the first error.\<close>

fun smbus_write_all ::
    "'b smbus_lib \<Rightarrow> (u8 \<times> bytes) list \<Rightarrow> efi_status \<Rightarrow> ('b, efi_status) op" where
  "smbus_write_all bus [] Status b = Some (Status, b)"
| "smbus_write_all bus ((c, d) # ps) Status b =
     (case BmcSmbusBlockWrite bus c d (of_nat (length d)) b of
        None \<Rightarrow> None
      | Some (Status1, b1) \<Rightarrow>
          if EFI_ERROR Status1 then Some (Status1, b1) else smbus_write_all bus ps Status1 b1)"

lemma ssif_chunks_Nil [simp]: "ssif_chunks [] = []"
  by (simp add: ssif_chunks.simps)

lemma ssif_chunks_Cons: "d \<noteq> [] \<Longrightarrow> ssif_chunks d = take 32 d # ssif_chunks (drop 32 d)"
  by (simp add: ssif_chunks.simps)

lemma concat_ssif_chunks: "concat (ssif_chunks d) = d"
proof (induction d rule: ssif_chunks.induct)
  case (1 d)
  then show ?case by (cases "d = []") (simp_all add: ssif_chunks_Cons)
qed

lemma length_ssif_chunks: "c \<in> set (ssif_chunks d) \<Longrightarrow> 0 < length c \<and> length c \<le> 32"
proof (induction d rule: ssif_chunks.induct)
  case (1 d)
  then show ?case by (cases "d = []") (auto simp: ssif_chunks_Cons)
qed

lemma map_snd_label: "map snd (ssif_label_rest cs) = cs" "map snd (ssif_label cs) = cs"
proof -
  show *: "map snd (ssif_label_rest cs) = cs" for cs by (induction cs rule: ssif_label_rest.induct) auto
  show "map snd (ssif_label cs) = cs" by (cases cs rule: ssif_label.cases) (auto simp: *)
qed

text \<open>The first pass over the rest \<open>x\<close> of the message writes its first chunk.\<close>

context smbus
begin

lemma write_chunk:
  assumes "ofs \<le> n" "unat n \<le> length d" "x = drop (unat ofs) (take (unat n) d)"
    and "w = (if n - ofs < SSIF_MAX_WRITE_SIZE then n - ofs else SSIF_MAX_WRITE_SIZE)"
  shows "BmcSmbusBlockWrite bus c (drop (unat ofs) d) w b =
      BmcSmbusBlockWrite bus c (take 32 x) (of_nat (length (take 32 x))) b"
    "unat (n - ofs) = length x" "unat w = length (take 32 x)"
    "ofs + w \<le> n" "drop (unat (ofs + w)) (take (unat n) d) = drop 32 x"
proof -
  show len: "unat (n - ofs) = length x" using assms(1-3) by (simp add: unat_sub word_le_nat_alt)
  then show w: "unat w = length (take 32 x)"
    using assms(4) by (auto simp: SSIF_MAX_WRITE_SIZE_def word_less_nat_alt)
  have sum: "unat ofs + unat w \<le> unat n"
    using w len assms(1) by (simp add: unat_sub word_le_nat_alt)
  then have ow: "unat (ofs + w) = unat ofs + unat w"
    using u8_bound [of n] by (simp add: unat_word_ariths)
  then show "ofs + w \<le> n" using sum by (simp add: word_le_nat_alt)
  show "drop (unat (ofs + w)) (take (unat n) d) = drop 32 x"
    using assms(3) w unfolding ow by (cases "32 \<le> length x") (auto simp: add.commute)
  have "take (unat w) (drop (unat ofs) d) = take (unat w) (take 32 x)"
    using assms(2,3) sum w by (auto simp: drop_take min_def)
  then have "BmcSmbusBlockWrite bus c (drop (unat ofs) d) w b = BmcSmbusBlockWrite bus c (take 32 x) w b"
    using sum assms(2) w by (intro write_reads) auto
  moreover have "w = of_nat (length (take 32 x))" unfolding w [symmetric] by simp
  ultimately show "BmcSmbusBlockWrite bus c (drop (unat ofs) d) w b =
      BmcSmbusBlockWrite bus c (take 32 x) (of_nat (length (take 32 x))) b" by simp
qed

lemma send_rest:
  "ofs < n \<Longrightarrow> unat n \<le> length d \<Longrightarrow>
     SendDataToBmcPort_Ssif_loop bus d n
       (if n - ofs \<le> SSIF_MAX_WRITE_SIZE then SMBUS_CMD_MULT_WRITE_END
        else SMBUS_CMD_MULT_WRITE_MIDDLE) ofs st b =
     smbus_write_all bus (ssif_label_rest (ssif_chunks (drop (unat ofs) (take (unat n) d)))) st b"
proof (induction "unat (n - ofs)" arbitrary: ofs st b rule: less_induct)
  case less
  define x where "x = drop (unat ofs) (take (unat n) d)"
  define w where "w = (if n - ofs < SSIF_MAX_WRITE_SIZE then n - ofs else SSIF_MAX_WRITE_SIZE)"
  note c = write_chunk [OF less_imp_le [OF less.prems(1)] less.prems(2) x_def w_def]
  have x: "x \<noteq> []" "0 < n - ofs"
    using less.prems by (auto simp: x_def word_less_nat_alt unat_sub_if' word_gt_0)
  have chunks: "ssif_chunks x = take 32 x # ssif_chunks (drop 32 x)"
    using x(1) by (rule ssif_chunks_Cons)
  show ?case
  proof (cases "n - ofs \<le> SSIF_MAX_WRITE_SIZE")
    case True
    then have "w = n - ofs" by (auto simp: w_def)
    moreover have "drop 32 x = []"
      using True c(2) by (simp add: SSIF_MAX_WRITE_SIZE_def word_le_nat_alt)
    ultimately show ?thesis
      using x(2) True chunks c(1)
      by (simp add: SendDataToBmcPort_Ssif_loop.simps [of bus d n _ ofs] Let_def
          SendDataToBmcPort_Ssif_loop.simps [of bus d n _ n] flip: x_def w_def split: option.splits)
        (auto simp: ssif_defs)
  next
    case False
    then have w: "w = SSIF_MAX_WRITE_SIZE" by (auto simp: w_def)
    have "32 < length x" using False c(2) by (simp add: SSIF_MAX_WRITE_SIZE_def word_le_nat_alt)
    then have "drop 32 x \<noteq> []" by simp
    then have "drop (unat (ofs + w)) (take (unat n) d) \<noteq> []" using c(5) by simp
    then have lt: "ofs + w < n" by (simp add: word_less_nat_alt)
    obtain y ys where ys: "ssif_chunks (drop 32 x) = y # ys"
      using \<open>drop 32 x \<noteq> []\<close> ssif_chunks_Cons by blast
    have "unat (n - (ofs + w)) < unat (n - ofs)"
      using False w by (simp add: full_write_less)
    note IH = less.hyps [OF this lt less.prems(2), unfolded c(5) ys]
    show ?thesis
      using x(2) False chunks c(1) IH ys
      by (simp add: SendDataToBmcPort_Ssif_loop.simps [of bus d n _ ofs] Let_def
          flip: x_def w_def split: option.splits)
        (auto simp: ssif_defs)
  qed
qed

end

lemma send_loop_done [simp]: "SendDataToBmcPort_Ssif_loop bus d n c n st b = Some (st, b)"
  by (simp add: SendDataToBmcPort_Ssif_loop.simps [of bus d n c n])

context smbus
begin

lemma send_loop_packets:
  assumes "0 < n" "unat n \<le> length d"
  shows "SendDataToBmcPort_Ssif_loop bus d n
      (if n > SSIF_MAX_WRITE_SIZE then SMBUS_CMD_MULT_WRITE_START else SMBUS_CMD_WRITE) 0 st b =
    smbus_write_all bus (ssif_packets (take (unat n) d)) st b"
proof -
  define x where "x = take (unat n) d"
  define w where "w = (if n - 0 < SSIF_MAX_WRITE_SIZE then n - 0 else SSIF_MAX_WRITE_SIZE)"
  have "x = drop (unat (0 :: u8)) (take (unat n) d)" by (simp add: x_def)
  note c = write_chunk [OF _ assms(2) this w_def, simplified]
  have x: "x \<noteq> []" using assms by (auto simp: x_def word_less_nat_alt)
  have chunks: "ssif_chunks x = take 32 x # ssif_chunks (drop 32 x)"
    using x by (rule ssif_chunks_Cons)
  show ?thesis
  proof (cases "n > SSIF_MAX_WRITE_SIZE")
    case False
    then have "w = n" by (auto simp: w_def)
    moreover have "drop 32 x = []"
      using False c(2) by (simp add: SSIF_MAX_WRITE_SIZE_def word_less_nat_alt)
    ultimately show ?thesis
      using assms False chunks c(1)
      by (simp add: SendDataToBmcPort_Ssif_loop.simps [of bus d n _ 0] Let_def ssif_packets_def
          flip: x_def w_def split: option.splits)
        (auto simp: ssif_defs)
  next
    case True
    then have w: "w = SSIF_MAX_WRITE_SIZE" by (auto simp: w_def)
    have "32 < length x" using True c(2) by (simp add: SSIF_MAX_WRITE_SIZE_def word_less_nat_alt)
    then obtain y ys where ys: "ssif_chunks (drop 32 x) = y # ys"
      using ssif_chunks_Cons [of "drop 32 x"] by auto
    have lt: "w < n" using True w by simp
    have nlt: "(n < SSIF_MAX_WRITE_SIZE) = False" using True by auto
    from lt have "0 < n - w" by (simp add: word_gt_0)
    then have step: "SendDataToBmcPort_Ssif_loop bus d n SMBUS_CMD_MULT_WRITE_START 0 st b =
        (case BmcSmbusBlockWrite bus SMBUS_CMD_MULT_WRITE_START (take 32 x)
                (of_nat (length (take 32 x))) b of
           None \<Rightarrow> None
         | Some (st1, b1) \<Rightarrow> if EFI_ERROR st1 then Some (st1, b1)
             else SendDataToBmcPort_Ssif_loop bus d n
               (if n - w \<le> SSIF_MAX_WRITE_SIZE then SMBUS_CMD_MULT_WRITE_END
                else SMBUS_CMD_MULT_WRITE_MIDDLE) w st1 b1)"
      using assms(1) c(1) True unfolding w
      by (subst SendDataToBmcPort_Ssif_loop.simps) (simp add: Let_def nlt split: option.splits)
    have rest: "drop (unat w) (take (unat n) d) = drop 32 x" using c(5) by (simp add: x_def)
    show ?thesis
      using True
      by (simp add: step [unfolded send_rest [OF lt assms(2), unfolded rest]] ssif_packets_def chunks
          ys flip: x_def split: option.splits)
  qed
qed

lemma send_packets:
  assumes "0 < n" "unat n \<le> length d"
  shows "SendDataToBmcPort_Ssif bus P d n b =
    do {
      (Status, b1) \<leftarrow> BmcSmbusOpen bus b;
      if EFI_ERROR Status then Some (Status, b1)
      else do {
        (Status1, b2) \<leftarrow> smbus_write_all bus (ssif_packets (take (unat n) d)) Status b1;
        (_, b3) \<leftarrow> BmcSmbusClose bus b2;
        Some (Status1, b3)
      }
    }"
  using assms unfolding SendDataToBmcPort_Ssif_def send_loop_packets [OF assms]
  by (simp add: word_gt_0)

end

sublocale smbus \<subseteq> ssif: transport "SendDataToBmcPort_Ssif bus"
  "ReceiveBmcDataFromPort_Ssif bus BlockBuffer" for BlockBuffer
proof unfold_locales
  fix n :: u8 and d d' :: bytes and P :: u64 and t :: 'b
  assume a: "unat n \<le> length d" "unat n \<le> length d'" "take (unat n) d = take (unat n) d'"
  show "SendDataToBmcPort_Ssif bus P d n t = SendDataToBmcPort_Ssif bus P d' n t"
  proof (cases "n = 0")
    case True
    then show ?thesis by (simp add: SendDataToBmcPort_Ssif_def)
  next
    case False
    then have n: "0 < n" by (simp add: word_gt_0)
    show ?thesis unfolding send_packets [OF n a(1)] send_packets [OF n a(2)] a(3) by (rule refl)
  qed
next
  fix P :: u64 and buf buf' :: bytes and n n' :: u8 and t t' :: 'b and st
  assume r: "ReceiveBmcDataFromPort_Ssif bus BlockBuffer P buf n t = Some ((st, buf', n'), t')"
    and n: "unat n \<le> length buf"
  show "length buf' = length buf"
    using r n by (auto simp: ReceiveBmcDataFromPort_Ssif_def bind_eq_Some_conv split: if_splits
        dest!: ssif_receive_frame)
next
  fix P :: u64 and buf buf' :: bytes and n n' :: u8 and t t' :: 'b
  assume r: "ReceiveBmcDataFromPort_Ssif bus BlockBuffer P buf n t =
      Some ((EFI_SUCCESS, buf', n'), t')"
  then show "n' \<le> n"
    by (auto simp: ReceiveBmcDataFromPort_Ssif_def bind_eq_Some_conv split: if_splits
        dest!: ssif_receive_frame)
qed

interpretation smbus_null: smbus BmcSmbusLibNull
  by unfold_locales (simp add: BmcSmbusLibNull_def)

lemma test_write_reads:
  assumes "unat n \<le> length d" "unat n \<le> length d'" "take (unat n) d = take (unat n) d'"
  shows "test_BlockWrite c d n b = test_BlockWrite c d' n b"
proof -
  define w where "w = (if n < SSIF_MAX_WRITE_SIZE then n else SSIF_MAX_WRITE_SIZE)"
  have "unat w \<le> unat n" by (auto simp: w_def word_less_nat_alt)
  then have "take (unat w) d = take (unat w) d'"
    using assms(3) by (metis min.absorb1 take_take)
  then show ?thesis by (simp add: test_BlockWrite_def Let_def flip: w_def)
qed

interpretation smbus_test: smbus BmcSmbusLibTest
  by unfold_locales (auto simp: BmcSmbusLibTest_def intro: test_write_reads)

section \<open>Messages over SSIF\<close>

definition test_reset :: smbus_test where
  "test_reset = SmbusTestLibReset \<lparr>RxBuffer = [], TxBuffer = [], RxOffset = 0, RxSize = 0, TxSize = 0,
     RxBlock = 0\<rparr>"

lemma test_reset_simps [simp]:
  "RxBuffer test_reset = zero_mem 1024" "TxBuffer test_reset = zero_mem 1024" "RxOffset test_reset = 0"
  "RxSize test_reset = 0" "TxSize test_reset = 0" "RxBlock test_reset = 0xFF"
  by (simp_all add: test_reset_def SmbusTestLibReset_def TEST_BUFFER_SIZE_def)

text \<open>C8 A send over SSIF opens the bus, writes the packets of the message in order until the
  first error and closes the bus again.  The packets hold the message and nothing else, each has
  between 1 and 32 bytes, and the ASSERT in the loop never fails.\<close>

theorem ssif_send_packets:
  assumes "smbus bus" "0 < n" "unat n \<le> length d"
  shows "SendDataToBmcPort_Ssif bus P d n b =
      do {
        (Status, b1) \<leftarrow> BmcSmbusOpen bus b;
        if EFI_ERROR Status then Some (Status, b1)
        else do {
          (Status1, b2) \<leftarrow> smbus_write_all bus (ssif_packets (take (unat n) d)) Status b1;
          (_, b3) \<leftarrow> BmcSmbusClose bus b2;
          Some (Status1, b3)
        }
      } \<and>
    concat (map snd (ssif_packets (take (unat n) d))) = take (unat n) d \<and>
    list_all (\<lambda>p. 0 < length (snd p) \<and> length (snd p) \<le> 32) (ssif_packets (take (unat n) d))"
  unfolding list_all_iff
proof (intro conjI ballI)
  show "concat (map snd (ssif_packets (take (unat n) d))) = take (unat n) d"
    by (simp add: ssif_packets_def map_snd_label concat_ssif_chunks)
  fix p assume "p \<in> set (ssif_packets (take (unat n) d))"
  then have "snd p \<in> set (ssif_chunks (take (unat n) d))"
    using map_snd_label(2) by (metis image_eqI list.set_map ssif_packets_def)
  then show "0 < length (snd p)" "length (snd p) \<le> 32" using length_ssif_chunks by blast+
qed (rule smbus.send_packets [OF assms])

theorem ssif_send_packets_witness:
  "SendDataToBmcPort_Ssif BmcSmbusLibTest 0 [1, 2, 3] 2 test_reset =
      do {
        (Status, b1) \<leftarrow> BmcSmbusOpen BmcSmbusLibTest test_reset;
        if EFI_ERROR Status then Some (Status, b1)
        else do {
          (Status1, b2) \<leftarrow> smbus_write_all BmcSmbusLibTest (ssif_packets (take (unat (2 :: u8)) [1, 2, 3])) Status b1;
          (_, b3) \<leftarrow> BmcSmbusClose BmcSmbusLibTest b2;
          Some (Status1, b3)
        }
      } \<and>
    concat (map snd (ssif_packets (take (unat (2 :: u8)) [1, 2, 3]))) = take (unat (2 :: u8)) [1, 2, 3] \<and>
    list_all (\<lambda>p. 0 < length (snd p) \<and> length (snd p) \<le> 32)
      (ssif_packets (take (unat (2 :: u8)) [1, 2, 3]))"
  by (rule ssif_send_packets [OF smbus_test.smbus_axioms]) simp_all

subsection \<open>Against the SMBus library of the unit test\<close>

lemma test_open_close [simp]:
  "BmcSmbusOpen BmcSmbusLibTest b = Some (EFI_SUCCESS, b)"
  "BmcSmbusClose BmcSmbusLibTest b = Some (EFI_SUCCESS, b)"
  "BmcSmbusBlockRead BmcSmbusLibTest = test_BlockRead"
  by (simp_all add: BmcSmbusLibTest_def)

lemma test_write_block:
  assumes "unat (TxSize b) + length x \<le> 1024" "length x \<le> 32"
    and "c = SMBUS_CMD_WRITE \<or> c = SMBUS_CMD_MULT_WRITE_START \<Longrightarrow> TxSize b = 0"
    and "c = SMBUS_CMD_MULT_WRITE_MIDDLE \<or> c = SMBUS_CMD_MULT_WRITE_END \<Longrightarrow> TxSize b \<noteq> 0"
    and "c \<in> {SMBUS_CMD_WRITE, SMBUS_CMD_MULT_WRITE_START, SMBUS_CMD_MULT_WRITE_MIDDLE,
              SMBUS_CMD_MULT_WRITE_END}"
  shows "BmcSmbusBlockWrite BmcSmbusLibTest c x (of_nat (length x)) b =
    Some (EFI_SUCCESS, b\<lparr>TxBuffer := copy_mem (TxBuffer b) (unat (TxSize b)) x,
      TxSize := TxSize b + of_nat (length x)\<rparr>)"
proof -
  have w: "(if (of_nat (length x) :: u8) < SSIF_MAX_WRITE_SIZE then of_nat (length x)
      else SSIF_MAX_WRITE_SIZE) = of_nat (length x)"
    using assms(2) by (auto simp: SSIF_MAX_WRITE_SIZE_def word_less_nat_alt unat_of_nat
        word_unat_eq_iff)
  have "unat (of_nat (length x) :: u8) = length x" using assms(2) by (simp add: unat_of_nat)
  moreover have "ucast (of_nat (length x) :: u8) = (of_nat (length x) :: u32)"
    using assms(2) by (simp add: word_unat_eq_iff unat_of_nat unsigned_ucast_eq take_bit_nat_eq_self)
  moreover have "c \<in> {SMBUS_CMD_WRITE, SMBUS_CMD_MULT_WRITE_START} \<Longrightarrow> TxSize b = 0"
    "c \<in> {SMBUS_CMD_MULT_WRITE_MIDDLE, SMBUS_CMD_MULT_WRITE_END} \<Longrightarrow> TxSize b \<noteq> 0"
    using assms(3,4) by auto
  ultimately have "test_BlockWrite c x (of_nat (length x)) b =
    Some (EFI_SUCCESS, b\<lparr>TxBuffer := copy_mem (TxBuffer b) (unat (TxSize b)) x,
      TxSize := TxSize b + of_nat (length x)\<rparr>)"
    using assms(5) unfolding test_BlockWrite_def Let_def w by auto
  then show ?thesis by (simp add: BmcSmbusLibTest_def)
qed

lemma test_write_rest:
  assumes "\<forall>x \<in> set cs. 0 < length x \<and> length x \<le> 32"
    and "TxSize b \<noteq> 0" "unat (TxSize b) + length (concat cs) \<le> 1024" "length (TxBuffer b) = 1024"
  shows "\<exists>b'. smbus_write_all BmcSmbusLibTest (ssif_label_rest cs) EFI_SUCCESS b = Some (EFI_SUCCESS, b') \<and>
    unat (TxSize b') = unat (TxSize b) + length (concat cs) \<and>
    take (unat (TxSize b')) (TxBuffer b') = take (unat (TxSize b)) (TxBuffer b) @ concat cs"
  using assms
proof (induction cs arbitrary: b)
  case Nil
  then show ?case by simp
next
  case (Cons x cs)
  let ?b = "b\<lparr>TxBuffer := copy_mem (TxBuffer b) (unat (TxSize b)) x,
      TxSize := TxSize b + of_nat (length x)\<rparr>"
  have sz: "unat (TxSize ?b) = unat (TxSize b) + length x"
    using Cons.prems(3) by (simp add: unat_word_ariths unat_of_nat)
  have label: "\<exists>c. ssif_label_rest (x # cs) = (c, x) # ssif_label_rest cs \<and>
      c \<in> {SMBUS_CMD_MULT_WRITE_MIDDLE, SMBUS_CMD_MULT_WRITE_END}"
    by (cases cs) auto
  then obtain c where c: "ssif_label_rest (x # cs) = (c, x) # ssif_label_rest cs"
    "c \<in> {SMBUS_CMD_MULT_WRITE_MIDDLE, SMBUS_CMD_MULT_WRITE_END}" by blast
  have wr: "BmcSmbusBlockWrite BmcSmbusLibTest c x (of_nat (length x)) b = Some (EFI_SUCCESS, ?b)"
  proof (rule test_write_block)
    show "unat (TxSize b) + length x \<le> 1024" "length x \<le> 32" using Cons.prems(1,3) by simp_all
  qed (use Cons.prems(2) c(2) in \<open>auto simp: ssif_defs\<close>)
  have "TxSize ?b \<noteq> 0" using sz Cons.prems(1) by (auto simp: word_unat_eq_iff)
  moreover have "length (TxBuffer ?b) = 1024" using Cons.prems by (simp add: mem_simps)
  moreover have "take (unat (TxSize b) + length x) (TxBuffer ?b) = take (unat (TxSize b)) (TxBuffer b) @ x"
    using Cons.prems by (simp add: mem_simps)
  ultimately show ?case
    using Cons.IH [of ?b] Cons.prems c(1) wr sz by (simp add: add.assoc)
qed

text \<open>A message of 1 to 255 bytes arrives in the transmit buffer as it was sent, whether it takes one
  packet or several.\<close>

lemma test_send_arrives:
  assumes "0 < n" "unat n \<le> length d" "TxSize b = 0" "length (TxBuffer b) = 1024"
  shows "\<exists>b'. SendDataToBmcPort_Ssif BmcSmbusLibTest P d n b = Some (EFI_SUCCESS, b') \<and>
    CheckTxBuffer d (ucast n) b'"
proof -
  define m where "m = take (unat n) d"
  have m: "length m = unat n" "m \<noteq> []" using assms by (auto simp: m_def word_less_nat_alt)
  obtain x cs where cs: "ssif_chunks m = x # cs" using ssif_chunks_Cons [OF m(2)] by blast
  have small: "\<forall>y \<in> set (x # cs). 0 < length y \<and> length y \<le> 32" and all: "x @ concat cs = m"
    using length_ssif_chunks [of _ m] concat_ssif_chunks [of m] by (auto simp: cs)
  let ?b = "b\<lparr>TxBuffer := copy_mem (TxBuffer b) (unat (TxSize b)) x,
      TxSize := TxSize b + of_nat (length x)\<rparr>"
  have len: "length x + length (concat cs) = unat n" using all m(1) by (metis length_append)
  have sz: "unat (TxSize ?b) = length x" using small assms(3) by (simp add: unat_of_nat)
  obtain c where c: "ssif_label (x # cs) = (c, x) # ssif_label_rest cs"
    "c \<in> {SMBUS_CMD_WRITE, SMBUS_CMD_MULT_WRITE_START}"
    by (cases cs) auto
  have wr: "BmcSmbusBlockWrite BmcSmbusLibTest c x (of_nat (length x)) b = Some (EFI_SUCCESS, ?b)"
  proof (rule test_write_block)
    show "unat (TxSize b) + length x \<le> 1024" "length x \<le> 32" using assms(3) small by simp_all
  qed (use assms(3) c(2) in \<open>auto simp: ssif_defs\<close>)
  have "TxSize ?b \<noteq> 0" using sz small by (auto simp: word_unat_eq_iff)
  moreover have "unat (TxSize ?b) + length (concat cs) \<le> 1024"
    unfolding sz len using u8_bound [of n] by simp
  moreover have "length (TxBuffer ?b) = 1024" using assms small by (simp add: mem_simps)
  ultimately obtain b' where b': "smbus_write_all BmcSmbusLibTest (ssif_label_rest cs) EFI_SUCCESS ?b =
      Some (EFI_SUCCESS, b')" "unat (TxSize b') = unat n"
    "take (unat n) (TxBuffer b') = take (length x) (TxBuffer ?b) @ concat cs"
    using test_write_rest [of cs ?b] small len unfolding sz by auto
  have "take (length x) (TxBuffer ?b) = x"
    using assms small by (simp add: copy_mem_def)
  then have "take (unat n) (TxBuffer b') = take (unat n) d" using b'(3) all by (simp add: m_def)
  moreover have "TxSize b' = ucast n" using b'(2) u8_bound [of n]
    by (simp add: word_unat_eq_iff unsigned_ucast_eq take_bit_nat_eq_self)
  moreover have "unat (ucast n :: u32) = unat n" using u8_bound [of n]
    by (simp add: unsigned_ucast_eq take_bit_nat_eq_self)
  moreover have "SendDataToBmcPort_Ssif BmcSmbusLibTest P d n b = Some (EFI_SUCCESS, b')"
    using smbus_test.send_packets [OF assms(1,2), of P b] wr b'(1) c(1)
    by (simp add: ssif_packets_def cs flip: m_def)
  ultimately show ?thesis by (auto simp: CheckTxBuffer_def)
qed

subsection \<open>Receiving from the SMBus library of the unit test\<close>

lemma test_mult_read:
  assumes m: "unat (RxSize b) = m" "m \<le> 255" and o': "unat (RxOffset b) = k" "0 < k" "k \<le> m"
    and len: "64 \<le> length Block" "m \<le> length (RxBuffer b)" and rs: "rs = min 31 (m - k)"
  shows "test_BlockRead SMBUS_CMD_MULT_READ Block n b =
    Some ((EFI_SUCCESS, copy_mem (poke Block 0 (RxBlock b)) 1 (take rs (drop k (RxBuffer b))), of_nat (rs + 1)),
      b\<lparr>RxBlock := RxBlock b + 1, RxOffset := of_nat (k + rs)\<rparr>)"
proof -
  have diff: "unat (RxSize b - RxOffset b) = m - k"
    using m o' by (simp add: unat_sub word_le_nat_alt)
  have size: "(if RxSize b - RxOffset b < of_nat (SSIF_MAX_READ_SIZE - 1)
      then ucast (RxSize b - RxOffset b) else of_nat (SSIF_MAX_READ_SIZE - 1)) = (of_nat rs :: u8)"
  proof (cases "m - k < 31")
    case True
    then have "unat (ucast (RxSize b - RxOffset b) :: u8) = unat (of_nat rs :: u8)"
      using rs by (simp add: unsigned_ucast_eq diff unat_of_nat take_bit_nat_eq_self)
    then show ?thesis
      using True by (simp add: word_less_nat_alt SSIF_MAX_READ_SIZE_def diff word_unat_eq_iff)
  next
    case False
    then show ?thesis using rs by (simp add: word_less_nat_alt SSIF_MAX_READ_SIZE_def diff)
  qed
  have "RxSize b \<noteq> 0" "RxOffset b \<noteq> 0" using m o' by auto
  moreover have "unat (of_nat rs :: u8) = rs" "ucast (of_nat rs :: u8) = (of_nat rs :: u32)"
    using rs by (simp_all add: unat_of_nat word_unat_eq_iff unsigned_ucast_eq take_bit_nat_eq_self)
  moreover have "RxOffset b + of_nat rs = of_nat (k + rs)" by (simp flip: o'(1))
  ultimately show ?thesis
    using o'(1) unfolding test_BlockRead_def Let_def size
    by (simp add: SMBUS_CMD_MULT_READ_def SMBUS_CMD_READ_def)
qed


lemma copy_mem_poke: "copy_mem (poke Block 0 v) 1 x = v # x @ drop (Suc (length x)) Block"
  by (cases Block) (simp_all add: copy_mem_def poke_0)

text \<open>One middle or last block: \<open>Data\<close> has got the first \<open>k\<close> bytes of the receive buffer.\<close>

lemma test_mult_block:
  assumes m: "unat (RxSize b) = m" "m \<le> unat n" "unat n \<le> length D"
    and o': "unat (RxOffset b) = k" "0 < k" "k \<le> m"
    and len: "64 \<le> length Block" "m \<le> length (RxBuffer b)" and rs: "rs = min 31 (m - k)"
    and Data: "Data = take k (RxBuffer b) @ drop k D"
  shows "ssif_block SMBUS_CMD_MULT_READ (RxBlock b) EFI_SUCCESS
      (copy_mem (poke Block 0 (RxBlock b)) 1 (take rs (drop k (RxBuffer b)))) (of_nat (rs + 1)) Data
      (of_nat k) n =
    (if RxBlock b = 0xFF
     then SsifStop EFI_SUCCESS (take (k + rs) (RxBuffer b) @ drop (k + rs) D) (of_nat (k + rs))
     else SsifMore (RxBlock b + 1) (take (k + rs) (RxBuffer b) @ drop (k + rs) D) (of_nat (k + rs)))"
proof -
  let ?x = "take rs (drop k (RxBuffer b))"
  let ?B = "copy_mem (poke Block 0 (RxBlock b)) 1 ?x"
  have B0: "?B ! 0 = RxBlock b" by (simp only: copy_mem_poke nth_Cons_0)
  have x: "length ?x = rs" using len(2) rs o'(3) by simp
  have B: "take rs (drop 1 ?B) = ?x"
    unfolding copy_mem_poke using x by (simp del: length_take)
  have kb: "unat (of_nat k :: u8) = k" "unat (of_nat rs :: u8) = rs"
    using m o' u8_bound [of n] rs by (simp_all add: unat_of_nat)
  have cp: "copy_mem Data k ?x = take (k + rs) (RxBuffer b) @ drop (k + rs) D"
    using Data x len(2) o'(3) by (simp add: copy_mem_def take_add add.commute)
  have "k + rs \<le> unat n" using m(2) o'(3) rs by simp
  then show ?thesis
    using B0 B kb cp
    by (simp add: ssif_block_def Let_def SMBUS_CMD_READ_def SMBUS_CMD_MULT_READ_def)
qed

lemma test_mult_loop:
  assumes "unat (RxSize b) = m" "m \<le> unat n" "unat n \<le> length D"
    and "unat (RxOffset b) = k" "0 < k" "k \<le> m" "64 \<le> length Block" "m \<le> length (RxBuffer b)"
    and "Data = take k (RxBuffer b) @ drop k D" "m - k \<le> 31 * (256 - unat (RxBlock b))"
  shows "\<exists>b'. ReceiveBmcDataFromPort_Ssif_loop BmcSmbusLibTest SMBUS_CMD_MULT_READ (RxBlock b) Block Data
      (of_nat k) n b = Some ((EFI_SUCCESS, take m (RxBuffer b) @ drop m D, of_nat m), b')"
  using assms
proof (induction "255 - unat (RxBlock b)" arbitrary: b k Block Data)
  case 0
  then have last: "RxBlock b = 0xFF" using u8_bound [of "RxBlock b"] by (simp add: word_unat_eq_iff)
  define rs where "rs = min 31 (m - k)"
  have "m \<le> 255" using 0(3) u8_bound [of n] by simp
  note r = test_mult_read [OF 0(2) this 0(5-7) 0(8,9) rs_def]
  note bl = test_mult_block [OF 0(2-4) 0(5-7) 0(8,9) rs_def 0(10)]
  have "k + rs = m" using 0(7,11) last by (simp add: rs_def)
  then show ?case
    using r bl last by (simp add: ReceiveBmcDataFromPort_Ssif_loop.simps [of BmcSmbusLibTest])
next
  case (Suc j)
  then have more: "RxBlock b \<noteq> 0xFF" by auto
  define rs where "rs = min 31 (m - k)"
  have "m \<le> 255" using Suc(4) u8_bound [of n] by simp
  note r = test_mult_read [OF Suc(3) this Suc(6-8) Suc(9,10) rs_def]
  note bl = test_mult_block [OF Suc(3-5) Suc(6-8) Suc(9,10) rs_def Suc(11)]
  let ?b = "b\<lparr>RxBlock := RxBlock b + 1, RxOffset := of_nat (k + rs)\<rparr>"
  let ?B = "copy_mem (poke Block 0 (RxBlock b)) 1 (take rs (drop k (RxBuffer b)))"
  have blk: "unat (RxBlock ?b) = Suc (unat (RxBlock b))" using more by (simp add: unat_plus_one_u8)
  have ofs: "unat (RxOffset ?b) = k + rs" "k + rs \<le> m"
    using Suc(8) \<open>m \<le> 255\<close> by (simp_all add: unat_of_nat unat_word_ariths rs_def)
  have j: "j = 255 - unat (RxBlock ?b)" using Suc(2) unfolding blk by arith
  have left: "m - (k + rs) \<le> 31 * (256 - unat (RxBlock ?b))"
  proof (cases "m - k \<le> 31")
    case False
    then have "rs = 31" by (simp add: rs_def)
    then show ?thesis using Suc(12) Suc(2) unfolding blk by simp
  qed (simp add: rs_def)
  have "64 \<le> length ?B" using Suc(9) unfolding copy_mem_poke by simp
  then have "\<exists>b'. ReceiveBmcDataFromPort_Ssif_loop BmcSmbusLibTest SMBUS_CMD_MULT_READ (RxBlock ?b) ?B
      (take (k + rs) (RxBuffer ?b) @ drop (k + rs) D) (of_nat (k + rs)) n ?b =
      Some ((EFI_SUCCESS, take m (RxBuffer ?b) @ drop m D, of_nat m), b')"
    using Suc.prems(2,3) Suc(3,9,10) Suc(7) j left ofs by (intro Suc.hyps(1)) simp_all
  then show ?case
    using r bl more by (simp add: ReceiveBmcDataFromPort_Ssif_loop.simps [of BmcSmbusLibTest])
qed

lemma test_first_read_multi:
  assumes "unat (RxSize b) = m" "32 < m" "RxOffset b = 0" "64 \<le> length Block" "m \<le> length (RxBuffer b)"
  shows "test_BlockRead SMBUS_CMD_READ Block n b =
    Some ((EFI_SUCCESS, [0, 1] @ take 30 (RxBuffer b) @ drop 32 Block, 32),
      b\<lparr>RxOffset := 30, RxBlock := 0\<rparr>)"
proof -
  have "copy_mem (poke (poke Block 0 0) 1 1) 2 (take 30 (RxBuffer b)) =
      [0, 1] @ take 30 (RxBuffer b) @ drop 32 Block"
    using assms(2,4,5)
    by (cases Block; cases "tl Block") (auto simp: poke_def copy_mem_def min_def)
  moreover have "RxSize b > 32" using assms(1,2) by (simp add: word_less_nat_alt)
  moreover have "RxSize b \<noteq> 0" using assms(1,2) by auto
  ultimately show ?thesis
    using assms(3) by (simp add: test_BlockRead_def SSIF_MAX_READ_SIZE_def)
qed

lemma test_first_read_single:
  assumes "unat (RxSize b) = m" "0 < m" "m \<le> 32" "RxOffset b = 0"
  shows "test_BlockRead SMBUS_CMD_READ Block n b =
    Some ((EFI_SUCCESS, copy_mem Block 0 (take m (RxBuffer b)), of_nat m), b\<lparr>RxOffset := RxSize b\<rparr>)"
proof -
  have "RxSize b \<noteq> 0" "\<not> RxSize b > 32" using assms(1-3) by (auto simp: word_less_nat_alt)
  moreover have "ucast (RxSize b) = (of_nat m :: u8)"
    using assms(1) by (simp add: word_unat_eq_iff unsigned_ucast_eq unat_of_nat take_bit_eq_mod)
  ultimately show ?thesis
    using assms(1,4) by (simp add: test_BlockRead_def SSIF_MAX_READ_SIZE_def)
qed

lemma test_receive_arrives:
  assumes size: "unat (RxSize b) = m" "2 \<le> m" "RxOffset b = 0" "m \<le> length (RxBuffer b)"
    and room: "m \<le> unat n" "unat n \<le> length D" "64 \<le> length Block"
    and first: "m \<le> 32 \<Longrightarrow> \<not> (RxBuffer b ! 0 = 0 \<and> RxBuffer b ! 1 = 1)"
  shows "\<exists>b'. ReceiveBmcDataFromPort_Ssif BmcSmbusLibTest Block P D n b =
    Some ((EFI_SUCCESS, take m (RxBuffer b) @ drop m D, of_nat m), b')"
proof -
  have "\<exists>b'. ReceiveBmcDataFromPort_Ssif_loop BmcSmbusLibTest SMBUS_CMD_READ 0 Block D 0 n b =
      Some ((EFI_SUCCESS, take m (RxBuffer b) @ drop m D, of_nat m), b')"
  proof (cases "m \<le> 32")
    case True
    let ?B = "copy_mem Block 0 (take m (RxBuffer b))"
    have B: "?B = take m (RxBuffer b) @ drop m Block" using size by (simp add: copy_mem_def)
    have nth: "?B ! 0 = RxBuffer b ! 0" "?B ! 1 = RxBuffer b ! 1"
      unfolding B using size by (simp_all add: nth_append)
    have tk: "take m ?B = take m (RxBuffer b)" unfolding B using size by simp
    have m8: "unat (of_nat m :: u8) = m" using True by (simp add: unat_of_nat)
    have "ssif_block SMBUS_CMD_READ 0 EFI_SUCCESS ?B (of_nat m) D 0 n =
        SsifStop EFI_SUCCESS (take m (RxBuffer b) @ drop m D) (of_nat m)"
      using first [OF True] nth tk m8 room size
      by (simp add: ssif_block_def Let_def copy_mem_def)
    then show ?thesis
      using test_first_read_single [OF size(1) _ True size(3)] size(2)
      by (simp add: ReceiveBmcDataFromPort_Ssif_loop.simps [of BmcSmbusLibTest])
  next
    case False
    let ?B = "[0, 1] @ take 30 (RxBuffer b) @ drop 32 Block"
    let ?b = "b\<lparr>RxOffset := 30, RxBlock := 0\<rparr>"
    have len: "length (take 30 (RxBuffer b)) = 30" using False size(4) by simp
    have "ssif_block SMBUS_CMD_READ 0 EFI_SUCCESS ?B 32 D 0 n =
        SsifMore 0 (take 30 (RxBuffer b) @ drop 30 D) 30"
      using False room size(4) by (simp add: ssif_block_def Let_def copy_mem_def min_def)
    moreover have "\<exists>b'. ReceiveBmcDataFromPort_Ssif_loop BmcSmbusLibTest SMBUS_CMD_MULT_READ (RxBlock ?b) ?B
        (take 30 (RxBuffer ?b) @ drop 30 D) (of_nat 30) n ?b =
        Some ((EFI_SUCCESS, take m (RxBuffer ?b) @ drop m D, of_nat m), b')"
      using False size room u8_bound [of n] len by (intro test_mult_loop) simp_all
    ultimately show ?thesis
      using test_first_read_multi [OF size(1) _ size(3) room(3) size(4)] False
      by (simp add: ReceiveBmcDataFromPort_Ssif_loop.simps [of BmcSmbusLibTest])
  qed
  then show ?thesis by (auto simp: ReceiveBmcDataFromPort_Ssif_def)
qed

text \<open>C9 Over the SMBus library of the unit test, a message of 2 to 255 bytes put into the receive
  buffer is what the SSIF receive returns, in one block or in several; the rest of the caller's
  buffer is untouched.  A message that fits one block must not begin with the bytes that mark
  the start of a longer one.\<close>

theorem ssif_receive_arrives:
  assumes size: "unat (RxSize b) = m" "2 \<le> m" "RxOffset b = 0" "m \<le> length (RxBuffer b)"
    and room: "m \<le> unat n" "unat n \<le> length D" "64 \<le> length Block"
    and first: "m \<le> 32 \<Longrightarrow> \<not> (RxBuffer b ! 0 = 0 \<and> RxBuffer b ! 1 = 1)"
  shows "\<exists>b'. ReceiveBmcDataFromPort_Ssif BmcSmbusLibTest Block P D n b =
    Some ((EFI_SUCCESS, take m (RxBuffer b) @ drop m D, of_nat m), b')"
  using assms by (rule test_receive_arrives)

theorem ssif_receive_arrives_witness:
  "\<exists>b'. ReceiveBmcDataFromPort_Ssif BmcSmbusLibTest (replicate 64 0) 0 (replicate 254 9) 254
      (test_reset\<lparr>RxBuffer := replicate 1024 7, RxSize := 100\<rparr>) =
    Some ((EFI_SUCCESS, take 100 (RxBuffer (test_reset\<lparr>RxBuffer := replicate 1024 7, RxSize := 100\<rparr>)) @
      drop 100 (replicate 254 9), of_nat 100), b')"
  by (rule ssif_receive_arrives) simp_all

lemma null_bus_simps [simp]:
  "BmcSmbusBlockRead BmcSmbusLibNull c x k b = Some ((EFI_SUCCESS, x, 0), b)"
  "BmcSmbusOpen BmcSmbusLibNull b = Some (EFI_SUCCESS, b)"
  "BmcSmbusClose BmcSmbusLibNull b = Some (EFI_SUCCESS, b)"
  by (simp_all add: BmcSmbusLibNull_def)

text \<open>C38 A bus that returns no bytes while the block buffer on the stack happens to hold 0 and 1
  (the null SMBus library does exactly this) makes the eight bit length of the first block wrap:
  the driver copies 254 bytes from the stack into the response, the last 192 of them from behind
  the 64 byte block buffer.\<close>

theorem ssif_short_block_overreads:
  assumes "length stack = 192" "length D = 254" "length rest = 62"
  shows "ReceiveBmcDataFromPort_Ssif BmcSmbusLibNull ([0, 1] @ rest @ stack) P D 254 b =
    Some ((EFI_BUFFER_TOO_SMALL, rest @ stack, 254), b)"
proof -
  let ?B = "[0, 1] @ rest @ stack"
  have "ssif_block SMBUS_CMD_READ 0 EFI_SUCCESS ?B 0 D 0 254 = SsifMore 0 (rest @ stack) 254"
    using assms by (simp add: ssif_block_def Let_def copy_mem_def)
  moreover have "ssif_block SMBUS_CMD_MULT_READ 0 EFI_SUCCESS ?B 0 (rest @ stack) 254 254 =
      SsifStop EFI_BUFFER_TOO_SMALL (rest @ stack) 254"
    by (simp add: ssif_block_def Let_def SMBUS_CMD_READ_def SMBUS_CMD_MULT_READ_def unat_gt_0)
  ultimately show ?thesis
    by (simp add: ReceiveBmcDataFromPort_Ssif_def
        ReceiveBmcDataFromPort_Ssif_loop.simps [of _ SMBUS_CMD_READ]
        ReceiveBmcDataFromPort_Ssif_loop.simps [of _ SMBUS_CMD_MULT_READ])
qed

theorem ssif_short_block_overreads_witness:
  "ReceiveBmcDataFromPort_Ssif BmcSmbusLibNull ([0, 1] @ replicate 62 5 @ replicate 192 6) 0
     (replicate 254 9) 254 () = Some ((EFI_BUFFER_TOO_SMALL, replicate 62 5 @ replicate 192 6, 254), ())"
  by (rule ssif_short_block_overreads) simp_all

end
