(* ===== verification/Base_Lib.thy ===== *)
theory Base_Lib
  imports Generic_Ipmi
begin

section \<open>The IPMI base library\<close>

text \<open>
  \<open>Include/IpmiInterface.h\<close> and \<open>Library/IpmiBaseLib*\<close>: the protocol structure a driver
  publishes and the two routines every client of the stack calls.  The DXE, SMM and standalone
  MM libraries find the protocol at the first call and keep the pointer in \<open>mIpmiTransport\<close>; the
  PEI library looks the PPI up at each call; the null library does nothing.

  The service that finds an interface (\<open>LocateProtocol\<close>, \<open>SmmLocateProtocol\<close>,
  \<open>MmLocateProtocol\<close>, \<open>PeiServicesLocatePpi\<close>) belongs to the firmware core: it is the parameter
  \<open>locate\<close>, which returns a status and the pointer it stores.  \<open>iface\<close> gives the
  structure behind a pointer.
\<close>

subsection \<open>Interfaces\<close>

text \<open>
  A client sees \<open>IpmiSubmitCommand\<close>: network function, command, command data (NULL or the bytes
  there), its size, the memory from \<open>ResponseData\<close> on and \<open>*ResponseDataSize\<close>; it gives the
  status, that memory and \<open>*ResponseDataSize\<close> on return.
\<close>

type_synonym 's submit =
  "u8 \<Rightarrow> u8 \<Rightarrow> bytes option \<Rightarrow> u32 \<Rightarrow> bytes \<Rightarrow> u32 \<Rightarrow> ('s, efi_status \<times> bytes \<times> u32) op"

text \<open>\<open>GetBmcStatus\<close>: the status, and the values stored at the two pointers (\<open>None\<close>: nothing
  was stored).\<close>

type_synonym 's get_status = "('s, efi_status \<times> (u32 \<times> sm_com_address) option) op"

record 's ipmi_transport =
  Revision :: u64
  tp_IpmiSubmitCommand :: "u8 \<Rightarrow> 's submit"
  tp_GetBmcStatus :: "'s get_status"

text \<open>What the generic driver publishes: its two hooks.  In \<open>tp_IpmiSubmitCommand\<close> the LUN
  comes first.\<close>

definition generic_submit ::
    "ipmi_hdr \<Rightarrow> 't send_fn \<Rightarrow> 't recv_fn \<Rightarrow> u8 \<Rightarrow> u8 \<Rightarrow> 't ipmi_bmc_instance submit" where
  "generic_submit M send recv MaxReties Lun NetFunction Command CommandData CommandDataSize
       ResponseData ResponseDataSize inst =
     do {
       ((st, Resp, sz), inst1) \<leftarrow> IpmiSendCommand M send recv MaxReties NetFunction Lun Command
          CommandData CommandDataSize (RespCaller ResponseData) (Some ResponseDataSize) inst;
       (case (Resp, sz) of
          (RespCaller m, Some n) \<Rightarrow> Some ((st, m, n), inst1)
        | _ \<Rightarrow> None)
     }"

definition generic_transport ::
    "ipmi_hdr \<Rightarrow> 't send_fn \<Rightarrow> 't recv_fn \<Rightarrow> u8 \<Rightarrow> 't ipmi_bmc_instance ipmi_transport" where
  "generic_transport M send recv MaxReties =
     \<lparr>Revision = 0, tp_IpmiSubmitCommand = generic_submit M send recv MaxReties,
      tp_GetBmcStatus = (\<lambda>inst. let ((st, b, a), inst1) = IpmiGetBmcStatus inst
                                 in Some ((st, Some (b, a)), inst1))\<rparr>"

subsection \<open>The libraries that keep the pointer\<close>

record ('p, 's) base_lib =
  mIpmiTransport :: "'p option"
  System :: 's

type_synonym ('p, 's) locate_fn = "('s, efi_status \<times> 'p option) op"

text \<open>\<open>if (mIpmiTransport == NULL)\<close> \<open>Locate\<close>: \<open>Inl\<close> the early return, \<open>Inr\<close> the
  pointer that is used (a NULL pointer that is used has no defined behaviour).\<close>

definition locate_once ::
    "('p, 's) locate_fn \<Rightarrow> (('p, 's) base_lib, efi_status + 'p) op" where
  "locate_once locate b =
     (case mIpmiTransport b of
        Some p \<Rightarrow> Some (Inr p, b)
      | None \<Rightarrow> do {
          ((Status, ptr), s) \<leftarrow> locate (System b);
          let b1 = b\<lparr>mIpmiTransport := ptr, System := s\<rparr>;
          if EFI_ERROR Status then Some (Inl Status, b1)
          else (case ptr of None \<Rightarrow> None | Some p \<Rightarrow> Some (Inr p, b1))
        })"

definition IpmiSubmitCommand_Dxe ::
    "('p, 's) locate_fn \<Rightarrow> ('p \<Rightarrow> 's ipmi_transport) \<Rightarrow> ('p, 's) base_lib submit" where
  "IpmiSubmitCommand_Dxe LocateProtocol iface NetFunction Command CommandData CommandDataSize
       ResponseData ResponseDataSize b =
     do {
       (r, b1) \<leftarrow> locate_once LocateProtocol b;
       (case r of
          Inl Status \<Rightarrow> Some ((Status, ResponseData, ResponseDataSize), b1)
        | Inr p \<Rightarrow> do {
            (res, s) \<leftarrow> tp_IpmiSubmitCommand (iface p) 0 NetFunction Command CommandData
                           CommandDataSize ResponseData ResponseDataSize (System b1);
            Some (res, b1\<lparr>System := s\<rparr>)
          })
     }"

definition GetBmcStatus_Dxe ::
    "('p, 's) locate_fn \<Rightarrow> ('p \<Rightarrow> 's ipmi_transport) \<Rightarrow> ('p, 's) base_lib get_status" where
  "GetBmcStatus_Dxe LocateProtocol iface b =
     do {
       (r, b1) \<leftarrow> locate_once LocateProtocol b;
       (case r of
          Inl Status \<Rightarrow> Some ((Status, None), b1)
        | Inr p \<Rightarrow> do {
            (res, s) \<leftarrow> tp_GetBmcStatus (iface p) (System b1);
            Some (res, b1\<lparr>System := s\<rparr>)
          })
     }"

text \<open>The SMM and standalone MM libraries are the same code over another service.\<close>

definition IpmiSubmitCommand_Smm ::
    "('p, 's) locate_fn \<Rightarrow> ('p \<Rightarrow> 's ipmi_transport) \<Rightarrow> ('p, 's) base_lib submit" where
  "IpmiSubmitCommand_Smm SmmLocateProtocol = IpmiSubmitCommand_Dxe SmmLocateProtocol"

definition GetBmcStatus_Smm ::
    "('p, 's) locate_fn \<Rightarrow> ('p \<Rightarrow> 's ipmi_transport) \<Rightarrow> ('p, 's) base_lib get_status" where
  "GetBmcStatus_Smm SmmLocateProtocol = GetBmcStatus_Dxe SmmLocateProtocol"

definition IpmiSubmitCommand_Mm ::
    "('p, 's) locate_fn \<Rightarrow> ('p \<Rightarrow> 's ipmi_transport) \<Rightarrow> ('p, 's) base_lib submit" where
  "IpmiSubmitCommand_Mm MmLocateProtocol = IpmiSubmitCommand_Dxe MmLocateProtocol"

definition GetBmcStatus_Mm ::
    "('p, 's) locate_fn \<Rightarrow> ('p \<Rightarrow> 's ipmi_transport) \<Rightarrow> ('p, 's) base_lib get_status" where
  "GetBmcStatus_Mm MmLocateProtocol = GetBmcStatus_Dxe MmLocateProtocol"

subsection \<open>The PEI library\<close>

definition IpmiSubmitCommand_Pei ::
    "('p, 's) locate_fn \<Rightarrow> ('p \<Rightarrow> 's ipmi_transport) \<Rightarrow> 's submit" where
  "IpmiSubmitCommand_Pei LocatePpi iface NetFunction Command CommandData CommandDataSize
       ResponseData ResponseDataSize s =
     do {
       ((Status, ptr), s1) \<leftarrow> LocatePpi s;
       if EFI_ERROR Status then Some ((Status, ResponseData, ResponseDataSize), s1)
       else (case ptr of
               None \<Rightarrow> None
             | Some p \<Rightarrow> tp_IpmiSubmitCommand (iface p) 0 NetFunction Command CommandData
                           CommandDataSize ResponseData ResponseDataSize s1)
     }"

definition GetBmcStatus_Pei ::
    "('p, 's) locate_fn \<Rightarrow> ('p \<Rightarrow> 's ipmi_transport) \<Rightarrow> 's get_status" where
  "GetBmcStatus_Pei LocatePpi iface s =
     do {
       ((Status, ptr), s1) \<leftarrow> LocatePpi s;
       if EFI_ERROR Status then Some ((Status, None), s1)
       else (case ptr of None \<Rightarrow> None | Some p \<Rightarrow> tp_GetBmcStatus (iface p) s1)
     }"

subsection \<open>The null library\<close>

definition IpmiSubmitCommand_Null :: "'s submit" where
  "IpmiSubmitCommand_Null NetFunction Command CommandData CommandDataSize ResponseData
       ResponseDataSize s = Some ((EFI_SUCCESS, ResponseData, ResponseDataSize), s)"

definition GetBmcStatus_Null :: "'s get_status" where
  "GetBmcStatus_Null s = Some ((EFI_SUCCESS, None), s)"

section \<open>The contract of the base library\<close>

text \<open>
  What a client may rely on, whatever is below: the state keeps its invariant, a call that does
  not succeed leaves the response buffer alone, and a call that succeeds overwrites at most
  \<open>ResponseDataSize + 1\<close> bytes from its start (the one byte more is what the generic driver
  allows itself).  Command data of more than 253 bytes do not fit a message.
\<close>

locale ipmi_submit =
  fixes submit :: "'s submit" and Inv :: "'s \<Rightarrow> bool"
  assumes submit_inv:
      "submit nf c d n buf sz s = Some ((st, buf', sz'), s') \<Longrightarrow> Inv s \<Longrightarrow> unat n \<le> 253 \<Longrightarrow> Inv s'"
    and submit_failed:
      "submit nf c d n buf sz s = Some ((st, buf', sz'), s') \<Longrightarrow> Inv s \<Longrightarrow> unat n \<le> 253 \<Longrightarrow>
         st \<noteq> EFI_SUCCESS \<Longrightarrow> buf' = buf"
    and submit_reply:
      "submit nf c d n buf sz s = Some ((EFI_SUCCESS, buf', sz'), s') \<Longrightarrow> Inv s \<Longrightarrow>
         unat n \<le> 253 \<Longrightarrow> \<exists>r. buf' = r @ drop (length r) buf \<and> length r \<le> unat sz + 1"
begin

text \<open>The memory behind a response buffer.\<close>

lemma submit_frame:
  assumes "submit nf c d n buf sz s = Some ((st, buf', sz'), s')" "Inv s" "unat n \<le> 253"
  shows "drop (unat sz + 1) buf' = drop (unat sz + 1) buf"
    and "unat sz < length buf \<Longrightarrow> length buf' = length buf" and "length buf \<le> length buf'"
proof -
  have "drop (unat sz + 1) buf' = drop (unat sz + 1) buf \<and>
      (unat sz < length buf \<longrightarrow> length buf' = length buf) \<and> length buf \<le> length buf'"
  proof (cases "st = EFI_SUCCESS")
    case True
    then obtain r where "buf' = r @ drop (length r) buf" "length r \<le> unat sz + 1"
      using submit_reply assms by blast
    then show ?thesis by auto
  next
    case False
    then show ?thesis using submit_failed [OF assms] by simp
  qed
  then show "drop (unat sz + 1) buf' = drop (unat sz + 1) buf"
    "unat sz < length buf \<Longrightarrow> length buf' = length buf" "length buf \<le> length buf'" by simp_all
qed

end

text \<open>A provider whose success implies the normal completion code and a reply that holds it.\<close>

locale ipmi_submit_normal = ipmi_submit +
  fixes M :: ipmi_hdr
  assumes submit_normal:
      "submit nf c d n buf sz s = Some ((EFI_SUCCESS, buf', sz'), s') \<Longrightarrow> Inv s \<Longrightarrow>
         unat n \<le> 253 \<Longrightarrow> buf' \<noteq> [] \<and> hd buf' = cc_of M IPMI_COMP_CODE_NORMAL \<and> 0 < sz'"

subsection \<open>The generic driver keeps it\<close>

lemma unat_ucast_le: "unat (ucast (w :: u32) :: u8) \<le> unat w"
  by (simp add: unsigned_ucast_eq take_bit_nat_less_eq_self)

lemma set_low8_pos: "0 < b \<Longrightarrow> 0 < set_low8 w b"
proof -
  assume "0 < b"
  then have "b \<noteq> 0" by simp
  then obtain i where i: "bit b i" using bit_eq_iff [of b 0] by auto
  then have "i < 8" using bit_imp_le_length by fastforce
  then have "bit (set_low8 w b) i" using i by (simp add: set_low8_def bit_simps)
  then have "set_low8 w b \<noteq> 0" by auto
  then show ?thesis by (simp add: word_gt_0)
qed

context transport
begin

lemma generic_submit_cases:
  assumes run: "generic_submit M send recv r lun nf c d n buf sz inst = Some ((st, buf', sz'), inst')"
    and ok: "inst_ok inst" "unat n \<le> 253"
  shows "inst_ok inst'" and "st \<noteq> EFI_SUCCESS \<Longrightarrow> buf' = buf"
    and "st = EFI_SUCCESS \<Longrightarrow>
      (\<exists>data. buf' = cc_of M IPMI_COMP_CODE_NORMAL # data @ drop (length data + 1) buf \<and>
         sz' = set_low8 sz (of_nat (length data + 1)) \<and>
         length data \<le> unat (ucast sz :: u8) \<and> length data \<le> 251)"
proof -
  obtain st1 Resp o' i where int: "IpmiSendCommandInternal M send recv r nf lun c d (ucast n)
      (RespCaller buf) (Some (ucast sz)) inst = Some ((st1, Resp, o'), i)"
    using run by (auto simp: generic_submit_def IpmiSendCommand_def bind_eq_Some_conv)
  have Resp: "st1 = st" "i = inst'" "Resp = RespCaller buf'"
      "sz' = (case o' of None \<Rightarrow> sz | Some b \<Rightarrow> set_low8 sz b)"
    using run int
    by (cases Resp; cases o'; simp add: generic_submit_def IpmiSendCommand_def)+
  have "unat (ucast n :: u8) \<le> 253" using unat_ucast_le [of n] ok(2) by linarith
  note l = internal_caller [OF int [unfolded Resp(1,2)] ok(1) this]
  show "inst_ok inst'" by (rule l(1))
  show "st \<noteq> EFI_SUCCESS \<Longrightarrow> buf' = buf" using l(2) Resp(3) by simp
  show "st = EFI_SUCCESS \<Longrightarrow>
      (\<exists>data. buf' = cc_of M IPMI_COMP_CODE_NORMAL # data @ drop (length data + 1) buf \<and>
         sz' = set_low8 sz (of_nat (length data + 1)) \<and>
         length data \<le> unat (ucast sz :: u8) \<and> length data \<le> 251)"
    using l(3) Resp(3,4) by auto
qed

end

sublocale transport \<subseteq>
  gen: ipmi_submit_normal "generic_submit M send recv r lun" inst_ok M for M r lun
proof (unfold_locales, goal_cases)
  case (1 nf c d n buf sz s st buf' sz' s')
  then show ?case using generic_submit_cases(1) by blast
next
  case (2 nf c d n buf sz s st buf' sz' s')
  then show ?case using generic_submit_cases(2) by blast
next
  case (3 nf c d n buf sz s buf' sz' s')
  then obtain data where "buf' = cc_of M IPMI_COMP_CODE_NORMAL # data @ drop (length data + 1) buf"
    "length data \<le> unat (ucast sz :: u8)"
    using generic_submit_cases(3) by blast
  then show ?case
    using unat_ucast_le [of sz] by (intro exI [of _ "cc_of M IPMI_COMP_CODE_NORMAL # data"]) simp
next
  case (4 nf c d n buf sz s buf' sz' s')
  then obtain data where "buf' = cc_of M IPMI_COMP_CODE_NORMAL # data @ drop (length data + 1) buf"
    and sz: "sz' = set_low8 sz (of_nat (length data + 1))" "length data \<le> 251"
    using generic_submit_cases(3) by blast
  moreover have "(0 :: u8) < of_nat (length data + 1)"
    using sz(2) by (simp add: word_less_nat_alt unat_of_nat del: of_nat_Suc of_nat_add)
  ultimately show ?case using set_low8_pos by simp
qed

subsection \<open>The libraries pass it on\<close>

text \<open>A service that finds interfaces keeps the invariant of the system below.\<close>

lemma locate_once_inv:
  assumes "locate_once locate b = Some (r, b')"
    and "\<And>s x s'. locate s = Some (x, s') \<Longrightarrow> Inv s \<Longrightarrow> Inv s'" and "Inv (System b)"
  shows "Inv (System b')"
  using assms by (auto simp: locate_once_def bind_eq_Some_conv Let_def split: option.splits if_splits)

lemma locate_once_error: "locate_once locate b = Some (Inl st, b') \<Longrightarrow> EFI_ERROR st"
  by (auto simp: locate_once_def bind_eq_Some_conv Let_def split: option.splits if_splits)

lemma submit_Dxe_cases:
  assumes "IpmiSubmitCommand_Dxe locate iface nf c d n buf sz b = Some ((st, buf', sz'), b')"
  obtains "EFI_ERROR st" "buf' = buf" "locate_once locate b = Some (Inl st, b')"
  | p b1 s where "locate_once locate b = Some (Inr p, b1)"
      "tp_IpmiSubmitCommand (iface p) 0 nf c d n buf sz (System b1) = Some ((st, buf', sz'), s)"
      "b' = b1\<lparr>System := s\<rparr>"
proof -
  obtain x b1 where loc: "locate_once locate b = Some (x, b1)"
    using assms by (auto simp: IpmiSubmitCommand_Dxe_def bind_eq_Some_conv)
  show thesis
  proof (cases x)
    case (Inl e)
    with assms loc have "st = e" "buf' = buf" "b' = b1" by (auto simp: IpmiSubmitCommand_Dxe_def)
    then show thesis using loc Inl locate_once_error by (intro that(1)) auto
  next
    case (Inr p)
    with assms loc obtain s where
      "tp_IpmiSubmitCommand (iface p) 0 nf c d n buf sz (System b1) = Some ((st, buf', sz'), s)"
      "b' = b1\<lparr>System := s\<rparr>"
      by (auto simp: IpmiSubmitCommand_Dxe_def bind_eq_Some_conv)
    then show thesis using that(2) loc Inr by blast
  qed
qed

lemma dxe_submit:
  assumes "\<And>p. ipmi_submit (tp_IpmiSubmitCommand (iface p) 0) Inv"
    and "\<And>s x s'. locate s = Some (x, s') \<Longrightarrow> Inv s \<Longrightarrow> Inv s'"
  shows "ipmi_submit (IpmiSubmitCommand_Dxe locate iface) (\<lambda>b. Inv (System b))"
proof (unfold_locales, goal_cases)
  case (1 nf c d n buf sz b st buf' sz' b')
  show ?case
    by (rule submit_Dxe_cases [OF 1(1)])
      (use 1 ipmi_submit.submit_inv [OF assms(1)] locate_once_inv [of locate _ _ _ Inv] assms(2)
        in auto)
next
  case (2 nf c d n buf sz b st buf' sz' b')
  show ?case
    by (rule submit_Dxe_cases [OF 2(1)])
      (use 2 ipmi_submit.submit_failed [OF assms(1)] locate_once_inv [of locate _ _ _ Inv] assms(2)
        in auto)
next
  case (3 nf c d n buf sz b buf' sz' b')
  show ?case
    by (rule submit_Dxe_cases [OF 3(1)])
      (use 3 ipmi_submit.submit_reply [OF assms(1)] locate_once_inv [of locate _ _ _ Inv] assms(2)
        in auto)
qed

lemma pei_submit:
  assumes "\<And>p. ipmi_submit (tp_IpmiSubmitCommand (iface p) 0) Inv"
    and "\<And>s x s'. locate s = Some (x, s') \<Longrightarrow> Inv s \<Longrightarrow> Inv s'"
  shows "ipmi_submit (IpmiSubmitCommand_Pei locate iface) Inv"
proof (unfold_locales, goal_cases)
  case (1 nf c d n buf sz s st buf' sz' s')
  then show ?case using ipmi_submit.submit_inv [OF assms(1)] assms(2)
    by (auto simp: IpmiSubmitCommand_Pei_def bind_eq_Some_conv split: if_splits option.splits)
next
  case (2 nf c d n buf sz s st buf' sz' s')
  then show ?case using ipmi_submit.submit_failed [OF assms(1)] assms(2)
    by (auto simp: IpmiSubmitCommand_Pei_def bind_eq_Some_conv split: if_splits option.splits)
next
  case (3 nf c d n buf sz s buf' sz' s')
  then show ?case using ipmi_submit.submit_reply [OF assms(1)] assms(2)
    by (auto simp: IpmiSubmitCommand_Pei_def bind_eq_Some_conv split: if_splits option.splits)
qed

interpretation null_submit: ipmi_submit IpmiSubmitCommand_Null "\<lambda>_. True"
  by unfold_locales (auto simp: IpmiSubmitCommand_Null_def intro: exI [of _ "[]"])

lemma dxe_submit_normal:
  assumes "\<And>p. ipmi_submit_normal (tp_IpmiSubmitCommand (iface p) 0) Inv M"
    and "\<And>s x s'. locate s = Some (x, s') \<Longrightarrow> Inv s \<Longrightarrow> Inv s'"
  shows "ipmi_submit_normal (IpmiSubmitCommand_Dxe locate iface) (\<lambda>b. Inv (System b)) M"
proof (intro ipmi_submit_normal.intro ipmi_submit_normal_axioms.intro)
  show "ipmi_submit (IpmiSubmitCommand_Dxe locate iface) (\<lambda>b. Inv (System b))"
  proof (rule dxe_submit)
    show "ipmi_submit (tp_IpmiSubmitCommand (iface p) 0) Inv" for p
      using assms(1) by (rule ipmi_submit_normal.axioms(1))
  qed (rule assms(2))
next
  fix nf c d n buf sz b buf' sz' b'
  assume run: "IpmiSubmitCommand_Dxe locate iface nf c d n buf sz b = Some ((EFI_SUCCESS, buf', sz'), b')"
    and ok: "Inv (System b)" "unat n \<le> 253"
  show "buf' \<noteq> [] \<and> hd buf' = cc_of M IPMI_COMP_CODE_NORMAL \<and> 0 < sz'"
    by (rule submit_Dxe_cases [OF run])
      (use ok ipmi_submit_normal.submit_normal [OF assms(1)] locate_once_inv [of locate _ _ _ Inv]
        assms(2) in auto)
qed

context transport
begin

lemma generic_lawful: "ipmi_submit_normal (generic_submit M send recv r lun) inst_ok M"
  by (rule gen.ipmi_submit_normal_axioms)

end

section \<open>What a client of the library gets\<close>

lemma locate_once_cases:
  assumes "locate_once locate b = Some (r, b')"
  obtains p where "mIpmiTransport b = Some p" "r = Inr p" "b' = b"
  | st ptr s where "mIpmiTransport b = None" "locate (System b) = Some ((st, ptr), s)"
      "b' = b\<lparr>mIpmiTransport := ptr, System := s\<rparr>"
      "if EFI_ERROR st then r = Inl st else ptr \<noteq> None \<and> r = Inr (the ptr)"
proof (cases "mIpmiTransport b")
  case None
  then obtain st ptr s where loc: "locate (System b) = Some ((st, ptr), s)"
    using assms by (auto simp: locate_once_def bind_eq_Some_conv)
  show thesis
    using assms None loc
    by (intro that(2) [OF None loc]; cases "EFI_ERROR st"; cases ptr) (simp_all add: locate_once_def)
next
  case (Some p)
  with assms show thesis by (intro that(1)) (auto simp: locate_once_def)
qed

lemma locate_once_pointer:
  assumes "locate_once locate b = Some (Inr p, b')"
  shows "mIpmiTransport b' = Some p"
  by (rule locate_once_cases [OF assms]) (auto split: if_splits)

text \<open>C15 Safety of the whole stack below a DXE client, for every transport library that keeps its
  contract and every outcome: the generic driver's instance keeps its shape; a call that does not
  succeed leaves the client's memory alone; a call that succeeds delivers the normal completion
  code first; and behind \<open>ResponseDataSize + 1\<close> bytes nothing is changed.\<close>

theorem dxe_stack_memory:
  assumes "transport send recv"
    and "\<And>s x s'. LocateProtocol s = Some (x, s') \<Longrightarrow> inst_ok s \<Longrightarrow> inst_ok s'"
    and "IpmiSubmitCommand_Dxe LocateProtocol (\<lambda>p. generic_transport M send recv r)
           nf c d n buf sz b = Some ((st, buf', sz'), b')"
    and "inst_ok (System b)" "unat n \<le> 253"
  shows "inst_ok (System b') \<and>
    (if st = EFI_SUCCESS then buf' \<noteq> [] \<and> hd buf' = cc_of M IPMI_COMP_CODE_NORMAL \<and> 0 < sz'
     else buf' = buf) \<and>
    drop (unat sz + 1) buf' = drop (unat sz + 1) buf"
proof -
  have "ipmi_submit_normal (tp_IpmiSubmitCommand (generic_transport M send recv r) 0) inst_ok M"
    using transport.generic_lawful [OF assms(1)] by (simp add: generic_transport_def)
  then have law: "ipmi_submit_normal (IpmiSubmitCommand_Dxe LocateProtocol
      (\<lambda>p. generic_transport M send recv r)) (\<lambda>b. inst_ok (System b)) M"
    by (rule dxe_submit_normal) (rule assms(2))
  note base = ipmi_submit_normal.axioms(1) [OF law]
  show ?thesis
    using ipmi_submit.submit_inv [OF base assms(3-5)] ipmi_submit.submit_frame(1) [OF base assms(3-5)]
      ipmi_submit.submit_failed [OF base assms(3-5)]
      ipmi_submit_normal.submit_normal [OF law, of nf c d n buf sz b buf' sz' b'] assms(3-5)
    by auto
qed

lemma null_dxe_run:
  "IpmiSubmitCommand_Dxe (\<lambda>s. Some ((EFI_SUCCESS, Some ()), s))
      (\<lambda>p. generic_transport ipmi_v2 SendDataToBmcPort_Null ReceiveBmcDataFromPort_Null 3)
      6 1 (Some []) 0 (replicate 300 7) 255
      \<lparr>mIpmiTransport = None, System = \<lparr>Signature = 0, IpmiTimeoutPeriod = 0, SlaveAddress = 0,
        TempData = replicate 255 0, BmcStatus = BMC_NOTREADY, ErrorStatus = 0, SoftErrorCount = 0,
        Port = ()\<rparr>\<rparr> =
   Some ((EFI_SUCCESS, replicate 252 0 @ replicate 48 7, 252),
      \<lparr>mIpmiTransport = Some (), System = \<lparr>Signature = 0, IpmiTimeoutPeriod = 0, SlaveAddress = 0,
        TempData = [0x18, 1] @ replicate 253 0, BmcStatus = BMC_OK, ErrorStatus = 0,
        SoftErrorCount = 0, Port = ()\<rparr>\<rparr>)"
  using null_reply_run
  by (simp add: IpmiSubmitCommand_Dxe_def locate_once_def generic_transport_def generic_submit_def
      IpmiSendCommand_def set_low8_def)

theorem dxe_stack_memory_witness:
  "inst_ok \<lparr>Signature = 0, IpmiTimeoutPeriod = 0, SlaveAddress = 0,
      TempData = [0x18, 1] @ replicate 253 0, BmcStatus = BMC_OK, ErrorStatus = 0,
      SoftErrorCount = 0, Port = ()\<rparr> \<and>
    hd (replicate 252 0 @ replicate 48 (7 :: u8)) = cc_of ipmi_v2 IPMI_COMP_CODE_NORMAL \<and>
    drop (unat (255 :: u32) + 1) (replicate 252 0 @ replicate 48 (7 :: u8)) =
    drop (unat (255 :: u32) + 1) (replicate 300 7)"
  using dxe_stack_memory [OF null_transport.transport_axioms _ null_dxe_run] null_dxe_run
  by (simp add: inst_ok_def size_defs)

text \<open>C16 The pointer to the protocol is looked up once: after a call that got as far as the driver,
  every later call goes to the same driver, with LUN 0, whatever the lookup service would say
  then; and a lookup that fails is reported with the client's memory untouched and is tried again
  by the next call when the service stored no pointer.\<close>

theorem base_lib_lookup_once:
  assumes "IpmiSubmitCommand_Dxe LocateProtocol iface nf c d n buf sz b = Some ((st, buf', sz'), b')"
  shows "case mIpmiTransport b' of
      Some p \<Rightarrow>
        IpmiSubmitCommand_Dxe LocateProtocol2 iface nf2 c2 d2 n2 buf2 sz2 b' =
          map_option (\<lambda>(r, s). (r, b'\<lparr>System := s\<rparr>))
            (tp_IpmiSubmitCommand (iface p) 0 nf2 c2 d2 n2 buf2 sz2 (System b'))
    | None \<Rightarrow>
        EFI_ERROR st \<and> buf' = buf \<and> mIpmiTransport b = None \<and>
        IpmiSubmitCommand_Dxe LocateProtocol2 iface nf2 c2 d2 n2 buf2 sz2 b' =
          IpmiSubmitCommand_Dxe LocateProtocol2 iface nf2 c2 d2 n2 buf2 sz2 (b\<lparr>System := System b'\<rparr>)"
proof (cases "mIpmiTransport b'")
  case None
  have loc: "locate_once LocateProtocol b = Some (Inl st, b') \<and> EFI_ERROR st \<and> buf' = buf"
    by (rule submit_Dxe_cases [OF assms]) (use None in \<open>auto dest: locate_once_pointer\<close>)
  then have run: "locate_once LocateProtocol b = Some (Inl st, b')" by simp
  have b: "mIpmiTransport b = None \<and> b' = b\<lparr>System := System b'\<rparr>"
  proof (rule locate_once_cases [OF run])
    fix st1 ptr s
    assume l: "mIpmiTransport b = None" "b' = b\<lparr>mIpmiTransport := ptr, System := s\<rparr>"
    then have "ptr = None" using None by simp
    then show "mIpmiTransport b = None \<and> b' = b\<lparr>System := System b'\<rparr>" using l by (cases b) simp
  qed simp
  then have eq: "b\<lparr>System := System b'\<rparr> = b'" and b: "mIpmiTransport b = None" by simp_all
  show ?thesis unfolding eq using None loc b by simp
next
  case (Some p)
  then show ?thesis
    by (simp add: IpmiSubmitCommand_Dxe_def locate_once_def Option.map_conv_bind_option
        case_prod_beta' comp_def)
qed

theorem base_lib_lookup_once_witness:
  "IpmiSubmitCommand_Dxe (\<lambda>s. Some ((EFI_NOT_FOUND, None :: unit option), s)) (\<lambda>_. \<lparr>Revision = 0,
       tp_IpmiSubmitCommand = (\<lambda>_. IpmiSubmitCommand_Null), tp_GetBmcStatus = GetBmcStatus_Null\<rparr>)
     6 1 None 0 [5] 1 \<lparr>mIpmiTransport = None, System = ()\<rparr> =
   Some ((EFI_NOT_FOUND, [5], 1), \<lparr>mIpmiTransport = None, System = ()\<rparr>) \<and>
   EFI_ERROR EFI_NOT_FOUND \<and>
   IpmiSubmitCommand_Dxe (\<lambda>s. Some ((EFI_SUCCESS, Some ()), s)) (\<lambda>_. \<lparr>Revision = 0,
       tp_IpmiSubmitCommand = (\<lambda>_. IpmiSubmitCommand_Null), tp_GetBmcStatus = GetBmcStatus_Null\<rparr>)
     6 1 None 0 [5] 1 \<lparr>mIpmiTransport = None, System = ()\<rparr> =
   Some ((EFI_SUCCESS, [5], 1), \<lparr>mIpmiTransport = Some (), System = ()\<rparr>)"
proof -
  have run: "IpmiSubmitCommand_Dxe (\<lambda>s. Some ((EFI_NOT_FOUND, None :: unit option), s))
       (\<lambda>_. \<lparr>Revision = 0, tp_IpmiSubmitCommand = (\<lambda>_. IpmiSubmitCommand_Null),
         tp_GetBmcStatus = GetBmcStatus_Null\<rparr>)
     6 1 None 0 [5] 1 \<lparr>mIpmiTransport = None, System = ()\<rparr> =
   Some ((EFI_NOT_FOUND, [5], 1), \<lparr>mIpmiTransport = None, System = ()\<rparr>)"
    by (simp add: IpmiSubmitCommand_Dxe_def locate_once_def)
  show ?thesis
    using run base_lib_lookup_once [OF run]
    by (simp add: IpmiSubmitCommand_Dxe_def locate_once_def IpmiSubmitCommand_Null_def)
qed

end
