(* ===== verification/Mock_Bmc.thy ===== *)
theory Mock_Bmc
  imports Base_Lib
begin

section \<open>The mock BMC\<close>

text \<open>
  \<open>Library/MockIpmi\<close>: a BMC in software, used below the base library
  (\<open>IpmiBaseLibMock.c\<close>) or as a transport below the generic driver
  (\<open>IpmiTransportLibMock.c\<close>).  The state is the record of the file-level variables of
  \<open>MockIpmi.c\<close>, \<open>MockSel.c\<close>, \<open>MockWdt.c\<close> and \<open>MockChassis.c\<close>; packed structures are their
  bytes.  An ASSERT that fails stops the machine: the operation is \<open>None\<close>.
\<close>

subsection \<open>State and conventions\<close>

definition ASSERT :: "bool \<Rightarrow> unit option" where
  "ASSERT c = (if c then Some () else None)"

definition MOCK_IPMI_BUFFER_SIZE :: nat where "MOCK_IPMI_BUFFER_SIZE = 250"
definition SEL_COUNT :: nat where "SEL_COUNT = 100"
definition SEL_EVENT_SIZE :: nat where "SEL_EVENT_SIZE = 16"

lemmas mock_sizes = MOCK_IPMI_BUFFER_SIZE_def SEL_COUNT_def SEL_EVENT_SIZE_def

record mock_bmc =
  mResponseValid :: bool
  mResponse :: bytes
  mResponseSize :: u8
  mSel :: "bytes list"
  mNextRecordId :: u16
  mSelTime :: u32
  mWatchdog :: bytes
  mBootFlags :: bytes
  mBootOptionAcks :: u8

text \<open>
  A handler gets the memory at \<open>Data\<close>, \<open>DataSize\<close>, the memory at \<open>Response\<close> and
  \<open>*ResponseSize\<close>; it gives back the last two.
\<close>

type_synonym mock_handler = "bytes \<Rightarrow> u8 \<Rightarrow> bytes \<Rightarrow> u8 \<Rightarrow> (mock_bmc, bytes \<times> u8) op"

text \<open>Assignments to members of one structure, in order.\<close>

definition fputs :: "ipmi_hdr \<Rightarrow> (ipmi_field \<times> nat) list \<Rightarrow> bytes \<Rightarrow> bytes" where
  "fputs M fvs bs = foldl (\<lambda>b (f, v). fput M 0 f v b) bs fvs"

subsection \<open>Device identity and self test\<close>

definition MockIpmiGetSelfTest :: "ipmi_hdr \<Rightarrow> mock_handler" where
  "MockIpmiGetSelfTest M Data DataSize Response ResponseSize m =
     do {
       ASSERT (sizeof M IPMI_SELF_TEST_RESULT_RESPONSE \<le> unat ResponseSize);
       Some ((fputs M [(CompletionCode, unat (cc_of M IPMI_COMP_CODE_NORMAL)),
                       (SelfTest_Result, unat (val_of M IPMI_APP_SELFTEST_NOT_IMPLEMENTED)),
                       (SelfTest_Param, 0)] Response,
              of_nat (sizeof M IPMI_SELF_TEST_RESULT_RESPONSE)), m)
     }"

definition MockIpmiGetDeviceId :: "ipmi_hdr \<Rightarrow> mock_handler" where
  "MockIpmiGetDeviceId M Data DataSize Response ResponseSize m =
     do {
       ASSERT (sizeof M IPMI_GET_DEVICE_ID_RESPONSE \<le> unat ResponseSize);
       Some ((fputs M [(CompletionCode, unat (cc_of M IPMI_COMP_CODE_NORMAL)),
                       (DevId_DeviceId, 0xAB), (DevId_DeviceRevision, 0), (DevId_FirmwareRev1, 0),
                       (DevId_MinorFirmwareRev, 0), (DevId_SpecificationVersion, 2),
                       (DevId_DeviceSupport, 0), (DevId_ManufacturerId0, 0xB),
                       (DevId_ManufacturerId1, 0xA), (DevId_ManufacturerId2, 0xD),
                       (DevId_ProductId, 1), (DevId_AuxFirmwareRevInfo, 0)] Response,
              of_nat (sizeof M IPMI_GET_DEVICE_ID_RESPONSE)), m)
     }"

subsection \<open>System event log\<close>

definition MockIpmiSelGetInfo :: "ipmi_hdr \<Rightarrow> mock_handler" where
  "MockIpmiSelGetInfo M Data DataSize Response ResponseSize m =
     do {
       ASSERT (sizeof M IPMI_GET_SEL_INFO_RESPONSE \<le> unat ResponseSize);
       let Free = (ucast ((of_nat (SEL_EVENT_SIZE * SEL_COUNT) :: u64) -
                     of_nat SEL_EVENT_SIZE * ucast (mNextRecordId m)) :: u16);
       let Support = (if unat (mNextRecordId m) \<ge> SEL_COUNT
                      then val_of M IPMI_GET_SEL_INFO_OPERATION_SUPPORT_OVERFLOW_FLAG else 0);
       Some ((fputs M [(CompletionCode, unat (cc_of M IPMI_COMP_CODE_NORMAL)),
                       (SelInfo_Version, 0x51),
                       (SelInfo_NoOfEntries, unat (mNextRecordId m)),
                       (SelInfo_FreeSpace, unat Free),
                       (SelInfo_RecentAddTimeStamp, 0), (SelInfo_RecentEraseTimeStamp, 0),
                       (SelInfo_OperationSupport, unat Support)] Response,
              of_nat (sizeof M IPMI_GET_SEL_INFO_RESPONSE)), m)
     }"

text \<open>\<open>SEL_GENERIC_EVENT\<close>: record id, type and time stamp in the 16 bytes of an event.\<close>

definition sel_set_RecordId :: "u16 \<Rightarrow> bytes \<Rightarrow> bytes" where
  "sel_set_RecordId i e = copy_mem e 0 (le16 i)"

definition sel_RecordType :: "bytes \<Rightarrow> u8" where "sel_RecordType e = e ! 2"

definition sel_set_TimeStamp :: "u32 \<Rightarrow> bytes \<Rightarrow> bytes" where
  "sel_set_TimeStamp t e = copy_mem e 3 (le32 t)"

definition MockIpmiSelAddEntry :: "ipmi_hdr \<Rightarrow> mock_handler" where
  "MockIpmiSelAddEntry M Data DataSize Response ResponseSize m =
     do {
       ASSERT (sizeof M IPMI_ADD_SEL_ENTRY_REQUEST \<le> unat DataSize);
       ASSERT (sizeof M IPMI_ADD_SEL_ENTRY_RESPONSE \<le> unat ResponseSize);
       let Id = mNextRecordId m;
       let Size = of_nat (sizeof M IPMI_ADD_SEL_ENTRY_RESPONSE);
       if unat Id < SEL_COUNT then
         (let Event = sel_set_RecordId Id (nat_le SEL_EVENT_SIZE (fget M 0 AddSel_RecordData Data));
              Stamped = sel_RecordType Event < val_of M IPMI_SEL_OEM_NO_TIME_STAMP_RECORD_START;
              Time = (if Stamped then mSelTime m + 1 else mSelTime m);
              Event1 = (if Stamped then sel_set_TimeStamp Time Event else Event)
          in Some ((fputs M [(AddSel_RecordId, unat Id),
                             (CompletionCode, unat (cc_of M IPMI_COMP_CODE_NORMAL))] Response, Size),
                   m\<lparr>mSel := (mSel m)[unat Id := Event1], mSelTime := Time,
                     mNextRecordId := Id + 1\<rparr>))
       else
         Some ((fputs M [(AddSel_RecordId, 0),
                         (CompletionCode, unat (cc_of M IPMI_COMP_CODE_OUT_OF_SPACE))] Response,
                Size), m)
     }"

definition MockIpmiSelGetTime :: "ipmi_hdr \<Rightarrow> mock_handler" where
  "MockIpmiSelGetTime M Data DataSize Response ResponseSize m =
     do {
       ASSERT (sizeof M IPMI_GET_SEL_TIME_RESPONSE \<le> unat ResponseSize);
       let m1 = m\<lparr>mSelTime := mSelTime m + 1\<rparr>;
       Some ((fputs M [(CompletionCode, unat (cc_of M IPMI_COMP_CODE_NORMAL)),
                       (GetSelTime_Timestamp, unat (mSelTime m1))] Response,
              of_nat (sizeof M IPMI_GET_SEL_TIME_RESPONSE)), m1)
     }"

definition MockIpmiSelSetTime :: "ipmi_hdr \<Rightarrow> mock_handler" where
  "MockIpmiSelSetTime M Data DataSize Response ResponseSize m =
     do {
       ASSERT (sizeof M IPMI_SET_SEL_TIME_REQUEST \<le> unat DataSize);
       ASSERT (1 \<le> ResponseSize);
       Some ((poke Response 0 (cc_of M IPMI_COMP_CODE_NORMAL), 1),
             m\<lparr>mSelTime := of_nat (fget M 0 SetSelTime_Timestamp Data)\<rparr>)
     }"

definition MockIpmiSelClear :: "ipmi_hdr \<Rightarrow> mock_handler" where
  "MockIpmiSelClear M Data DataSize Response ResponseSize m =
     do {
       ASSERT (sizeof M IPMI_CLEAR_SEL_REQUEST \<le> unat DataSize);
       ASSERT (sizeof M IPMI_CLEAR_SEL_RESPONSE \<le> unat ResponseSize);
       ASSERT (fget8 M 0 ClearSel_AscC Data = 0x43);
       ASSERT (fget8 M 0 ClearSel_AscL Data = 0x4C);
       ASSERT (fget8 M 0 ClearSel_AscR Data = 0x52);
       let Erase = fget8 M 0 ClearSel_Erase Data;
       Progress \<leftarrow>
         (if Erase = val_of M IPMI_CLEAR_SEL_REQUEST_INITIALIZE_ERASE
          then Some (val_of M IPMI_CLEAR_SEL_RESPONSE_ERASURE_IN_PROGRESS)
          else if Erase = val_of M IPMI_CLEAR_SEL_REQUEST_GET_ERASE_STATUS
          then Some (val_of M IPMI_CLEAR_SEL_RESPONSE_ERASURE_COMPLETED)
          else None);
       Some ((fputs M [(CompletionCode, unat (cc_of M IPMI_COMP_CODE_NORMAL)),
                       (ClearSel_ErasureProgress, unat Progress)] Response,
              of_nat (sizeof M IPMI_CLEAR_SEL_RESPONSE)), m\<lparr>mNextRecordId := 0\<rparr>)
     }"

definition MockIpmiSelGetEntry :: "ipmi_hdr \<Rightarrow> mock_handler" where
  "MockIpmiSelGetEntry M Data DataSize Response ResponseSize m =
     do {
       ASSERT (sizeof M IPMI_GET_SEL_ENTRY_REQUEST \<le> unat DataSize);
       ASSERT (sizeof M IPMI_GET_SEL_ENTRY_RESPONSE \<le> unat ResponseSize);
       let Response1 = copy_mem Response 0 (zero_mem (sizeof M IPMI_GET_SEL_ENTRY_RESPONSE));
       let Size = of_nat (sizeof M IPMI_GET_SEL_ENTRY_RESPONSE);
       ASSERT (fget M 0 GetSel_ReserveId0 Data = 0 \<and> fget M 0 GetSel_ReserveId1 Data = 0 \<and>
               fget M 0 GetSel_Offset Data = 0 \<and> fget M 0 GetSel_BytesToRead Data = 0xFF);
       let RecordId = (of_nat (fget M 0 GetSel_SelRecID0 Data) OR
                       push_bit 8 (of_nat (fget M 0 GetSel_SelRecID1 Data)) :: u16);
       if RecordId \<ge> mNextRecordId m then
         Some ((fputs M [(CompletionCode, unat (cc_of M IPMI_COMP_CODE_NOT_PRESENT))] Response1,
                Size), m)
       else
         Some ((fputs M [(GetSel_NextSelRecordId,
                            if unat RecordId + 1 < unat (mNextRecordId m) then unat RecordId + 1
                            else 0xFFFF),
                         (GetSel_RecordData, le_nat (mSel m ! unat RecordId)),
                         (CompletionCode, unat (cc_of M IPMI_COMP_CODE_NORMAL))] Response1,
                Size), m)
     }"

subsection \<open>Watchdog\<close>

definition MockIpmiGetWatchdog :: "ipmi_hdr \<Rightarrow> mock_handler" where
  "MockIpmiGetWatchdog M Data DataSize Response ResponseSize m =
     do {
       ASSERT (sizeof M IPMI_GET_WATCHDOG_TIMER_RESPONSE \<le> unat ResponseSize);
       let Count = fget M 0 GetWdt_PresentCountdownValue (mWatchdog m);
       let W = (if fget M 0 GetWdt_TimerRunning (mWatchdog m) \<noteq> 0 \<and> Count > 0
                then fput M 0 GetWdt_PresentCountdownValue (Count - 1) (mWatchdog m)
                else mWatchdog m);
       Some ((fputs M [(CompletionCode, unat (cc_of M IPMI_COMP_CODE_NORMAL))]
                (copy_mem Response 0 W),
              of_nat (sizeof M IPMI_GET_WATCHDOG_TIMER_RESPONSE)), m\<lparr>mWatchdog := W\<rparr>)
     }"

definition MockIpmiSetWatchdog :: "ipmi_hdr \<Rightarrow> mock_handler" where
  "MockIpmiSetWatchdog M Data DataSize Response ResponseSize m =
     do {
       ASSERT (sizeof M IPMI_SET_WATCHDOG_TIMER_REQUEST \<le> unat DataSize);
       ASSERT (1 \<le> ResponseSize);
       let Flags = fget8 M 0 GetWdt_ExpirationFlagsClear (mWatchdog m) AND
                   NOT (fget8 M 0 SetWdt_ExpirationFlagsClear Data);
       let W = fputs M [(GetWdt_TimerUse, fget M 0 SetWdt_TimerUse Data),
                        (GetWdt_TimeoutAction, fget M 0 SetWdt_TimeoutAction Data),
                        (GetWdt_ExpirationFlagsClear, unat Flags),
                        (GetWdt_InitialCountdownValue, fget M 0 SetWdt_InitialCountdownValue Data),
                        (GetWdt_PresentCountdownValue, fget M 0 SetWdt_InitialCountdownValue Data),
                        (GetWdt_TimerRunning, 0)] (mWatchdog m);
       Some ((poke Response 0 (cc_of M IPMI_COMP_CODE_NORMAL), 1), m\<lparr>mWatchdog := W\<rparr>)
     }"

definition MockIpmiResetWatchdog :: "ipmi_hdr \<Rightarrow> mock_handler" where
  "MockIpmiResetWatchdog M Data DataSize Response ResponseSize m =
     do {
       ASSERT (1 \<le> ResponseSize);
       let W = fput M 0 GetWdt_TimerRunning 1 (mWatchdog m);
       let W1 = fput M 0 GetWdt_PresentCountdownValue (fget M 0 GetWdt_InitialCountdownValue W) W;
       Some ((poke Response 0 (cc_of M IPMI_COMP_CODE_NORMAL), 1), m\<lparr>mWatchdog := W1\<rparr>)
     }"

subsection \<open>Boot options\<close>

definition MockIpmiGetSystemBootOptions :: "ipmi_hdr \<Rightarrow> mock_handler" where
  "MockIpmiGetSystemBootOptions M Data DataSize Response ResponseSize m =
     do {
       let Hdr = sizeof M IPMI_GET_BOOT_OPTIONS_RESPONSE;
       ASSERT (sizeof M IPMI_GET_BOOT_OPTIONS_REQUEST \<le> unat DataSize);
       ASSERT (Hdr \<le> unat ResponseSize);
       let Selector = fget M 0 GetBoot_ParameterSelector Data;
       let Response1 = fputs M [(CompletionCode, unat (cc_of M IPMI_COMP_CODE_NORMAL)),
                                (GetBootResp_ParameterSelector, Selector)] Response;
       ASSERT (fget M 0 GetBoot_BlockSelector Data = 0);
       ASSERT (fget M 0 GetBoot_SetSelector Data = 0);
       if Selector = unat (val_of M IPMI_BOOT_OPTIONS_PARAMETER_BOOT_FLAGS) then do {
         ASSERT (sizeof M IPMI_BOOT_OPTIONS_RESPONSE_PARAMETER_5 \<le> unat ResponseSize - Hdr);
         Some ((copy_mem Response1 Hdr (mBootFlags m),
                of_nat (Hdr + sizeof M IPMI_BOOT_OPTIONS_RESPONSE_PARAMETER_5)), m)
       }
       else if Selector = unat (val_of M IPMI_BOOT_OPTIONS_PARAMETER_SELECTOR_SET_IN_PROGRESS) then do {
         ASSERT (sizeof M IPMI_BOOT_OPTIONS_RESPONSE_PARAMETER_0 \<le> unat ResponseSize - Hdr);
         Some ((copy_mem Response1 Hdr (zero_mem (sizeof M IPMI_BOOT_OPTIONS_RESPONSE_PARAMETER_0)),
                of_nat (Hdr + sizeof M IPMI_BOOT_OPTIONS_RESPONSE_PARAMETER_0)), m)
       }
       else Some ((fputs M [(CompletionCode, 0x80)] Response1, of_nat Hdr), m)
     }"

definition MockIpmiSetSystemBootOptions :: "ipmi_hdr \<Rightarrow> mock_handler" where
  "MockIpmiSetSystemBootOptions M Data DataSize Response ResponseSize m =
     do {
       let Hdr = sizeof M IPMI_SET_BOOT_OPTIONS_REQUEST;
       let Size = of_nat (sizeof M IPMI_SET_BOOT_OPTIONS_RESPONSE);
       ASSERT (Hdr \<le> unat DataSize);
       ASSERT (sizeof M IPMI_SET_BOOT_OPTIONS_RESPONSE \<le> unat ResponseSize);
       let Response1 = fputs M [(CompletionCode, unat (cc_of M IPMI_COMP_CODE_NORMAL))] Response;
       let Selector = fget M 0 SetBoot_ParameterSelector Data;
       if Selector = unat (val_of M IPMI_BOOT_OPTIONS_PARAMETER_BOOT_FLAGS) then do {
         ASSERT (sizeof M IPMI_BOOT_OPTIONS_RESPONSE_PARAMETER_5 \<le> unat DataSize - Hdr);
         Some ((Response1, Size),
               m\<lparr>mBootFlags := take (sizeof M IPMI_BOOT_OPTIONS_RESPONSE_PARAMETER_5) (drop Hdr Data)\<rparr>)
       }
       else if Selector = unat (val_of M IPMI_BOOT_OPTIONS_PARAMETER_BOOT_INFO_ACK) then do {
         ASSERT (sizeof M IPMI_BOOT_OPTIONS_RESPONSE_PARAMETER_4 \<le> unat DataSize - Hdr);
         let Mask = fget8 M 0 Param4_WriteMask (drop Hdr Data);
         let Ack = fget8 M 0 Param4_BootInitiatorAcknowledgeData (drop Hdr Data);
         Some ((Response1, Size),
               m\<lparr>mBootOptionAcks := (mBootOptionAcks m AND NOT Mask) OR (Mask AND Ack)\<rparr>)
       }
       else Some ((fputs M [(CompletionCode, 0x80)] Response1, Size), m)
     }"

subsection \<open>Commands and responses\<close>

definition MockHandlers :: "ipmi_hdr \<Rightarrow> ((u8 \<times> u8) \<times> mock_handler) list" where
  "MockHandlers M = map (\<lambda>(f, c, h). ((netfn_of M f, cmd_of M c), h M))
     [(IPMI_NETFN_APP, IPMI_APP_GET_DEVICE_ID, MockIpmiGetDeviceId),
      (IPMI_NETFN_APP, IPMI_APP_GET_SELFTEST_RESULTS, MockIpmiGetSelfTest),
      (IPMI_NETFN_STORAGE, IPMI_STORAGE_GET_SEL_INFO, MockIpmiSelGetInfo),
      (IPMI_NETFN_STORAGE, IPMI_STORAGE_ADD_SEL_ENTRY, MockIpmiSelAddEntry),
      (IPMI_NETFN_STORAGE, IPMI_STORAGE_GET_SEL_TIME, MockIpmiSelGetTime),
      (IPMI_NETFN_STORAGE, IPMI_STORAGE_SET_SEL_TIME, MockIpmiSelSetTime),
      (IPMI_NETFN_STORAGE, IPMI_STORAGE_CLEAR_SEL, MockIpmiSelClear),
      (IPMI_NETFN_STORAGE, IPMI_STORAGE_GET_SEL_ENTRY, MockIpmiSelGetEntry),
      (IPMI_NETFN_APP, IPMI_APP_GET_WATCHDOG_TIMER, MockIpmiGetWatchdog),
      (IPMI_NETFN_APP, IPMI_APP_SET_WATCHDOG_TIMER, MockIpmiSetWatchdog),
      (IPMI_NETFN_APP, IPMI_APP_RESET_WATCHDOG_TIMER, MockIpmiResetWatchdog),
      (IPMI_NETFN_CHASSIS, IPMI_CHASSIS_SET_SYSTEM_BOOT_OPTIONS, MockIpmiSetSystemBootOptions),
      (IPMI_NETFN_CHASSIS, IPMI_CHASSIS_GET_SYSTEM_BOOT_OPTIONS, MockIpmiGetSystemBootOptions)]"

text \<open>
  \<open>mResponse\<close> is the header (two bytes) and \<open>ResponseData\<close>; the loop over
  \<open>MockHandlers\<close> runs the first entry that matches.
\<close>

definition MockIpmiCommand :: "ipmi_hdr \<Rightarrow> bytes \<Rightarrow> u8 \<Rightarrow> (mock_bmc, efi_status) op" where
  "MockIpmiCommand M Command Size m =
     do {
       ASSERT (hdr_lun (Command ! 0) = 0);
       ASSERT (2 \<le> unat Size);
       let NetFunction = hdr_netfn (Command ! 0);
       let Cmd = Command ! 1;
       let INVALID = cc_of M IPMI_COMP_CODE_INVALID_COMMAND;
       let Header = [hdr_byte (hdr_lun (mResponse m ! 0)) (NetFunction OR 1), Cmd];
       let ResponseData = poke (drop 2 (mResponse m)) 0 INVALID;
       (case map_of (MockHandlers M) (NetFunction, Cmd) of
          Some Handler \<Rightarrow> do {
            ((Data1, DataSize), m1) \<leftarrow>
               Handler (drop 2 Command) (Size - 2) ResponseData (of_nat MOCK_IPMI_BUFFER_SIZE)
                 (m\<lparr>mResponse := Header @ ResponseData, mResponseSize := 2\<rparr>);
            ASSERT (0 < DataSize);
            Some (EFI_SUCCESS, m1\<lparr>mResponse := Header @ Data1, mResponseSize := 2 + DataSize,
                                  mResponseValid := True\<rparr>)
          }
        | None \<Rightarrow>
            Some (EFI_SUCCESS, m\<lparr>mResponse := Header @ poke ResponseData 0 INVALID,
                                 mResponseSize := 2 + 1, mResponseValid := True\<rparr>))
     }"

definition MockIpmiResponse :: "bytes \<Rightarrow> u8 \<Rightarrow> (mock_bmc, efi_status \<times> bytes \<times> u8) op" where
  "MockIpmiResponse Response Size m =
     do {
       ASSERT (mResponseValid m);
       ASSERT (mResponseSize m \<noteq> 0);
       ASSERT (unat (mResponseSize m) \<le> 2 + MOCK_IPMI_BUFFER_SIZE);
       ASSERT (Size > mResponseSize m);
       Some ((EFI_SUCCESS, copy_mem Response 0 (take (unat (mResponseSize m)) (mResponse m)),
              mResponseSize m),
             m\<lparr>mResponse := zero_mem (2 + MOCK_IPMI_BUFFER_SIZE), mResponseValid := False\<rparr>)
     }"

subsection \<open>The two libraries on top\<close>

definition SendDataToBmcPort_Mock :: "ipmi_hdr \<Rightarrow> mock_bmc send_fn" where
  "SendDataToBmcPort_Mock M Timeout Data DataSize = MockIpmiCommand M Data DataSize"

definition ReceiveBmcDataFromPort_Mock :: "mock_bmc recv_fn" where
  "ReceiveBmcDataFromPort_Mock Timeout Data DataSize = MockIpmiResponse Data DataSize"

definition InitializeIpmiTransportHardware_Mock :: "(mock_bmc, efi_status) op" where
  "InitializeIpmiTransportHardware_Mock m = Some (EFI_SUCCESS, m)"

definition MOCK_BASE_IPMI_BUFFER_SIZE :: nat where "MOCK_BASE_IPMI_BUFFER_SIZE = 255"

definition IpmiSubmitCommand_Mock :: "ipmi_hdr \<Rightarrow> mock_bmc submit" where
  "IpmiSubmitCommand_Mock M NetFunction Command CommandData CommandDataSize ResponseData
       ResponseDataSize m =
     do {
       ASSERT (unat CommandDataSize \<le> MOCK_BASE_IPMI_BUFFER_SIZE - 2);
       ASSERT (CommandData \<noteq> None \<or> CommandDataSize = 0);
       let Data = (case CommandData of None \<Rightarrow> [] | Some d \<Rightarrow> take (unat CommandDataSize) d);
       let RequestBuffer = copy_mem (copy_mem (zero_mem MOCK_BASE_IPMI_BUFFER_SIZE) 0
                             [hdr_byte 0 NetFunction, Command]) 2 Data;
       let ResponseBuffer = zero_mem MOCK_BASE_IPMI_BUFFER_SIZE;
       (Status, m1) \<leftarrow> MockIpmiCommand M RequestBuffer (ucast (CommandDataSize + 2)) m;
       if EFI_ERROR Status then Some ((Status, ResponseData, ResponseDataSize), m1)
       else do {
         ((Status1, ResponseBuffer1, ResponseSize), m2) \<leftarrow>
            MockIpmiResponse ResponseBuffer (of_nat MOCK_BASE_IPMI_BUFFER_SIZE) m1;
         if EFI_ERROR Status1 then Some ((Status1, ResponseData, ResponseDataSize), m2)
         else do {
           ASSERT (unat ResponseSize - 2 \<le> unat ResponseDataSize);
           Some ((EFI_SUCCESS,
                  copy_mem ResponseData 0 (take (unat ResponseSize - 2) (drop 2 ResponseBuffer1)),
                  of_nat (unat ResponseSize - 2)), m2)
         }
       }
     }"

definition GetBmcStatus_Mock :: "mock_bmc get_status" where
  "GetBmcStatus_Mock m =
     Some ((EFI_SUCCESS, Some (BMC_OK, \<lparr>ChannelType_SmBmc = False, LunAddress = 0,
              ComSlaveAddress = 0, ChannelAddress = 0\<rparr>)), m)"

unbundle bit_operations_syntax

section \<open>Members after a run of assignments\<close>

lemma ASSERT_bind [simp]: "(ASSERT c \<bind> f) = Some x \<longleftrightarrow> c \<and> f () = Some x"
  by (simp add: ASSERT_def)

lemma ASSERT_Some [simp]: "ASSERT c = Some u \<longleftrightarrow> c"
  by (simp add: ASSERT_def)

lemma ASSERT_True [simp]: "ASSERT True = Some ()"
  by (simp add: ASSERT_def)

lemma fputs_simps [simp]:
  "fputs M [] bs = bs" "fputs M ((f, v) # fvs) bs = fputs M fvs (fput M 0 f v bs)"
  by (simp_all add: fputs_def)

lemma length_fputs [simp]: "length (fputs M fvs bs) = length bs"
  by (induction fvs arbitrary: bs) auto

lemma take_fputs:
  assumes "hdr_ok M" "sizeof M S \<le> n"
  shows "fst ` set fvs \<subseteq> set (fields_of S) \<Longrightarrow> n \<le> length bs \<Longrightarrow>
           take n (fputs M fvs bs) = fputs M fvs (take n bs)"
proof (induction fvs arbitrary: bs)
  case (Cons p fvs)
  then show ?case using assms take_fput [of M "fst p" S n bs] by (cases p) auto
qed simp

lemma fget_fputs:
  assumes "hdr_ok M" "g \<in> set (fields_of S)"
  shows "fst ` set fvs \<subseteq> set (fields_of S) \<Longrightarrow> sizeof M S \<le> length bs \<Longrightarrow>
    fget M 0 g (fputs M fvs bs) =
      (case map_of (rev fvs) g of Some v \<Rightarrow> take_bit (width_of g) v | None \<Rightarrow> fget M 0 g bs)"
proof (induction fvs arbitrary: bs)
  case (Cons p fvs)
  obtain f v where p: "p = (f, v)" by (cases p)
  then have "fget M 0 g (fputs M (p # fvs) bs) =
      (case map_of (rev fvs) g of Some v \<Rightarrow> take_bit (width_of g) v
       | None \<Rightarrow> fget M 0 g (fput M 0 f v bs))"
    using Cons by simp
  moreover have "fget M 0 g (fput M 0 f v bs) =
      (if f = g then take_bit (width_of g) v else fget M 0 g bs)"
    using fget_fput [of M f S g bs v] assms Cons.prems p by auto
  ultimately show ?case using p by (auto simp: map_add_def split: option.splits)
qed simp

section \<open>Invariant of the mock BMC\<close>

text \<open>The variables of the handlers have their declared sizes, and the log is not overfull.\<close>

definition mock_data_ok :: "ipmi_hdr \<Rightarrow> mock_bmc \<Rightarrow> bool" where
  "mock_data_ok M m \<longleftrightarrow>
     length (mSel m) = SEL_COUNT \<and> list_all (\<lambda>e. length e = SEL_EVENT_SIZE) (mSel m) \<and>
     unat (mNextRecordId m) \<le> SEL_COUNT \<and>
     length (mWatchdog m) = sizeof M IPMI_GET_WATCHDOG_TIMER_RESPONSE \<and>
     length (mBootFlags m) = sizeof M IPMI_BOOT_OPTIONS_RESPONSE_PARAMETER_5"

text \<open>Between two exchanges the response buffer is cleared.\<close>

definition mock_ok :: "ipmi_hdr \<Rightarrow> mock_bmc \<Rightarrow> bool" where
  "mock_ok M m \<longleftrightarrow> mock_data_ok M m \<and> mResponse m = zero_mem (2 + MOCK_IPMI_BUFFER_SIZE)"

lemmas mock_handler_defs =
  MockIpmiGetDeviceId_def MockIpmiGetSelfTest_def MockIpmiSelGetInfo_def MockIpmiSelAddEntry_def
  MockIpmiSelGetTime_def MockIpmiSelSetTime_def MockIpmiSelClear_def MockIpmiSelGetEntry_def
  MockIpmiGetWatchdog_def MockIpmiSetWatchdog_def MockIpmiResetWatchdog_def
  MockIpmiSetSystemBootOptions_def MockIpmiGetSystemBootOptions_def

lemma length_sel_event [simp]:
  "length e = SEL_EVENT_SIZE \<Longrightarrow> length (sel_set_RecordId i e) = SEL_EVENT_SIZE"
  "length e = SEL_EVENT_SIZE \<Longrightarrow> length (sel_set_TimeStamp t e) = SEL_EVENT_SIZE"
  by (simp_all add: sel_set_RecordId_def sel_set_TimeStamp_def mock_sizes mem_simps)

lemma list_all_update: "list_all P xs \<Longrightarrow> P x \<Longrightarrow> list_all P (xs[i := x])"
  using set_update_subset_insert [of xs i x] by (auto simp: list_all_iff)

lemma unat_Suc_u16: "unat (w :: u16) < 100 \<Longrightarrow> unat (w + 1) = Suc (unat w)"
  by (simp add: unat_word_ariths)

lemma unat_of_nat_u8: "n < 256 \<Longrightarrow> unat (of_nat n :: u8) = n"
  by (simp add: unat_of_nat)

lemma unat_of_nat_u8_le: "n \<le> k \<Longrightarrow> unat (of_nat n :: u8) \<le> k"
  using mod_less_eq_dividend [of n 256] by (simp add: unat_of_nat)

definition handler_ok :: "ipmi_hdr \<Rightarrow> mock_handler \<Rightarrow> bool" where
  "handler_ok M h \<longleftrightarrow> (\<forall>d n r sz m r' k m'.
     h d n r sz m = Some ((r', k), m') \<longrightarrow> length r = MOCK_IPMI_BUFFER_SIZE \<longrightarrow>
     unat sz \<le> MOCK_IPMI_BUFFER_SIZE \<longrightarrow> unat n \<le> length d \<longrightarrow> mock_data_ok M m \<longrightarrow>
     length r' = MOCK_IPMI_BUFFER_SIZE \<and> unat k \<le> unat sz \<and> mock_data_ok M m' \<and>
     mResponse m' = mResponse m \<and> mResponseValid m' = mResponseValid m)"

lemmas handler_ok_simps = handler_ok_def mock_data_ok_def Let_def mock_sizes length_poke
  length_copy_mem_fits unat_of_nat_u8_le bind_eq_Some_conv

lemma handler_ok_simple:
  "handler_ok M (MockIpmiGetDeviceId M)" "handler_ok M (MockIpmiGetSelfTest M)"
  "handler_ok M (MockIpmiSelGetInfo M)" "handler_ok M (MockIpmiSelGetTime M)"
  "handler_ok M (MockIpmiSelSetTime M)" "handler_ok M (MockIpmiSetWatchdog M)"
  "handler_ok M (MockIpmiResetWatchdog M)" "handler_ok M (MockIpmiSelClear M)"
  by (auto simp: mock_handler_defs handler_ok_simps word_le_nat_alt)

lemma handler_ok_AddEntry: "handler_ok M (MockIpmiSelAddEntry M)"
  by (auto simp: handler_ok_simps MockIpmiSelAddEntry_def list_all_update unat_Suc_u16
      length_sel_event [unfolded mock_sizes] split: if_split_asm)

lemma handler_ok_GetEntry: "handler_ok M (MockIpmiSelGetEntry M)"
  by (auto simp: handler_ok_simps MockIpmiSelGetEntry_def split: if_split_asm)

lemma handler_ok_GetWatchdog: "handler_ok M (MockIpmiGetWatchdog M)"
  by (auto simp: handler_ok_simps MockIpmiGetWatchdog_def)

lemma handler_ok_SetBoot: "handler_ok M (MockIpmiSetSystemBootOptions M)"
  by (auto simp: handler_ok_simps MockIpmiSetSystemBootOptions_def split: if_split_asm)

lemma handler_ok_GetBoot: "handler_ok M (MockIpmiGetSystemBootOptions M)"
  by (auto simp: handler_ok_simps MockIpmiGetSystemBootOptions_def simp del: of_nat_add
      split: if_split_asm)

lemma handlers_ok:
  assumes "map_of (MockHandlers M) key = Some h"
  shows "handler_ok M h"
proof -
  have "h \<in> snd ` set (MockHandlers M)" using map_of_SomeD [OF assms] by force
  then show ?thesis
    using handler_ok_simple handler_ok_AddEntry handler_ok_GetEntry handler_ok_GetWatchdog
      handler_ok_SetBoot handler_ok_GetBoot
    by (auto simp: MockHandlers_def)
qed

unbundle bit_operations_syntax

subsection \<open>Command and response\<close>

lemma MockIpmiCommand_ok:
  assumes "MockIpmiCommand M c n m = Some (st, m')"
    and "unat n \<le> length c" "mock_data_ok M m" "length (mResponse m) = 252"
  shows "st = EFI_SUCCESS" "mock_data_ok M m'" "length (mResponse m') = 252" "mResponseValid m'"
    "3 \<le> unat (mResponseSize m')" "unat (mResponseSize m') \<le> 252"
proof -
  let ?nf = "hdr_netfn (c ! 0)" and ?RD = "poke (drop 2 (mResponse m)) 0 (cc_of M IPMI_COMP_CODE_INVALID_COMMAND)"
  let ?H = "[hdr_byte (hdr_lun (mResponse m ! 0)) (?nf OR 1), c ! 1]"
  have n: "2 \<le> unat n" using assms(1) by (simp add: MockIpmiCommand_def Let_def)
  have RD: "length ?RD = 250" using assms(4) by (simp add: length_poke)
  have "st = EFI_SUCCESS \<and> mock_data_ok M m' \<and> length (mResponse m') = 252 \<and> mResponseValid m' \<and>
      3 \<le> unat (mResponseSize m') \<and> unat (mResponseSize m') \<le> 252"
  proof (cases "map_of (MockHandlers M) (?nf, c ! 1)")
    case None
    then show ?thesis
      using assms RD by (auto simp: MockIpmiCommand_def Let_def mock_data_ok_def length_poke)
  next
    case (Some h)
    let ?m = "m\<lparr>mResponse := ?H @ ?RD, mResponseSize := 2\<rparr>"
    obtain r k m1 where h: "h (drop 2 c) (n - 2) ?RD 250 ?m = Some ((r, k), m1)"
        and k: "0 < k" and m': "st = EFI_SUCCESS"
          "m' = m1\<lparr>mResponse := ?H @ r, mResponseSize := 2 + k, mResponseValid := True\<rparr>"
      using assms(1) Some
      by (auto simp: MockIpmiCommand_def Let_def bind_eq_Some_conv mock_sizes split: prod.splits)
    have "unat (n - 2) \<le> length (drop 2 c)" using assms(2) n by (simp add: unat_sub word_le_nat_alt)
    moreover have "mock_data_ok M ?m" using assms(3) by (simp add: mock_data_ok_def)
    ultimately have r: "length r = 250" "unat k \<le> 250" "mock_data_ok M m1"
      using handlers_ok [OF Some] h RD unfolding handler_ok_def mock_sizes by fastforce+
    have "unat (2 + k) = 2 + unat k" using r(2) by (simp add: unat_word_ariths)
    then show ?thesis
      using m' r k by (simp add: mock_data_ok_def word_less_nat_alt)
  qed
  then show "st = EFI_SUCCESS" "mock_data_ok M m'" "length (mResponse m') = 252" "mResponseValid m'"
    "3 \<le> unat (mResponseSize m')" "unat (mResponseSize m') \<le> 252" by simp_all
qed

lemma MockIpmiResponse_eq:
  "MockIpmiResponse buf sz m = Some ((st, buf', sz'), m') \<longleftrightarrow>
     mResponseValid m \<and> mResponseSize m \<noteq> 0 \<and> unat (mResponseSize m) \<le> 252 \<and> mResponseSize m < sz \<and>
     st = EFI_SUCCESS \<and> buf' = copy_mem buf 0 (take (unat (mResponseSize m)) (mResponse m)) \<and>
     sz' = mResponseSize m \<and> m' = m\<lparr>mResponse := zero_mem 252, mResponseValid := False\<rparr>"
  by (auto simp: MockIpmiResponse_def mock_sizes)

text \<open>One exchange through the base library, seen from the handler that runs.\<close>

lemma mock_request:
  assumes "length d \<le> 253"
  shows "drop 2 (copy_mem (copy_mem (zero_mem 255) 0 [a, b]) 2 d) = d @ zero_mem (253 - length d)"
    and "copy_mem (copy_mem (zero_mem 255) 0 [a, b]) 2 d ! 0 = a"
    and "copy_mem (copy_mem (zero_mem 255) 0 [a, b]) 2 d ! Suc 0 = b"
    and "length (copy_mem (copy_mem (zero_mem 255) 0 [a, b]) 2 d) = 255"
  using assms by (simp_all add: copy_mem_def zero_mem_def)

definition mock_begin :: "ipmi_hdr \<Rightarrow> u8 \<Rightarrow> u8 \<Rightarrow> mock_bmc \<Rightarrow> mock_bmc" where
  "mock_begin M nf c m =
     m\<lparr>mResponse := [hdr_byte 0 (nf OR 1), c, cc_of M IPMI_COMP_CODE_INVALID_COMMAND] @ zero_mem 249,
       mResponseSize := 2\<rparr>"

definition mock_end :: "u8 \<Rightarrow> mock_bmc \<Rightarrow> mock_bmc" where
  "mock_end k m = m\<lparr>mResponse := zero_mem 252, mResponseSize := 2 + k, mResponseValid := False\<rparr>"

lemma mock_submit_run:
  assumes m: "mResponse m = zero_mem 252" and key: "map_of (MockHandlers M) (nf, c) = Some h" "nf < 64"
    and d: "length d \<le> 253" "n = of_nat (length d)" "case cd of None \<Rightarrow> d = [] | Some d' \<Rightarrow> d' = d"
    and h: "h (d @ zero_mem (253 - length d)) (of_nat (length d))
              (cc_of M IPMI_COMP_CODE_INVALID_COMMAND # zero_mem 249) 250 (mock_begin M nf c m) =
            Some ((r, k), m1)"
    and k: "0 < k" "unat k \<le> 250" "unat k \<le> unat sz" and r: "length r = 250"
  shows "IpmiSubmitCommand_Mock M nf c cd n buf sz m =
    Some ((EFI_SUCCESS, copy_mem buf 0 (take (unat k) r), ucast k), mock_end k m1)"
proof -
  let ?R = "copy_mem (copy_mem (zero_mem 255) 0 [hdr_byte 0 nf, c]) 2 d"
  note rq = mock_request [OF d(1), of "hdr_byte 0 nf" c]
  have n: "unat n = length d" using d(1,2) by (simp add: unat_of_nat)
  have data: "(case cd of None \<Rightarrow> [] | Some d' \<Rightarrow> take (unat n) d') = d"
    "(\<exists>y. cd = Some y) \<or> n = 0" using d n by (auto split: option.splits)
  have sz: "ucast (n + 2) = (of_nat (length d + 2) :: u8)" "2 \<le> unat (of_nat (length d + 2) :: u8)"
    "(of_nat (length d + 2) :: u8) - 2 = of_nat (length d)"
    using d(1) by (simp_all add: d(2) unat_of_nat del: of_nat_add)
      (simp_all add: word_unat_eq_iff unsigned_ucast_eq unat_of_nat take_bit_nat_eq_self
        unat_word_ariths take_bit_nat_def)
  have RD: "poke (drop 2 (zero_mem 252)) 0 x = x # zero_mem 249" for x :: u8
    by (simp add: poke_0 zero_mem_def)
  have z: "hdr_lun (zero_mem 252 ! 0) = 0" by (simp add: hdr_lun_def zero_mem_def)
  have cmd: "MockIpmiCommand M ?R (of_nat (length d + 2)) m =
      Some (EFI_SUCCESS, m1\<lparr>mResponse := [hdr_byte 0 (nf OR 1), c] @ r, mResponseSize := 2 + k,
                           mResponseValid := True\<rparr>)"
    using key h k(1) sz(2) m
    by (simp add: MockIpmiCommand_def Let_def rq sz(3) mock_sizes mock_begin_def RD z
        del: of_nat_add)
  have k2: "unat (2 + k) = 2 + unat k" using k(2) by (simp add: unat_word_ariths)
  have resp: "take (2 + unat k) (hdr_byte 0 (nf OR 1) # c # r) = hdr_byte 0 (nf OR 1) # c # take (unat k) r"
    by simp
  have size: "2 + k \<noteq> 0" "2 + k < 255"
    using k(2) k2 by (simp_all add: word_unat_eq_iff word_less_nat_alt)
  have "unat n \<le> 253" using n d(1) by simp
  then show ?thesis
    using data(2) k(2,3) r cmd size
    by (simp add: IpmiSubmitCommand_Mock_def Let_def data(1) MOCK_BASE_IPMI_BUFFER_SIZE_def sz(1)
        MockIpmiResponse_def mock_sizes k2 resp copy_mem_def mock_end_def unsigned_ucast_eq)
qed


subsection \<open>The mock behind the two interfaces\<close>

lemma mock_submit_cases:
  assumes "IpmiSubmitCommand_Mock M nf c cd n buf sz m = Some ((st, buf', sz'), m')"
    and "mock_ok M m"
  obtains r where "st = EFI_SUCCESS" "r \<noteq> []" "length r \<le> unat sz" "sz' = of_nat (length r)"
    "buf' = copy_mem buf 0 r" "mock_ok M m'"
proof -
  define d where "d = (case cd of None \<Rightarrow> [] | Some d \<Rightarrow> take (unat n) d)"
  define R where "R = copy_mem (copy_mem (zero_mem 255) 0 [hdr_byte 0 nf, c]) 2 d"
  have n: "unat n \<le> 253"
    using assms(1) by (simp add: IpmiSubmitCommand_Mock_def MOCK_BASE_IPMI_BUFFER_SIZE_def)
  have "length d \<le> 253" using n by (auto simp: d_def split: option.splits)
  then have R: "length R = 255" by (simp add: R_def mock_request(4))
  obtain st1 m1 where cmd: "MockIpmiCommand M R (ucast (n + 2)) m = Some (st1, m1)"
    using assms(1)
    by (auto simp: IpmiSubmitCommand_Mock_def MOCK_BASE_IPMI_BUFFER_SIZE_def bind_eq_Some_conv
        Let_def R_def d_def)
  have "unat (ucast (n + 2) :: u8) \<le> length R" using u8_bound [of "ucast (n + 2)"] R by simp
  note ok = MockIpmiCommand_ok [OF cmd this]
  have m: "mock_data_ok M m" "length (mResponse m) = 252"
    using assms(2) by (simp_all add: mock_ok_def mock_sizes)
  note ok = ok [OF m]
  let ?k = "unat (mResponseSize m1)"
  let ?r = "take (?k - 2) (drop 2 (mResponse m1))"
  have "do {
      ((Status1, RB, RS), m2) \<leftarrow> MockIpmiResponse (zero_mem 255) 255 m1;
      if EFI_ERROR Status1 then Some ((Status1, buf, sz), m2)
      else do {
        ASSERT (unat RS - 2 \<le> unat sz);
        Some ((EFI_SUCCESS, copy_mem buf 0 (take (unat RS - 2) (drop 2 RB)), of_nat (unat RS - 2)), m2)
      }
    } = Some ((st, buf', sz'), m')"
    using assms(1) cmd ok(1)
    by (simp add: IpmiSubmitCommand_Mock_def MOCK_BASE_IPMI_BUFFER_SIZE_def Let_def R_def d_def)
  then have res: "?k - 2 \<le> unat sz" "st = EFI_SUCCESS" "sz' = of_nat (?k - 2)"
      "buf' = copy_mem buf 0 ?r"
      "m' = m1\<lparr>mResponse := zero_mem 252, mResponseValid := False\<rparr>"
    using ok(3,6) by (auto simp: bind_eq_Some_conv MockIpmiResponse_eq copy_mem_def drop_take)
  have len: "length ?r = ?k - 2" "0 < ?k - 2" using ok(3,5,6) by simp_all
  show thesis
    by (rule that [of ?r])
      (use res len ok(2) in \<open>auto simp: mock_ok_def mock_data_ok_def mock_sizes\<close>)
qed

interpretation mock_base: ipmi_submit "IpmiSubmitCommand_Mock M" "mock_ok M" for M
proof (unfold_locales, goal_cases)
  case (1 nf c d n buf sz s st buf' sz' s')
  then show ?case by (elim mock_submit_cases)
next
  case (2 nf c d n buf sz s st buf' sz' s')
  from 2(1,2) show ?case by (rule mock_submit_cases) (use 2(4) in simp)
next
  case (3 nf c d n buf sz s buf' sz' s')
  from 3(1,2) show ?case
  proof (rule mock_submit_cases)
    fix r
    assume "length r \<le> unat sz" "buf' = copy_mem buf 0 r"
    then show ?thesis by (intro exI [of _ r]) (simp add: copy_mem_def)
  qed
qed

text \<open>A handler reads no more of the request than it was told there is.\<close>

definition handler_reads :: "mock_handler \<Rightarrow> bool" where
  "handler_reads h \<longleftrightarrow> (\<forall>d d' n r sz m.
     unat n \<le> length d \<longrightarrow> unat n \<le> length d' \<longrightarrow> take (unat n) d = take (unat n) d' \<longrightarrow>
     h d n r sz m = h d' n r sz m)"

lemma fget_cong:
  assumes "hdr_ok M" "take n d = take n d'" "f \<in> set (fields_of S)" "sizeof M S \<le> n"
  shows "fget M 0 f d = fget M 0 f d'"
  using fget_take [OF assms(1,3,4)] assms(2) by metis


lemma handler_reads_free:
  "handler_reads (MockIpmiGetDeviceId M)" "handler_reads (MockIpmiGetSelfTest M)"
  "handler_reads (MockIpmiSelGetInfo M)" "handler_reads (MockIpmiSelGetTime M)"
  "handler_reads (MockIpmiGetWatchdog M)" "handler_reads (MockIpmiResetWatchdog M)"
  by (simp_all add: handler_reads_def mock_handler_defs)

lemma handler_reads_fields:
  assumes "\<And>d d' n r sz m. unat n \<le> length d \<Longrightarrow> unat n \<le> length d' \<Longrightarrow>
      take (unat n) d = take (unat n) d' \<Longrightarrow> sizeof M S \<le> unat n \<Longrightarrow>
      (\<And>f. f \<in> set (fields_of S) \<Longrightarrow> fget M 0 f d = fget M 0 f d') \<Longrightarrow>
      h d n r sz m = h d' n r sz m"
    and "\<And>d n r sz m. \<not> sizeof M S \<le> unat n \<Longrightarrow> h d n r sz m = None" "hdr_ok M"
  shows "handler_reads h"
  unfolding handler_reads_def
proof (intro allI impI)
  fix d d' :: bytes and n :: u8 and r sz m
  assume l: "unat n \<le> length d" "unat n \<le> length d'" "take (unat n) d = take (unat n) d'"
  show "h d n r sz m = h d' n r sz m"
  proof (cases "sizeof M S \<le> unat n")
    case True
    then show ?thesis using assms(1) [OF l True] fget_cong [OF assms(3) l(3)] by blast
  next
    case False
    then show ?thesis using assms(2) by metis
  qed
qed

lemma handler_reads_AddEntry: "hdr_ok M \<Longrightarrow> handler_reads (MockIpmiSelAddEntry M)"
  by (rule handler_reads_fields [where S = IPMI_ADD_SEL_ENTRY_REQUEST])
    (simp_all add: MockIpmiSelAddEntry_def ASSERT_def Let_def)

lemma handler_reads_SetTime: "hdr_ok M \<Longrightarrow> handler_reads (MockIpmiSelSetTime M)"
  by (rule handler_reads_fields [where S = IPMI_SET_SEL_TIME_REQUEST])
    (simp_all add: MockIpmiSelSetTime_def ASSERT_def)

lemma handler_reads_Clear: "hdr_ok M \<Longrightarrow> handler_reads (MockIpmiSelClear M)"
  by (rule handler_reads_fields [where S = IPMI_CLEAR_SEL_REQUEST])
    (simp_all add: MockIpmiSelClear_def ASSERT_def Let_def fget8_def)

lemma handler_reads_GetEntry: "hdr_ok M \<Longrightarrow> handler_reads (MockIpmiSelGetEntry M)"
  by (rule handler_reads_fields [where S = IPMI_GET_SEL_ENTRY_REQUEST])
    (simp_all add: MockIpmiSelGetEntry_def ASSERT_def Let_def)

lemma handler_reads_SetWatchdog: "hdr_ok M \<Longrightarrow> handler_reads (MockIpmiSetWatchdog M)"
  by (rule handler_reads_fields [where S = IPMI_SET_WATCHDOG_TIMER_REQUEST])
    (simp_all add: MockIpmiSetWatchdog_def ASSERT_def Let_def fget8_def)

lemma handler_reads_GetBoot: "hdr_ok M \<Longrightarrow> handler_reads (MockIpmiGetSystemBootOptions M)"
  by (rule handler_reads_fields [where S = IPMI_GET_BOOT_OPTIONS_REQUEST])
    (simp_all add: MockIpmiGetSystemBootOptions_def ASSERT_def Let_def)

lemma handler_reads_SetBoot:
  assumes "hdr_ok M"
  shows "handler_reads (MockIpmiSetSystemBootOptions M)"
proof (rule handler_reads_fields [where S = IPMI_SET_BOOT_OPTIONS_REQUEST])
  fix d d' :: bytes and n :: u8 and r sz m
  let ?H = "sizeof M IPMI_SET_BOOT_OPTIONS_REQUEST"
  assume l: "take (unat n) d = take (unat n) d'" and H: "?H \<le> unat n"
    and f: "\<And>f. f \<in> set (fields_of IPMI_SET_BOOT_OPTIONS_REQUEST) \<Longrightarrow> fget M 0 f d = fget M 0 f d'"
  have t: "take (unat n - ?H) (drop ?H d) = take (unat n - ?H) (drop ?H d')"
    using l by (metis drop_take)
  have p5: "take k (drop ?H d) = take k (drop ?H d')" if "k \<le> unat n - ?H" for k
    using arg_cong [OF t, of "take k"] that by (simp add: min_absorb1)
  have p4: "fget M 0 g (drop ?H d) = fget M 0 g (drop ?H d')"
    if "g \<in> set (fields_of IPMI_BOOT_OPTIONS_RESPONSE_PARAMETER_4)"
      "sizeof M IPMI_BOOT_OPTIONS_RESPONSE_PARAMETER_4 \<le> unat n - ?H" for g
    using fget_cong [OF assms t that] .
  show "MockIpmiSetSystemBootOptions M d n r sz m = MockIpmiSetSystemBootOptions M d' n r sz m"
    using f p5 p4 by (simp add: MockIpmiSetSystemBootOptions_def ASSERT_def Let_def fget8_def)
qed (simp_all add: MockIpmiSetSystemBootOptions_def ASSERT_def assms)

lemma handlers_read:
  assumes "hdr_ok M" "map_of (MockHandlers M) key = Some h"
  shows "handler_reads h"
proof -
  have "h \<in> snd ` set (MockHandlers M)" using map_of_SomeD [OF assms(2)] by force
  then show ?thesis
    using handler_reads_free handler_reads_AddEntry [OF assms(1)] handler_reads_SetTime [OF assms(1)]
      handler_reads_Clear [OF assms(1)] handler_reads_GetEntry [OF assms(1)]
      handler_reads_SetWatchdog [OF assms(1)] handler_reads_GetBoot [OF assms(1)]
      handler_reads_SetBoot [OF assms(1)]
    by (auto simp: MockHandlers_def)
qed

lemma MockIpmiCommand_reads:
  assumes "hdr_ok M" "unat n \<le> length d" "unat n \<le> length d'" "take (unat n) d = take (unat n) d'"
  shows "MockIpmiCommand M d n m = MockIpmiCommand M d' n m"
proof (cases "2 \<le> unat n")
  case True
  have eq: "d ! 0 = d' ! 0" "d ! 1 = d' ! 1"
    using assms(4) True nth_take [of 0 "unat n" d] nth_take [of 0 "unat n" d']
      nth_take [of 1 "unat n" d] nth_take [of 1 "unat n" d'] by auto
  have n: "unat (n - 2) = unat n - 2" using True by (simp add: unat_sub word_le_nat_alt)
  have "take (unat (n - 2)) (drop 2 d) = take (unat (n - 2)) (drop 2 d')"
    using assms(4) n by (metis drop_take)
  then have h: "h (drop 2 d) (n - 2) = h (drop 2 d') (n - 2)"
    if "map_of (MockHandlers M) key = Some h" for key h
    using handlers_read [OF assms(1) that] assms(2,3) n unfolding handler_reads_def
    by (intro ext) simp
  show ?thesis
  proof (cases "map_of (MockHandlers M) (hdr_netfn (d' ! 0), d' ! 1)")
    case None
    then show ?thesis by (simp add: MockIpmiCommand_def eq [simplified])
  next
    case (Some g)
    then show ?thesis using h [OF Some] by (simp add: MockIpmiCommand_def eq [simplified])
  qed
qed (simp add: MockIpmiCommand_def ASSERT_def)

lemma mock_transport_lawful:
  assumes "hdr_ok M"
  shows "transport (SendDataToBmcPort_Mock M) ReceiveBmcDataFromPort_Mock"
proof (unfold_locales, goal_cases)
  case (1 n d d' P t)
  then show ?case unfolding SendDataToBmcPort_Mock_def by (rule MockIpmiCommand_reads [OF assms])
next
  case (2 P buf n t st buf' n' t')
  then have l: "mResponseSize t < n" "buf' = copy_mem buf 0 (take (unat (mResponseSize t)) (mResponse t))"
    by (simp_all add: ReceiveBmcDataFromPort_Mock_def MockIpmiResponse_eq)
  then show ?case
    using 2(2) unfolding l(2) by (intro length_copy_mem_fits) (simp add: word_less_nat_alt)
next
  case (3 P buf n t buf' n' t')
  then show ?case by (simp add: ReceiveBmcDataFromPort_Mock_def MockIpmiResponse_eq order.strict_implies_order)
qed

interpretation mock_port: transport "SendDataToBmcPort_Mock ipmi_v2" ReceiveBmcDataFromPort_Mock
  by (rule mock_transport_lawful) simp

unbundle bit_operations_syntax

section \<open>One exchange with the mock, as a function\<close>

text \<open>
  The reply bytes (completion code first) and the state after one exchange that starts with a
  cleared response buffer.
\<close>

definition mock_reply ::
    "ipmi_hdr \<Rightarrow> u8 \<Rightarrow> u8 \<Rightarrow> bytes \<Rightarrow> mock_bmc \<Rightarrow> (bytes \<times> mock_bmc) option" where
  "mock_reply M nf c d m =
     (case map_of (MockHandlers M) (nf, c) of
        None \<Rightarrow> Some ([cc_of M IPMI_COMP_CODE_INVALID_COMMAND], mock_end 1 m)
      | Some h \<Rightarrow> do {
          ((r, k), m1) \<leftarrow> h (d @ zero_mem (253 - length d)) (of_nat (length d))
             (cc_of M IPMI_COMP_CODE_INVALID_COMMAND # zero_mem 249) 250 (mock_begin M nf c m);
          ASSERT (0 < k);
          Some (take (unat k) r, mock_end k m1)
        })"

lemma mock_begin_ok: "mock_ok M m \<Longrightarrow> mock_data_ok M (mock_begin M nf c m)"
  by (simp add: mock_ok_def mock_data_ok_def mock_begin_def)

lemma mock_reply_ok:
  assumes "mock_reply M nf c d m = Some (r, m')" "mock_ok M m" "length d \<le> 253"
  shows "mock_ok M m'" "0 < length r" "length r \<le> 250"
proof -
  have "mock_ok M m' \<and> 0 < length r \<and> length r \<le> 250"
  proof (cases "map_of (MockHandlers M) (nf, c)")
    case None
    then show ?thesis
      using assms by (auto simp: mock_reply_def mock_end_def mock_ok_def mock_data_ok_def mock_sizes)
  next
    case (Some h)
    obtain r1 k m1 where h: "h (d @ zero_mem (253 - length d)) (of_nat (length d))
        (cc_of M IPMI_COMP_CODE_INVALID_COMMAND # zero_mem 249) 250 (mock_begin M nf c m) =
        Some ((r1, k), m1)" "0 < k" "r = take (unat k) r1" "m' = mock_end k m1"
      using assms(1) Some by (auto simp: mock_reply_def bind_eq_Some_conv)
    have "length r1 = 250" "unat k \<le> 250" "mock_data_ok M m1"
      using handlers_ok [OF Some] h(1) mock_begin_ok [OF assms(2)] assms(3)
      unfolding handler_ok_def mock_sizes by (fastforce simp: unat_of_nat_u8)+
    then show ?thesis
      using h(2-4) by (simp add: mock_end_def mock_ok_def mock_data_ok_def mock_sizes word_less_nat_alt)
  qed
  then show "mock_ok M m'" "0 < length r" "length r \<le> 250" by simp_all
qed

lemma mock_command_reply:
  assumes hdr: "hdr_ok M" and reply: "mock_reply M nf c d m = Some (r, m')" and m: "mock_ok M m"
    and nf: "nf < 64" and d: "length d \<le> 253"
    and B: "take (length d + 2) B = [hdr_byte 0 nf, c] @ d" "length B = 255"
  obtains m1 where "MockIpmiCommand M B (of_nat (length d + 2)) m = Some (EFI_SUCCESS, m1)"
    "mResponseValid m1" "unat (mResponseSize m1) = 2 + length r"
    "take (2 + length r) (mResponse m1) = [hdr_byte 0 (nf OR 1), c] @ r"
    "length (mResponse m1) = 252" "m1\<lparr>mResponse := zero_mem 252, mResponseValid := False\<rparr> = m'"
proof -
  define R where "R = copy_mem (copy_mem (zero_mem 255) 0 [hdr_byte 0 nf, c]) 2 d"
  note rq = mock_request [OF d, of "hdr_byte 0 nf" c, folded R_def]
  have sz: "unat (of_nat (length d + 2) :: u8) = length d + 2"
    "(of_nat (length d + 2) :: u8) - 2 = of_nat (length d)"
    using d unat_of_nat_u8 [of "length d + 2"] by simp_all
  have RR: "take (length d + 2) R = [hdr_byte 0 nf, c] @ d"
    using d by (simp add: R_def copy_mem_def zero_mem_def)
  have cmd: "MockIpmiCommand M B (of_nat (length d + 2)) m = MockIpmiCommand M R (of_nat (length d + 2)) m"
    by (rule MockIpmiCommand_reads [OF hdr]) (use sz(1) B RR rq(4) d in simp_all)
  have mr: "mResponse m = zero_mem 252" using m by (simp add: mock_ok_def mock_sizes)
  have RD: "poke (drop 2 (zero_mem 252)) 0 x = x # zero_mem 249" for x :: u8
    by (simp add: poke_0 zero_mem_def)
  have z: "hdr_lun (zero_mem 252 ! 0) = 0" by (simp add: hdr_lun_def zero_mem_def)
  have len: "0 < length r" "length r \<le> 250" using mock_reply_ok [OF reply m d] by simp_all
  show thesis
  proof (cases "map_of (MockHandlers M) (nf, c)")
    case None
    let ?m = "m\<lparr>mResponse := [hdr_byte 0 (nf OR 1), c] @ cc_of M IPMI_COMP_CODE_INVALID_COMMAND # zero_mem 249,
                mResponseSize := 3, mResponseValid := True\<rparr>"
    have "MockIpmiCommand M R (of_nat (length d + 2)) m = Some (EFI_SUCCESS, ?m)"
      using None nf sz by (simp add: MockIpmiCommand_def Let_def rq mr z [unfolded zero_mem_def, simplified] poke_0
          zero_mem_def del: of_nat_add)
    then show thesis
      using reply None cmd by (intro that [of ?m]) (auto simp: mock_reply_def mock_end_def)
  next
    case (Some h)
    obtain r1 k m1 where h: "h (d @ zero_mem (253 - length d)) (of_nat (length d))
        (cc_of M IPMI_COMP_CODE_INVALID_COMMAND # zero_mem 249) 250 (mock_begin M nf c m) =
        Some ((r1, k), m1)" "0 < k" "r = take (unat k) r1" "m' = mock_end k m1"
      using reply Some by (auto simp: mock_reply_def bind_eq_Some_conv)
    let ?m = "m1\<lparr>mResponse := [hdr_byte 0 (nf OR 1), c] @ r1, mResponseSize := 2 + k, mResponseValid := True\<rparr>"
    have "MockIpmiCommand M R (of_nat (length d + 2)) m = Some (EFI_SUCCESS, ?m)"
      using Some nf sz h(1,2)
      by (simp add: MockIpmiCommand_def Let_def rq mr RD z mock_sizes mock_begin_def del: of_nat_add)
    moreover have r1: "length r1 = 250" "unat k \<le> 250"
      using handlers_ok [OF Some] h(1) mock_begin_ok [OF m] d
      unfolding handler_ok_def mock_sizes by (fastforce simp: unat_of_nat_u8)+
    moreover have "unat (2 + k) = 2 + unat k" using r1(2) by (simp add: unat_word_ariths)
    ultimately show thesis
      using h cmd by (intro that [of ?m]) (simp_all add: mock_end_def min_def)
  qed
qed


section \<open>The mock as the BMC behind a client\<close>

text \<open>
  A client reaches the mock in two ways: through \<open>IpmiBaseLibMock\<close>, or through a library over the
  generic driver with \<open>IpmiTransportLibMock\<close>.  Both deliver a reply with the normal completion
  code in the same way; the generic driver turns every other reply into an error.
\<close>

locale mock_provider =
  fixes M :: ipmi_hdr and submit :: "'s submit" and bmc :: "'s \<Rightarrow> mock_bmc" and ok :: "'s \<Rightarrow> bool"
  assumes hdr: "hdr_ok M" and commands: "distinct (map fst (MockHandlers M))"
    and ok_bmc: "ok s \<Longrightarrow> mock_ok M (bmc s)"
    and answers:
      "ok s \<Longrightarrow> mock_reply M nf c d (bmc s) = Some (r, m') \<Longrightarrow> hd r = cc_of M IPMI_COMP_CODE_NORMAL \<Longrightarrow>
         nf < 64 \<Longrightarrow> length d \<le> 252 \<Longrightarrow> (case cd of None \<Rightarrow> d = [] | Some d' \<Rightarrow> d' = d) \<Longrightarrow>
         length r \<le> unat sz \<Longrightarrow> unat sz < 256 \<Longrightarrow>
         \<exists>s'. submit nf c cd (of_nat (length d)) buf sz s =
           Some ((EFI_SUCCESS, copy_mem buf 0 r, of_nat (length r)), s') \<and> ok s' \<and> bmc s' = m'"
    and refuses:
      "ok s \<Longrightarrow> mock_reply M nf c d (bmc s) = Some (r, m') \<Longrightarrow> hd r \<noteq> cc_of M IPMI_COMP_CODE_NORMAL \<Longrightarrow>
         nf < 64 \<Longrightarrow> length d \<le> 252 \<Longrightarrow> (case cd of None \<Rightarrow> d = [] | Some d' \<Rightarrow> d' = d) \<Longrightarrow>
         length r \<le> unat sz \<Longrightarrow> unat sz < 256 \<Longrightarrow>
         \<exists>st buf' sz' s'. submit nf c cd (of_nat (length d)) buf sz s = Some ((st, buf', sz'), s') \<and>
           ok s' \<and> bmc s' = m' \<and>
           (if EFI_ERROR st then buf' = buf
            else st = EFI_SUCCESS \<and> buf' = copy_mem buf 0 r \<and> sz' = of_nat (length r))"

lemma mock_base_result:
  assumes hdr: "hdr_ok M" and reply: "mock_reply M nf c d m = Some (r, m')" and m: "mock_ok M m"
    and nf: "nf < 64" and d: "length d \<le> 253" "case cd of None \<Rightarrow> d = [] | Some d' \<Rightarrow> d' = d"
  shows "IpmiSubmitCommand_Mock M nf c cd (of_nat (length d)) buf sz m =
    (if length r \<le> unat sz then Some ((EFI_SUCCESS, copy_mem buf 0 r, of_nat (length r)), m') else None)"
proof -
  let ?R = "copy_mem (copy_mem (zero_mem 255) 0 [hdr_byte 0 nf, c]) 2 d"
  have "take (length d + 2) ?R = [hdr_byte 0 nf, c] @ d"
    using d(1) by (simp add: copy_mem_def zero_mem_def)
  then obtain m1 where m1: "MockIpmiCommand M ?R (of_nat (length d + 2)) m = Some (EFI_SUCCESS, m1)"
    "mResponseValid m1" "unat (mResponseSize m1) = 2 + length r"
    "take (2 + length r) (mResponse m1) = [hdr_byte 0 (nf OR 1), c] @ r"
    "m1\<lparr>mResponse := zero_mem 252, mResponseValid := False\<rparr> = m'"
    using mock_command_reply [OF hdr reply m nf d(1)] mock_request(4) [OF d(1)] by metis
  have n: "unat (of_nat (length d) :: u32) = length d" using d(1) by (simp add: unat_of_nat)
  have data: "(case cd of None \<Rightarrow> [] | Some d' \<Rightarrow> take (unat (of_nat (length d) :: u32)) d') = d"
    "(\<exists>y. cd = Some y) \<or> (of_nat (length d) :: u32) = 0" using d n by (auto split: option.splits)
  have size: "ucast (of_nat (length d) + 2 :: u32) = (of_nat (length d + 2) :: u8)"
    using d(1) by (simp add: word_unat_eq_iff unsigned_ucast_eq unat_word_ariths unat_of_nat take_bit_eq_mod)
  have k: "mResponseSize m1 \<noteq> 0" "mResponseSize m1 < 255" "length r \<le> 250"
    using m1(3) mock_reply_ok [OF reply m d(1)] by (auto simp: word_unat_eq_iff word_less_nat_alt)
  show ?thesis
    using d(1) data(2) m1(1-3,5) k
    by (simp add: IpmiSubmitCommand_Mock_def Let_def data(1) n size MOCK_BASE_IPMI_BUFFER_SIZE_def
        MockIpmiResponse_def mock_sizes m1(4) [simplified] del: of_nat_add)
      (simp add: copy_mem_def ASSERT_def)
qed

lemma mock_base_reply:
  assumes "hdr_ok M" "mock_reply M nf c d m = Some (r, m')" "mock_ok M m" "nf < 64" "length d \<le> 253"
    and "case cd of None \<Rightarrow> d = [] | Some d' \<Rightarrow> d' = d" "length r \<le> unat sz"
  shows "IpmiSubmitCommand_Mock M nf c cd (of_nat (length d)) buf sz m =
    Some ((EFI_SUCCESS, copy_mem buf 0 r, of_nat (length r)), m')"
  using mock_base_result [OF assms(1-6)] assms(7) by simp

lemma v2_commands: "distinct (map fst (MockHandlers ipmi_v2))"
  by (simp add: MockHandlers_def)

interpretation mock_direct: mock_provider ipmi_v2 "IpmiSubmitCommand_Mock ipmi_v2" id "mock_ok ipmi_v2"
proof (unfold_locales, goal_cases)
  case (4 s nf c d r m' cd sz buf)
  then show ?case
    using mock_base_reply [of ipmi_v2 nf c d s r m' cd sz buf] mock_reply_ok [of ipmi_v2 nf c d s r m']
    by simp
next
  case (5 s nf c d r m' cd sz buf)
  then show ?case
    using mock_base_reply [of ipmi_v2 nf c d s r m' cd sz buf] mock_reply_ok [of ipmi_v2 nf c d s r m']
    by simp
qed (simp_all add: v2_commands)

subsection \<open>The mock before the first command\<close>

text \<open>The initial values of the file-level variables.\<close>

definition mock_reset :: "ipmi_hdr \<Rightarrow> mock_bmc" where
  "mock_reset M =
     \<lparr>mResponseValid = False, mResponse = zero_mem (2 + MOCK_IPMI_BUFFER_SIZE), mResponseSize = 0,
      mSel = replicate SEL_COUNT (zero_mem SEL_EVENT_SIZE), mNextRecordId = 0, mSelTime = 0,
      mWatchdog = zero_mem (sizeof M IPMI_GET_WATCHDOG_TIMER_RESPONSE),
      mBootFlags = zero_mem (sizeof M IPMI_BOOT_OPTIONS_RESPONSE_PARAMETER_5),
      mBootOptionAcks = 0xFF\<rparr>"

lemma mock_reset_ok [simp]: "mock_ok M (mock_reset M)"
  by (simp add: mock_ok_def mock_data_ok_def mock_reset_def list_all_iff)

end
