(* ===== verification/Mock_Stack.thy ===== *)
theory Mock_Stack
  imports Mock_Bmc
begin

section \<open>The generic driver over the mock transport\<close>

text \<open>
  The second way to the mock: a client calls the generic driver, whose transport is
  \<open>IpmiTransportLibMock\<close>.  The driver hands on a reply with the normal completion code as it
  is and turns every other reply into an error; in both cases the mock is left in the state its
  handler gave it.  So this stack, too, is an interpretation of \<open>mock_provider\<close>.
\<close>

unbundle bit_operations_syntax

lemma mock_generic_exchange:
  assumes hdr: "hdr_ok M" and reply: "mock_reply M nf c d (Port inst) = Some (r, m')"
    and m: "mock_ok M (Port inst)" and inst: "inst_ok inst" and nf: "nf < 64" and d: "length d \<le> 252"
  defines "F \<equiv> command_frame 0 nf c d (of_nat (length d)) (TempData inst)"
  obtains m1 where
    "SendDataToBmcPort_Mock M P F (of_nat (length d) + 2) (Port inst) = Some (EFI_SUCCESS, m1)"
    "ReceiveBmcDataFromPort_Mock P F 254 m1 =
       Some ((EFI_SUCCESS, copy_mem F 0 ([hdr_byte 0 (nf OR 1), c] @ r), of_nat (2 + length r)), m')"
proof -
  have n: "unat (of_nat (length d) :: u8) = length d" using d by (simp add: unat_of_nat_u8)
  have T: "length (TempData inst) = MAX_TEMP_DATA" using inst by (simp add: inst_ok_def)
  have F: "length F = 255" "take (length d + 2) F = [hdr_byte 0 nf, c] @ d"
    using length_command_frame [OF T, of "of_nat (length d)"] d n
      take_command_frame [OF T, of "of_nat (length d)" d]
    by (simp_all add: F_def size_defs)
  have d': "length d \<le> 253" using d by simp
  obtain m1 where m1: "MockIpmiCommand M F (of_nat (length d + 2)) (Port inst) = Some (EFI_SUCCESS, m1)"
    "mResponseValid m1" "unat (mResponseSize m1) = 2 + length r"
    "take (2 + length r) (mResponse m1) = [hdr_byte 0 (nf OR 1), c] @ r"
    "m1\<lparr>mResponse := zero_mem 252, mResponseValid := False\<rparr> = m'"
    using mock_command_reply [OF hdr reply m nf d' F(2,1)] by metis
  have r: "0 < length r" "length r \<le> 250" using mock_reply_ok [OF reply m d'] by simp_all
  have sz: "mResponseSize m1 = of_nat (2 + length r)"
    using m1(3) unat_of_nat_u8 [of "2 + length r"] r by (simp add: word_unat_eq_iff)
  have "mResponseSize m1 < 254" "mResponseSize m1 \<noteq> 0"
    using m1(3) r by (auto simp: word_less_nat_alt word_unat_eq_iff)
  then have "ReceiveBmcDataFromPort_Mock P F 254 m1 =
       Some ((EFI_SUCCESS, copy_mem F 0 ([hdr_byte 0 (nf OR 1), c] @ r), of_nat (2 + length r)), m')"
    using m1(2-5) sz r by (simp add: ReceiveBmcDataFromPort_Mock_def MockIpmiResponse_eq)
  moreover have "SendDataToBmcPort_Mock M P F (of_nat (length d) + 2) (Port inst) = Some (EFI_SUCCESS, m1)"
    using m1(1) by (simp add: SendDataToBmcPort_Mock_def add.commute)
  ultimately show thesis using that by blast
qed

abbreviation mock_driver :: "ipmi_hdr \<Rightarrow> u8 \<Rightarrow> mock_bmc ipmi_bmc_instance submit" where
  "mock_driver M R \<equiv>
     generic_submit M (SendDataToBmcPort_Mock M) ReceiveBmcDataFromPort_Mock R 0"

lemma generic_submit_from:
  assumes "case cd of None \<Rightarrow> d = [] | Some d' \<Rightarrow> d' = d" "length d \<le> 252"
    and "IpmiSendCommandInternal M send recv R nf lun c (Some d) (of_nat (length d)) (RespCaller buf)
           (Some (ucast sz)) inst = Some ((st, RespCaller buf', Some z), inst')"
  shows "generic_submit M send recv R lun nf c cd (of_nat (length d)) buf sz inst =
    Some ((st, buf', set_low8 sz z), inst')"
proof -
  have n: "ucast (of_nat (length d) :: u32) = (of_nat (length d) :: u8)"
    using assms(2) by (simp add: word_unat_eq_iff unsigned_ucast_eq unat_of_nat take_bit_eq_mod)
  have "IpmiSendCommandInternal M send recv R nf lun c cd (of_nat (length d)) (RespCaller buf)
      (Some (ucast sz)) inst = Some ((st, RespCaller buf', Some z), inst')"
    using assms(1,3) internal_None [of M send recv R nf lun c "RespCaller buf"] by (cases cd) auto
  then show ?thesis by (simp add: generic_submit_def IpmiSendCommand_def n)
qed

lemma set_low8_small: "unat w < 256 \<Longrightarrow> set_low8 w b = ucast b"
proof -
  assume "unat w < 256"
  then have "unat w = unat (take_bit 8 w)" by (simp add: unsigned_take_bit_eq take_bit_nat_eq_self)
  then have w: "w = take_bit 8 w" by (simp add: word_unat_eq_iff)
  have ff: "(0xFF :: u32) = mask 8" by (simp add: mask_eq_exp_minus_1)
  have "w AND NOT 0xFF = 0"
    unfolding ff by (subst w) (auto intro!: bit_eqI simp: bit_simps)
  then show ?thesis by (simp add: set_low8_def)
qed

lemma mock_driver_answers:
  assumes "hdr_ok M" "mock_reply M nf c d (Port inst) = Some (r, m')"
    "mock_ok M (Port inst)" "inst_ok inst" "nf < 64" "length d \<le> 252" "0 < R"
    and data: "case cd of None \<Rightarrow> d = [] | Some d' \<Rightarrow> d' = d"
    and normal: "hd r = cc_of M IPMI_COMP_CODE_NORMAL" and sz: "length r \<le> unat sz" "unat sz < 256"
  shows "\<exists>inst'. mock_driver M R nf c cd (of_nat (length d)) buf sz inst =
      Some ((EFI_SUCCESS, copy_mem buf 0 r, of_nat (length r)), inst') \<and>
    inst_ok inst' \<and> Port inst' = m'"
proof -
  let ?F = "command_frame 0 nf c d (of_nat (length d)) (TempData inst)"
  let ?T = "copy_mem ?F 0 ([hdr_byte 0 (nf OR 1), c] @ r)"
  obtain m1 where ex:
    "SendDataToBmcPort_Mock M (IpmiTimeoutPeriod inst) ?F (of_nat (length d) + 2) (Port inst) =
       Some (EFI_SUCCESS, m1)"
    "ReceiveBmcDataFromPort_Mock (IpmiTimeoutPeriod inst) ?F 254 m1 =
       Some ((EFI_SUCCESS, ?T, of_nat (2 + length r)), m')"
    by (rule mock_generic_exchange [OF assms(1-6)])
  have r: "0 < length r" "length r \<le> 250"
    using mock_reply_ok [OF assms(2,3)] assms(6) by simp_all
  have k: "unat (of_nat (2 + length r) :: u8) = 2 + length r" using r by (intro unat_of_nat_u8) simp
  have "length ?F = 255"
    using length_command_frame [of "TempData inst" "of_nat (length d)"] assms(4,6)
    by (simp add: inst_ok_def size_defs unat_of_nat_u8)
  then have T: "length ?T = 255" using r by (simp add: length_copy_mem_fits)
  have T2: "?T ! 2 = cc_of M IPMI_COMP_CODE_NORMAL" "take (length r) (drop 2 ?T) = r"
    using normal r(1) by (simp_all add: copy_mem_def hd_conv_nth nth_append)
  have z: "unat (ucast sz :: u8) = unat sz"
    using sz(2) by (simp add: unsigned_ucast_eq take_bit_nat_eq_self)
  have int: "IpmiSendCommandInternal M (SendDataToBmcPort_Mock M) ReceiveBmcDataFromPort_Mock R nf 0 c
      (Some d) (of_nat (length d)) (RespCaller buf) (Some (ucast sz)) inst =
    Some ((EFI_SUCCESS, RespCaller (copy_mem buf 0 r), Some (of_nat (length r))),
      inst\<lparr>TempData := ?T, Port := m', BmcStatus := BMC_OK\<rparr>)"
    by (subst internal_reply [where send = "SendDataToBmcPort_Mock M" and
          recv = ReceiveBmcDataFromPort_Mock, OF ex]) (use T T2 k r sz z assms(7) in \<open>simp_all add: copy_mem_def Suc_le_eq\<close>)
  have "ucast (of_nat (length r) :: u8) = (of_nat (length r) :: u32)"
    using r by (simp add: word_unat_eq_iff unsigned_ucast_eq unat_of_nat take_bit_eq_mod)
  then show ?thesis
    using generic_submit_from [OF data assms(6) int] sz(2) T
    by (simp add: set_low8_small inst_ok_def size_defs)
qed

lemma mock_driver_refuses:
  assumes "hdr_ok M" "mock_reply M nf c d (Port inst) = Some (r, m')"
    "mock_ok M (Port inst)" "inst_ok inst" "nf < 64" "length d \<le> 252" "0 < R"
    and data: "case cd of None \<Rightarrow> d = [] | Some d' \<Rightarrow> d' = d"
    and refused: "hd r \<noteq> cc_of M IPMI_COMP_CODE_NORMAL"
  shows "\<exists>st sz' inst'. mock_driver M R nf c cd (of_nat (length d)) buf sz inst =
      Some ((st, buf, sz'), inst') \<and> EFI_ERROR st \<and> inst_ok inst' \<and> Port inst' = m' \<and>
      st = (if BmcStatus inst = BMC_UPDATE_IN_PROGRESS then EFI_UNSUPPORTED
            else if hd r = cc_of M IPMI_COMP_CODE_INSUFFICIENT_PRIVILEGE then EFI_SECURITY_VIOLATION
            else EFI_DEVICE_ERROR)"
proof -
  let ?F = "command_frame 0 nf c d (of_nat (length d)) (TempData inst)"
  let ?T = "copy_mem ?F 0 ([hdr_byte 0 (nf OR 1), c] @ r)"
  obtain m1 where ex:
    "SendDataToBmcPort_Mock M (IpmiTimeoutPeriod inst) ?F (of_nat (length d) + 2) (Port inst) =
       Some (EFI_SUCCESS, m1)"
    "ReceiveBmcDataFromPort_Mock (IpmiTimeoutPeriod inst) ?F 254 m1 =
       Some ((EFI_SUCCESS, ?T, of_nat (2 + length r)), m')"
    by (rule mock_generic_exchange [OF assms(1-6)])
  have r: "0 < length r" "length r \<le> 250"
    using mock_reply_ok [OF assms(2,3)] assms(6) by simp_all
  have "unat (of_nat (2 + length r) :: u8) = 2 + length r" using r by (intro unat_of_nat_u8) simp
  then have k: "3 \<le> unat (of_nat (2 + length r) :: u8)" using r(1) by (simp only:)
  have "length ?F = 255"
    using length_command_frame [of "TempData inst" "of_nat (length d)"] assms(4,6)
    by (simp add: inst_ok_def size_defs unat_of_nat_u8)
  then have T: "length ?T = 255" using r by (simp add: length_copy_mem_fits)
  have T3: "?T ! 2 = hd r" using r(1) by (simp add: copy_mem_def hd_conv_nth nth_append)
  then have T2: "?T ! 2 \<noteq> cc_of M IPMI_COMP_CODE_NORMAL" using refused by simp
  show ?thesis
    using generic_submit_from [OF data assms(6) internal_refused [where Resp = "RespCaller buf" and
        sz = "Some (ucast sz)" and send = "SendDataToBmcPort_Mock M" and
        recv = ReceiveBmcDataFromPort_Mock, OF ex k T2 assms(7)]] T
    by (auto simp: inst_ok_def size_defs T3 [simplified])
qed

interpretation mock_generic: mock_provider ipmi_v2 "mock_driver ipmi_v2 3" Port
  "\<lambda>inst. inst_ok inst \<and> mock_ok ipmi_v2 (Port inst)"
proof (unfold_locales, goal_cases)
  case (4 s nf c d r m' cd sz buf)
  then show ?case
    using mock_driver_answers [of ipmi_v2 nf c d s r m' 3 cd sz buf]
      mock_reply_ok [of ipmi_v2 nf c d "Port s" r m'] by fastforce
next
  case (5 s nf c d r m' cd sz buf)
  then show ?case
    using mock_driver_refuses [of ipmi_v2 nf c d s r m' 3 cd buf sz]
      mock_reply_ok [of ipmi_v2 nf c d "Port s" r m'] by fastforce
qed (simp_all add: v2_commands)

end
