(* ===== verification/Sel_Bmc.thy ===== *)
theory Sel_Bmc
  imports Mock_Stack
begin

unbundle bit_operations_syntax

section \<open>The contract between the SEL library and a BMC\<close>

text \<open>
  This theory holds the contract \<open>sel_bmc\<close> and the proof that the mock keeps it, both behind
  the mock base library and behind the generic driver.

  A BMC with a log of records and a clock, seen through \<open>IpmiSubmitCommand\<close>.  A record that is
  added gets its index as id and, below the non-timestamped types, the time of the next tick of
  the clock.  What the contract leaves open is how a refusal is reported, as an error of the call
  or as a completion code, and what the record id 0xFFFF stands for: the SEL protocol documents it
  as the last entry, the mock refuses it.
\<close>

definition sel_stored :: "ipmi_hdr \<Rightarrow> u32 \<Rightarrow> u16 \<Rightarrow> bytes \<Rightarrow> bytes" where
  "sel_stored M t i e =
     (let e1 = sel_set_RecordId i e in
      if sel_RecordType e1 < val_of M IPMI_SEL_OEM_NO_TIME_STAMP_RECORD_START
      then sel_set_TimeStamp (t + 1) e1 else e1)"

definition sel_tick :: "ipmi_hdr \<Rightarrow> u32 \<Rightarrow> bytes \<Rightarrow> u32" where
  "sel_tick M t e =
     (if sel_RecordType e < val_of M IPMI_SEL_OEM_NO_TIME_STAMP_RECORD_START then t + 1 else t)"

locale sel_bmc =
  fixes M :: ipmi_hdr and submit :: "'s submit" and ok :: "'s \<Rightarrow> bool"
    and log :: "'s \<Rightarrow> bytes list" and clock :: "'s \<Rightarrow> u32" and cap :: nat
  assumes hdr_sel: "hdr_ok M" and cap: "cap < 65535"
    and log_ok: "ok s \<Longrightarrow> length (log s) \<le> cap \<and> list_all (\<lambda>e. length e = 16) (log s)"
    and add_room:
      "ok s \<Longrightarrow> length e = 16 \<Longrightarrow> length (log s) < cap \<Longrightarrow>
         length buf = sizeof M IPMI_ADD_SEL_ENTRY_RESPONSE \<Longrightarrow>
         \<exists>R s'. submit (netfn_of M IPMI_NETFN_STORAGE) (cmd_of M IPMI_STORAGE_ADD_SEL_ENTRY) (Some e) 16
             buf (of_nat (sizeof M IPMI_ADD_SEL_ENTRY_RESPONSE)) s =
             Some ((EFI_SUCCESS, R, of_nat (sizeof M IPMI_ADD_SEL_ENTRY_RESPONSE)), s') \<and>
           fget8 M 0 CompletionCode R = cc_of M IPMI_COMP_CODE_NORMAL \<and>
           fget M 0 AddSel_RecordId R = length (log s) \<and> ok s' \<and>
           log s' = log s @ [sel_stored M (clock s) (of_nat (length (log s))) e] \<and>
           clock s' = sel_tick M (clock s) e"
    and add_full:
      "ok s \<Longrightarrow> length e = 16 \<Longrightarrow> cap \<le> length (log s) \<Longrightarrow>
         length buf = sizeof M IPMI_ADD_SEL_ENTRY_RESPONSE \<Longrightarrow>
         \<exists>st R z s'. submit (netfn_of M IPMI_NETFN_STORAGE) (cmd_of M IPMI_STORAGE_ADD_SEL_ENTRY) (Some e)
             16 buf (of_nat (sizeof M IPMI_ADD_SEL_ENTRY_RESPONSE)) s = Some ((st, R, z), s') \<and>
           (EFI_ERROR st \<or> 0 < z \<and> fget8 M 0 CompletionCode R = cc_of M IPMI_COMP_CODE_OUT_OF_SPACE) \<and>
           ok s' \<and> log s' = log s \<and> clock s' = clock s"
    and get_present:
      "ok s \<Longrightarrow> i < length (log s) \<Longrightarrow> i < cap \<Longrightarrow> length d = sizeof M IPMI_GET_SEL_ENTRY_REQUEST \<Longrightarrow>
         fget M 0 GetSel_ReserveId0 d = 0 \<Longrightarrow> fget M 0 GetSel_ReserveId1 d = 0 \<Longrightarrow>
         fget M 0 GetSel_Offset d = 0 \<Longrightarrow> fget M 0 GetSel_BytesToRead d = 0xFF \<Longrightarrow>
         fget M 0 GetSel_SelRecID0 d + 256 * fget M 0 GetSel_SelRecID1 d = i \<Longrightarrow>
         length buf = sizeof M IPMI_GET_SEL_ENTRY_RESPONSE \<Longrightarrow>
         \<exists>R s'. submit (netfn_of M IPMI_NETFN_STORAGE) (cmd_of M IPMI_STORAGE_GET_SEL_ENTRY) (Some d)
             (of_nat (sizeof M IPMI_GET_SEL_ENTRY_REQUEST)) buf
             (of_nat (sizeof M IPMI_GET_SEL_ENTRY_RESPONSE)) s =
             Some ((EFI_SUCCESS, R, of_nat (sizeof M IPMI_GET_SEL_ENTRY_RESPONSE)), s') \<and>
           fget8 M 0 CompletionCode R = cc_of M IPMI_COMP_CODE_NORMAL \<and>
           fget M 0 GetSel_RecordData R = le_nat (log s ! i) \<and>
           fget M 0 GetSel_NextSelRecordId R = (if Suc i < length (log s) then Suc i else 0xFFFF) \<and>
           ok s' \<and> log s' = log s \<and> clock s' = clock s"
    and get_absent:
      "ok s \<Longrightarrow> length (log s) \<le> i \<Longrightarrow> i \<noteq> 0xFFFF \<Longrightarrow> length d = sizeof M IPMI_GET_SEL_ENTRY_REQUEST \<Longrightarrow>
         fget M 0 GetSel_ReserveId0 d = 0 \<Longrightarrow> fget M 0 GetSel_ReserveId1 d = 0 \<Longrightarrow>
         fget M 0 GetSel_Offset d = 0 \<Longrightarrow> fget M 0 GetSel_BytesToRead d = 0xFF \<Longrightarrow>
         fget M 0 GetSel_SelRecID0 d + 256 * fget M 0 GetSel_SelRecID1 d = i \<Longrightarrow>
         length buf = sizeof M IPMI_GET_SEL_ENTRY_RESPONSE \<Longrightarrow>
         \<exists>st R z s'. submit (netfn_of M IPMI_NETFN_STORAGE) (cmd_of M IPMI_STORAGE_GET_SEL_ENTRY) (Some d)
             (of_nat (sizeof M IPMI_GET_SEL_ENTRY_REQUEST)) buf
             (of_nat (sizeof M IPMI_GET_SEL_ENTRY_RESPONSE)) s = Some ((st, R, z), s') \<and>
           (EFI_ERROR st \<or> fget8 M 0 CompletionCode R = cc_of M IPMI_COMP_CODE_NOT_PRESENT) \<and>
           ok s' \<and> log s' = log s \<and> clock s' = clock s"
    and clear:
      "ok s \<Longrightarrow> length d = sizeof M IPMI_CLEAR_SEL_REQUEST \<Longrightarrow> fget8 M 0 ClearSel_AscC d = 0x43 \<Longrightarrow>
         fget8 M 0 ClearSel_AscL d = 0x4C \<Longrightarrow> fget8 M 0 ClearSel_AscR d = 0x52 \<Longrightarrow>
         fget8 M 0 ClearSel_Erase d = val_of M v \<Longrightarrow>
         (v, p) \<in> {(IPMI_CLEAR_SEL_REQUEST_INITIALIZE_ERASE, IPMI_CLEAR_SEL_RESPONSE_ERASURE_IN_PROGRESS),
                   (IPMI_CLEAR_SEL_REQUEST_GET_ERASE_STATUS, IPMI_CLEAR_SEL_RESPONSE_ERASURE_COMPLETED)} \<Longrightarrow>
         val_of M IPMI_CLEAR_SEL_REQUEST_INITIALIZE_ERASE \<noteq> val_of M IPMI_CLEAR_SEL_REQUEST_GET_ERASE_STATUS \<Longrightarrow>
         length buf = sizeof M IPMI_CLEAR_SEL_RESPONSE \<Longrightarrow>
         \<exists>R s'. submit (netfn_of M IPMI_NETFN_STORAGE) (cmd_of M IPMI_STORAGE_CLEAR_SEL) (Some d)
             (of_nat (sizeof M IPMI_CLEAR_SEL_REQUEST)) buf
             (of_nat (sizeof M IPMI_CLEAR_SEL_RESPONSE)) s =
             Some ((EFI_SUCCESS, R, of_nat (sizeof M IPMI_CLEAR_SEL_RESPONSE)), s') \<and>
           fget8 M 0 CompletionCode R = cc_of M IPMI_COMP_CODE_NORMAL \<and>
           fget8 M 0 ClearSel_ErasureProgress R = val_of M p \<and> ok s' \<and> log s' = [] \<and> clock s' = clock s"
    and get_time:
      "ok s \<Longrightarrow> length buf = sizeof M IPMI_GET_SEL_TIME_RESPONSE \<Longrightarrow>
         \<exists>R s'. submit (netfn_of M IPMI_NETFN_STORAGE) (cmd_of M IPMI_STORAGE_GET_SEL_TIME) None 0 buf
             (of_nat (sizeof M IPMI_GET_SEL_TIME_RESPONSE)) s =
             Some ((EFI_SUCCESS, R, of_nat (sizeof M IPMI_GET_SEL_TIME_RESPONSE)), s') \<and>
           fget8 M 0 CompletionCode R = cc_of M IPMI_COMP_CODE_NORMAL \<and>
           fget M 0 GetSelTime_Timestamp R = unat (clock s + 1) \<and>
           ok s' \<and> log s' = log s \<and> clock s' = clock s + 1"
    and set_time:
      "ok s \<Longrightarrow> length d = sizeof M IPMI_SET_SEL_TIME_REQUEST \<Longrightarrow> fget M 0 SetSelTime_Timestamp d = unat t \<Longrightarrow>
         \<exists>R s'. submit (netfn_of M IPMI_NETFN_STORAGE) (cmd_of M IPMI_STORAGE_SET_SEL_TIME) (Some d)
             (of_nat (sizeof M IPMI_SET_SEL_TIME_REQUEST)) [b] 1 s = Some ((EFI_SUCCESS, [R], 1), s') \<and>
           R = cc_of M IPMI_COMP_CODE_NORMAL \<and> ok s' \<and> log s' = log s \<and> clock s' = t"

subsection \<open>The mock keeps the contract\<close>

definition mock_log :: "mock_bmc \<Rightarrow> bytes list" where
  "mock_log m = take (unat (mNextRecordId m)) (mSel m)"

lemma mock_end_simps [simp]:
  "mSel (mock_end k m) = mSel m" "mNextRecordId (mock_end k m) = mNextRecordId m"
  "mSelTime (mock_end k m) = mSelTime m" "mWatchdog (mock_end k m) = mWatchdog m"
  "mBootFlags (mock_end k m) = mBootFlags m" "mBootOptionAcks (mock_end k m) = mBootOptionAcks m"
  by (simp_all add: mock_end_def)

lemma mock_begin_simps [simp]:
  "mSel (mock_begin M nf c m) = mSel m" "mNextRecordId (mock_begin M nf c m) = mNextRecordId m"
  "mSelTime (mock_begin M nf c m) = mSelTime m" "mWatchdog (mock_begin M nf c m) = mWatchdog m"
  "mBootFlags (mock_begin M nf c m) = mBootFlags m"
  "mBootOptionAcks (mock_begin M nf c m) = mBootOptionAcks m"
  by (simp_all add: mock_begin_def)

lemma mock_log_simps [simp]:
  "mock_log (mock_end k m) = mock_log m" "mock_log (mock_begin M nf c m) = mock_log m"
  by (simp_all add: mock_log_def)

lemma handler_lookup:
  assumes "distinct (map fst (MockHandlers M))" "((netfn_of M f, cmd_of M c), h) \<in> set (MockHandlers M)"
  shows "map_of (MockHandlers M) (netfn_of M f, cmd_of M c) = Some h"
  using assms by (rule map_of_is_SomeI)

lemma fget_append_zero:
  assumes "hdr_ok M" "f \<in> set (fields_of S)" "length d = sizeof M S"
  shows "fget M 0 f (d @ z) = fget M 0 f d"
  using fget_take [of M f S "length d" "d @ z"] assms by simp

lemma take_copy_mem_0: "length x \<le> n \<Longrightarrow> take n (copy_mem r 0 x) = x @ take (n - length x) (drop (length x) r)"
  by (simp add: copy_mem_def)

text \<open>The reply of a handler that fills in one structure.\<close>

lemma mock_reply_struct:
  assumes hdr: "hdr_ok M" "distinct (map fst (MockHandlers M))"
    and h: "((netfn_of M f, cmd_of M c), h) \<in> set (MockHandlers M)"
    and run: "h (d @ zero_mem (253 - length d)) (of_nat (length d))
        (cc_of M IPMI_COMP_CODE_INVALID_COMMAND # zero_mem 249) 250
        (mock_begin M (netfn_of M f) (cmd_of M c) m) =
        Some ((fputs M fvs r, of_nat (sizeof M S)), m1)"
    and fields: "fst ` set fvs \<subseteq> set (fields_of S)" "length r = 250" "CompletionCode \<in> set (fields_of S)"
  obtains R where "mock_reply M (netfn_of M f) (cmd_of M c) d m = Some (R, mock_end (of_nat (sizeof M S)) m1)"
    "length R = sizeof M S"
    "\<And>g. g \<in> set (fields_of S) \<Longrightarrow> fget M 0 g R =
        (case map_of (rev fvs) g of Some v \<Rightarrow> take_bit (width_of g) v | None \<Rightarrow> fget M 0 g r)"
    "hd R = fget8 M 0 CompletionCode R"
proof -
  have S: "sizeof M S < 250" using hdr by (simp add: hdr_ok_def)
  have "8 \<le> 8 * sizeof M S"
    using hdr_ok_inside [OF hdr(1) fields(3)] hdr_ok_CompletionCode [OF hdr(1)] by simp
  then have S1: "0 < sizeof M S" by simp
  let ?R = "take (sizeof M S) (fputs M fvs r)"
  have n: "unat (of_nat (sizeof M S) :: u8) = sizeof M S" using S by (simp add: unat_of_nat_u8)
  have "(0 :: u8) < of_nat (sizeof M S)" using n S1 by (simp add: word_less_nat_alt)
  then have 1: "mock_reply M (netfn_of M f) (cmd_of M c) d m = Some (?R, mock_end (of_nat (sizeof M S)) m1)"
    using handler_lookup [OF hdr(2) h] run n by (simp add: mock_reply_def)
  have 2: "length ?R = sizeof M S" using S fields(2) by simp
  have 3: "fget M 0 g ?R = (case map_of (rev fvs) g of Some v \<Rightarrow> take_bit (width_of g) v
      | None \<Rightarrow> fget M 0 g r)" if "g \<in> set (fields_of S)" for g
    using fget_take [OF hdr(1) that, of "sizeof M S" "fputs M fvs r"]
      fget_fputs [OF hdr(1) that fields(1)] S fields(2) by simp
  have 4: "hd ?R = fget8 M 0 CompletionCode ?R"
    using fget8_CompletionCode [OF hdr(1), of ?R] 2 S1 by (cases "?R = []") auto
  show thesis by (rule that [OF 1 2 3 4])
qed


context mock_provider
begin

lemma reply_add:
  assumes "length e = 16"
  shows "\<exists>R m'. mock_reply M (netfn_of M IPMI_NETFN_STORAGE) (cmd_of M IPMI_STORAGE_ADD_SEL_ENTRY) e m =
      Some (R, m') \<and> length R = sizeof M IPMI_ADD_SEL_ENTRY_RESPONSE \<and>
    hd R = fget8 M 0 CompletionCode R \<and>
    (if unat (mNextRecordId m) < SEL_COUNT then
       fget8 M 0 CompletionCode R = cc_of M IPMI_COMP_CODE_NORMAL \<and>
       fget M 0 AddSel_RecordId R = unat (mNextRecordId m) \<and>
       mSel m' = (mSel m)[unat (mNextRecordId m) := sel_stored M (mSelTime m) (mNextRecordId m) e] \<and>
       mNextRecordId m' = mNextRecordId m + 1 \<and> mSelTime m' = sel_tick M (mSelTime m) e
     else
       fget8 M 0 CompletionCode R = cc_of M IPMI_COMP_CODE_OUT_OF_SPACE \<and>
       mSel m' = mSel m \<and> mNextRecordId m' = mNextRecordId m \<and> mSelTime m' = mSelTime m)"
proof -
  let ?S = IPMI_ADD_SEL_ENTRY_RESPONSE
  let ?m = "mock_begin M (netfn_of M IPMI_NETFN_STORAGE) (cmd_of M IPMI_STORAGE_ADD_SEL_ENTRY) m"
  let ?r = "cc_of M IPMI_COMP_CODE_INVALID_COMMAND # zero_mem 249"
  have mem: "((netfn_of M IPMI_NETFN_STORAGE, cmd_of M IPMI_STORAGE_ADD_SEL_ENTRY), MockIpmiSelAddEntry M)
      \<in> set (MockHandlers M)"
    by (simp add: MockHandlers_def)
  have S: "sizeof M ?S < 250" using hdr by (simp add: hdr_ok_def)
  have "fget M 0 AddSel_RecordData (e @ zero_mem 237) = fget M 0 AddSel_RecordData e"
    by (rule fget_append_zero [where S = IPMI_ADD_SEL_ENTRY_REQUEST])
      (use hdr assms in \<open>simp_all add: hdr_ok_sel_size\<close>)
  moreover have "layout M AddSel_RecordData = (0, 128)"
    using hdr_ok_inside [OF hdr, of AddSel_RecordData IPMI_ADD_SEL_ENTRY_REQUEST]
      hdr_ok_width [OF hdr, of AddSel_RecordData IPMI_ADD_SEL_ENTRY_REQUEST] hdr_ok_sel_size [OF hdr]
    by (cases "layout M AddSel_RecordData") simp
  ultimately have e: "nat_le 16 (fget M 0 AddSel_RecordData (e @ zero_mem 237)) = e"
    using assms nat_le_le_nat [of e] by (simp add: fget_def bits_get_def take_bit_le_nat)
  have type: "sel_RecordType (sel_set_RecordId i e) = sel_RecordType e" for i
    using assms by (simp add: sel_RecordType_def sel_set_RecordId_def copy_mem_def nth_append
        numeral_2_eq_2)
  show ?thesis
  proof (cases "unat (mNextRecordId m) < SEL_COUNT")
    case True
    let ?fvs = "[(AddSel_RecordId, unat (mNextRecordId m)),
                 (CompletionCode, unat (cc_of M IPMI_COMP_CODE_NORMAL))]"
    obtain m1 where run: "MockIpmiSelAddEntry M (e @ zero_mem (253 - length e)) (of_nat (length e)) ?r 250 ?m =
        Some ((fputs M ?fvs ?r, of_nat (sizeof M ?S)), m1)"
      and m1: "mSel m1 = (mSel m)[unat (mNextRecordId m) := sel_stored M (mSelTime m) (mNextRecordId m) e]"
       "mNextRecordId m1 = mNextRecordId m + 1" "mSelTime m1 = sel_tick M (mSelTime m) e"
      using True S assms
      by (simp add: MockIpmiSelAddEntry_def Let_def hdr_ok_sel_size [OF hdr] e type SEL_EVENT_SIZE_def
          sel_stored_def sel_tick_def)
    show ?thesis
      by (rule mock_reply_struct [OF hdr commands mem run])
        (use True m1 in \<open>simp_all add: fget8_def\<close>)
  next
    case False
    let ?fvs = "[(AddSel_RecordId, 0), (CompletionCode, unat (cc_of M IPMI_COMP_CODE_OUT_OF_SPACE))]"
    have run: "MockIpmiSelAddEntry M (e @ zero_mem (253 - length e)) (of_nat (length e)) ?r 250 ?m =
        Some ((fputs M ?fvs ?r, of_nat (sizeof M ?S)), ?m)"
      using False S assms
      by (simp add: MockIpmiSelAddEntry_def Let_def hdr_ok_sel_size [OF hdr])
    show ?thesis
      by (rule mock_reply_struct [OF hdr commands mem run])
        (use False in \<open>simp_all add: fget8_def\<close>)
  qed
qed

lemma reply_get:
  assumes d: "length d = sizeof M IPMI_GET_SEL_ENTRY_REQUEST"
    and f: "fget M 0 GetSel_ReserveId0 d = 0" "fget M 0 GetSel_ReserveId1 d = 0"
      "fget M 0 GetSel_Offset d = 0" "fget M 0 GetSel_BytesToRead d = 0xFF"
      "fget M 0 GetSel_SelRecID0 d + 256 * fget M 0 GetSel_SelRecID1 d = i"
    and m: "mock_data_ok M m"
  shows "\<exists>R m'. mock_reply M (netfn_of M IPMI_NETFN_STORAGE) (cmd_of M IPMI_STORAGE_GET_SEL_ENTRY) d m =
      Some (R, m') \<and> length R = sizeof M IPMI_GET_SEL_ENTRY_RESPONSE \<and>
    hd R = fget8 M 0 CompletionCode R \<and> mSel m' = mSel m \<and> mNextRecordId m' = mNextRecordId m \<and>
    mSelTime m' = mSelTime m \<and>
    (if i < unat (mNextRecordId m) then
       fget8 M 0 CompletionCode R = cc_of M IPMI_COMP_CODE_NORMAL \<and>
       fget M 0 GetSel_RecordData R = le_nat (mSel m ! i) \<and>
       fget M 0 GetSel_NextSelRecordId R = (if Suc i < unat (mNextRecordId m) then Suc i else 0xFFFF)
     else fget8 M 0 CompletionCode R = cc_of M IPMI_COMP_CODE_NOT_PRESENT)"
proof -
  let ?S = IPMI_GET_SEL_ENTRY_RESPONSE and ?Q = IPMI_GET_SEL_ENTRY_REQUEST
  let ?m = "mock_begin M (netfn_of M IPMI_NETFN_STORAGE) (cmd_of M IPMI_STORAGE_GET_SEL_ENTRY) m"
  let ?r = "cc_of M IPMI_COMP_CODE_INVALID_COMMAND # zero_mem 249"
  let ?r1 = "copy_mem ?r 0 (zero_mem (sizeof M ?S))"
  have mem: "((netfn_of M IPMI_NETFN_STORAGE, cmd_of M IPMI_STORAGE_GET_SEL_ENTRY), MockIpmiSelGetEntry M) \<in> set (MockHandlers M)"
    by (simp add: MockHandlers_def)
  have S: "sizeof M ?S < 250" "sizeof M ?Q < 250" using hdr by (simp_all add: hdr_ok_def)
  have r1: "length ?r1 = 250" using S by (simp add: length_copy_mem_fits)
  have get: "fget M 0 g (d @ z) = fget M 0 g d" if "g \<in> set (fields_of ?Q)" for g z
    by (rule fget_append_zero [OF hdr that d])
  have b: "fget M 0 GetSel_SelRecID0 d < 256" "fget M 0 GetSel_SelRecID1 d < 256"
    using fget_bound [OF hdr, of GetSel_SelRecID0 ?Q 0 d] fget_bound [OF hdr, of GetSel_SelRecID1 ?Q 0 d]
    by simp_all
  let ?lo = "of_nat (fget M 0 GetSel_SelRecID0 d) :: u16" and ?hi = "of_nat (fget M 0 GetSel_SelRecID1 d) :: u16"
  have "?lo AND push_bit 8 ?hi = 0"
  proof (rule bit_eqI)
    fix n
    have "take_bit 8 (fget M 0 GetSel_SelRecID0 d) = fget M 0 GetSel_SelRecID0 d"
      using b by (simp add: take_bit_nat_eq_self)
    then have "bit (fget M 0 GetSel_SelRecID0 d) n \<Longrightarrow> n < 8" by (metis bit_take_bit_iff)
    then show "bit (?lo AND push_bit 8 ?hi) n = bit 0 n" by (auto simp: bit_simps)
  qed
  then have "?lo OR push_bit 8 ?hi = ?lo + push_bit 8 ?hi" by (simp add: disjunctive_add_eq_or)
  also have "\<dots> = of_nat i" using f(5) by (simp add: push_bit_eq_mult flip: of_nat_add of_nat_mult)
      (simp flip: f(5))
  finally have id: "?lo OR push_bit 8 ?hi = of_nat i" .
  have i: "unat (of_nat i :: u16) = i" using b f(5) by (simp add: unat_of_nat)
  show ?thesis
  proof (cases "i < unat (mNextRecordId m)")
    case True
    have el: "length (mSel m ! i) = 16" "i < 100"
      using True m by (auto simp: mock_data_ok_def mock_sizes list_all_length)
    let ?fvs = "[(GetSel_NextSelRecordId, if Suc i < unat (mNextRecordId m) then Suc i else 0xFFFF),
                 (GetSel_RecordData, le_nat (mSel m ! i)),
                 (CompletionCode, unat (cc_of M IPMI_COMP_CODE_NORMAL))]"
    have run: "MockIpmiSelGetEntry M (d @ zero_mem (253 - length d)) (of_nat (length d)) ?r 250 ?m =
        Some ((fputs M ?fvs ?r1, of_nat (sizeof M ?S)), ?m)"
      using True S f d id i
      by (simp add: MockIpmiSelGetEntry_def Let_def get unat_of_nat_u8 word_le_nat_alt)
    show ?thesis
      by (rule mock_reply_struct [OF hdr commands mem run])
        (use True r1 el in \<open>simp_all add: fget8_def take_bit_nat_eq_self take_bit_le_nat\<close>)
  next
    case False
    let ?fvs = "[(CompletionCode, unat (cc_of M IPMI_COMP_CODE_NOT_PRESENT))]"
    have run: "MockIpmiSelGetEntry M (d @ zero_mem (253 - length d)) (of_nat (length d)) ?r 250 ?m =
        Some ((fputs M ?fvs ?r1, of_nat (sizeof M ?S)), ?m)"
      using False S f d id i
      by (simp add: MockIpmiSelGetEntry_def Let_def get unat_of_nat_u8 word_le_nat_alt)
    show ?thesis
      by (rule mock_reply_struct [OF hdr commands mem run])
        (use False r1 in \<open>simp_all add: fget8_def\<close>)
  qed
qed

lemma reply_clear:
  assumes d: "length d = sizeof M IPMI_CLEAR_SEL_REQUEST"
    and f: "fget8 M 0 ClearSel_AscC d = 0x43" "fget8 M 0 ClearSel_AscL d = 0x4C"
      "fget8 M 0 ClearSel_AscR d = 0x52" "fget8 M 0 ClearSel_Erase d = val_of M v"
    and v: "(v, p) \<in> {(IPMI_CLEAR_SEL_REQUEST_INITIALIZE_ERASE, IPMI_CLEAR_SEL_RESPONSE_ERASURE_IN_PROGRESS),
                   (IPMI_CLEAR_SEL_REQUEST_GET_ERASE_STATUS, IPMI_CLEAR_SEL_RESPONSE_ERASURE_COMPLETED)}"
      "val_of M IPMI_CLEAR_SEL_REQUEST_INITIALIZE_ERASE \<noteq> val_of M IPMI_CLEAR_SEL_REQUEST_GET_ERASE_STATUS"
  shows "\<exists>R m'. mock_reply M (netfn_of M IPMI_NETFN_STORAGE) (cmd_of M IPMI_STORAGE_CLEAR_SEL) d m =
      Some (R, m') \<and> length R = sizeof M IPMI_CLEAR_SEL_RESPONSE \<and>
    hd R = fget8 M 0 CompletionCode R \<and> mNextRecordId m' = 0 \<and> mSelTime m' = mSelTime m \<and>
    fget8 M 0 CompletionCode R = cc_of M IPMI_COMP_CODE_NORMAL \<and>
    fget8 M 0 ClearSel_ErasureProgress R = val_of M p"
proof -
  let ?S = IPMI_CLEAR_SEL_RESPONSE and ?Q = IPMI_CLEAR_SEL_REQUEST
  let ?m = "mock_begin M (netfn_of M IPMI_NETFN_STORAGE) (cmd_of M IPMI_STORAGE_CLEAR_SEL) m"
  let ?r = "cc_of M IPMI_COMP_CODE_INVALID_COMMAND # zero_mem 249"
  have mem: "((netfn_of M IPMI_NETFN_STORAGE, cmd_of M IPMI_STORAGE_CLEAR_SEL), MockIpmiSelClear M) \<in> set (MockHandlers M)"
    by (simp add: MockHandlers_def)
  have S: "sizeof M ?S < 250" "sizeof M ?Q < 250" using hdr by (simp_all add: hdr_ok_def)
  have get: "fget8 M 0 g (d @ z) = fget8 M 0 g d" if "g \<in> set (fields_of ?Q)" for g z
    using fget_append_zero [OF hdr that d] by (simp add: fget8_def)
  let ?fvs = "[(CompletionCode, unat (cc_of M IPMI_COMP_CODE_NORMAL)), (ClearSel_ErasureProgress, unat (val_of M p))]"
  have run: "MockIpmiSelClear M (d @ zero_mem (253 - length d)) (of_nat (length d)) ?r 250 ?m =
      Some ((fputs M ?fvs ?r, of_nat (sizeof M ?S)), ?m\<lparr>mNextRecordId := 0\<rparr>)"
    using S f d v by (auto simp: MockIpmiSelClear_def Let_def get unat_of_nat_u8)
  show ?thesis
    by (rule mock_reply_struct [OF hdr commands mem run]) (simp_all add: fget8_def)
qed

lemma reply_get_time:
  "\<exists>R m'. mock_reply M (netfn_of M IPMI_NETFN_STORAGE) (cmd_of M IPMI_STORAGE_GET_SEL_TIME) [] m =
      Some (R, m') \<and> length R = sizeof M IPMI_GET_SEL_TIME_RESPONSE \<and>
    hd R = fget8 M 0 CompletionCode R \<and> mSel m' = mSel m \<and> mNextRecordId m' = mNextRecordId m \<and>
    mSelTime m' = mSelTime m + 1 \<and>
    fget8 M 0 CompletionCode R = cc_of M IPMI_COMP_CODE_NORMAL \<and>
    fget M 0 GetSelTime_Timestamp R = unat (mSelTime m + 1)"
proof -
  let ?S = IPMI_GET_SEL_TIME_RESPONSE
  let ?m = "mock_begin M (netfn_of M IPMI_NETFN_STORAGE) (cmd_of M IPMI_STORAGE_GET_SEL_TIME) m"
  let ?r = "cc_of M IPMI_COMP_CODE_INVALID_COMMAND # zero_mem 249"
  have mem: "((netfn_of M IPMI_NETFN_STORAGE, cmd_of M IPMI_STORAGE_GET_SEL_TIME), MockIpmiSelGetTime M) \<in> set (MockHandlers M)"
    by (simp add: MockHandlers_def)
  have S: "sizeof M ?S < 250" using hdr by (simp add: hdr_ok_def)
  let ?fvs = "[(CompletionCode, unat (cc_of M IPMI_COMP_CODE_NORMAL)), (GetSelTime_Timestamp, unat (mSelTime m + 1))]"
  have run: "MockIpmiSelGetTime M ([] @ zero_mem (253 - length ([] :: bytes))) (of_nat (length ([] :: bytes)))
      ?r 250 ?m = Some ((fputs M ?fvs ?r, of_nat (sizeof M ?S)), ?m\<lparr>mSelTime := mSelTime m + 1\<rparr>)"
    using S by (simp add: MockIpmiSelGetTime_def)
  show ?thesis
    by (rule mock_reply_struct [OF hdr commands mem run]) (simp_all add: fget8_def)
qed

lemma reply_set_time:
  assumes d: "length d = sizeof M IPMI_SET_SEL_TIME_REQUEST" "fget M 0 SetSelTime_Timestamp d = unat t"
  shows "\<exists>m'. mock_reply M (netfn_of M IPMI_NETFN_STORAGE) (cmd_of M IPMI_STORAGE_SET_SEL_TIME) d m =
      Some ([cc_of M IPMI_COMP_CODE_NORMAL], m') \<and> mSel m' = mSel m \<and>
      mNextRecordId m' = mNextRecordId m \<and> mSelTime m' = t"
proof -
  have S: "sizeof M IPMI_SET_SEL_TIME_REQUEST < 250" using hdr by (simp add: hdr_ok_def)
  have get: "fget M 0 SetSelTime_Timestamp (d @ z) = unat t" for z
    using fget_append_zero [OF hdr _ d(1), of SetSelTime_Timestamp z] d(2) by simp
  have "map_of (MockHandlers M) (netfn_of M IPMI_NETFN_STORAGE, cmd_of M IPMI_STORAGE_SET_SEL_TIME) =
      Some (MockIpmiSelSetTime M)"
    by (rule handler_lookup [OF commands]) (simp add: MockHandlers_def)
  then show ?thesis
    using S d(1)
    by (simp add: mock_reply_def MockIpmiSelSetTime_def get unat_of_nat_u8 poke_0)
qed

lemma answers_struct:
  assumes "ok s" "mock_reply M (netfn_of M f) c d (bmc s) = Some (R, m')"
    "hd R = cc_of M IPMI_COMP_CODE_NORMAL" "length d \<le> 252"
    "case cd of None \<Rightarrow> d = [] | Some d' \<Rightarrow> d' = d" "length R = sizeof M S" "length buf = sizeof M S"
  shows "\<exists>s'. submit (netfn_of M f) c cd (of_nat (length d)) buf (of_nat (sizeof M S)) s =
      Some ((EFI_SUCCESS, R, of_nat (sizeof M S)), s') \<and> ok s' \<and> bmc s' = m'"
proof -
  have "sizeof M S < 250" using hdr by (simp add: hdr_ok_def)
  then have "unat (of_nat (sizeof M S) :: u32) = sizeof M S" by (simp add: unat_of_nat)
  then show ?thesis
    using answers [OF assms(1-3) hdr_ok_netfn [OF hdr] assms(4,5), of "of_nat (sizeof M S)" buf]
      assms(6,7) \<open>sizeof M S < 250\<close> copy_mem_0 [of R buf] by simp
qed

lemma refuses_struct:
  assumes "ok s" "mock_reply M (netfn_of M f) c d (bmc s) = Some (R, m')"
    "hd R \<noteq> cc_of M IPMI_COMP_CODE_NORMAL" "length d \<le> 252"
    "case cd of None \<Rightarrow> d = [] | Some d' \<Rightarrow> d' = d" "length R = sizeof M S" "length buf = sizeof M S"
  shows "\<exists>st R' z s'. submit (netfn_of M f) c cd (of_nat (length d)) buf (of_nat (sizeof M S)) s =
      Some ((st, R', z), s') \<and> ok s' \<and> bmc s' = m' \<and>
      (EFI_ERROR st \<or> R' = R \<and> z = of_nat (sizeof M S))"
proof -
  have "sizeof M S < 250" using hdr by (simp add: hdr_ok_def)
  then have "unat (of_nat (sizeof M S) :: u32) = sizeof M S" by (simp add: unat_of_nat)
  then show ?thesis
    using refuses [OF assms(1-3) hdr_ok_netfn [OF hdr] assms(4,5), of "of_nat (sizeof M S)" buf]
      assms(6,7) \<open>sizeof M S < 250\<close> copy_mem_0 [of R buf] by (fastforce split: if_splits)
qed

lemma struct_len: "sizeof M S \<le> 252"
  using hdr by (auto simp: hdr_ok_def intro: order.trans [OF less_imp_le])

lemma data_ok: "ok s \<Longrightarrow> mock_data_ok M (bmc s)"
  using ok_bmc by (simp add: mock_ok_def)

lemma length_mock_log: "ok s \<Longrightarrow> length (mock_log (bmc s)) = unat (mNextRecordId (bmc s))"
  using data_ok by (auto simp: mock_log_def mock_data_ok_def)

lemma nth_mock_log: "i < unat (mNextRecordId m) \<Longrightarrow> mock_log m ! i = mSel m ! i"
  by (simp add: mock_log_def)

lemma mock_log_add:
  assumes "mock_data_ok M m" "unat (mNextRecordId m) < SEL_COUNT"
    and "mSel m' = (mSel m)[unat (mNextRecordId m) := x]" "mNextRecordId m' = mNextRecordId m + 1"
  shows "mock_log m' = mock_log m @ [x]"
  using assms unat_Suc_u16 [of "mNextRecordId m"]
  by (simp add: mock_log_def mock_data_ok_def mock_sizes take_Suc_conv_app_nth)

lemma refuses_absent:
  assumes "ok s" "length (mock_log (bmc s)) \<le> i" "length d = sizeof M IPMI_GET_SEL_ENTRY_REQUEST"
    "fget M 0 GetSel_ReserveId0 d = 0" "fget M 0 GetSel_ReserveId1 d = 0" "fget M 0 GetSel_Offset d = 0"
    "fget M 0 GetSel_BytesToRead d = 0xFF" "fget M 0 GetSel_SelRecID0 d + 256 * fget M 0 GetSel_SelRecID1 d = i"
    "length buf = sizeof M IPMI_GET_SEL_ENTRY_RESPONSE"
  shows "\<exists>st R z s'. submit (netfn_of M IPMI_NETFN_STORAGE) (cmd_of M IPMI_STORAGE_GET_SEL_ENTRY) (Some d)
      (of_nat (sizeof M IPMI_GET_SEL_ENTRY_REQUEST)) buf
      (of_nat (sizeof M IPMI_GET_SEL_ENTRY_RESPONSE)) s = Some ((st, R, z), s') \<and>
    (EFI_ERROR st \<or> fget8 M 0 CompletionCode R = cc_of M IPMI_COMP_CODE_NOT_PRESENT) \<and>
    ok s' \<and> mock_log (bmc s') = mock_log (bmc s) \<and> mSelTime (bmc s') = mSelTime (bmc s)"
proof -
  have l: "\<not> i < unat (mNextRecordId (bmc s))" "length d \<le> 252"
    using assms(2,3) length_mock_log [OF assms(1)] struct_len by simp_all
  obtain R m' where r: "mock_reply M (netfn_of M IPMI_NETFN_STORAGE)
      (cmd_of M IPMI_STORAGE_GET_SEL_ENTRY) d (bmc s) = Some (R, m')"
    "length R = sizeof M IPMI_GET_SEL_ENTRY_RESPONSE" "hd R = fget8 M 0 CompletionCode R"
    "mSel m' = mSel (bmc s)" "mNextRecordId m' = mNextRecordId (bmc s)" "mSelTime m' = mSelTime (bmc s)"
    "fget8 M 0 CompletionCode R = cc_of M IPMI_COMP_CODE_NOT_PRESENT"
    using reply_get [OF assms(3-8) data_ok [OF assms(1)]] l(1) by auto
  have "hd R \<noteq> cc_of M IPMI_COMP_CODE_NORMAL" using r(3,7) hdr by simp
  from refuses_struct [OF assms(1) r(1) this l(2) _ r(2) assms(9), of "Some d"] obtain st R' z s' where "submit (netfn_of M IPMI_NETFN_STORAGE) (cmd_of M IPMI_STORAGE_GET_SEL_ENTRY)
      (Some d) (of_nat (length d)) buf (of_nat (sizeof M IPMI_GET_SEL_ENTRY_RESPONSE)) s =
      Some ((st, R', z), s')" "ok s'" "bmc s' = m'"
      "EFI_ERROR st \<or> R' = R \<and> z = of_nat (sizeof M IPMI_GET_SEL_ENTRY_RESPONSE)"
    by auto
  then show ?thesis
    using r assms by (intro exI [of _ st] exI [of _ R'] exI [of _ z] exI [of _ s']) (auto simp: mock_log_def)
qed

end

sublocale mock_provider \<subseteq>
  sel: sel_bmc M submit ok "\<lambda>s. mock_log (bmc s)" "\<lambda>s. mSelTime (bmc s)" SEL_COUNT
proof (unfold_locales, goal_cases)
  case 1
  show ?case by (rule hdr)
next
  case 2
  show ?case by (simp add: mock_sizes)
next
  case (3 s)
  then show ?case
    using data_ok [OF 3] length_mock_log [OF 3]
    by (auto simp: mock_log_def mock_data_ok_def mock_sizes list_all_length)
next
  case (4 s e buf)
  then obtain R m' where r: "mock_reply M (netfn_of M IPMI_NETFN_STORAGE)
      (cmd_of M IPMI_STORAGE_ADD_SEL_ENTRY) e (bmc s) = Some (R, m')"
    "length R = sizeof M IPMI_ADD_SEL_ENTRY_RESPONSE" "hd R = fget8 M 0 CompletionCode R"
    "fget8 M 0 CompletionCode R = cc_of M IPMI_COMP_CODE_NORMAL"
    "fget M 0 AddSel_RecordId R = unat (mNextRecordId (bmc s))"
    "mSel m' = (mSel (bmc s))[unat (mNextRecordId (bmc s)) :=
       sel_stored M (mSelTime (bmc s)) (mNextRecordId (bmc s)) e]"
    "mNextRecordId m' = mNextRecordId (bmc s) + 1" "mSelTime m' = sel_tick M (mSelTime (bmc s)) e"
    using reply_add [of e "bmc s"] length_mock_log by auto
  obtain s' where "submit (netfn_of M IPMI_NETFN_STORAGE) (cmd_of M IPMI_STORAGE_ADD_SEL_ENTRY) (Some e)
      (of_nat (length e)) buf (of_nat (sizeof M IPMI_ADD_SEL_ENTRY_RESPONSE)) s =
      Some ((EFI_SUCCESS, R, of_nat (sizeof M IPMI_ADD_SEL_ENTRY_RESPONSE)), s')" "ok s'" "bmc s' = m'"
    using answers_struct [OF 4(1) r(1), of "Some e"] r(2-4) 4 by auto
  then show ?case
    using r 4 mock_log_add [of "bmc s" m'] data_ok [OF 4(1)] length_mock_log [OF 4(1)]
    by (intro exI [of _ R] exI [of _ s']) simp
next
  case (5 s e buf)
  then obtain R m' where r: "mock_reply M (netfn_of M IPMI_NETFN_STORAGE)
      (cmd_of M IPMI_STORAGE_ADD_SEL_ENTRY) e (bmc s) = Some (R, m')"
    "length R = sizeof M IPMI_ADD_SEL_ENTRY_RESPONSE" "hd R = fget8 M 0 CompletionCode R"
    "fget8 M 0 CompletionCode R = cc_of M IPMI_COMP_CODE_OUT_OF_SPACE"
    "mSel m' = mSel (bmc s)" "mNextRecordId m' = mNextRecordId (bmc s)" "mSelTime m' = mSelTime (bmc s)"
    using reply_add [of e "bmc s"] length_mock_log by auto
  have "hd R \<noteq> cc_of M IPMI_COMP_CODE_NORMAL" "length e \<le> 252"
    "case Some e of None \<Rightarrow> e = [] | Some d' \<Rightarrow> d' = e" using r(3,4) hdr 5(2) by simp_all
  from refuses_struct [OF 5(1) r(1) this r(2) 5(4)] obtain st R' z s' where "submit (netfn_of M IPMI_NETFN_STORAGE) (cmd_of M IPMI_STORAGE_ADD_SEL_ENTRY)
      (Some e) (of_nat (length e)) buf (of_nat (sizeof M IPMI_ADD_SEL_ENTRY_RESPONSE)) s =
      Some ((st, R', z), s')" "ok s'" "bmc s' = m'"
      "EFI_ERROR st \<or> R' = R \<and> z = of_nat (sizeof M IPMI_ADD_SEL_ENTRY_RESPONSE)"
    by blast
  moreover have "(0 :: u32) < of_nat (sizeof M IPMI_ADD_SEL_ENTRY_RESPONSE)"
    using mock_reply_ok [OF r(1) ok_bmc [OF 5(1)]] 5(2) r(2)
    by (simp add: word_less_nat_alt unat_of_nat)
  ultimately show ?case
    using r 5 by (intro exI [of _ st] exI [of _ R'] exI [of _ z] exI [of _ s']) (auto simp: mock_log_def)
next
  case (6 s i d buf)
  have l: "i < unat (mNextRecordId (bmc s))" "length d \<le> 252"
    using 6(2,4) length_mock_log [OF 6(1)] struct_len by simp_all
  obtain R m' where r: "mock_reply M (netfn_of M IPMI_NETFN_STORAGE)
      (cmd_of M IPMI_STORAGE_GET_SEL_ENTRY) d (bmc s) = Some (R, m')"
    "length R = sizeof M IPMI_GET_SEL_ENTRY_RESPONSE" "hd R = fget8 M 0 CompletionCode R"
    "mSel m' = mSel (bmc s)" "mNextRecordId m' = mNextRecordId (bmc s)" "mSelTime m' = mSelTime (bmc s)"
    "fget8 M 0 CompletionCode R = cc_of M IPMI_COMP_CODE_NORMAL"
    "fget M 0 GetSel_RecordData R = le_nat (mSel (bmc s) ! i)"
    "fget M 0 GetSel_NextSelRecordId R = (if Suc i < unat (mNextRecordId (bmc s)) then Suc i else 0xFFFF)"
    using reply_get [OF 6(4-9) data_ok [OF 6(1)]] l(1) by auto
  obtain s' where "submit (netfn_of M IPMI_NETFN_STORAGE) (cmd_of M IPMI_STORAGE_GET_SEL_ENTRY) (Some d)
      (of_nat (length d)) buf (of_nat (sizeof M IPMI_GET_SEL_ENTRY_RESPONSE)) s =
      Some ((EFI_SUCCESS, R, of_nat (sizeof M IPMI_GET_SEL_ENTRY_RESPONSE)), s')" "ok s'" "bmc s' = m'"
    using answers_struct [OF 6(1) r(1), of "Some d"] r(2,3,7) l(2) 6 by auto
  then show ?case
    using r 6 l length_mock_log [OF 6(1)] nth_mock_log [OF l(1)]
    by (intro exI [of _ R] exI [of _ s']) (simp add: mock_log_def)
next
  case (7 s i d buf)
  show ?case by (rule refuses_absent [OF 7(1,2,4-10)])
next
  case (8 s d v p buf)
  obtain R m' where r: "mock_reply M (netfn_of M IPMI_NETFN_STORAGE) (cmd_of M IPMI_STORAGE_CLEAR_SEL) d
      (bmc s) = Some (R, m')" "length R = sizeof M IPMI_CLEAR_SEL_RESPONSE"
    "hd R = fget8 M 0 CompletionCode R" "mNextRecordId m' = 0" "mSelTime m' = mSelTime (bmc s)"
    "fget8 M 0 CompletionCode R = cc_of M IPMI_COMP_CODE_NORMAL"
    "fget8 M 0 ClearSel_ErasureProgress R = val_of M p"
    using reply_clear [OF 8(2-8)] by blast
  have "length d \<le> 252" using 8(2) struct_len by simp
  then obtain s' where "submit (netfn_of M IPMI_NETFN_STORAGE) (cmd_of M IPMI_STORAGE_CLEAR_SEL) (Some d)
      (of_nat (length d)) buf (of_nat (sizeof M IPMI_CLEAR_SEL_RESPONSE)) s =
      Some ((EFI_SUCCESS, R, of_nat (sizeof M IPMI_CLEAR_SEL_RESPONSE)), s')" "ok s'" "bmc s' = m'"
    using answers_struct [OF 8(1) r(1), of "Some d"] r(2,3,6) 8 by auto
  then show ?case
    using r 8 by (intro exI [of _ R] exI [of _ s']) (simp add: mock_log_def)
next
  case (9 s buf)
  obtain R m' where r: "mock_reply M (netfn_of M IPMI_NETFN_STORAGE) (cmd_of M IPMI_STORAGE_GET_SEL_TIME) []
      (bmc s) = Some (R, m')" "length R = sizeof M IPMI_GET_SEL_TIME_RESPONSE"
    "hd R = fget8 M 0 CompletionCode R" "mSel m' = mSel (bmc s)"
    "mNextRecordId m' = mNextRecordId (bmc s)" "mSelTime m' = mSelTime (bmc s) + 1"
    "fget8 M 0 CompletionCode R = cc_of M IPMI_COMP_CODE_NORMAL"
    "fget M 0 GetSelTime_Timestamp R = unat (mSelTime (bmc s) + 1)"
    using reply_get_time by blast
  then obtain s' where "submit (netfn_of M IPMI_NETFN_STORAGE) (cmd_of M IPMI_STORAGE_GET_SEL_TIME) None
      0 buf (of_nat (sizeof M IPMI_GET_SEL_TIME_RESPONSE)) s =
      Some ((EFI_SUCCESS, R, of_nat (sizeof M IPMI_GET_SEL_TIME_RESPONSE)), s')" "ok s'" "bmc s' = m'"
    using answers_struct [OF 9(1) r(1), of None] 9 by auto
  then show ?case
    using r by (intro exI [of _ R] exI [of _ s']) (simp add: mock_log_def)
next
  case (10 s d t b)
  obtain m' where r: "mock_reply M (netfn_of M IPMI_NETFN_STORAGE) (cmd_of M IPMI_STORAGE_SET_SEL_TIME) d
      (bmc s) = Some ([cc_of M IPMI_COMP_CODE_NORMAL], m')" "mSel m' = mSel (bmc s)"
    "mNextRecordId m' = mNextRecordId (bmc s)" "mSelTime m' = t"
    using reply_set_time [OF 10(2,3)] by blast
  have "length d \<le> 252" using 10(2) struct_len by simp
  then obtain s' where "submit (netfn_of M IPMI_NETFN_STORAGE) (cmd_of M IPMI_STORAGE_SET_SEL_TIME) (Some d)
      (of_nat (length d)) [b] 1 s = Some ((EFI_SUCCESS, [cc_of M IPMI_COMP_CODE_NORMAL], 1), s')"
      "ok s'" "bmc s' = m'"
    using answers [OF 10(1) r(1), of "Some d" 1 "[b]"] hdr_ok_netfn [OF hdr] by (auto simp: copy_mem_def)
  then show ?case
    using r 10 by (intro exI [of _ "cc_of M IPMI_COMP_CODE_NORMAL"] exI [of _ s']) (simp add: mock_log_def)
qed

context mock_provider
begin

lemma sel_contract: "sel_bmc M submit ok (\<lambda>s. mock_log (bmc s)) (\<lambda>s. mSelTime (bmc s)) SEL_COUNT"
  by (rule sel.sel_bmc_axioms)

end

end
