(* ===== verification/Sel_Lib.thy ===== *)
theory Sel_Lib
  imports Sel_Bmc
begin

section \<open>The SEL library and the SEL protocol\<close>

text \<open>
  \<open>Library/IpmiSelLib/IpmiSelLib.c\<close> and \<open>IpmiSel/IpmiSel.c\<close>: adding records to the system
  event log, reading them, clearing the log and its clock, over any provider of
  \<open>IpmiSubmitCommand\<close>.  A pointer that may be NULL is an option; an OUT parameter is returned
  with the status.  Response structures the code leaves uninitialised are arguments
  (\<open>Response0\<close>), the contents of the stack.
\<close>

unbundle bit_operations_syntax

subsection \<open>Completion codes\<close>

definition IpmiCompCodeToEfiStatus :: "ipmi_hdr \<Rightarrow> u8 \<Rightarrow> efi_status" where
  "IpmiCompCodeToEfiStatus M CompCode =
     (let is = (\<lambda>c. CompCode = cc_of M c) in
      if is IPMI_COMP_CODE_NORMAL then EFI_SUCCESS
      else if is IPMI_COMP_CODE_INVALID_COMMAND then EFI_UNSUPPORTED
      else if is IPMI_COMP_CODE_INVALID_FOR_GIVEN_LUN \<or> is IPMI_COMP_CODE_INVALID_DATA_FIELD \<or>
              is IPMI_COMP_CODE_COMMAND_ILLEGAL then EFI_INVALID_PARAMETER
      else if is IPMI_COMP_CODE_INVALID_REQUEST_DATA_LENGTH then EFI_BAD_BUFFER_SIZE
      else if is IPMI_COMP_CODE_NOT_PRESENT \<or> is IPMI_COMP_CODE_OUT_OF_RANGE then EFI_NOT_FOUND
      else if is IPMI_COMP_CODE_TIMEOUT then EFI_TIMEOUT
      else if is IPMI_COMP_CODE_OUT_OF_SPACE then EFI_OUT_OF_RESOURCES
      else if is IPMI_COMP_CODE_BMC_INIT_IN_PROGRESS then EFI_NOT_READY
      else if is IPMI_COMP_CODE_INSUFFICIENT_PRIVILEGE then EFI_SECURITY_VIOLATION
      else EFI_PROTOCOL_ERROR)"

subsection \<open>Adding records\<close>

definition SEL_ENTRY_SIZE :: nat where "SEL_ENTRY_SIZE = 16"

text \<open>\<open>SEL_RECORD\<close>: record id, record type, and 13 bytes whose meaning depends on the type.\<close>

definition sel_record :: "u8 \<Rightarrow> bytes \<Rightarrow> bytes" where
  "sel_record RecordType Body = le16 0 @ RecordType # Body"

definition IpmiAddSelEntry ::
    "ipmi_hdr \<Rightarrow> 's submit \<Rightarrow> bytes \<Rightarrow> bytes \<Rightarrow> u16 option \<Rightarrow> ('s, efi_status \<times> u16 option) op" where
  "IpmiAddSelEntry M submit Response0 Entry RecordId s =
     do {
       let Response = fput M 0 CompletionCode (unat (cc_of M IPMI_COMP_CODE_UNSPECIFIED)) Response0;
       ((Status, Response1, DataSize), s1) \<leftarrow>
          submit (netfn_of M IPMI_NETFN_STORAGE) (cmd_of M IPMI_STORAGE_ADD_SEL_ENTRY)
            (Some Entry) (of_nat SEL_ENTRY_SIZE) Response
            (of_nat (sizeof M IPMI_ADD_SEL_ENTRY_RESPONSE)) s;
       if EFI_ERROR Status then Some ((Status, RecordId), s1)
       else if unat DataSize < 1 then Some ((EFI_PROTOCOL_ERROR, RecordId), s1)
       else
         (let Status1 = IpmiCompCodeToEfiStatus M (fget8 M 0 CompletionCode Response1) in
          if EFI_ERROR Status1 then Some ((Status1, RecordId), s1)
          else if unat DataSize < sizeof M IPMI_ADD_SEL_ENTRY_RESPONSE
          then Some ((EFI_PROTOCOL_ERROR, RecordId), s1)
          else Some ((Status1,
                      map_option (\<lambda>_. of_nat (fget M 0 AddSel_RecordId Response1)) RecordId), s1))
     }"

definition SelAddSystemEntry ::
    "ipmi_hdr \<Rightarrow> 's submit \<Rightarrow> bytes \<Rightarrow> u16 option \<Rightarrow> u8 \<Rightarrow> u8 \<Rightarrow> u8 \<Rightarrow> u8 \<Rightarrow> u8 \<Rightarrow> u8 \<Rightarrow>
       ('s, efi_status \<times> u16 option) op" where
  "SelAddSystemEntry M submit Response0 RecordId SensorType SensorNumber EventDirType Data0 Data1
       Data2 =
     IpmiAddSelEntry M submit Response0
       (sel_record (val_of M IPMI_SEL_SYSTEM_RECORD)
          (le32 0 @ le16 (IPMI_SOFTWARE_ID M) @
           [val_of M IPMI_EVM_REVISION, SensorType, SensorNumber, EventDirType, Data0, Data1, Data2]))
       RecordId"

definition SelAddOemEntryEx ::
    "ipmi_hdr \<Rightarrow> 's submit \<Rightarrow> bytes \<Rightarrow> u16 option \<Rightarrow> u8 \<Rightarrow> bytes option \<Rightarrow> bytes option \<Rightarrow>
       ('s, efi_status \<times> u16 option) op" where
  "SelAddOemEntryEx M submit Response0 RecordId RecordType ManufacturerId Data s =
     (case (Data, ManufacturerId) of
        (Some data, Some manu) \<Rightarrow>
          if RecordType < val_of M IPMI_SEL_OEM_TIME_STAMP_RECORD_START \<or>
             RecordType > val_of M IPMI_SEL_OEM_TIME_STAMP_RECORD_END
          then Some ((EFI_INVALID_PARAMETER, RecordId), s)
          else IpmiAddSelEntry M submit Response0
                 (sel_record RecordType (le32 0 @ [manu ! 0, manu ! 1, manu ! 2] @ take 6 data))
                 RecordId s
      | _ \<Rightarrow> Some ((EFI_INVALID_PARAMETER, RecordId), s))"

text \<open>The manufacturer is the three bytes of \<open>PcdIpmiSelOemManufacturerId\<close>.\<close>

definition SelAddOemEntry ::
    "ipmi_hdr \<Rightarrow> 's submit \<Rightarrow> bytes \<Rightarrow> bytes \<Rightarrow> u16 option \<Rightarrow> u8 \<Rightarrow> bytes option \<Rightarrow>
       ('s, efi_status \<times> u16 option) op" where
  "SelAddOemEntry M submit PcdIpmiSelOemManufacturerId Response0 RecordId RecordType Data =
     SelAddOemEntryEx M submit Response0 RecordId RecordType (Some PcdIpmiSelOemManufacturerId) Data"

definition SelAddOemEntryNoTimestamp ::
    "ipmi_hdr \<Rightarrow> 's submit \<Rightarrow> bytes \<Rightarrow> u16 option \<Rightarrow> u8 \<Rightarrow> bytes \<Rightarrow>
       ('s, efi_status \<times> u16 option) op" where
  "SelAddOemEntryNoTimestamp M submit Response0 RecordId RecordType Data s =
     (if RecordType < val_of M IPMI_SEL_OEM_NO_TIME_STAMP_RECORD_START
      then Some ((EFI_INVALID_PARAMETER, RecordId), s)
      else IpmiAddSelEntry M submit Response0 (sel_record RecordType (take 13 Data)) RecordId s)"

subsection \<open>Clearing the log\<close>

text \<open>
  \<open>while (TRUE)\<close>: the loop ends when the BMC reports an error or that the erasure is complete;
  a BMC that never does keeps it running, so the loop is a partial function.
\<close>

partial_function (option) SelClear_loop ::
    "ipmi_hdr \<Rightarrow> 's submit \<Rightarrow> (nat \<Rightarrow> 's \<Rightarrow> 's) \<Rightarrow> bool \<Rightarrow> bytes \<Rightarrow> 's \<Rightarrow> (efi_status \<times> 's) option"
  where
  "SelClear_loop M submit MicroSecondDelay AwaitClear Request s =
     do {
       ((Status, Response, DataSize), s1) \<leftarrow>
          submit (netfn_of M IPMI_NETFN_STORAGE) (cmd_of M IPMI_STORAGE_CLEAR_SEL)
            (Some Request) (of_nat (sizeof M IPMI_CLEAR_SEL_REQUEST))
            (zero_mem (sizeof M IPMI_CLEAR_SEL_RESPONSE))
            (of_nat (sizeof M IPMI_CLEAR_SEL_RESPONSE)) s;
       if EFI_ERROR Status then Some (Status, s1)
       else
         (let Status1 = IpmiCompCodeToEfiStatus M (fget8 M 0 CompletionCode Response) in
          if EFI_ERROR Status1 then Some (Status1, s1)
          else if \<not> AwaitClear \<or>
                  fget8 M 0 ClearSel_ErasureProgress Response =
                  val_of M IPMI_CLEAR_SEL_RESPONSE_ERASURE_COMPLETED
          then Some (Status1, s1)
          else SelClear_loop M submit MicroSecondDelay AwaitClear
                 (fput M 0 ClearSel_Erase (unat (val_of M IPMI_CLEAR_SEL_REQUEST_GET_ERASE_STATUS))
                    Request)
                 (MicroSecondDelay (10 * 1000) s1))
     }"

definition SelClear ::
    "ipmi_hdr \<Rightarrow> 's submit \<Rightarrow> (nat \<Rightarrow> 's \<Rightarrow> 's) \<Rightarrow> bool \<Rightarrow> ('s, efi_status) op" where
  "SelClear M submit MicroSecondDelay AwaitClear =
     SelClear_loop M submit MicroSecondDelay AwaitClear
       (fputs M [(ClearSel_AscC, 0x43), (ClearSel_AscL, 0x4C), (ClearSel_AscR, 0x52),
                 (ClearSel_Erase, unat (val_of M IPMI_CLEAR_SEL_REQUEST_INITIALIZE_ERASE))]
          (zero_mem (sizeof M IPMI_CLEAR_SEL_REQUEST)))"

subsection \<open>Time, information, entries\<close>

definition SelGetTime ::
    "ipmi_hdr \<Rightarrow> 's submit \<Rightarrow> bytes \<Rightarrow> u32 option \<Rightarrow> ('s, efi_status \<times> u32 option) op" where
  "SelGetTime M submit Response0 Time s =
     do {
       ASSERT (Time \<noteq> None);
       ((Status, Response, DataSize), s1) \<leftarrow>
          submit (netfn_of M IPMI_NETFN_STORAGE) (cmd_of M IPMI_STORAGE_GET_SEL_TIME) None 0
            Response0 (of_nat (sizeof M IPMI_GET_SEL_TIME_RESPONSE)) s;
       if EFI_ERROR Status then Some ((Status, Time), s1)
       else
         (let Status1 = IpmiCompCodeToEfiStatus M (fget8 M 0 CompletionCode Response) in
          if EFI_ERROR Status1 then Some ((Status1, Time), s1)
          else Some ((Status1, Some (of_nat (fget M 0 GetSelTime_Timestamp Response))), s1))
     }"

definition SelSetTime ::
    "ipmi_hdr \<Rightarrow> 's submit \<Rightarrow> bytes \<Rightarrow> u8 \<Rightarrow> u32 \<Rightarrow> ('s, efi_status) op" where
  "SelSetTime M submit Request0 CompletionCode0 Time s =
     do {
       let Request = fput M 0 SetSelTime_Timestamp (unat Time) Request0;
       ((Status, Response, DataSize), s1) \<leftarrow>
          submit (netfn_of M IPMI_NETFN_STORAGE) (cmd_of M IPMI_STORAGE_SET_SEL_TIME)
            (Some Request) (of_nat (sizeof M IPMI_SET_SEL_TIME_REQUEST)) [CompletionCode0] 1 s;
       if EFI_ERROR Status then Some (Status, s1)
       else Some (IpmiCompCodeToEfiStatus M (Response ! 0), s1)
     }"

record sel_info =
  Version :: u8
  NumberOfEntries :: u16
  FreeSpace :: u16
  LastAddTimeStamp :: u32
  LastEraseTimeStamp :: u32
  OperationSupported :: u8

definition SelGetInfo ::
    "ipmi_hdr \<Rightarrow> 's submit \<Rightarrow> bytes \<Rightarrow> sel_info option \<Rightarrow> ('s, efi_status \<times> sel_info option) op"
  where
  "SelGetInfo M submit Response0 SelInfo s =
     do {
       ASSERT (SelInfo \<noteq> None);
       ((Status, R, DataSize), s1) \<leftarrow>
          submit (netfn_of M IPMI_NETFN_STORAGE) (cmd_of M IPMI_STORAGE_GET_SEL_INFO) None 0
            Response0 (of_nat (sizeof M IPMI_GET_SEL_INFO_RESPONSE)) s;
       if EFI_ERROR Status then Some ((Status, SelInfo), s1)
       else
         (let Status1 = IpmiCompCodeToEfiStatus M (fget8 M 0 CompletionCode R) in
          if EFI_ERROR Status1 then Some ((Status1, SelInfo), s1)
          else Some ((Status1, Some
                 \<lparr>Version = fget8 M 0 SelInfo_Version R,
                  NumberOfEntries = of_nat (fget M 0 SelInfo_NoOfEntries R),
                  FreeSpace = of_nat (fget M 0 SelInfo_FreeSpace R),
                  LastAddTimeStamp = of_nat (fget M 0 SelInfo_RecentAddTimeStamp R),
                  LastEraseTimeStamp = of_nat (fget M 0 SelInfo_RecentEraseTimeStamp R),
                  OperationSupported = fget8 M 0 SelInfo_OperationSupport R\<rparr>), s1))
     }"

definition SelGetEntry ::
    "ipmi_hdr \<Rightarrow> 's submit \<Rightarrow> u16 \<Rightarrow> bytes option \<Rightarrow> u16 option \<Rightarrow>
       ('s, efi_status \<times> bytes option \<times> u16 option) op" where
  "SelGetEntry M submit RecordId Record NextRecordId s =
     do {
       ASSERT (Record \<noteq> None);
       let Request = fputs M [(GetSel_SelRecID0, unat (RecordId AND 0xFF)),
                              (GetSel_SelRecID1, unat (drop_bit 8 RecordId AND 0xFF)),
                              (GetSel_BytesToRead, 0xFF)]
                       (zero_mem (sizeof M IPMI_GET_SEL_ENTRY_REQUEST));
       ((Status, R, Size), s1) \<leftarrow>
          submit (netfn_of M IPMI_NETFN_STORAGE) (cmd_of M IPMI_STORAGE_GET_SEL_ENTRY)
            (Some Request) (of_nat (sizeof M IPMI_GET_SEL_ENTRY_REQUEST))
            (zero_mem (sizeof M IPMI_GET_SEL_ENTRY_RESPONSE))
            (of_nat (sizeof M IPMI_GET_SEL_ENTRY_RESPONSE)) s;
       if EFI_ERROR Status then Some ((Status, Record, NextRecordId), s1)
       else
         (let Status1 = IpmiCompCodeToEfiStatus M (fget8 M 0 CompletionCode R) in
          if EFI_ERROR Status1 then Some ((Status1, Record, NextRecordId), s1)
          else Some ((Status1,
                      map_option (\<lambda>r. copy_mem r 0 (nat_le SEL_ENTRY_SIZE (fget M 0 GetSel_RecordData R)))
                        Record,
                      map_option (\<lambda>_. of_nat (fget M 0 GetSel_NextSelRecordId R)) NextRecordId), s1))
     }"

subsection \<open>The protocol\<close>

definition IpmiSelGetRecordEntry ::
    "ipmi_hdr \<Rightarrow> 's submit \<Rightarrow> u16 \<Rightarrow> bytes option \<Rightarrow> u16 option \<Rightarrow>
       ('s, efi_status \<times> bytes option \<times> u16 option) op" where
  "IpmiSelGetRecordEntry M submit RecordId Record NextRecordId =
     SelGetEntry M submit RecordId Record NextRecordId"

definition IpmiSelAddRecordEntry ::
    "ipmi_hdr \<Rightarrow> 's submit \<Rightarrow> bytes \<Rightarrow> u16 option \<Rightarrow> u8 \<Rightarrow> bytes option \<Rightarrow> bytes option \<Rightarrow>
       ('s, efi_status \<times> u16 option) op" where
  "IpmiSelAddRecordEntry M submit Response0 RecordId RecordType ManufacturerId Data =
     SelAddOemEntryEx M submit Response0 RecordId RecordType ManufacturerId Data"

text \<open>The driver publishes the two routines; \<open>install\<close> is
  \<open>InstallMultipleProtocolInterfaces\<close> for the SEL protocol.\<close>

record 's ipmi_sel_protocol =
  GetRecordEntry :: "u16 \<Rightarrow> bytes option \<Rightarrow> u16 option \<Rightarrow>
    ('s, efi_status \<times> bytes option \<times> u16 option) op"
  AddRecordEntry :: "bytes \<Rightarrow> u16 option \<Rightarrow> u8 \<Rightarrow> bytes option \<Rightarrow> bytes option \<Rightarrow>
    ('s, efi_status \<times> u16 option) op"

definition mIpmiSelProtocol :: "ipmi_hdr \<Rightarrow> 's submit \<Rightarrow> 's ipmi_sel_protocol" where
  "mIpmiSelProtocol M submit =
     \<lparr>GetRecordEntry = IpmiSelGetRecordEntry M submit,
      AddRecordEntry = IpmiSelAddRecordEntry M submit\<rparr>"

definition IpmiSelEntryPoint ::
    "ipmi_hdr \<Rightarrow> 's submit \<Rightarrow> ('s ipmi_sel_protocol \<Rightarrow> ('s, efi_status) op) \<Rightarrow> ('s, efi_status) op"
  where
  "IpmiSelEntryPoint M submit install = install (mIpmiSelProtocol M submit)"

section \<open>The library against the contract\<close>

lemma comp_code_status:
  assumes "hdr_ok M"
  shows "IpmiCompCodeToEfiStatus M (cc_of M c) =
    (case c of IPMI_COMP_CODE_NORMAL \<Rightarrow> EFI_SUCCESS
     | IPMI_COMP_CODE_INVALID_COMMAND \<Rightarrow> EFI_UNSUPPORTED
     | IPMI_COMP_CODE_INVALID_FOR_GIVEN_LUN \<Rightarrow> EFI_INVALID_PARAMETER
     | IPMI_COMP_CODE_INVALID_DATA_FIELD \<Rightarrow> EFI_INVALID_PARAMETER
     | IPMI_COMP_CODE_COMMAND_ILLEGAL \<Rightarrow> EFI_INVALID_PARAMETER
     | IPMI_COMP_CODE_INVALID_REQUEST_DATA_LENGTH \<Rightarrow> EFI_BAD_BUFFER_SIZE
     | IPMI_COMP_CODE_NOT_PRESENT \<Rightarrow> EFI_NOT_FOUND | IPMI_COMP_CODE_OUT_OF_RANGE \<Rightarrow> EFI_NOT_FOUND
     | IPMI_COMP_CODE_TIMEOUT \<Rightarrow> EFI_TIMEOUT
     | IPMI_COMP_CODE_OUT_OF_SPACE \<Rightarrow> EFI_OUT_OF_RESOURCES
     | IPMI_COMP_CODE_BMC_INIT_IN_PROGRESS \<Rightarrow> EFI_NOT_READY
     | IPMI_COMP_CODE_INSUFFICIENT_PRIVILEGE \<Rightarrow> EFI_SECURITY_VIOLATION
     | _ \<Rightarrow> EFI_PROTOCOL_ERROR)"
  using assms by (cases c) (simp_all add: IpmiCompCodeToEfiStatus_def Let_def)

lemma struct_len_u32: "hdr_ok M \<Longrightarrow> unat (of_nat (sizeof M S) :: u32) = sizeof M S"
  by (simp add: hdr_ok_def unat_of_nat less_trans [of _ 250])

lemma length_sel_record: "length Body = 13 \<Longrightarrow> length (sel_record t Body) = 16"
  by (simp add: sel_record_def)

text \<open>The request of \<open>SelGetEntry\<close>.\<close>

definition sel_get_request :: "ipmi_hdr \<Rightarrow> u16 \<Rightarrow> bytes" where
  "sel_get_request M RecordId = fputs M
     [(GetSel_SelRecID0, unat (RecordId AND 0xFF)),
      (GetSel_SelRecID1, unat (drop_bit 8 RecordId AND 0xFF)),
      (GetSel_BytesToRead, 0xFF)] (zero_mem (sizeof M IPMI_GET_SEL_ENTRY_REQUEST))"

lemma u16_bytes:
  "unat (w AND 0xFF) = unat (w :: u16) mod 256" "unat (drop_bit 8 w AND 0xFF) = unat w div 256"
  "unat (drop_bit 8 w) = unat w div 256"
proof -
  have ff: "(0xFF :: u16) = mask 8" by (simp add: mask_eq_exp_minus_1)
  show "unat (w AND 0xFF) = unat w mod 256"
    unfolding ff by (simp add: unsigned_take_bit_eq flip: take_bit_eq_mask) (simp add: take_bit_eq_mod)
  have "unat (drop_bit 8 w) = drop_bit 8 (unat w)" by (simp add: unsigned_drop_bit_eq)
  then show "unat (drop_bit 8 w) = unat w div 256" by (simp add: drop_bit_eq_div)
  moreover have "unat w div 256 < 256" using u16_bound [of w] by simp
  ultimately show "unat (drop_bit 8 w AND 0xFF) = unat w div 256"
    unfolding ff
    by (simp add: unsigned_take_bit_eq take_bit_nat_eq_self flip: take_bit_eq_mask)
qed

lemma sel_get_request:
  fixes i :: u16
  assumes "hdr_ok M"
  defines "d \<equiv> sel_get_request M i"
  shows "length d = sizeof M IPMI_GET_SEL_ENTRY_REQUEST"
    "fget M 0 GetSel_ReserveId0 d = 0" "fget M 0 GetSel_ReserveId1 d = 0"
    "fget M 0 GetSel_Offset d = 0" "fget M 0 GetSel_BytesToRead d = 0xFF"
    "fget M 0 GetSel_SelRecID0 d + 256 * fget M 0 GetSel_SelRecID1 d = unat i"
proof -
  have b: "unat i div 256 < 256" using u16_bound [of i] by simp
  have f: "fget M 0 g d = (case map_of
      [(GetSel_BytesToRead, 255), (GetSel_SelRecID1, unat (drop_bit 8 i AND 0xFF)),
       (GetSel_SelRecID0, unat (i AND 0xFF))] g of Some v \<Rightarrow> take_bit (width_of g) v | None \<Rightarrow> 0)"
    if "g \<in> set (fields_of IPMI_GET_SEL_ENTRY_REQUEST)" for g
    using fget_fputs [OF assms(1) that] by (simp add: d_def sel_get_request_def del: fputs_simps)
  show "length d = sizeof M IPMI_GET_SEL_ENTRY_REQUEST" by (simp add: d_def sel_get_request_def)
  show "fget M 0 GetSel_ReserveId0 d = 0" "fget M 0 GetSel_ReserveId1 d = 0"
    "fget M 0 GetSel_Offset d = 0" "fget M 0 GetSel_BytesToRead d = 0xFF"
    by (simp_all add: f)
  show "fget M 0 GetSel_SelRecID0 d + 256 * fget M 0 GetSel_SelRecID1 d = unat i"
    using b by (simp add: f) (simp add: u16_bytes take_bit_eq_mod)
qed

definition sel_clear_request :: "ipmi_hdr \<Rightarrow> bytes" where
  "sel_clear_request M = fputs M [(ClearSel_AscC, 0x43), (ClearSel_AscL, 0x4C), (ClearSel_AscR, 0x52),
     (ClearSel_Erase, unat (val_of M IPMI_CLEAR_SEL_REQUEST_INITIALIZE_ERASE))]
     (zero_mem (sizeof M IPMI_CLEAR_SEL_REQUEST))"

lemma sel_clear_request:
  assumes "hdr_ok M"
  defines "d \<equiv> sel_clear_request M"
  shows "length d = sizeof M IPMI_CLEAR_SEL_REQUEST" "fget8 M 0 ClearSel_AscC d = 0x43"
    "fget8 M 0 ClearSel_AscL d = 0x4C" "fget8 M 0 ClearSel_AscR d = 0x52"
    "fget8 M 0 ClearSel_Erase d = val_of M IPMI_CLEAR_SEL_REQUEST_INITIALIZE_ERASE"
  using fget_fputs [OF assms(1), of _ IPMI_CLEAR_SEL_REQUEST]
  by (simp_all add: d_def sel_clear_request_def fget8_def del: fputs_simps)

text \<open>A BMC that refuses to return a record, as an error or by its completion code.\<close>

lemma SelGetEntry_refused:
  assumes "hdr_ok M"
    and "submit (netfn_of M IPMI_NETFN_STORAGE) (cmd_of M IPMI_STORAGE_GET_SEL_ENTRY)
      (Some (sel_get_request M i)) (of_nat (sizeof M IPMI_GET_SEL_ENTRY_REQUEST))
      (zero_mem (sizeof M IPMI_GET_SEL_ENTRY_RESPONSE))
      (of_nat (sizeof M IPMI_GET_SEL_ENTRY_RESPONSE)) s = Some ((st, R, z), s')"
    and "EFI_ERROR st \<or> fget8 M 0 CompletionCode R = cc_of M IPMI_COMP_CODE_NOT_PRESENT"
  shows "\<exists>st'. SelGetEntry M submit i (Some r) nx s = Some ((st', Some r, nx), s') \<and> EFI_ERROR st'"
  using assms(2,3)
  by (cases "EFI_ERROR st") (simp_all add: SelGetEntry_def sel_get_request_def comp_code_status [OF assms(1)])

text \<open>A provider that counts the commands it is given.\<close>

definition counted :: "'s submit \<Rightarrow> ('s \<times> nat) submit" where
  "counted submit nf c cd n buf sz s =
     map_option (\<lambda>(r, s'). (r, s', Suc (snd s))) (submit nf c cd n buf sz (fst s))"

context sel_bmc
begin

lemma SelAdd_room:
  assumes "ok s" "length e = 16" "length (log s) < cap"
    "length R0 = sizeof M IPMI_ADD_SEL_ENTRY_RESPONSE"
  shows "\<exists>s'. IpmiAddSelEntry M submit R0 e rid s =
      Some ((EFI_SUCCESS, map_option (\<lambda>_. of_nat (length (log s))) rid), s') \<and> ok s' \<and>
    log s' = log s @ [sel_stored M (clock s) (of_nat (length (log s))) e] \<and>
    clock s' = sel_tick M (clock s) e"
proof -
  let ?b = "fput M 0 CompletionCode (unat (cc_of M IPMI_COMP_CODE_UNSPECIFIED)) R0"
  obtain R s' where r: "submit (netfn_of M IPMI_NETFN_STORAGE) (cmd_of M IPMI_STORAGE_ADD_SEL_ENTRY)
      (Some e) 16 ?b (of_nat (sizeof M IPMI_ADD_SEL_ENTRY_RESPONSE)) s =
      Some ((EFI_SUCCESS, R, of_nat (sizeof M IPMI_ADD_SEL_ENTRY_RESPONSE)), s')"
    "fget8 M 0 CompletionCode R = cc_of M IPMI_COMP_CODE_NORMAL"
    "fget M 0 AddSel_RecordId R = length (log s)" "ok s'"
    "log s' = log s @ [sel_stored M (clock s) (of_nat (length (log s))) e]"
    "clock s' = sel_tick M (clock s) e"
    using add_room [OF assms(1-3), of ?b] assms(4) by auto
  have "0 < sizeof M IPMI_ADD_SEL_ENTRY_RESPONSE"
    using hdr_ok_inside [OF hdr_sel, of CompletionCode IPMI_ADD_SEL_ENTRY_RESPONSE]
      hdr_ok_CompletionCode [OF hdr_sel] by simp
  then show ?thesis
    using r
    by (simp add: IpmiAddSelEntry_def SEL_ENTRY_SIZE_def struct_len_u32 [OF hdr_sel]
        comp_code_status [OF hdr_sel])
qed

lemma SelAdd_full:
  assumes "ok s" "length e = 16" "cap \<le> length (log s)"
    "length R0 = sizeof M IPMI_ADD_SEL_ENTRY_RESPONSE"
  shows "\<exists>st s'. IpmiAddSelEntry M submit R0 e rid s = Some ((st, rid), s') \<and> EFI_ERROR st \<and>
    ok s' \<and> log s' = log s \<and> clock s' = clock s"
proof -
  let ?b = "fput M 0 CompletionCode (unat (cc_of M IPMI_COMP_CODE_UNSPECIFIED)) R0"
  obtain st R z s' where r: "submit (netfn_of M IPMI_NETFN_STORAGE)
      (cmd_of M IPMI_STORAGE_ADD_SEL_ENTRY) (Some e) 16 ?b
      (of_nat (sizeof M IPMI_ADD_SEL_ENTRY_RESPONSE)) s = Some ((st, R, z), s')"
    "EFI_ERROR st \<or> 0 < z \<and> fget8 M 0 CompletionCode R = cc_of M IPMI_COMP_CODE_OUT_OF_SPACE"
    "ok s'" "log s' = log s" "clock s' = clock s"
    using add_full [OF assms(1-3), of ?b] assms(4) by auto
  have z: "0 < z \<Longrightarrow> \<not> unat z < 1" by (simp add: word_less_nat_alt)
  show ?thesis
    using r z
    by (cases "EFI_ERROR st")
      (simp_all add: IpmiAddSelEntry_def SEL_ENTRY_SIZE_def comp_code_status [OF hdr_sel])
qed

lemma SelGetEntry_present:
  assumes "ok s" "unat i < length (log s)" "length r = 16"
  shows "\<exists>s'. SelGetEntry M submit i (Some r) nx s =
      Some ((EFI_SUCCESS, Some (log s ! unat i),
             map_option (\<lambda>_. if Suc (unat i) < length (log s) then i + 1 else 0xFFFF) nx), s') \<and>
    ok s' \<and> log s' = log s \<and> clock s' = clock s"
proof -
  have l: "length (log s) \<le> cap" "length (log s ! unat i) = 16"
    using log_ok [OF assms(1)] assms(2) by (auto simp: list_all_length)
  have "unat i < cap" using assms(2) l(1) by simp
  from get_present [OF assms(1,2) this sel_get_request [OF hdr_sel],
      of "zero_mem (sizeof M IPMI_GET_SEL_ENTRY_RESPONSE)"]
  obtain R s' where "submit (netfn_of M IPMI_NETFN_STORAGE) (cmd_of M IPMI_STORAGE_GET_SEL_ENTRY)
      (Some (sel_get_request M i)) (of_nat (sizeof M IPMI_GET_SEL_ENTRY_REQUEST))
      (zero_mem (sizeof M IPMI_GET_SEL_ENTRY_RESPONSE))
      (of_nat (sizeof M IPMI_GET_SEL_ENTRY_RESPONSE)) s =
      Some ((EFI_SUCCESS, R, of_nat (sizeof M IPMI_GET_SEL_ENTRY_RESPONSE)), s')"
    "fget8 M 0 CompletionCode R = cc_of M IPMI_COMP_CODE_NORMAL"
    "fget M 0 GetSel_RecordData R = le_nat (log s ! unat i)"
    "fget M 0 GetSel_NextSelRecordId R = (if Suc (unat i) < length (log s) then Suc (unat i) else 0xFFFF)"
    "ok s'" "log s' = log s" "clock s' = clock s" by auto
  moreover have "nat_le 16 (le_nat (log s ! unat i)) = log s ! unat i"
    using nat_le_le_nat [of "log s ! unat i"] l(2) by simp
  ultimately show ?thesis
    using assms(3) l(2) copy_mem_0 [of "log s ! unat i" r]
    by (auto simp: SelGetEntry_def sel_get_request_def SEL_ENTRY_SIZE_def comp_code_status [OF hdr_sel]
        add.commute)
qed

lemma SelGetEntry_absent:
  assumes "ok s" "length (log s) \<le> unat i" "i \<noteq> 0xFFFF"
  shows "\<exists>st s'. SelGetEntry M submit i (Some r) nx s = Some ((st, Some r, nx), s') \<and> EFI_ERROR st \<and>
    ok s' \<and> log s' = log s \<and> clock s' = clock s"
proof -
  have "unat i \<noteq> 0xFFFF" using assms(3) by (simp add: word_unat_eq_iff)
  from get_absent [OF assms(1,2) this sel_get_request [OF hdr_sel],
      of "zero_mem (sizeof M IPMI_GET_SEL_ENTRY_RESPONSE)"]
  show ?thesis using SelGetEntry_refused [OF hdr_sel, of submit i s] by fastforce
qed

lemma SelGetTime_tick:
  assumes "ok s" "length R0 = sizeof M IPMI_GET_SEL_TIME_RESPONSE"
  shows "\<exists>s'. SelGetTime M submit R0 (Some t) s = Some ((EFI_SUCCESS, Some (clock s + 1)), s') \<and>
    ok s' \<and> log s' = log s \<and> clock s' = clock s + 1"
  using get_time [OF assms] by (auto simp: SelGetTime_def comp_code_status [OF hdr_sel])

lemma SelSetTime_sets:
  assumes "ok s" "length Q0 = sizeof M IPMI_SET_SEL_TIME_REQUEST"
  shows "\<exists>s'. SelSetTime M submit Q0 c0 t s = Some (EFI_SUCCESS, s') \<and>
    ok s' \<and> log s' = log s \<and> clock s' = t"
proof -
  let ?d = "fput M 0 SetSelTime_Timestamp (unat t) Q0"
  have "fget M 0 SetSelTime_Timestamp ?d = unat t"
    using fget_fput [OF hdr_sel, of SetSelTime_Timestamp IPMI_SET_SEL_TIME_REQUEST SetSelTime_Timestamp Q0]
      assms(2) by simp
  then show ?thesis
    using set_time [OF assms(1), of ?d t c0] assms(2)
    by (auto simp: SelSetTime_def comp_code_status [OF hdr_sel])
qed

end

unbundle bit_operations_syntax

subsection \<open>Histories\<close>

text \<open>Adding records one after the other, and reading the log from a record on by following the
  next record id, as a client of the library does.\<close>

fun sel_add_all ::
    "ipmi_hdr \<Rightarrow> 's submit \<Rightarrow> bytes \<Rightarrow> bytes list \<Rightarrow> ('s, u16 list) op" where
  "sel_add_all M submit R0 [] s = Some ([], s)"
| "sel_add_all M submit R0 (e # es) s =
     do {
       ((st, rid), s1) \<leftarrow> IpmiAddSelEntry M submit R0 e (Some 0) s;
       ASSERT (\<not> EFI_ERROR st);
       (ids, s2) \<leftarrow> sel_add_all M submit R0 es s1;
       Some (the rid # ids, s2)
     }"

fun sel_walk :: "ipmi_hdr \<Rightarrow> 's submit \<Rightarrow> nat \<Rightarrow> u16 \<Rightarrow> ('s, bytes list) op" where
  "sel_walk M submit 0 i s = None"
| "sel_walk M submit (Suc n) i s =
     do {
       ((st, r, nx), s1) \<leftarrow> SelGetEntry M submit i (Some (zero_mem 16)) (Some 0) s;
       ASSERT (\<not> EFI_ERROR st);
       if the nx = 0xFFFF then Some ([the r], s1)
       else do {
         (rs, s2) \<leftarrow> sel_walk M submit n (the nx) s1;
         Some (the r # rs, s2)
       }
     }"

text \<open>The records a log holds after the events \<open>es\<close>, from time \<open>t\<close> and id \<open>i\<close> on.\<close>

fun sel_history :: "ipmi_hdr \<Rightarrow> u32 \<Rightarrow> nat \<Rightarrow> bytes list \<Rightarrow> bytes list" where
  "sel_history M t i [] = []"
| "sel_history M t i (e # es) = sel_stored M t (of_nat i) e # sel_history M (sel_tick M t e) (Suc i) es"

lemma length_sel_history [simp]: "length (sel_history M t i es) = length es"
  by (induction es arbitrary: t i) auto

context sel_bmc
begin

lemma sel_add_all:
  assumes "length R0 = sizeof M IPMI_ADD_SEL_ENTRY_RESPONSE"
  shows "ok s \<Longrightarrow> list_all (\<lambda>e. length e = 16) es \<Longrightarrow> length (log s) + length es \<le> cap \<Longrightarrow>
    \<exists>s'. sel_add_all M submit R0 es s =
        Some (map (\<lambda>k. of_nat (length (log s) + k)) [0 ..< length es], s') \<and> ok s' \<and>
      log s' = log s @ sel_history M (clock s) (length (log s)) es"
proof (induction es arbitrary: s)
  case Nil
  then show ?case by simp
next
  case (Cons e es)
  then obtain s1 where s1: "IpmiAddSelEntry M submit R0 e (Some 0) s =
      Some ((EFI_SUCCESS, Some (of_nat (length (log s)))), s1)" "ok s1"
    "log s1 = log s @ [sel_stored M (clock s) (of_nat (length (log s))) e]"
    "clock s1 = sel_tick M (clock s) e"
    using SelAdd_room [OF Cons.prems(1), of e R0 "Some 0"] assms by auto
  obtain s2 where "sel_add_all M submit R0 es s1 =
        Some (map (\<lambda>k. of_nat (length (log s1) + k)) [0 ..< length es], s2)" "ok s2"
      "log s2 = log s1 @ sel_history M (clock s1) (length (log s1)) es"
    using Cons.IH [OF s1(2)] Cons.prems s1(3) by auto
  then show ?case using s1 by (simp add: map_upt_Suc del: upt_Suc)
qed

lemma sel_walk_from:
  "ok s \<Longrightarrow> i < length (log s) \<Longrightarrow> length (log s) \<le> i + n \<Longrightarrow>
     \<exists>s'. sel_walk M submit n (of_nat i) s = Some (drop i (log s), s') \<and> ok s' \<and> log s' = log s"
proof (induction n arbitrary: s i)
  case 0
  then show ?case by simp
next
  case (Suc n)
  have l: "length (log s) < 65535" using log_ok [OF Suc.prems(1)] cap by simp
  have i: "unat (of_nat i :: u16) = i" using Suc.prems(2) l by (simp add: unat_of_nat)
  obtain s1 where s1: "SelGetEntry M submit (of_nat i) (Some (zero_mem 16)) (Some 0) s =
      Some ((EFI_SUCCESS, Some (log s ! i),
             Some (if Suc i < length (log s) then of_nat (Suc i) else 0xFFFF)), s1)"
    "ok s1" "log s1 = log s"
    using SelGetEntry_present [OF Suc.prems(1), of "of_nat i" "zero_mem 16" "Some 0"] Suc.prems(2) i
    by (auto simp: add.commute)
  show ?case
  proof (cases "Suc i < length (log s)")
    case True
    then have "unat (of_nat (Suc i) :: u16) = Suc i" using l by (simp add: unat_of_nat del: of_nat_Suc)
    then have "(of_nat (Suc i) :: u16) \<noteq> 0xFFFF"
      using True l by (auto simp: word_unat_eq_iff simp del: of_nat_Suc)
    moreover obtain s2 where "sel_walk M submit n (of_nat (Suc i)) s1 = Some (drop (Suc i) (log s), s2)"
        "ok s2" "log s2 = log s"
      using Suc.IH [OF s1(2), of "Suc i"] s1(3) True Suc.prems(3) by auto
    ultimately show ?thesis
      using s1 True Suc.prems(2) by (simp add: Cons_nth_drop_Suc del: of_nat_Suc)
  next
    case False
    then have "drop i (log s) = [log s ! i]" using Suc.prems(2) by (simp add: Cons_nth_drop_Suc [symmetric])
    then show ?thesis using s1 False by simp
  qed
qed

lemma SelClear_two_steps:
  assumes "ok s" "\<And>n s. ok s \<Longrightarrow> ok (delay n s)"
    and vals: "val_of M IPMI_CLEAR_SEL_REQUEST_INITIALIZE_ERASE \<noteq> val_of M IPMI_CLEAR_SEL_REQUEST_GET_ERASE_STATUS"
      "val_of M IPMI_CLEAR_SEL_RESPONSE_ERASURE_IN_PROGRESS \<noteq> val_of M IPMI_CLEAR_SEL_RESPONSE_ERASURE_COMPLETED"
  shows "\<exists>s'. SelClear M submit delay wait s = Some (EFI_SUCCESS, s') \<and> ok s' \<and> log s' = [] \<and>
    SelClear M (counted submit) (\<lambda>n. map_prod (delay n) id) wait (s, k) =
      Some (EFI_SUCCESS, (s', k + (if wait then 2 else 1)))"
proof -
  let ?z = "zero_mem (sizeof M IPMI_CLEAR_SEL_RESPONSE)"
  let ?d1 = "sel_clear_request M"
  let ?d2 = "fput M 0 ClearSel_Erase (unat (val_of M IPMI_CLEAR_SEL_REQUEST_GET_ERASE_STATUS)) ?d1"
  note d1 = sel_clear_request [OF hdr_sel]
  have d2: "length ?d2 = sizeof M IPMI_CLEAR_SEL_REQUEST" "fget8 M 0 ClearSel_AscC ?d2 = 0x43"
    "fget8 M 0 ClearSel_AscL ?d2 = 0x4C" "fget8 M 0 ClearSel_AscR ?d2 = 0x52"
    "fget8 M 0 ClearSel_Erase ?d2 = val_of M IPMI_CLEAR_SEL_REQUEST_GET_ERASE_STATUS"
    using d1 fget_fput [OF hdr_sel, of ClearSel_Erase IPMI_CLEAR_SEL_REQUEST _ ?d1]
    by (simp_all add: fget8_def)
  obtain R1 s1 where r1: "submit (netfn_of M IPMI_NETFN_STORAGE) (cmd_of M IPMI_STORAGE_CLEAR_SEL)
      (Some ?d1) (of_nat (sizeof M IPMI_CLEAR_SEL_REQUEST)) ?z (of_nat (sizeof M IPMI_CLEAR_SEL_RESPONSE)) s =
      Some ((EFI_SUCCESS, R1, of_nat (sizeof M IPMI_CLEAR_SEL_RESPONSE)), s1)"
    "fget8 M 0 CompletionCode R1 = cc_of M IPMI_COMP_CODE_NORMAL"
    "fget8 M 0 ClearSel_ErasureProgress R1 = val_of M IPMI_CLEAR_SEL_RESPONSE_ERASURE_IN_PROGRESS"
    "ok s1" "log s1 = []"
    using clear [OF assms(1) d1 _ vals(1), of IPMI_CLEAR_SEL_RESPONSE_ERASURE_IN_PROGRESS ?z] by auto
  let ?s = "delay 10000 s1"
  obtain R2 s2 where r2: "submit (netfn_of M IPMI_NETFN_STORAGE) (cmd_of M IPMI_STORAGE_CLEAR_SEL)
      (Some ?d2) (of_nat (sizeof M IPMI_CLEAR_SEL_REQUEST)) ?z (of_nat (sizeof M IPMI_CLEAR_SEL_RESPONSE)) ?s =
      Some ((EFI_SUCCESS, R2, of_nat (sizeof M IPMI_CLEAR_SEL_RESPONSE)), s2)"
    "fget8 M 0 CompletionCode R2 = cc_of M IPMI_COMP_CODE_NORMAL"
    "fget8 M 0 ClearSel_ErasureProgress R2 = val_of M IPMI_CLEAR_SEL_RESPONSE_ERASURE_COMPLETED"
    "ok s2" "log s2 = []"
    using clear [OF assms(2) [OF r1(4), of 10000] d2 _ vals(1), of IPMI_CLEAR_SEL_RESPONSE_ERASURE_COMPLETED ?z]
    by auto
  have start: "SelClear M sub dl wait x = SelClear_loop M sub dl wait ?d1 x" for sub :: "'x submit" and dl x
    by (simp add: SelClear_def sel_clear_request_def)
  have "SelClear_loop M submit delay True ?d2 ?s = Some (EFI_SUCCESS, s2)"
    by (subst SelClear_loop.simps) (simp add: r2 comp_code_status [OF hdr_sel])
  then have 1: "SelClear_loop M submit delay wait ?d1 s = Some (EFI_SUCCESS, if wait then s2 else s1)"
    by (subst SelClear_loop.simps) (use r1 vals(2) in \<open>auto simp: comp_code_status [OF hdr_sel]\<close>)
  let ?dl = "\<lambda>n. map_prod (delay n) id"
  have "SelClear_loop M (counted submit) ?dl True ?d2 (?s, Suc k) = Some (EFI_SUCCESS, (s2, Suc (Suc k)))"
    by (subst SelClear_loop.simps) (simp add: r2 counted_def comp_code_status [OF hdr_sel])
  then have "SelClear_loop M (counted submit) ?dl wait ?d1 (s, k) =
      Some (EFI_SUCCESS, if wait then (s2, Suc (Suc k)) else (s1, Suc k))"
    by (subst SelClear_loop.simps) (use r1 vals(2) in \<open>auto simp: counted_def comp_code_status [OF hdr_sel]\<close>)
  then show ?thesis using r1 r2 1 by (auto simp: start)
qed

end

subsection \<open>A BMC that never finishes erasing\<close>

lemma SelClear_loop_never:
  assumes busy: "\<And>d s. \<exists>R z s'. submit (netfn_of M IPMI_NETFN_STORAGE) (cmd_of M IPMI_STORAGE_CLEAR_SEL)
      (Some d) (of_nat (sizeof M IPMI_CLEAR_SEL_REQUEST)) (zero_mem (sizeof M IPMI_CLEAR_SEL_RESPONSE))
      (of_nat (sizeof M IPMI_CLEAR_SEL_RESPONSE)) s = Some ((EFI_SUCCESS, R, z), s') \<and>
      fget8 M 0 CompletionCode R = cc_of M IPMI_COMP_CODE_NORMAL \<and>
      fget8 M 0 ClearSel_ErasureProgress R \<noteq> val_of M IPMI_CLEAR_SEL_RESPONSE_ERASURE_COMPLETED"
  shows "SelClear_loop M submit delay True Request s = None"
proof -
  have never: "M' = M \<and> submit' = submit \<and> delay' = delay \<and> wait \<longrightarrow> False"
    if "SelClear_loop M' submit' delay' wait Request s = Some y" for M' submit' delay' wait Request s y
  proof (rule SelClear_loop.raw_induct [OF _ that, where P = "\<lambda>M' submit' delay' wait Request s y.
        M' = M \<and> submit' = submit \<and> delay' = delay \<and> wait \<longrightarrow> False"], goal_cases)
    case (1 loop M' submit' delay' wait Request s r)
    show ?case
    proof (intro impI, elim conjE)
      assume a: "M' = M" "submit' = submit" "delay' = delay" wait
      obtain R z s' where "submit (netfn_of M IPMI_NETFN_STORAGE) (cmd_of M IPMI_STORAGE_CLEAR_SEL)
          (Some Request) (of_nat (sizeof M IPMI_CLEAR_SEL_REQUEST))
          (zero_mem (sizeof M IPMI_CLEAR_SEL_RESPONSE))
          (of_nat (sizeof M IPMI_CLEAR_SEL_RESPONSE)) s = Some ((EFI_SUCCESS, R, z), s')"
        "fget8 M 0 CompletionCode R = cc_of M IPMI_COMP_CODE_NORMAL"
        "fget8 M 0 ClearSel_ErasureProgress R \<noteq> val_of M IPMI_CLEAR_SEL_RESPONSE_ERASURE_COMPLETED"
        using busy by blast
      moreover have "IpmiCompCodeToEfiStatus M (cc_of M IPMI_COMP_CODE_NORMAL) = EFI_SUCCESS"
        by (simp add: IpmiCompCodeToEfiStatus_def)
      ultimately have "loop M submit delay True
          (fput M 0 ClearSel_Erase (unat (val_of M IPMI_CLEAR_SEL_REQUEST_GET_ERASE_STATUS)) Request)
          (delay 10000 s') = Some r"
        using 1(2) a by simp
      then show False using 1(1) [of M submit delay True] a by blast
    qed
  qed
  show ?thesis
  proof (cases "SelClear_loop M submit delay True Request s")
    case (Some y)
    then show ?thesis using never by blast
  qed
qed

end
