(* ===== verification/Sel_Props.thy ===== *)
theory Sel_Props
  imports Sel_Lib
begin

section \<open>What the SEL library guarantees\<close>

text \<open>
  Properties of \<open>IpmiSelLib\<close> over the contract \<open>sel_bmc\<close>, so over both stacks with the mock, and
  what it does when the BMC does not keep to it.
\<close>

unbundle bit_operations_syntax

text \<open>C14 Round trip through the event log: over any BMC that keeps the contract, records added to
  an empty log get the ids 0, 1, 2, ... in turn, and a client that starts at record 0 and follows
  the next record ids reads exactly the records it added, in order, each with its id and, below
  the non-timestamped types, the time of the tick that stored it; the walk ends at the last one.\<close>

theorem sel_log_round_trip:
  assumes "sel_bmc M submit ok log clock cap" "ok s" "log s = []"
    and "list_all (\<lambda>e. length e = 16) es" "es \<noteq> []" "length es \<le> cap"
    and "length Response0 = sizeof M IPMI_ADD_SEL_ENTRY_RESPONSE"
  shows "\<exists>s1 s2.
    sel_add_all M submit Response0 es s = Some (map of_nat [0 ..< length es], s1) \<and>
    sel_walk M submit (length es) 0 s1 = Some (sel_history M (clock s) 0 es, s2)"
proof -
  obtain s1 where s1: "sel_add_all M submit Response0 es s = Some (map of_nat [0 ..< length es], s1)"
      "ok s1" "log s1 = sel_history M (clock s) 0 es"
    using sel_bmc.sel_add_all [OF assms(1,7,2,4)] assms(3,6) by auto
  obtain s2 where "sel_walk M submit (length es) 0 s1 = Some (log s1, s2)"
    using sel_bmc.sel_walk_from [OF assms(1) s1(2), of 0 "length es"] s1(3) assms(5) by auto
  then show ?thesis using s1 by auto
qed

definition sample_events :: "bytes list" where
  "sample_events = [sel_record 2 (replicate 13 7), sel_record 0xC0 (replicate 13 8),
     sel_record 0xE0 (replicate 13 9)]"

lemma sel_record_type: "sel_RecordType (sel_record ty b) = ty"
  by (simp add: sel_RecordType_def sel_record_def nth_append)

lemma sel_stored_record:
  assumes "length b = 13"
  shows "sel_stored M t i (sel_record ty b) =
    le16 i @ ty # (if ty < val_of M IPMI_SEL_OEM_NO_TIME_STAMP_RECORD_START then le32 (t + 1) @ drop 4 b else b)"
proof -
  have e: "sel_set_RecordId i (sel_record ty b) = le16 i @ ty # b"
    by (simp add: sel_set_RecordId_def sel_record_def copy_mem_def)
  have "sel_set_TimeStamp (t + 1) (le16 i @ ty # b) = le16 i @ ty # le32 (t + 1) @ drop 4 b"
    by (simp add: sel_set_TimeStamp_def copy_mem_def)
  then show ?thesis by (simp add: sel_stored_def e sel_RecordType_def nth_append)
qed

lemma le16_Suc: "le16 w = nat_le (Suc (Suc 0)) (unat w)"
  by (simp add: le16_def numeral_2_eq_2)

lemma le32_Suc: "le32 w = nat_le (Suc (Suc (Suc (Suc 0)))) (unat w)"
proof -
  have "(4 :: nat) = Suc (Suc (Suc (Suc 0)))" by simp
  then show ?thesis by (simp only: le32_def)
qed

lemma sample_history:
  "sel_history ipmi_v2 0 0 sample_events =
     [[0, 0, 2, 1, 0, 0, 0] @ replicate 9 7, [1, 0, 0xC0, 2, 0, 0, 0] @ replicate 9 8,
      [2, 0, 0xE0] @ replicate 13 9]"
  by (simp add: sample_events_def sel_stored_record sel_tick_def sel_record_type le16_Suc le32_Suc)

lemma sample_events:
  "list_all (\<lambda>e. length e = 16) sample_events" "length sample_events = 3" "sample_events \<noteq> []"
  by code_simp+

lemma mock_reset_log [simp]: "mock_log (mock_reset M) = []" "mSelTime (mock_reset M) = 0"
  by (simp_all add: mock_reset_def mock_log_def)

theorem sel_log_round_trip_witness:
  "\<exists>s1 s2.
    sel_add_all ipmi_v2 (IpmiSubmitCommand_Mock ipmi_v2) (zero_mem 3) sample_events (mock_reset ipmi_v2) =
      Some (map of_nat [0 ..< 3], s1) \<and>
    sel_walk ipmi_v2 (IpmiSubmitCommand_Mock ipmi_v2) 3 0 s1 =
      Some ([[0, 0, 2, 1, 0, 0, 0] @ replicate 9 7, [1, 0, 0xC0, 2, 0, 0, 0] @ replicate 9 8,
             [2, 0, 0xE0] @ replicate 13 9], s2)"
proof -
  have cap: "length sample_events \<le> SEL_COUNT" by (simp add: sample_events(2) mock_sizes)
  have "mock_log (id (mock_reset ipmi_v2)) = []" "length (zero_mem 3) = sizeof ipmi_v2 IPMI_ADD_SEL_ENTRY_RESPONSE"
    by simp_all
  from sel_log_round_trip [OF mock_direct.sel.sel_bmc_axioms mock_reset_ok this(1) sample_events(1,3) cap this(2)]
  show ?thesis by (simp only: sample_events(2) id_apply mock_reset_log(2) sample_history)
qed

text \<open>C31 A full log and a record that is not there: adding to the full log, and asking for an id behind
  the last record, are reported as errors; the caller's record id (or record and next id) is kept,
  log and clock stay as they were, and every record of the log can still be read afterwards.  The
  id 0xFFFF is left out: the SEL protocol documents it as the last entry.\<close>

theorem sel_refusals_keep_log:
  assumes "sel_bmc M submit ok log clock cap" "ok s" "length (log s) = cap" "length Entry = 16"
    and "length Response0 = sizeof M IPMI_ADD_SEL_ENTRY_RESPONSE" "cap \<le> unat i" "i \<noteq> 0xFFFF"
    and "unat j < cap" "length r = 16"
  shows "\<exists>st s1 st2 s2 s3.
    IpmiAddSelEntry M submit Response0 Entry rid s = Some ((st, rid), s1) \<and> EFI_ERROR st \<and>
    SelGetEntry M submit i (Some r) nx s1 = Some ((st2, Some r, nx), s2) \<and> EFI_ERROR st2 \<and>
    log s2 = log s \<and> clock s2 = clock s \<and>
    SelGetEntry M submit j (Some r) None s2 = Some ((EFI_SUCCESS, Some (log s ! unat j), None), s3)"
proof -
  obtain st s1 where s1: "IpmiAddSelEntry M submit Response0 Entry rid s = Some ((st, rid), s1)"
    "EFI_ERROR st" "ok s1" "log s1 = log s" "clock s1 = clock s"
    using sel_bmc.SelAdd_full [OF assms(1,2,4) _ assms(5), of rid] assms(3) by auto
  obtain st2 s2 where s2: "SelGetEntry M submit i (Some r) nx s1 = Some ((st2, Some r, nx), s2)"
    "EFI_ERROR st2" "ok s2" "log s2 = log s1" "clock s2 = clock s1"
    using sel_bmc.SelGetEntry_absent [OF assms(1) s1(3) _ assms(7), of r nx] s1(4) assms(3,6) by auto
  obtain s3 where "SelGetEntry M submit j (Some r) None s2 = Some ((EFI_SUCCESS, Some (log s2 ! unat j), None), s3)"
    using sel_bmc.SelGetEntry_present [OF assms(1) s2(3) _ assms(9), of j None] s1(4) s2(4) assms(3,8) by auto
  then show ?thesis using s1 s2 by auto
qed

definition mock_full :: mock_bmc where
  "mock_full = mock_reset ipmi_v2\<lparr>mNextRecordId := 100\<rparr>"

lemma mock_full:
  "mock_ok ipmi_v2 mock_full" "length (mock_log mock_full) = SEL_COUNT"
  by (simp_all add: mock_full_def mock_reset_def mock_ok_def mock_data_ok_def mock_log_def mock_sizes
      list_all_iff)

theorem sel_refusals_keep_log_witness:
  "\<exists>st s1 st2 s2 s3.
    IpmiAddSelEntry ipmi_v2 (IpmiSubmitCommand_Mock ipmi_v2) (zero_mem 3) (zero_mem 16) (Some 9) mock_full =
      Some ((st, Some 9), s1) \<and> EFI_ERROR st \<and>
    SelGetEntry ipmi_v2 (IpmiSubmitCommand_Mock ipmi_v2) 100 (Some (replicate 16 7)) None s1 =
      Some ((st2, Some (replicate 16 7), None), s2) \<and> EFI_ERROR st2 \<and>
    mock_log s2 = replicate 100 (zero_mem 16) \<and> mSelTime s2 = 0 \<and>
    SelGetEntry ipmi_v2 (IpmiSubmitCommand_Mock ipmi_v2) 5 (Some (replicate 16 7)) None s2 =
      Some ((EFI_SUCCESS, Some (zero_mem 16), None), s3)"
  using sel_refusals_keep_log [OF mock_direct.sel.sel_bmc_axioms, of mock_full "zero_mem 16" "zero_mem 3"
      100 5 "replicate 16 7" "Some 9" None] mock_full
  by (simp add: mock_full_def mock_log_def mock_reset_def mock_sizes)

text \<open>What the mock makes of the id 0xFFFF: an error, in every state, through both stacks.\<close>

lemma mock_refuses_last:
  assumes "mock_provider M submit bmc ok" "ok s"
  shows "\<exists>st s'. SelGetEntry M submit 0xFFFF (Some r) nx s = Some ((st, Some r, nx), s') \<and> EFI_ERROR st"
proof -
  have hdr: "hdr_ok M" by (rule mock_provider.hdr [OF assms(1)])
  have "length (mock_log (bmc s)) \<le> unat (0xFFFF :: u16)"
    using sel_bmc.log_ok [OF mock_provider.sel_contract [OF assms(1)] assms(2)] by (simp add: mock_sizes)
  from mock_provider.refuses_absent [OF assms this sel_get_request [OF hdr], of "zero_mem (sizeof M IPMI_GET_SEL_ENTRY_RESPONSE)"]
  show ?thesis using SelGetEntry_refused [OF hdr, of submit "0xFFFF" s] by fastforce
qed

text \<open>C32 The same full log is reported differently by the two stacks: through the mock base library
  the completion code reaches the library and becomes EFI_OUT_OF_RESOURCES, through the generic
  driver it is swallowed and becomes EFI_DEVICE_ERROR (EFI_UNSUPPORTED while the BMC is being
  updated), so the mapping of completion codes in \<open>IpmiSelLib\<close> is dead there.\<close>

theorem sel_full_status:
  assumes "mock_ok ipmi_v2 (Port inst)" "inst_ok inst" "length (mock_log (Port inst)) = SEL_COUNT"
    and "length Entry = 16"
  shows "\<exists>m inst'.
    IpmiAddSelEntry ipmi_v2 (IpmiSubmitCommand_Mock ipmi_v2) (zero_mem 3) Entry rid (Port inst) =
      Some ((EFI_OUT_OF_RESOURCES, rid), m) \<and>
    IpmiAddSelEntry ipmi_v2 (mock_driver ipmi_v2 3) (zero_mem 3) Entry rid inst =
      Some ((if BmcStatus inst = BMC_UPDATE_IN_PROGRESS then EFI_UNSUPPORTED else EFI_DEVICE_ERROR, rid),
            inst')"
proof -
  let ?nf = "netfn_of ipmi_v2 IPMI_NETFN_STORAGE" and ?c = "cmd_of ipmi_v2 IPMI_STORAGE_ADD_SEL_ENTRY"
  let ?b = "fput ipmi_v2 0 CompletionCode (unat (cc_of ipmi_v2 IPMI_COMP_CODE_UNSPECIFIED)) (zero_mem 3)"
  obtain R m' where R: "mock_reply ipmi_v2 ?nf ?c Entry (Port inst) = Some (R, m')" "length R = 3"
    "hd R = cc_of ipmi_v2 IPMI_COMP_CODE_OUT_OF_SPACE"
    "fget8 ipmi_v2 0 CompletionCode R = cc_of ipmi_v2 IPMI_COMP_CODE_OUT_OF_SPACE"
    using mock_direct.reply_add [OF assms(4), of "Port inst"] assms(3)
      mock_direct.length_mock_log [of "Port inst"] assms(1) by auto
  have "IpmiSubmitCommand_Mock ipmi_v2 ?nf ?c (Some Entry) (of_nat (length Entry)) ?b 3 (Port inst) =
      Some ((EFI_SUCCESS, copy_mem ?b 0 R, of_nat (length R)), m')"
    by (rule mock_base_reply [OF ipmi_v2_ok R(1) assms(1)]) (use R assms(4) in simp_all)
  then have direct: "IpmiSubmitCommand_Mock ipmi_v2 ?nf ?c (Some Entry) 16 ?b 3 (Port inst) =
      Some ((EFI_SUCCESS, R, 3), m')"
    using R(2) assms(4) by (simp add: copy_mem_0)
  obtain z inst' where "mock_driver ipmi_v2 3 ?nf ?c (Some Entry) (of_nat (length Entry)) ?b 3 inst =
      Some ((if BmcStatus inst = BMC_UPDATE_IN_PROGRESS then EFI_UNSUPPORTED else EFI_DEVICE_ERROR,
             ?b, z), inst')"
    using mock_driver_refuses [OF ipmi_v2_ok R(1) assms(1,2), of 3 "Some Entry" ?b 3] R(3) assms(4)
    by (auto split: if_splits)
  then have driver: "mock_driver ipmi_v2 3 ?nf ?c (Some Entry) 16 ?b 3 inst =
      Some ((if BmcStatus inst = BMC_UPDATE_IN_PROGRESS then EFI_UNSUPPORTED else EFI_DEVICE_ERROR,
             ?b, z), inst')"
    using assms(4) by simp
  show ?thesis
    using direct driver R(4) comp_code_status [OF ipmi_v2_ok, of IPMI_COMP_CODE_OUT_OF_SPACE]
    by (simp add: IpmiAddSelEntry_def SEL_ENTRY_SIZE_def)
qed

definition mock_instance :: "mock_bmc \<Rightarrow> mock_bmc ipmi_bmc_instance" where
  "mock_instance m = \<lparr>Signature = 0, IpmiTimeoutPeriod = 0, SlaveAddress = 0,
     TempData = zero_mem MAX_TEMP_DATA, BmcStatus = BMC_OK, ErrorStatus = 0, SoftErrorCount = 0, Port = m\<rparr>"

lemma mock_instance [simp]:
  "inst_ok (mock_instance m)" "Port (mock_instance m) = m" "BmcStatus (mock_instance m) = BMC_OK"
  by (simp_all add: mock_instance_def inst_ok_def)

theorem sel_full_status_witness:
  "\<exists>m inst'.
    IpmiAddSelEntry ipmi_v2 (IpmiSubmitCommand_Mock ipmi_v2) (zero_mem 3) (zero_mem 16) (Some 9) mock_full =
      Some ((EFI_OUT_OF_RESOURCES, Some 9), m) \<and>
    IpmiAddSelEntry ipmi_v2 (mock_driver ipmi_v2 3) (zero_mem 3) (zero_mem 16) (Some 9)
      (mock_instance mock_full) = Some ((EFI_DEVICE_ERROR, Some 9), inst')"
  using sel_full_status [of "mock_instance mock_full" "zero_mem 16" "Some 9"] mock_full
  by (simp add: BMC_OK_def BMC_UPDATE_IN_PROGRESS_def)

text \<open>C30 Clearing the log over a BMC that keeps the contract: the library returns EFI_SUCCESS and the log
  is empty.  It takes one command, and exactly two when the caller waits for the end of the
  erasure: run over a provider that counts the commands it is given, the count goes up by that
  number.\<close>

theorem SelClear_empties:
  assumes "sel_bmc M submit ok log clock cap" "ok s" "\<And>n s. ok s \<Longrightarrow> ok (MicroSecondDelay n s)"
    and "val_of M IPMI_CLEAR_SEL_REQUEST_INITIALIZE_ERASE \<noteq> val_of M IPMI_CLEAR_SEL_REQUEST_GET_ERASE_STATUS"
    and "val_of M IPMI_CLEAR_SEL_RESPONSE_ERASURE_IN_PROGRESS \<noteq>
         val_of M IPMI_CLEAR_SEL_RESPONSE_ERASURE_COMPLETED"
  shows "\<exists>s'. SelClear M submit MicroSecondDelay AwaitClear s = Some (EFI_SUCCESS, s') \<and>
    ok s' \<and> log s' = [] \<and>
    SelClear M (counted submit) (\<lambda>n. map_prod (MicroSecondDelay n) id) AwaitClear (s, k) =
      Some (EFI_SUCCESS, (s', k + (if AwaitClear then 2 else 1)))"
  by (rule sel_bmc.SelClear_two_steps) (use assms in auto)

theorem SelClear_empties_witness:
  "\<exists>s'. SelClear ipmi_v2 (IpmiSubmitCommand_Mock ipmi_v2) (\<lambda>n s. s) True mock_full = Some (EFI_SUCCESS, s') \<and>
    mock_ok ipmi_v2 s' \<and> mock_log s' = [] \<and>
    SelClear ipmi_v2 (counted (IpmiSubmitCommand_Mock ipmi_v2)) (\<lambda>n. map_prod (\<lambda>s. s) id) True (mock_full, 0) =
      Some (EFI_SUCCESS, (s', 2))"
  using SelClear_empties [OF mock_direct.sel.sel_bmc_axioms, of mock_full "\<lambda>n s. s" True 0] mock_full
  by (simp del: add_2_eq_Suc')

text \<open>C39 Nothing bounds the wait for the end of the erasure: over a BMC that accepts the command but
  never reports completion, \<open>SelClear\<close> with \<open>AwaitClear\<close> does not return.  The null base library
  is such a BMC.\<close>

theorem SelClear_hangs:
  assumes "\<And>d s. \<exists>R z s'. submit (netfn_of M IPMI_NETFN_STORAGE) (cmd_of M IPMI_STORAGE_CLEAR_SEL)
      (Some d) (of_nat (sizeof M IPMI_CLEAR_SEL_REQUEST)) (zero_mem (sizeof M IPMI_CLEAR_SEL_RESPONSE))
      (of_nat (sizeof M IPMI_CLEAR_SEL_RESPONSE)) s = Some ((EFI_SUCCESS, R, z), s') \<and>
      fget8 M 0 CompletionCode R = cc_of M IPMI_COMP_CODE_NORMAL \<and>
      fget8 M 0 ClearSel_ErasureProgress R \<noteq> val_of M IPMI_CLEAR_SEL_RESPONSE_ERASURE_COMPLETED"
  shows "SelClear M submit MicroSecondDelay True s = None"
  unfolding SelClear_def by (rule SelClear_loop_never) (rule assms)

theorem SelClear_hangs_witness:
  "SelClear ipmi_v2 IpmiSubmitCommand_Null (\<lambda>n s. s) True () = None"
  by (rule SelClear_hangs) (simp add: IpmiSubmitCommand_Null_def fget8_def fget_def)

text \<open>The clock: over a BMC that keeps the contract, a time that was set is the time from which
  it counts, and reading the clock ticks.\<close>

theorem sel_time_round_trip:
  assumes "sel_bmc M submit ok log clock cap" "ok s" "length Request0 = sizeof M IPMI_SET_SEL_TIME_REQUEST"
    and "length Response0 = sizeof M IPMI_GET_SEL_TIME_RESPONSE"
  shows "\<exists>s1 s2. SelSetTime M submit Request0 c0 t s = Some (EFI_SUCCESS, s1) \<and>
    SelGetTime M submit Response0 (Some t0) s1 = Some ((EFI_SUCCESS, Some (t + 1)), s2) \<and>
    clock s2 = t + 1 \<and> log s2 = log s"
proof -
  obtain s1 where s1: "SelSetTime M submit Request0 c0 t s = Some (EFI_SUCCESS, s1)" "ok s1"
    "log s1 = log s" "clock s1 = t"
    using sel_bmc.SelSetTime_sets [OF assms(1-3)] by blast
  then show ?thesis using sel_bmc.SelGetTime_tick [OF assms(1) s1(2) assms(4), of t0] by auto
qed

theorem sel_time_round_trip_witness:
  "\<exists>s1 s2. SelSetTime ipmi_v2 (mock_driver ipmi_v2 3) (zero_mem 4) 0 5 (mock_instance (mock_reset ipmi_v2)) = Some (EFI_SUCCESS, s1) \<and>
    SelGetTime ipmi_v2 (mock_driver ipmi_v2 3) (zero_mem 5) (Some 0) s1 = Some ((EFI_SUCCESS, Some 6), s2)"
  using sel_time_round_trip [OF mock_generic.sel.sel_bmc_axioms, of "mock_instance (mock_reset ipmi_v2)" "zero_mem 4" "zero_mem 5" 0 5 0]
  by auto

text \<open>C17 An OEM record through the protocol: it is stored under the id that is returned, and read back
  it has that id, the record type, the time of the tick, the manufacturer and the six bytes of
  data.  A record type outside the OEM range, whatever the other arguments, a missing manufacturer
  and missing data, whatever the record type, are refused with EFI_INVALID_PARAMETER without a
  command: over any provider, even one that never returns from a command, the routine returns, and
  state and record id are as before.\<close>

theorem sel_oem_record:
  assumes "sel_bmc M submit ok log clock cap" "ok s" "length (log s) < cap"
    and "length manu = 3" "length data = 6" "length Response0 = sizeof M IPMI_ADD_SEL_ENTRY_RESPONSE"
    and "val_of M IPMI_SEL_OEM_TIME_STAMP_RECORD_END < val_of M IPMI_SEL_OEM_NO_TIME_STAMP_RECORD_START"
    and "length r = 16"
  defines "i \<equiv> of_nat (length (log s))"
  shows "(if val_of M IPMI_SEL_OEM_TIME_STAMP_RECORD_START \<le> t \<and> t \<le> val_of M IPMI_SEL_OEM_TIME_STAMP_RECORD_END
    then \<exists>s1 s2.
      IpmiSelAddRecordEntry M submit Response0 (Some rid) t (Some manu) (Some data) s =
        Some ((EFI_SUCCESS, Some i), s1) \<and>
      IpmiSelGetRecordEntry M submit i (Some r) None s1 =
        Some ((EFI_SUCCESS, Some (le16 i @ t # le32 (clock s + 1) @ manu @ data), None), s2)
    else IpmiSelAddRecordEntry M any Response0 rid' t manu' data' s' =
        Some ((EFI_INVALID_PARAMETER, rid'), s')) \<and>
    IpmiSelAddRecordEntry M any Response0 rid' t None data' s' = Some ((EFI_INVALID_PARAMETER, rid'), s') \<and>
    IpmiSelAddRecordEntry M any Response0 rid' t manu' None s' = Some ((EFI_INVALID_PARAMETER, rid'), s')"
proof (cases "val_of M IPMI_SEL_OEM_TIME_STAMP_RECORD_START \<le> t \<and> t \<le> val_of M IPMI_SEL_OEM_TIME_STAMP_RECORD_END")
  case True
  let ?b = "le32 0 @ [manu ! 0, manu ! 1, manu ! 2] @ take 6 data"
  have b: "length ?b = 13" "drop 4 ?b = manu @ data"
    using assms(4,5) by (simp_all add: list_eq_iff_nth_eq nth_append nth_Cons' less_Suc_eq numeral_eq_Suc)
  have "t < val_of M IPMI_SEL_OEM_NO_TIME_STAMP_RECORD_START" using True assms(7) by (auto intro: le_less_trans)
  then have e: "sel_stored M (clock s) i (sel_record t ?b) = le16 i @ t # le32 (clock s + 1) @ manu @ data"
    using sel_stored_record [OF b(1)] b(2) by simp
  obtain s1 where s1: "IpmiAddSelEntry M submit Response0 (sel_record t ?b) (Some rid) s =
      Some ((EFI_SUCCESS, Some i), s1)" "ok s1" "log s1 = log s @ [sel_stored M (clock s) i (sel_record t ?b)]"
    using sel_bmc.SelAdd_room [OF assms(1,2) length_sel_record [OF b(1), of t] assms(3,6), of "Some rid"]
    by (auto simp: i_def)
  have "length (log s) < 65536"
    using sel_bmc.cap [OF assms(1)] assms(3) by simp
  then have i: "unat i = length (log s)" by (simp add: i_def unat_of_nat)
  obtain s2 where "SelGetEntry M submit i (Some r) None s1 = Some ((EFI_SUCCESS, Some (log s1 ! unat i), None), s2)"
    using sel_bmc.SelGetEntry_present [OF assms(1) s1(2) _ assms(8), of i None] i s1(3) by auto
  then show ?thesis
    using s1 e i True
    by (simp add: IpmiSelAddRecordEntry_def IpmiSelGetRecordEntry_def SelAddOemEntryEx_def not_less split: option.split)
next
  case False
  then show ?thesis
    by (auto simp: IpmiSelAddRecordEntry_def SelAddOemEntryEx_def split: option.split)
qed

theorem sel_oem_record_witness:
  "(\<exists>s1 s2.
    IpmiSelAddRecordEntry ipmi_v2 (mock_driver ipmi_v2 3) (zero_mem 3) (Some 7) 0xC1 (Some [1, 2, 3])
      (Some [4, 5, 6, 7, 8, 9]) (mock_instance (mock_reset ipmi_v2)) = Some ((EFI_SUCCESS, Some 0), s1) \<and>
    IpmiSelGetRecordEntry ipmi_v2 (mock_driver ipmi_v2 3) 0 (Some (zero_mem 16)) None s1 =
      Some ((EFI_SUCCESS, Some [0, 0, 0xC1, 1, 0, 0, 0, 1, 2, 3, 4, 5, 6, 7, 8, 9], None), s2)) \<and>
   IpmiSelAddRecordEntry ipmi_v2 (\<lambda>_ _ _ _ _ _ _. None) (zero_mem 3) (Some 7) 0xC1 None
      (Some [4, 5, 6, 7, 8, 9]) () = Some ((EFI_INVALID_PARAMETER, Some 7), ())"
  using sel_oem_record [OF mock_generic.sel.sel_bmc_axioms, of "mock_instance (mock_reset ipmi_v2)" "[1, 2, 3]"
      "[4, 5, 6, 7, 8, 9]" "zero_mem 3" "zero_mem 16" "0xC1" 7 "\<lambda>_ _ _ _ _ _ _. None" "Some 7" None
      "Some [4, 5, 6, 7, 8, 9]" "()"]
  by (simp add: mock_sizes le16_Suc le32_Suc)

text \<open>The time that \<open>SelGetTime\<close> returns need not come from the BMC: the size of the reply is not
  checked, so a reply that holds only the normal completion code gives EFI_SUCCESS and the bytes
  that were in the uninitialised response structure.\<close>

theorem SelGetTime_stale:
  assumes "hdr_ok M" "length Response0 = sizeof M IPMI_GET_SEL_TIME_RESPONSE"
    and "submit (netfn_of M IPMI_NETFN_STORAGE) (cmd_of M IPMI_STORAGE_GET_SEL_TIME) None 0 Response0
           (of_nat (sizeof M IPMI_GET_SEL_TIME_RESPONSE)) s =
         Some ((EFI_SUCCESS, fput M 0 CompletionCode (unat (cc_of M IPMI_COMP_CODE_NORMAL)) Response0, 1), s')"
  shows "SelGetTime M submit Response0 (Some t0) s =
    Some ((EFI_SUCCESS, Some (of_nat (fget M 0 GetSelTime_Timestamp Response0))), s')"
  using assms(3) fget_fput [OF assms(1), of CompletionCode IPMI_GET_SEL_TIME_RESPONSE CompletionCode Response0]
    fget_fput [OF assms(1), of CompletionCode IPMI_GET_SEL_TIME_RESPONSE GetSelTime_Timestamp Response0] assms(2)
  by (simp add: SelGetTime_def fget8_def comp_code_status [OF assms(1)])

theorem SelGetTime_stale_witness:
  "SelGetTime ipmi_v2 (\<lambda>nf c d n buf sz s. Some ((EFI_SUCCESS, fput ipmi_v2 0 CompletionCode 0 buf, 1), s))
     [0xAA, 1, 2, 3, 4] (Some 0) () = Some ((EFI_SUCCESS, Some 0x04030201), ())"
  using SelGetTime_stale [of ipmi_v2 "[0xAA, 1, 2, 3, 4]"
      "\<lambda>nf c d n buf sz s. Some ((EFI_SUCCESS, fput ipmi_v2 0 CompletionCode 0 buf, 1), s)" "()" "()" 0]
  by (simp add: fget_def bits_get_def drop_bit_eq_div take_bit_eq_mod)

end
