(* ===== verification/Command_Lib.thy ===== *)
theory Command_Lib
  imports Sel_Bmc
begin

section \<open>The command library\<close>

text \<open>
  \<open>Library/IpmiCommandLib\<close>: one routine per IPMI command, each a call of
  \<open>IpmiSubmitCommand\<close> with the sizes of the request and response structures.  A routine gets the
  memory from its response pointer on and gives it back with the status; where the caller passes
  the size, that goes in and out too.  Pointers that are checked for NULL are options.
\<close>

unbundle bit_operations_syntax

subsection \<open>The common shape\<close>

text \<open>\<open>DataSize = sizeof (*Response)\<close>, the call, \<open>return Status\<close>.\<close>

definition call_fixed ::
    "ipmi_hdr \<Rightarrow> 's submit \<Rightarrow> net_fn \<Rightarrow> ipmi_cmd \<Rightarrow> bytes option \<Rightarrow> u32 \<Rightarrow> nat \<Rightarrow> bytes \<Rightarrow>
       ('s, efi_status \<times> bytes) op" where
  "call_fixed M submit nf c Request RequestSize ResponseSize Response s =
     map_option (\<lambda>((Status, Response1, DataSize), s1). ((Status, Response1), s1))
       (submit (netfn_of M nf) (cmd_of M c) Request RequestSize Response (of_nat ResponseSize) s)"

abbreviation (input) struct_size :: "ipmi_hdr \<Rightarrow> ipmi_struct \<Rightarrow> u32" where
  "struct_size M S \<equiv> of_nat (sizeof M S)"

subsection \<open>Application commands\<close>

definition IpmiGetDeviceId :: "ipmi_hdr \<Rightarrow> 's submit \<Rightarrow> bytes \<Rightarrow> ('s, efi_status \<times> bytes) op" where
  "IpmiGetDeviceId M submit DeviceId =
     call_fixed M submit IPMI_NETFN_APP IPMI_APP_GET_DEVICE_ID None 0
       (sizeof M IPMI_GET_DEVICE_ID_RESPONSE) DeviceId"

definition IpmiGetSelfTestResult ::
    "ipmi_hdr \<Rightarrow> 's submit \<Rightarrow> bytes \<Rightarrow> ('s, efi_status \<times> bytes) op" where
  "IpmiGetSelfTestResult M submit SelfTestResult =
     call_fixed M submit IPMI_NETFN_APP IPMI_APP_GET_SELFTEST_RESULTS None 0
       (sizeof M IPMI_SELF_TEST_RESULT_RESPONSE) SelfTestResult"

definition IpmiResetWatchdogTimer ::
    "ipmi_hdr \<Rightarrow> 's submit \<Rightarrow> bytes \<Rightarrow> ('s, efi_status \<times> bytes) op" where
  "IpmiResetWatchdogTimer M submit CompCode =
     call_fixed M submit IPMI_NETFN_APP IPMI_APP_RESET_WATCHDOG_TIMER None 0 1 CompCode"

definition IpmiSetWatchdogTimer ::
    "ipmi_hdr \<Rightarrow> 's submit \<Rightarrow> bytes \<Rightarrow> bytes \<Rightarrow> ('s, efi_status \<times> bytes) op" where
  "IpmiSetWatchdogTimer M submit SetWatchdogTimer CompCode =
     call_fixed M submit IPMI_NETFN_APP IPMI_APP_SET_WATCHDOG_TIMER (Some SetWatchdogTimer)
       (struct_size M IPMI_SET_WATCHDOG_TIMER_REQUEST) 1 CompCode"

definition IpmiGetWatchdogTimer ::
    "ipmi_hdr \<Rightarrow> 's submit \<Rightarrow> bytes \<Rightarrow> ('s, efi_status \<times> bytes) op" where
  "IpmiGetWatchdogTimer M submit GetWatchdogTimer =
     call_fixed M submit IPMI_NETFN_APP IPMI_APP_GET_WATCHDOG_TIMER None 0
       (sizeof M IPMI_GET_WATCHDOG_TIMER_RESPONSE) GetWatchdogTimer"

definition IpmiSetBmcGlobalEnables ::
    "ipmi_hdr \<Rightarrow> 's submit \<Rightarrow> bytes \<Rightarrow> bytes \<Rightarrow> ('s, efi_status \<times> bytes) op" where
  "IpmiSetBmcGlobalEnables M submit SetBmcGlobalEnables CompCode =
     call_fixed M submit IPMI_NETFN_APP IPMI_APP_SET_BMC_GLOBAL_ENABLES (Some SetBmcGlobalEnables)
       (struct_size M IPMI_SET_BMC_GLOBAL_ENABLES_REQUEST) 1 CompCode"

definition IpmiGetBmcGlobalEnables ::
    "ipmi_hdr \<Rightarrow> 's submit \<Rightarrow> bytes \<Rightarrow> ('s, efi_status \<times> bytes) op" where
  "IpmiGetBmcGlobalEnables M submit GetBmcGlobalEnables =
     call_fixed M submit IPMI_NETFN_APP IPMI_APP_GET_BMC_GLOBAL_ENABLES None 0
       (sizeof M IPMI_GET_BMC_GLOBAL_ENABLES_RESPONSE) GetBmcGlobalEnables"

definition IpmiClearMessageFlags ::
    "ipmi_hdr \<Rightarrow> 's submit \<Rightarrow> bytes \<Rightarrow> bytes \<Rightarrow> ('s, efi_status \<times> bytes) op" where
  "IpmiClearMessageFlags M submit ClearMessageFlagsRequest CompCode =
     call_fixed M submit IPMI_NETFN_APP IPMI_APP_CLEAR_MESSAGE_FLAGS
       (Some ClearMessageFlagsRequest) (struct_size M IPMI_CLEAR_MESSAGE_FLAGS_REQUEST) 1
       CompCode"

definition IpmiGetMessageFlags ::
    "ipmi_hdr \<Rightarrow> 's submit \<Rightarrow> bytes \<Rightarrow> ('s, efi_status \<times> bytes) op" where
  "IpmiGetMessageFlags M submit GetMessageFlagsResponse =
     call_fixed M submit IPMI_NETFN_APP IPMI_APP_GET_MESSAGE_FLAGS None 0
       (sizeof M IPMI_GET_MESSAGE_FLAGS_RESPONSE) GetMessageFlagsResponse"

definition IpmiGetMessage ::
    "ipmi_hdr \<Rightarrow> 's submit \<Rightarrow> bytes \<Rightarrow> u32 \<Rightarrow> ('s, efi_status \<times> bytes \<times> u32) op" where
  "IpmiGetMessage M submit GetMessageResponse GetMessageResponseSize =
     submit (netfn_of M IPMI_NETFN_APP) (cmd_of M IPMI_APP_GET_MESSAGE) None 0
       GetMessageResponse GetMessageResponseSize"

definition IpmiSendMessage ::
    "ipmi_hdr \<Rightarrow> 's submit \<Rightarrow> bytes \<Rightarrow> u32 \<Rightarrow> bytes \<Rightarrow> u32 \<Rightarrow> ('s, efi_status \<times> bytes \<times> u32) op" where
  "IpmiSendMessage M submit SendMessageRequest SendMessageRequestSize SendMessageResponse
       SendMessageResponseSize =
     submit (netfn_of M IPMI_NETFN_APP) (cmd_of M IPMI_APP_SEND_MESSAGE)
       (Some SendMessageRequest) SendMessageRequestSize SendMessageResponse SendMessageResponseSize"

text \<open>
  \<open>EFI_GUID\<close>, and \<open>IPMI_GUID\<close> of \<open>IpmiFeature.h\<close>, which has the same members in the opposite
  order: in \<open>IPMI_GET_SYSTEM_GUID_RESPONSE\<close>, \<open>Data4\<close> starts at byte 1, \<open>Data3\<close> at 9, \<open>Data2\<close> at
  11 and \<open>Data1\<close> at 13.
\<close>

record efi_guid =
  Data1 :: u32
  Data2 :: u16
  Data3 :: u16
  Data4 :: bytes

definition IPMI_GET_SYSTEM_GUID_RESPONSE_SIZE :: nat where
  "IPMI_GET_SYSTEM_GUID_RESPONSE_SIZE = 17"

definition system_guid :: "bytes \<Rightarrow> efi_guid" where
  "system_guid GuidResponse =
     \<lparr>Data1 = of_nat (le_nat (take 4 (drop 13 GuidResponse))),
      Data2 = of_nat (le_nat (take 2 (drop 11 GuidResponse))),
      Data3 = of_nat (le_nat (take 2 (drop 9 GuidResponse))),
      Data4 = take 8 (drop 1 GuidResponse)\<rparr>"

definition IpmiGetSystemUuid ::
    "ipmi_hdr \<Rightarrow> 's submit \<Rightarrow> efi_guid option \<Rightarrow> ('s, efi_status \<times> efi_guid option) op" where
  "IpmiGetSystemUuid M submit SystemGuid s =
     (case SystemGuid of
        None \<Rightarrow> Some ((EFI_INVALID_PARAMETER, None), s)
      | Some g \<Rightarrow> do {
          ((Status, GuidResponse), s1) \<leftarrow>
             call_fixed M submit IPMI_NETFN_APP IPMI_APP_GET_SYSTEM_GUID None 0
               (sizeof M IPMI_GET_DEVICE_GUID_RESPONSE)
               (zero_mem IPMI_GET_SYSTEM_GUID_RESPONSE_SIZE) s;
          Some ((Status, Some (if EFI_ERROR Status then g else system_guid GuidResponse)), s1)
        })"

text \<open>
  The request is the single byte of \<open>IPMI_GET_SYSTEM_INTERFACE_CAPABILITY_REQUEST\<close>: four bits
  of type and four reserved ones.  The size of that structure, 1, is also what is passed as the
  size of the response.
\<close>

definition IpmiGetSystemInterfaceCapabilities ::
    "ipmi_hdr \<Rightarrow> 's submit \<Rightarrow> nat \<Rightarrow> bytes option \<Rightarrow> ('s, efi_status \<times> bytes option) op" where
  "IpmiGetSystemInterfaceCapabilities M submit Type GetSystemInterfaceResponse s =
     (case GetSystemInterfaceResponse of
        None \<Rightarrow> Some ((EFI_INVALID_PARAMETER, None), s)
      | Some Response \<Rightarrow> do {
          ((Status, Response1), s1) \<leftarrow>
             call_fixed M submit IPMI_NETFN_APP IPMI_APP_GET_SYSTEM_INTERFACE_CAPABILITIES
               (Some [of_nat (take_bit 4 Type)]) 1 1 Response s;
          Some ((Status, Some Response1), s1)
        })"

definition IpmiGetChannelInfo ::
    "ipmi_hdr \<Rightarrow> 's submit \<Rightarrow> bytes option \<Rightarrow> bytes option \<Rightarrow> u32 option \<Rightarrow>
       ('s, efi_status \<times> bytes option \<times> u32 option) op" where
  "IpmiGetChannelInfo M submit GetChannelInfoRequest GetChannelInfoResponse
       GetChannelInfoResponseSize s =
     (case (GetChannelInfoRequest, GetChannelInfoResponse, GetChannelInfoResponseSize) of
        (Some Request, Some Response, Some _) \<Rightarrow>
          map_option (\<lambda>((st, r, n), s1). ((st, Some r, Some n), s1))
            (submit (netfn_of M IPMI_NETFN_APP) (cmd_of M IPMI_APP_GET_CHANNEL_INFO) (Some Request)
               (struct_size M IPMI_GET_CHANNEL_INFO_REQUEST) Response
               (struct_size M IPMI_GET_CHANNEL_INFO_RESPONSE) s)
      | _ \<Rightarrow>
          Some ((EFI_INVALID_PARAMETER, GetChannelInfoResponse, GetChannelInfoResponseSize), s))"

subsection \<open>Storage commands\<close>

definition IpmiGetFruInventoryAreaInfo ::
    "ipmi_hdr \<Rightarrow> 's submit \<Rightarrow> bytes \<Rightarrow> bytes \<Rightarrow> ('s, efi_status \<times> bytes) op" where
  "IpmiGetFruInventoryAreaInfo M submit Request Response =
     call_fixed M submit IPMI_NETFN_STORAGE IPMI_STORAGE_GET_FRU_INVENTORY_AREAINFO (Some Request)
       (struct_size M IPMI_GET_FRU_INVENTORY_AREA_INFO_REQUEST) (sizeof M IPMI_GET_FRU_INVENTORY_AREA_INFO_RESPONSE) Response"

definition IpmiReadFruData ::
    "ipmi_hdr \<Rightarrow> 's submit \<Rightarrow> bytes \<Rightarrow> bytes \<Rightarrow> u32 \<Rightarrow> ('s, efi_status \<times> bytes \<times> u32) op" where
  "IpmiReadFruData M submit Request Response ResponseSize =
     submit (netfn_of M IPMI_NETFN_STORAGE) (cmd_of M IPMI_STORAGE_READ_FRU_DATA) (Some Request)
       (struct_size M IPMI_READ_FRU_DATA_REQUEST) Response ResponseSize"

definition IpmiWriteFruData ::
    "ipmi_hdr \<Rightarrow> 's submit \<Rightarrow> bytes \<Rightarrow> u32 \<Rightarrow> bytes \<Rightarrow> ('s, efi_status \<times> bytes) op" where
  "IpmiWriteFruData M submit Request RequestSize Response =
     call_fixed M submit IPMI_NETFN_STORAGE IPMI_STORAGE_WRITE_FRU_DATA (Some Request) RequestSize
       (sizeof M IPMI_WRITE_FRU_DATA_RESPONSE) Response"

definition IpmiGetSelInfo ::
    "ipmi_hdr \<Rightarrow> 's submit \<Rightarrow> bytes \<Rightarrow> ('s, efi_status \<times> bytes) op" where
  "IpmiGetSelInfo M submit Response =
     call_fixed M submit IPMI_NETFN_STORAGE IPMI_STORAGE_GET_SEL_INFO None 0
       (sizeof M IPMI_GET_SEL_INFO_RESPONSE) Response"

definition IpmiGetSelEntry ::
    "ipmi_hdr \<Rightarrow> 's submit \<Rightarrow> bytes \<Rightarrow> bytes \<Rightarrow> u32 \<Rightarrow> ('s, efi_status \<times> bytes \<times> u32) op" where
  "IpmiGetSelEntry M submit Request Response ResponseSize =
     submit (netfn_of M IPMI_NETFN_STORAGE) (cmd_of M IPMI_STORAGE_GET_SEL_ENTRY) (Some Request)
       (struct_size M IPMI_GET_SEL_ENTRY_REQUEST) Response ResponseSize"

text \<open>\<open>IpmiAddSelEntry\<close> of this library; the SEL library has a static routine of that name.\<close>

definition IpmiAddSelEntry_Cmd ::
    "ipmi_hdr \<Rightarrow> 's submit \<Rightarrow> bytes \<Rightarrow> bytes \<Rightarrow> ('s, efi_status \<times> bytes) op" where
  "IpmiAddSelEntry_Cmd M submit Request Response =
     call_fixed M submit IPMI_NETFN_STORAGE IPMI_STORAGE_ADD_SEL_ENTRY (Some Request)
       (struct_size M IPMI_ADD_SEL_ENTRY_REQUEST) (sizeof M IPMI_ADD_SEL_ENTRY_RESPONSE) Response"

definition IpmiPartialAddSelEntry ::
    "ipmi_hdr \<Rightarrow> 's submit \<Rightarrow> bytes \<Rightarrow> u32 \<Rightarrow> bytes \<Rightarrow> ('s, efi_status \<times> bytes) op" where
  "IpmiPartialAddSelEntry M submit Request RequestSize Response =
     call_fixed M submit IPMI_NETFN_STORAGE IPMI_STORAGE_PARTIAL_ADD_SEL_ENTRY (Some Request) RequestSize
       (sizeof M IPMI_PARTIAL_ADD_SEL_ENTRY_RESPONSE) Response"

definition IpmiClearSel ::
    "ipmi_hdr \<Rightarrow> 's submit \<Rightarrow> bytes \<Rightarrow> bytes \<Rightarrow> ('s, efi_status \<times> bytes) op" where
  "IpmiClearSel M submit Request Response =
     call_fixed M submit IPMI_NETFN_STORAGE IPMI_STORAGE_CLEAR_SEL (Some Request)
       (struct_size M IPMI_CLEAR_SEL_REQUEST) (sizeof M IPMI_CLEAR_SEL_RESPONSE) Response"

definition IpmiGetSelTime ::
    "ipmi_hdr \<Rightarrow> 's submit \<Rightarrow> bytes \<Rightarrow> ('s, efi_status \<times> bytes) op" where
  "IpmiGetSelTime M submit Response =
     call_fixed M submit IPMI_NETFN_STORAGE IPMI_STORAGE_GET_SEL_TIME None 0
       (sizeof M IPMI_GET_SEL_TIME_RESPONSE) Response"

definition IpmiSetSelTime ::
    "ipmi_hdr \<Rightarrow> 's submit \<Rightarrow> bytes \<Rightarrow> bytes \<Rightarrow> ('s, efi_status \<times> bytes) op" where
  "IpmiSetSelTime M submit Request CompCode =
     call_fixed M submit IPMI_NETFN_STORAGE IPMI_STORAGE_SET_SEL_TIME (Some Request)
       (struct_size M IPMI_SET_SEL_TIME_REQUEST) 1 CompCode"

definition IpmiGetSdrRepositoryInfo ::
    "ipmi_hdr \<Rightarrow> 's submit \<Rightarrow> bytes \<Rightarrow> ('s, efi_status \<times> bytes) op" where
  "IpmiGetSdrRepositoryInfo M submit Response =
     call_fixed M submit IPMI_NETFN_STORAGE IPMI_STORAGE_GET_SDR_REPOSITORY_INFO None 0
       (sizeof M IPMI_GET_SDR_REPOSITORY_INFO_RESPONSE) Response"

definition IpmiGetSdr ::
    "ipmi_hdr \<Rightarrow> 's submit \<Rightarrow> bytes \<Rightarrow> bytes \<Rightarrow> u32 \<Rightarrow> ('s, efi_status \<times> bytes \<times> u32) op" where
  "IpmiGetSdr M submit Request Response ResponseSize =
     submit (netfn_of M IPMI_NETFN_STORAGE) (cmd_of M IPMI_STORAGE_GET_SDR) (Some Request)
       (struct_size M IPMI_GET_SDR_REQUEST) Response ResponseSize"

subsection \<open>Chassis commands\<close>

definition IpmiGetChassisCapabilities ::
    "ipmi_hdr \<Rightarrow> 's submit \<Rightarrow> bytes \<Rightarrow> ('s, efi_status \<times> bytes) op" where
  "IpmiGetChassisCapabilities M submit Response =
     call_fixed M submit IPMI_NETFN_CHASSIS IPMI_CHASSIS_GET_CAPABILITIES None 0
       (sizeof M IPMI_GET_CHASSIS_CAPABILITIES_RESPONSE) Response"

definition IpmiGetChassisStatus ::
    "ipmi_hdr \<Rightarrow> 's submit \<Rightarrow> bytes \<Rightarrow> ('s, efi_status \<times> bytes) op" where
  "IpmiGetChassisStatus M submit Response =
     call_fixed M submit IPMI_NETFN_CHASSIS IPMI_CHASSIS_GET_STATUS None 0
       (sizeof M IPMI_GET_CHASSIS_STATUS_RESPONSE) Response"

definition IpmiChassisControl ::
    "ipmi_hdr \<Rightarrow> 's submit \<Rightarrow> bytes \<Rightarrow> bytes \<Rightarrow> ('s, efi_status \<times> bytes) op" where
  "IpmiChassisControl M submit Request CompCode =
     call_fixed M submit IPMI_NETFN_CHASSIS IPMI_CHASSIS_CONTROL (Some Request)
       (struct_size M IPMI_CHASSIS_CONTROL_REQUEST) 1 CompCode"

definition IpmiSetPowerRestorePolicy ::
    "ipmi_hdr \<Rightarrow> 's submit \<Rightarrow> bytes \<Rightarrow> bytes \<Rightarrow> ('s, efi_status \<times> bytes) op" where
  "IpmiSetPowerRestorePolicy M submit Request Response =
     call_fixed M submit IPMI_NETFN_CHASSIS IPMI_CHASSIS_SET_POWER_RESTORE_POLICY (Some Request)
       (struct_size M IPMI_SET_POWER_RESTORE_POLICY_REQUEST) (sizeof M IPMI_SET_POWER_RESTORE_POLICY_RESPONSE) Response"

definition IpmiSetSystemBootOptions ::
    "ipmi_hdr \<Rightarrow> 's submit \<Rightarrow> bytes \<Rightarrow> bytes \<Rightarrow> ('s, efi_status \<times> bytes) op" where
  "IpmiSetSystemBootOptions M submit Request Response =
     call_fixed M submit IPMI_NETFN_CHASSIS IPMI_CHASSIS_SET_SYSTEM_BOOT_OPTIONS (Some Request)
       (struct_size M IPMI_SET_BOOT_OPTIONS_REQUEST) (sizeof M IPMI_SET_BOOT_OPTIONS_RESPONSE) Response"

definition IpmiGetSystemBootOptions ::
    "ipmi_hdr \<Rightarrow> 's submit \<Rightarrow> bytes \<Rightarrow> bytes \<Rightarrow> ('s, efi_status \<times> bytes) op" where
  "IpmiGetSystemBootOptions M submit Request Response =
     call_fixed M submit IPMI_NETFN_CHASSIS IPMI_CHASSIS_GET_SYSTEM_BOOT_OPTIONS (Some Request)
       (struct_size M IPMI_GET_BOOT_OPTIONS_REQUEST) (sizeof M IPMI_GET_BOOT_OPTIONS_RESPONSE) Response"

subsection \<open>Transport commands\<close>

definition IpmiSolActivating ::
    "ipmi_hdr \<Rightarrow> 's submit \<Rightarrow> bytes \<Rightarrow> bytes \<Rightarrow> ('s, efi_status \<times> bytes) op" where
  "IpmiSolActivating M submit Request CompCode =
     call_fixed M submit IPMI_NETFN_TRANSPORT IPMI_TRANSPORT_SOL_ACTIVATING (Some Request)
       (struct_size M IPMI_SOL_ACTIVATING_REQUEST) 1 CompCode"

definition IpmiSetSolConfigurationParameters ::
    "ipmi_hdr \<Rightarrow> 's submit \<Rightarrow> bytes \<Rightarrow> u32 \<Rightarrow> bytes \<Rightarrow> ('s, efi_status \<times> bytes) op" where
  "IpmiSetSolConfigurationParameters M submit Request RequestSize CompCode =
     call_fixed M submit IPMI_NETFN_TRANSPORT IPMI_TRANSPORT_SET_SOL_CONFIG_PARAM (Some Request) RequestSize
       1 CompCode"

definition IpmiGetSolConfigurationParameters ::
    "ipmi_hdr \<Rightarrow> 's submit \<Rightarrow> bytes \<Rightarrow> bytes \<Rightarrow> u32 \<Rightarrow> ('s, efi_status \<times> bytes \<times> u32) op" where
  "IpmiGetSolConfigurationParameters M submit Request Response ResponseSize =
     submit (netfn_of M IPMI_NETFN_TRANSPORT) (cmd_of M IPMI_TRANSPORT_GET_SOL_CONFIG_PARAM) (Some Request)
       (struct_size M IPMI_GET_SOL_CONFIGURATION_PARAMETERS_REQUEST) Response ResponseSize"

definition IpmiGetLanConfigurationParameters ::
    "ipmi_hdr \<Rightarrow> 's submit \<Rightarrow> bytes option \<Rightarrow> bytes option \<Rightarrow> u32 option \<Rightarrow>
       ('s, efi_status \<times> bytes option \<times> u32 option) op" where
  "IpmiGetLanConfigurationParameters M submit Request Response ResponseSize s =
     (case (Request, Response, ResponseSize) of
        (Some Q, Some R, Some n) \<Rightarrow>
          map_option (\<lambda>((st, r, n), s1). ((st, Some r, Some n), s1))
            (submit (netfn_of M IPMI_NETFN_TRANSPORT) (cmd_of M IPMI_TRANSPORT_GET_LAN_CONFIG_PARAMETERS)
               (Some Q) (struct_size M IPMI_GET_LAN_CONFIGURATION_PARAMETERS_REQUEST) R n s)
      | _ \<Rightarrow> Some ((EFI_INVALID_PARAMETER, Response, ResponseSize), s))"

subsection \<open>Sensor commands\<close>

definition IpmiSetSensorThreshold ::
    "ipmi_hdr \<Rightarrow> 's submit \<Rightarrow> bytes option \<Rightarrow> bytes option \<Rightarrow> ('s, efi_status \<times> bytes option) op" where
  "IpmiSetSensorThreshold M submit RequestData CompCode s =
     (case (RequestData, CompCode) of
        (Some Q, Some R) \<Rightarrow>
          map_option (\<lambda>((st, r), s1). ((st, Some r), s1))
            (call_fixed M submit IPMI_NETFN_SENSOR_EVENT IPMI_SENSOR_SET_SENSOR_THRESHOLDS (Some Q)
               (struct_size M IPMI_SENSOR_SET_SENSOR_THRESHOLD_REQUEST_DATA) 1 R s)
      | _ \<Rightarrow> Some ((EFI_INVALID_PARAMETER, CompCode), s))"

text \<open>
  The source takes the address of its own parameter, \<open>&GetSensorThresholdResponse\<close>, so what is
  zeroed and what receives the reply is the memory that holds the pointer (\<open>Frame\<close>, from the
  parameter on); the caller's structure is not accessed at all.
\<close>

definition IpmiGetSensorThreshold ::
    "ipmi_hdr \<Rightarrow> 's submit \<Rightarrow> bytes \<Rightarrow> u8 \<Rightarrow> bytes option \<Rightarrow>
       ('s, efi_status \<times> bytes option \<times> bytes) op" where
  "IpmiGetSensorThreshold M submit Frame SensorNumber GetSensorThresholdResponse s =
     (case GetSensorThresholdResponse of
        None \<Rightarrow> Some ((EFI_INVALID_PARAMETER, None, Frame), s)
      | Some Response \<Rightarrow>
          (let size = sizeof M IPMI_SENSOR_GET_SENSOR_THRESHOLD_RESPONSE_DATA in
           map_option (\<lambda>((st, Frame1), s1). ((st, Some Response, Frame1), s1))
             (call_fixed M submit IPMI_NETFN_SENSOR_EVENT IPMI_SENSOR_GET_SENSOR_THRESHOLDS
                (Some [SensorNumber]) 1 size (copy_mem Frame 0 (zero_mem size)) s)))"

section \<open>The library over a lawful provider\<close>

text \<open>
  The routines with a response of fixed size, each with that size: those without a request, those with
  a request of fixed size and those whose request size the caller passes.
\<close>

definition command_gets :: "ipmi_hdr \<Rightarrow> 's submit \<Rightarrow> ((bytes \<Rightarrow> ('s, efi_status \<times> bytes) op) \<times> nat) list" where
  "command_gets M submit =
     [(IpmiGetDeviceId M submit, sizeof M IPMI_GET_DEVICE_ID_RESPONSE),
      (IpmiGetSelfTestResult M submit, sizeof M IPMI_SELF_TEST_RESULT_RESPONSE),
      (IpmiResetWatchdogTimer M submit, 1),
      (IpmiGetWatchdogTimer M submit, sizeof M IPMI_GET_WATCHDOG_TIMER_RESPONSE),
      (IpmiGetBmcGlobalEnables M submit, sizeof M IPMI_GET_BMC_GLOBAL_ENABLES_RESPONSE),
      (IpmiGetMessageFlags M submit, sizeof M IPMI_GET_MESSAGE_FLAGS_RESPONSE),
      (IpmiGetSelInfo M submit, sizeof M IPMI_GET_SEL_INFO_RESPONSE),
      (IpmiGetSelTime M submit, sizeof M IPMI_GET_SEL_TIME_RESPONSE),
      (IpmiGetSdrRepositoryInfo M submit, sizeof M IPMI_GET_SDR_REPOSITORY_INFO_RESPONSE),
      (IpmiGetChassisCapabilities M submit, sizeof M IPMI_GET_CHASSIS_CAPABILITIES_RESPONSE),
      (IpmiGetChassisStatus M submit, sizeof M IPMI_GET_CHASSIS_STATUS_RESPONSE)]"

definition command_sets ::
    "ipmi_hdr \<Rightarrow> 's submit \<Rightarrow> bytes \<Rightarrow> ((bytes \<Rightarrow> ('s, efi_status \<times> bytes) op) \<times> nat) list" where
  "command_sets M submit Q =
     [(IpmiSetWatchdogTimer M submit Q, 1), (IpmiSetBmcGlobalEnables M submit Q, 1),
      (IpmiClearMessageFlags M submit Q, 1), (IpmiSetSelTime M submit Q, 1),
      (IpmiChassisControl M submit Q, 1), (IpmiSolActivating M submit Q, 1),
      (IpmiGetFruInventoryAreaInfo M submit Q, sizeof M IPMI_GET_FRU_INVENTORY_AREA_INFO_RESPONSE),
      (IpmiAddSelEntry_Cmd M submit Q, sizeof M IPMI_ADD_SEL_ENTRY_RESPONSE),
      (IpmiClearSel M submit Q, sizeof M IPMI_CLEAR_SEL_RESPONSE),
      (IpmiSetPowerRestorePolicy M submit Q, sizeof M IPMI_SET_POWER_RESTORE_POLICY_RESPONSE),
      (IpmiSetSystemBootOptions M submit Q, sizeof M IPMI_SET_BOOT_OPTIONS_RESPONSE),
      (IpmiGetSystemBootOptions M submit Q, sizeof M IPMI_GET_BOOT_OPTIONS_RESPONSE)]"

definition command_writes ::
    "ipmi_hdr \<Rightarrow> 's submit \<Rightarrow> bytes \<Rightarrow> u32 \<Rightarrow> ((bytes \<Rightarrow> ('s, efi_status \<times> bytes) op) \<times> nat) list" where
  "command_writes M submit Q n =
     [(IpmiWriteFruData M submit Q n, sizeof M IPMI_WRITE_FRU_DATA_RESPONSE),
      (IpmiPartialAddSelEntry M submit Q n, sizeof M IPMI_PARTIAL_ADD_SEL_ENTRY_RESPONSE),
      (IpmiSetSolConfigurationParameters M submit Q n, 1)]"

text \<open>The routines whose response size the caller passes, in and out.\<close>

definition command_sized ::
    "ipmi_hdr \<Rightarrow> 's submit \<Rightarrow> bytes \<Rightarrow> u32 \<Rightarrow> (bytes \<Rightarrow> u32 \<Rightarrow> ('s, efi_status \<times> bytes \<times> u32) op) list" where
  "command_sized M submit Q n =
     [IpmiGetMessage M submit, IpmiSendMessage M submit Q n, IpmiReadFruData M submit Q, IpmiGetSelEntry M submit Q,
      IpmiGetSdr M submit Q, IpmiGetSolConfigurationParameters M submit Q]"

text \<open>What a routine does to the response memory, given the memory and the size the caller passes, and
  the number of bytes it may use.\<close>

type_synonym 's routine = "(bytes \<Rightarrow> u32 \<Rightarrow> ('s, efi_status \<times> bytes) op) \<times> (u32 \<Rightarrow> nat)"

definition command_checked :: "ipmi_hdr \<Rightarrow> 's submit \<Rightarrow> bytes \<Rightarrow> nat \<Rightarrow> 's routine list" where
  "command_checked M submit Q Type =
     [(\<lambda>R w s. map_option (\<lambda>((st, R'), s'). ((st, the R'), s'))
         (IpmiGetSystemInterfaceCapabilities M submit Type (Some R) s), \<lambda>w. 1),
      (\<lambda>R w s. map_option (\<lambda>((st, R'), s'). ((st, the R'), s'))
         (IpmiSetSensorThreshold M submit (Some Q) (Some R) s), \<lambda>w. 1),
      (\<lambda>R w s. map_option (\<lambda>((st, R', z), s'). ((st, the R'), s'))
         (IpmiGetChannelInfo M submit (Some Q) (Some R) (Some w) s), \<lambda>w. sizeof M IPMI_GET_CHANNEL_INFO_RESPONSE),
      (\<lambda>R w s. map_option (\<lambda>((st, R', z), s'). ((st, the R'), s'))
         (IpmiGetLanConfigurationParameters M submit (Some Q) (Some R) (Some w) s), unat)]"

definition command_routines :: "ipmi_hdr \<Rightarrow> 's submit \<Rightarrow> bytes \<Rightarrow> u32 \<Rightarrow> nat \<Rightarrow> 's routine list" where
  "command_routines M submit Q n Type =
     map (\<lambda>(call, k). (\<lambda>R w. call R, \<lambda>w. k))
       (command_gets M submit @ command_sets M submit Q @ command_writes M submit Q n) @
     map (\<lambda>call. (\<lambda>R w s. map_option (\<lambda>((st, R', z), s'). ((st, R'), s')) (call R w s), unat))
       (command_sized M submit Q n) @
     command_checked M submit Q Type"

lemmas command_get_defs =
  IpmiGetDeviceId_def IpmiGetSelfTestResult_def IpmiResetWatchdogTimer_def IpmiGetWatchdogTimer_def
  IpmiGetBmcGlobalEnables_def IpmiGetMessageFlags_def IpmiGetSelInfo_def IpmiGetSelTime_def
  IpmiGetSdrRepositoryInfo_def IpmiGetChassisCapabilities_def IpmiGetChassisStatus_def

lemmas command_set_defs =
  IpmiSetWatchdogTimer_def IpmiSetBmcGlobalEnables_def IpmiClearMessageFlags_def IpmiSetSelTime_def
  IpmiChassisControl_def IpmiSolActivating_def IpmiGetFruInventoryAreaInfo_def
  IpmiAddSelEntry_Cmd_def IpmiClearSel_def IpmiSetPowerRestorePolicy_def
  IpmiSetSystemBootOptions_def IpmiGetSystemBootOptions_def

lemma call_fixed_eq:
  "call_fixed M submit nf c Q n k R s = Some ((st, R'), s') \<longleftrightarrow>
     (\<exists>z. submit (netfn_of M nf) (cmd_of M c) Q n R (of_nat k) s = Some ((st, R', z), s'))"
  by (auto simp: call_fixed_def)

text \<open>One command, with a request the driver's buffer can hold, whose response goes to the caller's memory.\<close>

definition one_command :: "'s submit \<Rightarrow> 's routine \<Rightarrow> bool" where
  "one_command submit r \<longleftrightarrow>
     (\<forall>R w s. \<exists>nf c d n z. fst r R w s = map_option (\<lambda>((st, R', z'), s'). ((st, R'), s')) (submit nf c d n R z s) \<and>
        unat n \<le> 253 \<and> unat z = snd r w)"

lemma one_commandI:
  assumes "\<And>R w s. f R w s = map_option (\<lambda>((st, R', z'), s'). ((st, R'), s')) (submit nf c d n R (z w) s)"
    and "unat n \<le> 253" "\<And>w. unat (z w) = k w"
  shows "one_command submit (f, k)"
  using assms unfolding one_command_def by (metis fst_conv snd_conv)

lemma one_command_run:
  assumes "one_command submit (call, limit)" "call R w s = Some ((st, R'), s')"
  shows "\<exists>nf c d n z z'. submit nf c d n R z s = Some ((st, R', z'), s') \<and> unat n \<le> 253 \<and> unat z = limit w"
proof -
  obtain nf c d n z where "call R w s = map_option (\<lambda>((st, R', z'), s'). ((st, R'), s')) (submit nf c d n R z s)"
    and "unat n \<le> 253" "unat z = limit w"
    using assms(1) unfolding one_command_def fst_conv snd_conv by blast
  moreover from this obtain z' where "submit nf c d n R z s = Some ((st, R', z'), s')"
    using assms(2) by (cases "submit nf c d n R z s") auto
  ultimately show ?thesis by blast
qed

lemma one_command_fixed:
  "k < 250 \<Longrightarrow> unat n \<le> 253 \<Longrightarrow> one_command submit (\<lambda>R w. call_fixed M submit nf c d n k R, \<lambda>w. k)"
  by (rule one_commandI [where z = "\<lambda>w. of_nat k"]) (auto simp: call_fixed_def unat_of_nat)

lemma one_command_sized:
  "unat n \<le> 253 \<Longrightarrow>
     one_command submit (\<lambda>R w s. map_option (\<lambda>((st, R', z), s'). ((st, R'), s')) (submit nf c d n R w s), unat)"
  by (rule one_commandI [where z = "\<lambda>w. w"]) auto

lemma checked_calls:
  "map_option (\<lambda>((st, R'), s'). ((st, the R'), s'))
     (IpmiGetSystemInterfaceCapabilities M submit Type (Some R) s) =
   call_fixed M submit IPMI_NETFN_APP IPMI_APP_GET_SYSTEM_INTERFACE_CAPABILITIES
     (Some [of_nat (take_bit 4 Type)]) 1 1 R s"
  "map_option (\<lambda>((st, R'), s'). ((st, the R'), s')) (IpmiSetSensorThreshold M submit (Some Q) (Some R) s) =
   call_fixed M submit IPMI_NETFN_SENSOR_EVENT IPMI_SENSOR_SET_SENSOR_THRESHOLDS (Some Q)
     (struct_size M IPMI_SENSOR_SET_SENSOR_THRESHOLD_REQUEST_DATA) 1 R s"
  "map_option (\<lambda>((st, R', z), s'). ((st, the R'), s'))
     (IpmiGetChannelInfo M submit (Some Q) (Some R) (Some w) s) =
   call_fixed M submit IPMI_NETFN_APP IPMI_APP_GET_CHANNEL_INFO (Some Q)
     (struct_size M IPMI_GET_CHANNEL_INFO_REQUEST) (sizeof M IPMI_GET_CHANNEL_INFO_RESPONSE) R s"
  "map_option (\<lambda>((st, R', z), s'). ((st, the R'), s'))
     (IpmiGetLanConfigurationParameters M submit (Some Q) (Some R) (Some w) s) =
   map_option (\<lambda>((st, R', z), s'). ((st, R'), s'))
     (submit (netfn_of M IPMI_NETFN_TRANSPORT) (cmd_of M IPMI_TRANSPORT_GET_LAN_CONFIG_PARAMETERS)
        (Some Q) (struct_size M IPMI_GET_LAN_CONFIGURATION_PARAMETERS_REQUEST) R w s)"
  by (auto simp: IpmiGetSystemInterfaceCapabilities_def IpmiSetSensorThreshold_def IpmiGetChannelInfo_def
      IpmiGetLanConfigurationParameters_def call_fixed_def option.map_comp comp_def case_prod_unfold
      map_option_case split: option.split)

lemma hdr_ok_sizeof: "hdr_ok M \<Longrightarrow> sizeof M S < 250"
  by (simp add: hdr_ok_def)

lemma command_shape:
  assumes "hdr_ok M" "unat n \<le> 253" "r \<in> set (command_routines M submit Q n Type)"
  shows "one_command submit r"
proof -
  have S: "sizeof M S < 250" for S by (rule hdr_ok_sizeof [OF assms(1)])
  have len: "unat (of_nat (sizeof M S) :: u32) \<le> 253" for S
    using S [of S] by (simp add: unat_of_nat)
  show ?thesis
    using assms(2,3) unfolding command_routines_def command_gets_def command_sets_def command_writes_def
      command_sized_def command_checked_def checked_calls command_get_defs command_set_defs
    by (auto simp: S IpmiWriteFruData_def IpmiPartialAddSelEntry_def IpmiSetSolConfigurationParameters_def
        IpmiGetMessage_def IpmiSendMessage_def IpmiReadFruData_def IpmiGetSelEntry_def IpmiGetSdr_def
        IpmiGetSolConfigurationParameters_def intro!: one_command_fixed one_command_sized len)
qed

context ipmi_submit
begin

lemma call_fixed_frame:
  assumes "call_fixed M submit nf c d n k R s = Some ((st, R'), s')" "Inv s" "unat n \<le> 253" "k < 250"
  shows "Inv s'" "st \<noteq> EFI_SUCCESS \<Longrightarrow> R' = R" "drop (k + 1) R' = drop (k + 1) R"
    "k < length R \<Longrightarrow> length R' = length R"
proof -
  obtain z where run: "submit (netfn_of M nf) (cmd_of M c) d n R (of_nat k) s = Some ((st, R', z), s')"
    using assms(1) by (auto simp: call_fixed_eq)
  have k: "unat (of_nat k :: u32) = k" using assms(4) by (simp add: unat_of_nat)
  show "Inv s'" by (rule submit_inv [OF run assms(2,3)])
  show "st \<noteq> EFI_SUCCESS \<Longrightarrow> R' = R" by (rule submit_failed [OF run assms(2,3)])
  show "drop (k + 1) R' = drop (k + 1) R" "k < length R \<Longrightarrow> length R' = length R"
    using submit_frame [OF run assms(2,3)] k by simp_all
qed

text \<open>The routines that read a response into memory of their own, or of nobody.\<close>

lemma uuid_memory:
  assumes "IpmiGetSystemUuid M submit (Some g) s = Some ((st, g'), s')" "Inv s" "hdr_ok M"
  shows "Inv s'" "EFI_ERROR st \<Longrightarrow> g' = Some g"
  using assms(1) hdr_ok_sizeof [OF assms(3)]
  by (auto simp: IpmiGetSystemUuid_def bind_eq_Some_conv intro: call_fixed_frame(1) [OF _ assms(2)])

lemma threshold_memory:
  assumes "IpmiGetSensorThreshold M submit Frame nr (Some R) s = Some ((st, R', Frame'), s')" "Inv s" "hdr_ok M"
    and "k = sizeof M IPMI_SENSOR_GET_SENSOR_THRESHOLD_RESPONSE_DATA"
  shows "Inv s'" "R' = Some R" "drop (k + 1) Frame' = drop (k + 1) Frame"
  using assms(1,4) hdr_ok_sizeof [OF assms(3)]
  by (auto simp: IpmiGetSensorThreshold_def Let_def copy_mem_def zero_mem_def
      dest: call_fixed_frame(1,3) [OF _ assms(2)])

end

text \<open>C33 The memory discipline of the command library: every one of its routines, over any lawful
  provider of \<open>IpmiSubmitCommand\<close>, with any request of at most 253 bytes.  The state below keeps its
  invariant, a call that does not succeed leaves the caller's memory alone, and one that succeeds
  changes at most one byte behind the response structure, or behind the size the caller passes, and
  never grows memory that is larger than that.  \<open>IpmiGetSystemUuid\<close>, whose response is a local,
  leaves the caller's GUID alone on an error; \<open>IpmiGetSensorThreshold\<close> never writes the caller's
  structure at all, but its own stack frame, from its pointer parameter on, for the size of that
  structure and at most one byte more.\<close>

theorem command_lib_memory:
  assumes "ipmi_submit submit Inv" "hdr_ok M" "Inv s" "unat RequestSize \<le> 253"
  shows "((call, limit) \<in> set (command_routines M submit Request RequestSize Type) \<longrightarrow>
      call Response w s = Some ((st, Response'), s') \<longrightarrow>
        Inv s' \<and>
        (if st = EFI_SUCCESS then drop (limit w + 1) Response' = drop (limit w + 1) Response
         else Response' = Response) \<and>
        (limit w < length Response \<longrightarrow> length Response' = length Response)) \<and>
    (IpmiGetSystemUuid M submit (Some g) s = Some ((st, g'), s') \<longrightarrow>
        Inv s' \<and> (EFI_ERROR st \<longrightarrow> g' = Some g)) \<and>
    (IpmiGetSensorThreshold M submit Frame nr (Some Response) s = Some ((st, R', Frame'), s') \<longrightarrow>
        Inv s' \<and> R' = Some Response \<and>
        drop (sizeof M IPMI_SENSOR_GET_SENSOR_THRESHOLD_RESPONSE_DATA + 1) Frame' =
          drop (sizeof M IPMI_SENSOR_GET_SENSOR_THRESHOLD_RESPONSE_DATA + 1) Frame)"
proof (intro conjI impI)
  assume routine: "(call, limit) \<in> set (command_routines M submit Request RequestSize Type)"
    and run: "call Response w s = Some ((st, Response'), s')"
  obtain nf c d n z z' where call: "submit nf c d n Response z s = Some ((st, Response', z'), s')"
    and n: "unat n \<le> 253" and z: "unat z = limit w"
    using one_command_run [OF command_shape [OF assms(2,4) routine] run] by blast
  show "Inv s'" by (rule ipmi_submit.submit_inv [OF assms(1) call assms(3) n])
  show "if st = EFI_SUCCESS then drop (limit w + 1) Response' = drop (limit w + 1) Response
      else Response' = Response"
    using ipmi_submit.submit_frame(1) [OF assms(1) call assms(3) n]
      ipmi_submit.submit_failed [OF assms(1) call assms(3) n] z by simp
  show "length Response' = length Response" if "limit w < length Response"
    using ipmi_submit.submit_frame(2) [OF assms(1) call assms(3) n] z that by simp
next
  assume run: "IpmiGetSystemUuid M submit (Some g) s = Some ((st, g'), s')"
  show "Inv s'" by (rule ipmi_submit.uuid_memory(1) [OF assms(1) run assms(3,2)])
  show "g' = Some g" if "EFI_ERROR st" by (rule ipmi_submit.uuid_memory(2) [OF assms(1) run assms(3,2) that])
next
  let ?size = "sizeof M IPMI_SENSOR_GET_SENSOR_THRESHOLD_RESPONSE_DATA"
  assume run: "IpmiGetSensorThreshold M submit Frame nr (Some Response) s = Some ((st, R', Frame'), s')"
  note memory = ipmi_submit.threshold_memory [OF assms(1) run assms(3,2) refl]
  show "Inv s'" "R' = Some Response" "drop (?size + 1) Frame' = drop (?size + 1) Frame" by (rule memory)+
qed

theorem command_lib_memory_witness:
  "\<exists>R m. IpmiGetSelTime ipmi_v2 (IpmiSubmitCommand_Mock ipmi_v2) (replicate 8 7) (mock_reset ipmi_v2) =
      Some ((EFI_SUCCESS, R), m) \<and> mock_ok ipmi_v2 m \<and> drop 6 R = replicate 2 7 \<and> length R = 8"
proof -
  let ?call = "IpmiGetSelTime ipmi_v2 (IpmiSubmitCommand_Mock ipmi_v2)"
  obtain R m where "IpmiSubmitCommand_Mock ipmi_v2 (netfn_of ipmi_v2 IPMI_NETFN_STORAGE)
      (cmd_of ipmi_v2 IPMI_STORAGE_GET_SEL_TIME) None (of_nat (length [])) (replicate 8 7) 5 (mock_reset ipmi_v2) =
      Some ((EFI_SUCCESS, R, of_nat 5), m)"
    using mock_direct.reply_get_time [of "mock_reset ipmi_v2"]
      mock_direct.answers [of "mock_reset ipmi_v2" _ _ "[]" _ _ None 5 "replicate 8 7"]
    by fastforce
  then have run: "?call (replicate 8 7) (mock_reset ipmi_v2) = Some ((EFI_SUCCESS, R), m)"
    by (simp add: IpmiGetSelTime_def call_fixed_eq)
  have mem: "(\<lambda>R w. ?call R, \<lambda>w. 5) \<in> set (command_routines ipmi_v2 (IpmiSubmitCommand_Mock ipmi_v2) [] 0 0)"
    by (simp add: command_routines_def command_gets_def)
  show ?thesis
    using run mem command_lib_memory [where Inv = "mock_ok ipmi_v2" and call = "\<lambda>R w. ?call R" and limit = "\<lambda>w. 5"
        and Response = "replicate 8 7" and Request = "[]" and RequestSize = 0 and Type = 0 and st = EFI_SUCCESS
        and Response' = R and s' = m, OF mock_base.ipmi_submit_axioms ipmi_v2_ok mock_reset_ok]
    by simp
qed

text \<open>The GUID of the system arrives in the member order of \<open>EFI_GUID\<close>: a BMC that sends the
  members of a GUID in the order of the IPMI specification (least significant byte first, so
  \<open>Data4\<close>, \<open>Data3\<close>, \<open>Data2\<close>, \<open>Data1\<close>) gives the caller that GUID.\<close>

theorem IpmiGetSystemUuid_order:
  assumes "sizeof M IPMI_GET_DEVICE_GUID_RESPONSE = 17" "length (Data4 g) = 8"
    and "submit (netfn_of M IPMI_NETFN_APP) (cmd_of M IPMI_APP_GET_SYSTEM_GUID) None 0 (zero_mem 17) 17 s =
      Some ((EFI_SUCCESS, c # Data4 g @ le16 (Data3 g) @ le16 (Data2 g) @ le32 (Data1 g), z), s')"
  shows "IpmiGetSystemUuid M submit (Some g0) s = Some ((EFI_SUCCESS, Some g), s')"
  using assms
  by (simp add: IpmiGetSystemUuid_def call_fixed_def IPMI_GET_SYSTEM_GUID_RESPONSE_SIZE_def
      system_guid_def)

theorem IpmiGetSystemUuid_order_witness:
  "IpmiGetSystemUuid ipmi_v2
     (\<lambda>nf c d n buf sz s. Some ((EFI_SUCCESS, 0 # [1, 2, 3, 4, 5, 6, 7, 8] @ le16 9 @ le16 10 @ le32 11, 17), s))
     (Some \<lparr>Data1 = 0, Data2 = 0, Data3 = 0, Data4 = []\<rparr>) () =
   Some ((EFI_SUCCESS, Some \<lparr>Data1 = 11, Data2 = 10, Data3 = 9, Data4 = [1, 2, 3, 4, 5, 6, 7, 8]\<rparr>), ())"
  by (rule IpmiGetSystemUuid_order) simp_all

text \<open>What the BMC says about its system interface never arrives: the size of the request is passed
  as the size of the response, so over any lawful provider of \<open>IpmiSubmitCommand\<close> everything from
  the interface version on, the message sizes included, is what the caller's structure held
  before.\<close>

theorem interface_capabilities_stale:
  assumes "ipmi_submit submit Inv" "Inv s"
    and "IpmiGetSystemInterfaceCapabilities M submit Type (Some Response) s =
           Some ((st, Some Response'), s')"
  shows "drop 2 Response' = drop 2 Response"
  using ipmi_submit.call_fixed_frame(3) [OF assms(1), of M IPMI_NETFN_APP
      IPMI_APP_GET_SYSTEM_INTERFACE_CAPABILITIES "Some [of_nat (take_bit 4 Type)]" 1 1 Response s st
      Response' s'] assms(2,3)
  by (auto simp: IpmiGetSystemInterfaceCapabilities_def bind_eq_Some_conv numeral_2_eq_2)

theorem interface_capabilities_stale_witness:
  "IpmiGetSystemInterfaceCapabilities ipmi_v2 IpmiSubmitCommand_Null 0 (Some [1, 2, 3, 4, 5]) () =
     Some ((EFI_SUCCESS, Some [1, 2, 3, 4, 5]), ()) \<and> drop 2 [1, 2, 3, 4, 5 :: u8] = [3, 4, 5]"
proof -
  have run: "IpmiGetSystemInterfaceCapabilities ipmi_v2 IpmiSubmitCommand_Null 0 (Some [1, 2, 3, 4, 5]) () =
     Some ((EFI_SUCCESS, Some [1, 2, 3, 4, 5]), ())"
    by (simp add: IpmiGetSystemInterfaceCapabilities_def call_fixed_def IpmiSubmitCommand_Null_def)
  show ?thesis
    using run interface_capabilities_stale [OF null_submit.ipmi_submit_axioms TrueI run] by simp
qed

end
