(* ===== verification/Wdt_Bmc.thy ===== *)
theory Wdt_Bmc
  imports Command_Lib
begin

section \<open>The contract between the watchdog library and a BMC\<close>

text \<open>
  The BMC watchdog timer as \<open>Set\<close>, \<open>Reset\<close> and \<open>Get Watchdog Timer\<close> see it, and the proof that
  the mock keeps the contract behind both interfaces.  In the mock a timer that runs loses one
  tick with every \<open>Get\<close>, and nothing happens when it reaches zero.
\<close>

unbundle bit_operations_syntax

record wdt =
  wdt_use :: nat
  wdt_action :: nat
  wdt_flags :: u8
  wdt_initial :: nat
  wdt_present :: nat
  wdt_running :: bool

definition wdt_of :: "ipmi_hdr \<Rightarrow> bytes \<Rightarrow> wdt" where
  "wdt_of M W =
     \<lparr>wdt_use = fget M 0 GetWdt_TimerUse W, wdt_action = fget M 0 GetWdt_TimeoutAction W,
      wdt_flags = fget8 M 0 GetWdt_ExpirationFlagsClear W,
      wdt_initial = fget M 0 GetWdt_InitialCountdownValue W,
      wdt_present = fget M 0 GetWdt_PresentCountdownValue W,
      wdt_running = (fget M 0 GetWdt_TimerRunning W \<noteq> 0)\<rparr>"

definition wdt_tick :: "wdt \<Rightarrow> wdt" where
  "wdt_tick w = (if wdt_running w \<and> 0 < wdt_present w then w\<lparr>wdt_present := wdt_present w - 1\<rparr> else w)"

definition wdt_set :: "ipmi_hdr \<Rightarrow> bytes \<Rightarrow> wdt \<Rightarrow> wdt" where
  "wdt_set M d w =
     \<lparr>wdt_use = fget M 0 SetWdt_TimerUse d, wdt_action = fget M 0 SetWdt_TimeoutAction d,
      wdt_flags = wdt_flags w AND NOT (fget8 M 0 SetWdt_ExpirationFlagsClear d),
      wdt_initial = fget M 0 SetWdt_InitialCountdownValue d,
      wdt_present = fget M 0 SetWdt_InitialCountdownValue d, wdt_running = False\<rparr>"

definition wdt_reset :: "wdt \<Rightarrow> wdt" where
  "wdt_reset w = w\<lparr>wdt_running := True, wdt_present := wdt_initial w\<rparr>"

locale wdt_bmc =
  fixes M :: ipmi_hdr and submit :: "'s submit" and ok :: "'s \<Rightarrow> bool" and wdt :: "'s \<Rightarrow> wdt"
  assumes hdr_wdt: "hdr_ok M"
    and get_wdt:
      "ok s \<Longrightarrow> length buf = sizeof M IPMI_GET_WATCHDOG_TIMER_RESPONSE \<Longrightarrow>
         \<exists>R s'. submit (netfn_of M IPMI_NETFN_APP) (cmd_of M IPMI_APP_GET_WATCHDOG_TIMER) None 0 buf
             (of_nat (sizeof M IPMI_GET_WATCHDOG_TIMER_RESPONSE)) s =
             Some ((EFI_SUCCESS, R, of_nat (sizeof M IPMI_GET_WATCHDOG_TIMER_RESPONSE)), s') \<and>
           length R = sizeof M IPMI_GET_WATCHDOG_TIMER_RESPONSE \<and>
           fget8 M 0 CompletionCode R = cc_of M IPMI_COMP_CODE_NORMAL \<and> wdt_of M R = wdt s' \<and>
           wdt s' = wdt_tick (wdt s) \<and> ok s'"
    and set_wdt:
      "ok s \<Longrightarrow> length d = sizeof M IPMI_SET_WATCHDOG_TIMER_REQUEST \<Longrightarrow>
         \<exists>s'. submit (netfn_of M IPMI_NETFN_APP) (cmd_of M IPMI_APP_SET_WATCHDOG_TIMER) (Some d)
             (of_nat (sizeof M IPMI_SET_WATCHDOG_TIMER_REQUEST)) [b] 1 s =
             Some ((EFI_SUCCESS, [cc_of M IPMI_COMP_CODE_NORMAL], 1), s') \<and>
           wdt s' = wdt_set M d (wdt s) \<and> ok s'"
    and reset_wdt:
      "ok s \<Longrightarrow>
         \<exists>s'. submit (netfn_of M IPMI_NETFN_APP) (cmd_of M IPMI_APP_RESET_WATCHDOG_TIMER) None 0 [b] 1 s =
             Some ((EFI_SUCCESS, [cc_of M IPMI_COMP_CODE_NORMAL], 1), s') \<and>
           wdt s' = wdt_reset (wdt s) \<and> ok s'"

subsection \<open>The mock keeps the contract\<close>

context mock_provider
begin

lemma answers_byte:
  assumes "ok s" "mock_reply M (netfn_of M f) c d (bmc s) = Some ([cc_of M IPMI_COMP_CODE_NORMAL], m')"
    "length d \<le> 252" "case cd of None \<Rightarrow> d = [] | Some d' \<Rightarrow> d' = d"
  shows "\<exists>s'. submit (netfn_of M f) c cd (of_nat (length d)) [b] 1 s =
      Some ((EFI_SUCCESS, [cc_of M IPMI_COMP_CODE_NORMAL], 1), s') \<and> ok s' \<and> bmc s' = m'"
  using answers [OF assms(1,2) _ hdr_ok_netfn [OF hdr] assms(3,4), of 1 "[b]"] by (auto simp: copy_mem_def)

lemma watchdog_len: "ok s \<Longrightarrow> length (mWatchdog (bmc s)) = sizeof M IPMI_GET_WATCHDOG_TIMER_RESPONSE"
  using data_ok by (simp add: mock_data_ok_def)

lemma wdt_fields:
  assumes "length W = sizeof M IPMI_GET_WATCHDOG_TIMER_RESPONSE"
    "fst ` set fvs \<subseteq> set (fields_of IPMI_GET_WATCHDOG_TIMER_RESPONSE)"
    "g \<in> set (fields_of IPMI_GET_WATCHDOG_TIMER_RESPONSE)"
  shows "fget M 0 g (fputs M fvs W) =
    (case map_of (rev fvs) g of Some v \<Rightarrow> take_bit (width_of g) v | None \<Rightarrow> fget M 0 g W)"
  using fget_fputs [OF hdr assms(3,2)] assms(1) by simp

lemma width_fget [simp]:
  "f \<in> set (fields_of S) \<Longrightarrow> take_bit (width_of f) (fget M base f bs) = fget M base f bs"
  using fget_bound [OF hdr, of f S base bs] by (simp add: take_bit_nat_eq_self)

lemma wdt_tick_of:
  assumes "length W = sizeof M IPMI_GET_WATCHDOG_TIMER_RESPONSE"
  shows "wdt_of M (if fget M 0 GetWdt_TimerRunning W \<noteq> 0 \<and> fget M 0 GetWdt_PresentCountdownValue W > 0
      then fput M 0 GetWdt_PresentCountdownValue (fget M 0 GetWdt_PresentCountdownValue W - 1) W else W) =
    wdt_tick (wdt_of M W)"
proof -
  have "fget M 0 GetWdt_PresentCountdownValue W < 2 ^ 16"
    using fget_bound [OF hdr, of GetWdt_PresentCountdownValue IPMI_GET_WATCHDOG_TIMER_RESPONSE 0 W] by simp
  then show ?thesis
    using wdt_fields [OF assms, of "[(GetWdt_PresentCountdownValue, fget M 0 GetWdt_PresentCountdownValue W - 1)]"]
    by (simp add: wdt_of_def wdt_tick_def fget8_def take_bit_nat_eq_self)
qed

lemma reply_get_wdt:
  assumes "length (mWatchdog m) = sizeof M IPMI_GET_WATCHDOG_TIMER_RESPONSE"
  shows "\<exists>R m'. mock_reply M (netfn_of M IPMI_NETFN_APP) (cmd_of M IPMI_APP_GET_WATCHDOG_TIMER) [] m =
      Some (R, m') \<and> length R = sizeof M IPMI_GET_WATCHDOG_TIMER_RESPONSE \<and>
    hd R = fget8 M 0 CompletionCode R \<and>
    fget8 M 0 CompletionCode R = cc_of M IPMI_COMP_CODE_NORMAL \<and>
    wdt_of M R = wdt_of M (mWatchdog m') \<and>
    wdt_of M (mWatchdog m') = wdt_tick (wdt_of M (mWatchdog m))"
proof -
  let ?S = IPMI_GET_WATCHDOG_TIMER_RESPONSE
  define W where "W = (if fget M 0 GetWdt_TimerRunning (mWatchdog m) \<noteq> 0 \<and> fget M 0 GetWdt_PresentCountdownValue (mWatchdog m) > 0
      then fput M 0 GetWdt_PresentCountdownValue (fget M 0 GetWdt_PresentCountdownValue (mWatchdog m) - 1) (mWatchdog m)
      else mWatchdog m)"
  let ?m = "mock_begin M (netfn_of M IPMI_NETFN_APP) (cmd_of M IPMI_APP_GET_WATCHDOG_TIMER) m"
  let ?r = "cc_of M IPMI_COMP_CODE_INVALID_COMMAND # zero_mem 249"
  let ?fvs = "[(CompletionCode, unat (cc_of M IPMI_COMP_CODE_NORMAL))]"
  have mem: "((netfn_of M IPMI_NETFN_APP, cmd_of M IPMI_APP_GET_WATCHDOG_TIMER), MockIpmiGetWatchdog M) \<in> set (MockHandlers M)"
    by (simp add: MockHandlers_def)
  have S: "sizeof M ?S < 250" using hdr by (simp add: hdr_ok_def)
  have W: "length W = sizeof M ?S" using assms by (simp add: W_def)
  have run: "MockIpmiGetWatchdog M ([] @ zero_mem (253 - length ([] :: bytes))) (of_nat (length ([] :: bytes)))
      ?r 250 ?m = Some ((fputs M ?fvs (copy_mem ?r 0 W), of_nat (sizeof M ?S)), ?m\<lparr>mWatchdog := W\<rparr>)"
    using S by (simp add: MockIpmiGetWatchdog_def Let_def W_def)
  have len: "length (copy_mem ?r 0 W) = 250" using W S by (simp add: length_copy_mem_fits)
  obtain R where R: "mock_reply M (netfn_of M IPMI_NETFN_APP) (cmd_of M IPMI_APP_GET_WATCHDOG_TIMER) [] m =
      Some (R, mock_end (of_nat (sizeof M ?S)) (?m\<lparr>mWatchdog := W\<rparr>))" "length R = sizeof M ?S"
    "\<And>g. g \<in> set (fields_of ?S) \<Longrightarrow> fget M 0 g R = (case map_of (rev ?fvs) g of
        Some v \<Rightarrow> take_bit (width_of g) v | None \<Rightarrow> fget M 0 g (copy_mem ?r 0 W))"
    "hd R = fget8 M 0 CompletionCode R"
    by (rule mock_reply_struct [where S = ?S, OF hdr commands mem run _ len]) simp_all
  have get: "fget M 0 g (copy_mem ?r 0 W) = fget M 0 g W" if "g \<in> set (fields_of ?S)" for g
    using fget_take [OF hdr that, of "sizeof M ?S" "copy_mem ?r 0 W"] W by (simp add: copy_mem_def)
  have "wdt_of M R = wdt_of M W" by (simp add: wdt_of_def fget8_def R(3) get)
  moreover have "wdt_of M W = wdt_tick (wdt_of M (mWatchdog m))" unfolding W_def by (rule wdt_tick_of [OF assms])
  moreover have "fget8 M 0 CompletionCode R = cc_of M IPMI_COMP_CODE_NORMAL" by (simp add: fget8_def R(3))
  ultimately show ?thesis using R(1,2,4) by (intro exI conjI) (assumption | simp)+
qed

end

unbundle bit_operations_syntax

context mock_provider
begin

lemma reply_set_wdt:
  assumes d: "length d = sizeof M IPMI_SET_WATCHDOG_TIMER_REQUEST"
    and W: "length (mWatchdog m) = sizeof M IPMI_GET_WATCHDOG_TIMER_RESPONSE"
  shows "\<exists>m'. mock_reply M (netfn_of M IPMI_NETFN_APP) (cmd_of M IPMI_APP_SET_WATCHDOG_TIMER) d m =
      Some ([cc_of M IPMI_COMP_CODE_NORMAL], m') \<and>
    wdt_of M (mWatchdog m') = wdt_set M d (wdt_of M (mWatchdog m))"
proof -
  let ?Q = IPMI_SET_WATCHDOG_TIMER_REQUEST
  have S: "sizeof M ?Q < 250" using hdr by (simp add: hdr_ok_def)
  have get: "fget M 0 f (d @ z) = fget M 0 f d" if "f \<in> set (fields_of ?Q)" for f z
    using fget_append_zero [OF hdr that d] .
  have bound: "fget M 0 f d < 2 ^ width_of f" if "f \<in> set (fields_of ?Q)" for f
    by (rule fget_bound [OF hdr that])
  have b: "take_bit 3 (fget M 0 SetWdt_TimerUse d) = fget M 0 SetWdt_TimerUse d"
    "take_bit 3 (fget M 0 SetWdt_TimeoutAction d) = fget M 0 SetWdt_TimeoutAction d"
    "take_bit 16 (fget M 0 SetWdt_InitialCountdownValue d) = fget M 0 SetWdt_InitialCountdownValue d"
    using bound [of SetWdt_TimerUse] bound [of SetWdt_TimeoutAction] bound [of SetWdt_InitialCountdownValue]
    by (simp_all add: take_bit_nat_eq_self)
  have map: "map_of (MockHandlers M) (netfn_of M IPMI_NETFN_APP, cmd_of M IPMI_APP_SET_WATCHDOG_TIMER) =
      Some (MockIpmiSetWatchdog M)"
    by (rule handler_lookup [OF commands]) (simp add: MockHandlers_def)
  define flags where "flags = (fget8 M 0 GetWdt_ExpirationFlagsClear (mWatchdog m) AND
      NOT (fget8 M 0 SetWdt_ExpirationFlagsClear d))"
  define fvs where "fvs = [(GetWdt_TimerUse, fget M 0 SetWdt_TimerUse d),
      (GetWdt_TimeoutAction, fget M 0 SetWdt_TimeoutAction d),
      (GetWdt_ExpirationFlagsClear, unat flags),
      (GetWdt_InitialCountdownValue, fget M 0 SetWdt_InitialCountdownValue d),
      (GetWdt_PresentCountdownValue, fget M 0 SetWdt_InitialCountdownValue d),
      (GetWdt_TimerRunning, 0)]"
  have reply: "mock_reply M (netfn_of M IPMI_NETFN_APP) (cmd_of M IPMI_APP_SET_WATCHDOG_TIMER) d m =
      Some ([cc_of M IPMI_COMP_CODE_NORMAL], mock_end 1
        (mock_begin M (netfn_of M IPMI_NETFN_APP) (cmd_of M IPMI_APP_SET_WATCHDOG_TIMER) m
           \<lparr>mWatchdog := fputs M fvs (mWatchdog m)\<rparr>))"
    using S d
    by (simp add: mock_reply_def map MockIpmiSetWatchdog_def fget8_def get unat_of_nat_u8 poke_0 fvs_def
        flags_def Let_def del: fputs_simps)
  have "wdt_of M (fputs M fvs (mWatchdog m)) = wdt_set M d (wdt_of M (mWatchdog m))"
    using wdt_fields [OF W, of fvs]
    by (simp add: wdt_of_def wdt_set_def fget8_def fvs_def b del: fputs_simps) (simp add: flags_def fget8_def)
  then show ?thesis using reply by simp
qed

lemma reply_reset_wdt:
  assumes W: "length (mWatchdog m) = sizeof M IPMI_GET_WATCHDOG_TIMER_RESPONSE"
  shows "\<exists>m'. mock_reply M (netfn_of M IPMI_NETFN_APP) (cmd_of M IPMI_APP_RESET_WATCHDOG_TIMER) [] m =
      Some ([cc_of M IPMI_COMP_CODE_NORMAL], m') \<and>
    wdt_of M (mWatchdog m') = wdt_reset (wdt_of M (mWatchdog m))"
proof -
  have map: "map_of (MockHandlers M) (netfn_of M IPMI_NETFN_APP, cmd_of M IPMI_APP_RESET_WATCHDOG_TIMER) =
      Some (MockIpmiResetWatchdog M)"
    by (rule handler_lookup [OF commands]) (simp add: MockHandlers_def)
  let ?W = "fput M 0 GetWdt_TimerRunning 1 (mWatchdog m)"
  have 1: "fget M 0 GetWdt_InitialCountdownValue ?W = fget M 0 GetWdt_InitialCountdownValue (mWatchdog m)"
    using wdt_fields [OF W, of "[(GetWdt_TimerRunning, 1)]" GetWdt_InitialCountdownValue] by simp
  define fvs where "fvs = [(GetWdt_TimerRunning, 1),
      (GetWdt_PresentCountdownValue, fget M 0 GetWdt_InitialCountdownValue (mWatchdog m))]"
  have reply: "mock_reply M (netfn_of M IPMI_NETFN_APP) (cmd_of M IPMI_APP_RESET_WATCHDOG_TIMER) [] m =
      Some ([cc_of M IPMI_COMP_CODE_NORMAL], mock_end 1
        (mock_begin M (netfn_of M IPMI_NETFN_APP) (cmd_of M IPMI_APP_RESET_WATCHDOG_TIMER) m
           \<lparr>mWatchdog := fputs M fvs (mWatchdog m)\<rparr>))"
    by (simp add: mock_reply_def map MockIpmiResetWatchdog_def 1 [simplified] poke_0 fvs_def Let_def)
  have "take_bit 16 (fget M 0 GetWdt_InitialCountdownValue (mWatchdog m)) =
      fget M 0 GetWdt_InitialCountdownValue (mWatchdog m)"
    using width_fget [of GetWdt_InitialCountdownValue IPMI_GET_WATCHDOG_TIMER_RESPONSE 0 "mWatchdog m"] by simp
  then have "wdt_of M (fputs M fvs (mWatchdog m)) = wdt_reset (wdt_of M (mWatchdog m))"
    using wdt_fields [OF W, of fvs]
    by (simp add: wdt_of_def wdt_reset_def fget8_def fvs_def del: fputs_simps)
  then show ?thesis using reply by simp
qed

end

sublocale mock_provider \<subseteq> wdt: wdt_bmc M submit ok "\<lambda>s. wdt_of M (mWatchdog (bmc s))"
proof (unfold_locales, goal_cases)
  case 1
  show ?case by (rule hdr)
next
  case (2 s buf)
  obtain R m' where r: "mock_reply M (netfn_of M IPMI_NETFN_APP) (cmd_of M IPMI_APP_GET_WATCHDOG_TIMER) []
      (bmc s) = Some (R, m')" "length R = sizeof M IPMI_GET_WATCHDOG_TIMER_RESPONSE"
    "hd R = fget8 M 0 CompletionCode R" "fget8 M 0 CompletionCode R = cc_of M IPMI_COMP_CODE_NORMAL"
    "wdt_of M R = wdt_of M (mWatchdog m')"
    "wdt_of M (mWatchdog m') = wdt_tick (wdt_of M (mWatchdog (bmc s)))"
    using reply_get_wdt [OF watchdog_len [OF 2(1)]] by blast
  then show ?case using answers_struct [OF 2(1) r(1), of None] 2 by fastforce
next
  case (3 s d b)
  obtain m' where r: "mock_reply M (netfn_of M IPMI_NETFN_APP) (cmd_of M IPMI_APP_SET_WATCHDOG_TIMER) d
      (bmc s) = Some ([cc_of M IPMI_COMP_CODE_NORMAL], m')"
    "wdt_of M (mWatchdog m') = wdt_set M d (wdt_of M (mWatchdog (bmc s)))"
    using reply_set_wdt [OF 3(2) watchdog_len [OF 3(1)]] by blast
  have "length d \<le> 252" using 3(2) struct_len by simp
  then show ?case using answers_byte [OF 3(1) r(1), of "Some d" b] r(2) 3(2) by fastforce
next
  case (4 s b)
  obtain m' where r: "mock_reply M (netfn_of M IPMI_NETFN_APP) (cmd_of M IPMI_APP_RESET_WATCHDOG_TIMER) []
      (bmc s) = Some ([cc_of M IPMI_COMP_CODE_NORMAL], m')"
    "wdt_of M (mWatchdog m') = wdt_reset (wdt_of M (mWatchdog (bmc s)))"
    using reply_reset_wdt [OF watchdog_len [OF 4]] by blast
  then show ?case using answers_byte [OF 4 r(1), of None b] by fastforce
qed

end
