(* ===== verification/Watchdog.thy ===== *)
theory Watchdog
  imports Wdt_Bmc
begin

section \<open>The watchdog library and its drivers\<close>

text \<open>
  \<open>Library/IpmiWatchdogLib\<close>, \<open>IpmiWatchdog/Dxe\<close> and \<open>IpmiWatchdog/Pei\<close>.  Structures and bytes
  the code leaves uninitialised on its stack are arguments: \<open>Timer0\<close> for the response of
  \<open>Get Watchdog Timer\<close>, \<open>Cc0\<close> for the completion code.
\<close>

unbundle bit_operations_syntax

subsection \<open>The library\<close>

definition IpmiEnableWatchdogTimer ::
    "ipmi_hdr \<Rightarrow> 's submit \<Rightarrow> bytes \<Rightarrow> u8 \<Rightarrow> u8 \<Rightarrow> u8 \<Rightarrow> u8 \<Rightarrow> u16 \<Rightarrow> ('s, efi_status) op" where
  "IpmiEnableWatchdogTimer M submit Timer0 Cc0 TimerUse TimerAction FlagsClear CountdownValue s =
     (if TimerUse = 0 \<or> CountdownValue = 0 then Some (EFI_INVALID_PARAMETER, s)
      else do {
        ((Status, GetWatchdogTimer), s1) \<leftarrow> IpmiGetWatchdogTimer M submit Timer0 s;
        if EFI_ERROR Status then Some (Status, s1)
        else do {
          let WatchdogTimer = fputs M [(SetWdt_TimerUse, unat TimerUse),
                                       (SetWdt_TimeoutAction, unat TimerAction),
                                       (SetWdt_ExpirationFlagsClear, unat FlagsClear),
                                       (SetWdt_InitialCountdownValue, unat (CountdownValue * 10))]
                                (zero_mem (sizeof M IPMI_SET_WATCHDOG_TIMER_REQUEST));
          ((Status, Cc), s2) \<leftarrow> IpmiSetWatchdogTimer M submit WatchdogTimer [Cc0] s1;
          if EFI_ERROR Status then Some (Status, s2)
          else if Cc ! 0 \<noteq> cc_of M IPMI_COMP_CODE_NORMAL then Some (EFI_PROTOCOL_ERROR, s2)
          else do {
            ((Status, Cc1), s3) \<leftarrow> IpmiResetWatchdogTimer M submit Cc s2;
            if EFI_ERROR Status then Some (Status, s3)
            else if Cc1 ! 0 \<noteq> cc_of M IPMI_COMP_CODE_NORMAL then Some (EFI_PROTOCOL_ERROR, s3)
            else Some (Status, s3)
          }
        }
      })"

definition IpmiDisableWatchdogTimer ::
    "ipmi_hdr \<Rightarrow> 's submit \<Rightarrow> bytes \<Rightarrow> u8 \<Rightarrow> u8 \<Rightarrow> u8 \<Rightarrow> ('s, efi_status) op" where
  "IpmiDisableWatchdogTimer M submit Timer0 Cc0 TimerUse FlagsClear s =
     do {
       ((Status, GetWatchdogTimer), s1) \<leftarrow> IpmiGetWatchdogTimer M submit Timer0 s;
       if EFI_ERROR Status then Some (Status, s1)
       else if fget M 0 GetWdt_TimerRunning GetWatchdogTimer = 0 then Some (EFI_SUCCESS, s1)
       else do {
         let SetWatchdogTimer = fputs M [(SetWdt_TimerRunning, 0), (SetWdt_TimerUse, unat TimerUse),
                                         (SetWdt_ExpirationFlagsClear, unat FlagsClear)]
                                  (zero_mem (sizeof M IPMI_SET_WATCHDOG_TIMER_REQUEST));
         ((Status, Cc), s2) \<leftarrow> IpmiSetWatchdogTimer M submit SetWatchdogTimer [Cc0] s1;
         if EFI_ERROR Status then Some (Status, s2)
         else if Cc ! 0 \<noteq> cc_of M IPMI_COMP_CODE_NORMAL then Some (EFI_PROTOCOL_ERROR, s2)
         else Some (Status, s2)
       }
     }"

subsection \<open>The PEI driver\<close>

record ipmi_watchdog_policy =
  Frb2Enabled :: bool
  Frb2TimeoutAction :: u8
  Frb2TimeoutSeconds :: u16
  OsWatchdogEnabled :: bool
  OsTimeoutAction :: u8
  OsTimeoutSeconds :: u16

text \<open>\<open>GetPolicy\<close> is a service of the platform: the status and the policy it stores.\<close>

type_synonym 's get_policy = "('s, efi_status \<times> ipmi_watchdog_policy) op"

text \<open>The FRB2 timer, started in the same way by both drivers.\<close>

definition enable_frb2 ::
    "ipmi_hdr \<Rightarrow> 's submit \<Rightarrow> bytes \<Rightarrow> u8 \<Rightarrow> ipmi_watchdog_policy \<Rightarrow> ('s, efi_status) op" where
  "enable_frb2 M submit Timer0 Cc0 Policy =
     IpmiEnableWatchdogTimer M submit Timer0 Cc0 (val_of M IPMI_WATCHDOG_TIMER_BIOS_FRB2)
       (Frb2TimeoutAction Policy) (val_of M IPMI_WATCHDOG_TIMER_EXPIRATION_FLAG_BIOS_FRB2)
       (Frb2TimeoutSeconds Policy)"

definition InitializeWatchdogPei ::
    "ipmi_hdr \<Rightarrow> 's submit \<Rightarrow> 's get_policy \<Rightarrow> bytes \<Rightarrow> u8 \<Rightarrow> ('s, efi_status) op" where
  "InitializeWatchdogPei M submit GetPolicy Timer0 Cc0 s =
     do {
       ((Status, Policy), s1) \<leftarrow> GetPolicy s;
       if EFI_ERROR Status then Some (Status, s1)
       else if Frb2Enabled Policy then do {
         (ignored, s2) \<leftarrow> enable_frb2 M submit Timer0 Cc0 Policy s1;
         Some (EFI_SUCCESS, s2)
       }
       else Some (EFI_SUCCESS, s1)
     }"

subsection \<open>The DXE driver\<close>

text \<open>Its variables: the policy and whether each of the two events is open.\<close>

record 's watchdog_dxe =
  mWatchdogPolicy :: ipmi_watchdog_policy
  mReadyToBootEvent :: bool
  mExitBootServicesEvent :: bool
  WdtSystem :: 's

definition DisableFrb2WatchdogTimer ::
    "ipmi_hdr \<Rightarrow> 's submit \<Rightarrow> bytes \<Rightarrow> u8 \<Rightarrow> 's watchdog_dxe \<Rightarrow> 's watchdog_dxe option" where
  "DisableFrb2WatchdogTimer M submit Timer0 Cc0 d =
     do {
       (Status, s) \<leftarrow> IpmiDisableWatchdogTimer M submit Timer0 Cc0 (val_of M IPMI_WATCHDOG_TIMER_BIOS_FRB2)
                        (val_of M IPMI_WATCHDOG_TIMER_EXPIRATION_FLAG_BIOS_FRB2) (WdtSystem d);
       Some (if EFI_ERROR Status then d\<lparr>WdtSystem := s\<rparr>
             else d\<lparr>WdtSystem := s, mReadyToBootEvent := False\<rparr>)
     }"

definition EnableOsWatchdogTimer ::
    "ipmi_hdr \<Rightarrow> 's submit \<Rightarrow> bytes \<Rightarrow> u8 \<Rightarrow> 's watchdog_dxe \<Rightarrow> 's watchdog_dxe option" where
  "EnableOsWatchdogTimer M submit Timer0 Cc0 d =
     (if OsWatchdogEnabled (mWatchdogPolicy d) then do {
        (ignored, s) \<leftarrow> IpmiEnableWatchdogTimer M submit Timer0 Cc0 (val_of M IPMI_WATCHDOG_TIMER_OS_LOADER)
                          (OsTimeoutAction (mWatchdogPolicy d))
                          (val_of M IPMI_WATCHDOG_TIMER_EXPIRATION_FLAG_OS_LOAD)
                          (OsTimeoutSeconds (mWatchdogPolicy d)) (WdtSystem d);
        Some (d\<lparr>WdtSystem := s, mExitBootServicesEvent := False\<rparr>)
      }
      else Some (d\<lparr>mExitBootServicesEvent := False\<rparr>))"

text \<open>\<open>ReadyStatus\<close> and \<open>ExitStatus\<close> are what the two services that create events return.\<close>

definition IpmiWatchdogDxeEntryPoint ::
    "ipmi_hdr \<Rightarrow> 's submit \<Rightarrow> 's get_policy \<Rightarrow> efi_status \<Rightarrow> efi_status \<Rightarrow> bytes \<Rightarrow> bytes \<Rightarrow> u8 \<Rightarrow>
       ('s watchdog_dxe, efi_status) op" where
  "IpmiWatchdogDxeEntryPoint M submit GetPolicy ReadyStatus ExitStatus WatchdogTimer0 Timer0 Cc0 d =
     do {
       ((Status, Policy), s1) \<leftarrow> GetPolicy (WdtSystem d);
       let d1 = d\<lparr>mWatchdogPolicy := Policy, WdtSystem := s1\<rparr>;
       if EFI_ERROR Status then do { ASSERT False; Some (Status, d1) }
       else do {
         ((Status, WatchdogTimer), s2) \<leftarrow> IpmiGetWatchdogTimer M submit WatchdogTimer0 s1;
         if EFI_ERROR Status then Some (Status, d1\<lparr>WdtSystem := s2\<rparr>)
         else do {
           s3 \<leftarrow> (if Frb2Enabled Policy \<and> fget M 0 GetWdt_TimerRunning WatchdogTimer = 0
                 then map_option snd (enable_frb2 M submit Timer0 Cc0 Policy s2)
                 else Some s2);
           ((Status, WatchdogTimer1), s4) \<leftarrow> IpmiGetWatchdogTimer M submit WatchdogTimer s3;
           let d4 = d1\<lparr>WdtSystem := s4\<rparr>;
           if EFI_ERROR Status then Some (Status, d4)
           else if fget8 M 0 CompletionCode WatchdogTimer1 \<noteq> cc_of M IPMI_COMP_CODE_NORMAL
           then Some (EFI_PROTOCOL_ERROR, d4)
           else if EFI_ERROR ReadyStatus then Some (ReadyStatus, d4)
           else
             (let d5 = d4\<lparr>mReadyToBootEvent := True\<rparr> in
              if EFI_ERROR ExitStatus then Some (ExitStatus, d5)
              else Some (ExitStatus, d5\<lparr>mExitBootServicesEvent := True\<rparr>))
         }
       }
     }"

text \<open>The firmware signals the two events; a callback runs while its event is open.\<close>

datatype boot_signal = ReadyToBoot | ExitBootServices

fun signal :: "ipmi_hdr \<Rightarrow> 's submit \<Rightarrow> bytes \<Rightarrow> u8 \<Rightarrow> boot_signal \<Rightarrow> 's watchdog_dxe \<Rightarrow> 's watchdog_dxe option"
  where
  "signal M submit Timer0 Cc0 ReadyToBoot d =
     (if mReadyToBootEvent d then DisableFrb2WatchdogTimer M submit Timer0 Cc0 d else Some d)"
| "signal M submit Timer0 Cc0 ExitBootServices d =
     (if mExitBootServicesEvent d then EnableOsWatchdogTimer M submit Timer0 Cc0 d else Some d)"

fun signals ::
    "ipmi_hdr \<Rightarrow> 's submit \<Rightarrow> bytes \<Rightarrow> u8 \<Rightarrow> boot_signal list \<Rightarrow> 's watchdog_dxe \<Rightarrow> 's watchdog_dxe option"
  where
  "signals M submit Timer0 Cc0 [] d = Some d"
| "signals M submit Timer0 Cc0 (e # es) d =
     do { d1 \<leftarrow> signal M submit Timer0 Cc0 e d; signals M submit Timer0 Cc0 es d1 }"

lemma signals_closed:
  "\<not> mReadyToBootEvent d \<Longrightarrow> \<not> mExitBootServicesEvent d \<Longrightarrow> signals M submit Timer0 Cc0 es d = Some d"
proof (induction es)
  case (Cons e es)
  then show ?case by (cases e) simp_all
qed simp

section \<open>The library against the contract\<close>

lemma wdt_tick_simps [simp]:
  "wdt_use (wdt_tick w) = wdt_use w" "wdt_action (wdt_tick w) = wdt_action w"
  "wdt_flags (wdt_tick w) = wdt_flags w" "wdt_initial (wdt_tick w) = wdt_initial w"
  "wdt_running (wdt_tick w) = wdt_running w"
  by (simp_all add: wdt_tick_def)

text \<open>The timer after it was enabled, with the requested values cut to the width of their fields.\<close>

definition wdt_enabled :: "u8 \<Rightarrow> u8 \<Rightarrow> u8 \<Rightarrow> u16 \<Rightarrow> wdt \<Rightarrow> wdt" where
  "wdt_enabled use act flags seconds w =
     \<lparr>wdt_use = take_bit 3 (unat use), wdt_action = take_bit 3 (unat act),
      wdt_flags = wdt_flags w AND NOT flags, wdt_initial = unat (seconds * 10),
      wdt_present = unat (seconds * 10), wdt_running = True\<rparr>"

definition wdt_stopped :: "u8 \<Rightarrow> u8 \<Rightarrow> wdt \<Rightarrow> wdt" where
  "wdt_stopped use flags w =
     (if wdt_running w
      then \<lparr>wdt_use = take_bit 3 (unat use), wdt_action = 0, wdt_flags = wdt_flags w AND NOT flags,
            wdt_initial = 0, wdt_present = 0, wdt_running = False\<rparr>
      else w)"

text \<open>The timer behind the entry point of the DXE driver, which looks at it before and after it may have
  started FRB2.\<close>

definition wdt_after_entry :: "ipmi_hdr \<Rightarrow> ipmi_watchdog_policy \<Rightarrow> wdt \<Rightarrow> wdt" where
  "wdt_after_entry M p w =
     wdt_tick (if Frb2Enabled p \<and> \<not> wdt_running w \<and> Frb2TimeoutSeconds p \<noteq> 0
               then wdt_enabled (val_of M IPMI_WATCHDOG_TIMER_BIOS_FRB2) (Frb2TimeoutAction p)
                      (val_of M IPMI_WATCHDOG_TIMER_EXPIRATION_FLAG_BIOS_FRB2) (Frb2TimeoutSeconds p) (wdt_tick w)
               else wdt_tick w)"

lemma unat_take_bit_u16: "take_bit 16 (unat (w :: u16)) = unat w"
  using u16_bound [of w] by (simp add: take_bit_nat_eq_self)

context wdt_bmc
begin

lemma set_request:
  assumes "fst ` set fvs \<subseteq> set (fields_of IPMI_SET_WATCHDOG_TIMER_REQUEST)"
    "g \<in> set (fields_of IPMI_SET_WATCHDOG_TIMER_REQUEST)"
  shows "fget M 0 g (fputs M fvs (zero_mem (sizeof M IPMI_SET_WATCHDOG_TIMER_REQUEST))) =
    (case map_of (rev fvs) g of Some v \<Rightarrow> take_bit (width_of g) v | None \<Rightarrow> 0)"
  using fget_fputs [OF hdr_wdt assms(2,1)] by (simp split: option.split)

lemma enable_ok:
  assumes "ok s" "use \<noteq> 0" "seconds \<noteq> 0" "length T0 = sizeof M IPMI_GET_WATCHDOG_TIMER_RESPONSE"
  shows "\<exists>s'. IpmiEnableWatchdogTimer M submit T0 c0 use act flags seconds s = Some (EFI_SUCCESS, s') \<and>
    ok s' \<and> wdt s' = wdt_enabled use act flags seconds (wdt s)"
proof -
  let ?fvs = "[(SetWdt_TimerUse, unat use), (SetWdt_TimeoutAction, unat act),
      (SetWdt_ExpirationFlagsClear, unat flags), (SetWdt_InitialCountdownValue, unat (seconds * 10))]"
  define W where "W = fputs M ?fvs (zero_mem (sizeof M IPMI_SET_WATCHDOG_TIMER_REQUEST))"
  have W: "length W = sizeof M IPMI_SET_WATCHDOG_TIMER_REQUEST" by (simp add: W_def)
  obtain R s1 where 1: "IpmiGetWatchdogTimer M submit T0 s = Some ((EFI_SUCCESS, R), s1)" "ok s1"
    "wdt s1 = wdt_tick (wdt s)"
    using get_wdt [OF assms(1,4)] by (auto simp: IpmiGetWatchdogTimer_def call_fixed_eq)
  obtain s2 where 2: "IpmiSetWatchdogTimer M submit W [c0] s1 =
      Some ((EFI_SUCCESS, [cc_of M IPMI_COMP_CODE_NORMAL]), s2)" "ok s2" "wdt s2 = wdt_set M W (wdt s1)"
    using set_wdt [OF 1(2) W, of c0] by (auto simp: IpmiSetWatchdogTimer_def call_fixed_eq)
  obtain s3 where 3: "IpmiResetWatchdogTimer M submit [cc_of M IPMI_COMP_CODE_NORMAL] s2 =
      Some ((EFI_SUCCESS, [cc_of M IPMI_COMP_CODE_NORMAL]), s3)" "ok s3" "wdt s3 = wdt_reset (wdt s2)"
    using reset_wdt [OF 2(2), of "cc_of M IPMI_COMP_CODE_NORMAL"]
    by (auto simp: IpmiResetWatchdogTimer_def call_fixed_eq)
  have "wdt_set M W (wdt s1) = wdt_enabled use act flags seconds (wdt s)\<lparr>wdt_running := False\<rparr>"
    using set_request [of ?fvs]
    by (simp add: wdt_set_def wdt_enabled_def W_def fget8_def 1(3) unat_take_bit_u16 del: fputs_simps)
  then have "wdt s3 = wdt_enabled use act flags seconds (wdt s)"
    using 2(3) 3(3) by (simp add: wdt_reset_def wdt_enabled_def)
  moreover have "IpmiEnableWatchdogTimer M submit T0 c0 use act flags seconds s = Some (EFI_SUCCESS, s3)"
    using assms(2,3) 1(1) 2(1) 3(1)
    by (simp add: IpmiEnableWatchdogTimer_def Let_def flip: W_def del: fputs_simps)
  ultimately show ?thesis using 3(2) by blast
qed

lemma disable_ok:
  assumes "ok s" "length T0 = sizeof M IPMI_GET_WATCHDOG_TIMER_RESPONSE"
  shows "\<exists>s'. IpmiDisableWatchdogTimer M submit T0 c0 use flags s = Some (EFI_SUCCESS, s') \<and>
    ok s' \<and> wdt s' = wdt_stopped use flags (wdt_tick (wdt s))"
proof -
  let ?fvs = "[(SetWdt_TimerRunning, 0), (SetWdt_TimerUse, unat use), (SetWdt_ExpirationFlagsClear, unat flags)]"
  define W where "W = fputs M ?fvs (zero_mem (sizeof M IPMI_SET_WATCHDOG_TIMER_REQUEST))"
  have W: "length W = sizeof M IPMI_SET_WATCHDOG_TIMER_REQUEST" by (simp add: W_def)
  obtain R s1 where 1: "IpmiGetWatchdogTimer M submit T0 s = Some ((EFI_SUCCESS, R), s1)" "ok s1"
    "wdt s1 = wdt_tick (wdt s)" "wdt_of M R = wdt s1"
    using get_wdt [OF assms] by (auto simp: IpmiGetWatchdogTimer_def call_fixed_eq)
  have run: "fget M 0 GetWdt_TimerRunning R = 0 \<longleftrightarrow> \<not> wdt_running (wdt s)"
    using arg_cong [OF 1(4), of wdt_running] 1(3) by (auto simp: wdt_of_def)
  show ?thesis
  proof (cases "wdt_running (wdt s)")
    case False
    then show ?thesis using 1 run by (simp add: IpmiDisableWatchdogTimer_def wdt_stopped_def)
  next
    case True
    obtain s2 where 2: "IpmiSetWatchdogTimer M submit W [c0] s1 =
        Some ((EFI_SUCCESS, [cc_of M IPMI_COMP_CODE_NORMAL]), s2)" "ok s2" "wdt s2 = wdt_set M W (wdt s1)"
      using set_wdt [OF 1(2) W, of c0] by (auto simp: IpmiSetWatchdogTimer_def call_fixed_eq)
    have "wdt_set M W (wdt s1) = wdt_stopped use flags (wdt_tick (wdt s))"
      using set_request [of ?fvs] True
      by (simp add: wdt_set_def wdt_stopped_def W_def fget8_def 1(3) del: fputs_simps)
    then show ?thesis
      using 1(1) 2 run True
      by (simp add: IpmiDisableWatchdogTimer_def Let_def flip: W_def del: fputs_simps)
  qed
qed

lemma enable_cases:
  assumes "ok s" "length T0 = sizeof M IPMI_GET_WATCHDOG_TIMER_RESPONSE" "use \<noteq> 0"
  shows "\<exists>st s'. IpmiEnableWatchdogTimer M submit T0 c0 use act flags seconds s = Some (st, s') \<and>
    ok s' \<and> wdt s' = (if seconds = 0 then wdt s else wdt_enabled use act flags seconds (wdt s))"
proof (cases "seconds = 0")
  case True
  then show ?thesis using assms(1) by (simp add: IpmiEnableWatchdogTimer_def)
next
  case False
  then show ?thesis using enable_ok [OF assms(1,3) False assms(2), of c0 act flags] by auto
qed

lemma get_dxe:
  assumes "ok s" "length T0 = sizeof M IPMI_GET_WATCHDOG_TIMER_RESPONSE"
  obtains R s' where "IpmiGetWatchdogTimer M submit T0 s = Some ((EFI_SUCCESS, R), s')" "ok s'"
    "wdt s' = wdt_tick (wdt s)" "fget8 M 0 CompletionCode R = cc_of M IPMI_COMP_CODE_NORMAL"
    "fget M 0 GetWdt_TimerRunning R = 0 \<longleftrightarrow> \<not> wdt_running (wdt s)"
    "length R = sizeof M IPMI_GET_WATCHDOG_TIMER_RESPONSE"
proof -
  obtain R s1 where 1: "IpmiGetWatchdogTimer M submit T0 s = Some ((EFI_SUCCESS, R), s1)" "ok s1"
    "wdt s1 = wdt_tick (wdt s)" "wdt_of M R = wdt s1"
    "fget8 M 0 CompletionCode R = cc_of M IPMI_COMP_CODE_NORMAL"
    "length R = sizeof M IPMI_GET_WATCHDOG_TIMER_RESPONSE"
    using get_wdt [OF assms] by (auto simp: IpmiGetWatchdogTimer_def call_fixed_eq)
  moreover have "fget M 0 GetWdt_TimerRunning R = 0 \<longleftrightarrow> \<not> wdt_running (wdt s)"
    using arg_cong [OF 1(4), of wdt_running] 1(3) by (auto simp: wdt_of_def)
  ultimately show thesis by - (rule that; assumption)
qed

lemma entry_ok:
  assumes s: "ok (WdtSystem d)" and pol: "GetPolicy (WdtSystem d) = Some ((EFI_SUCCESS, p), WdtSystem d)"
    and len: "length W0 = sizeof M IPMI_GET_WATCHDOG_TIMER_RESPONSE"
      "length T0 = sizeof M IPMI_GET_WATCHDOG_TIMER_RESPONSE"
    and frb2: "val_of M IPMI_WATCHDOG_TIMER_BIOS_FRB2 \<noteq> 0"
  shows "\<exists>d'. IpmiWatchdogDxeEntryPoint M submit GetPolicy EFI_SUCCESS EFI_SUCCESS W0 T0 c0 d =
      Some (EFI_SUCCESS, d') \<and> ok (WdtSystem d') \<and> mWatchdogPolicy d' = p \<and>
    mReadyToBootEvent d' \<and> mExitBootServicesEvent d' \<and>
    wdt (WdtSystem d') = wdt_after_entry M p (wdt (WdtSystem d))"
proof -
  let ?s = "WdtSystem d"
  obtain R s2 where 1: "IpmiGetWatchdogTimer M submit W0 ?s = Some ((EFI_SUCCESS, R), s2)" "ok s2"
    "wdt s2 = wdt_tick (wdt ?s)" "fget M 0 GetWdt_TimerRunning R = 0 \<longleftrightarrow> \<not> wdt_running (wdt ?s)"
    "length R = sizeof M IPMI_GET_WATCHDOG_TIMER_RESPONSE"
    by (rule get_dxe [OF s len(1)])
  let ?start = "Frb2Enabled p \<and> \<not> wdt_running (wdt ?s)"
  obtain st s3 where 2: "enable_frb2 M submit T0 c0 p s2 = Some (st, s3)" "ok s3"
    "wdt s3 = (if Frb2TimeoutSeconds p = 0 then wdt s2
               else wdt_enabled (val_of M IPMI_WATCHDOG_TIMER_BIOS_FRB2) (Frb2TimeoutAction p)
                 (val_of M IPMI_WATCHDOG_TIMER_EXPIRATION_FLAG_BIOS_FRB2) (Frb2TimeoutSeconds p) (wdt s2))"
    using enable_cases [OF 1(2) len(2) frb2] unfolding enable_frb2_def by blast
  define s3' where "s3' = (if ?start then s3 else s2)"
  have ok3: "ok s3'" using 1(2) 2(2) by (simp add: s3'_def)
  have mid: "(if Frb2Enabled p \<and> fget M 0 GetWdt_TimerRunning R = 0
      then map_option snd (enable_frb2 M submit T0 c0 p s2) else Some s2) = Some s3'"
    using 1(4) 2(1) by (simp add: s3'_def)
  obtain R' s4 where 3: "IpmiGetWatchdogTimer M submit R s3' = Some ((EFI_SUCCESS, R'), s4)" "ok s4"
    "wdt s4 = wdt_tick (wdt s3')" "fget8 M 0 CompletionCode R' = cc_of M IPMI_COMP_CODE_NORMAL"
    by (rule get_dxe [OF ok3 1(5)])
  have "IpmiWatchdogDxeEntryPoint M submit GetPolicy EFI_SUCCESS EFI_SUCCESS W0 T0 c0 d =
      Some (EFI_SUCCESS, d\<lparr>mWatchdogPolicy := p, WdtSystem := s4, mReadyToBootEvent := True,
                          mExitBootServicesEvent := True\<rparr>)"
    using pol 1(1) 3(1,4) by (simp add: IpmiWatchdogDxeEntryPoint_def mid)
  moreover have "wdt s4 = wdt_after_entry M p (wdt ?s)"
    using 3(3) 1(3) 2(3) by (simp add: s3'_def wdt_after_entry_def)
  ultimately show ?thesis using 3(2) by simp
qed

lemma ready_ok:
  assumes "ok (WdtSystem d)" "mReadyToBootEvent d" "length T0 = sizeof M IPMI_GET_WATCHDOG_TIMER_RESPONSE"
  shows "\<exists>s. signal M submit T0 c0 ReadyToBoot d = Some (d\<lparr>WdtSystem := s, mReadyToBootEvent := False\<rparr>) \<and>
    ok s \<and> wdt s = wdt_stopped (val_of M IPMI_WATCHDOG_TIMER_BIOS_FRB2)
      (val_of M IPMI_WATCHDOG_TIMER_EXPIRATION_FLAG_BIOS_FRB2) (wdt_tick (wdt (WdtSystem d)))"
proof -
  obtain s where "IpmiDisableWatchdogTimer M submit T0 c0 (val_of M IPMI_WATCHDOG_TIMER_BIOS_FRB2)
      (val_of M IPMI_WATCHDOG_TIMER_EXPIRATION_FLAG_BIOS_FRB2) (WdtSystem d) = Some (EFI_SUCCESS, s)"
    "ok s" "wdt s = wdt_stopped (val_of M IPMI_WATCHDOG_TIMER_BIOS_FRB2)
      (val_of M IPMI_WATCHDOG_TIMER_EXPIRATION_FLAG_BIOS_FRB2) (wdt_tick (wdt (WdtSystem d)))"
    using disable_ok [OF assms(1,3)] by blast
  then show ?thesis
    using assms(2) by (intro exI [of _ s]) (simp add: DisableFrb2WatchdogTimer_def)
qed

lemma exit_ok:
  assumes "ok (WdtSystem d)" "mExitBootServicesEvent d" "length T0 = sizeof M IPMI_GET_WATCHDOG_TIMER_RESPONSE"
    and "val_of M IPMI_WATCHDOG_TIMER_OS_LOADER \<noteq> 0"
  shows "\<exists>s. signal M submit T0 c0 ExitBootServices d =
      Some (d\<lparr>WdtSystem := s, mExitBootServicesEvent := False\<rparr>) \<and> ok s \<and>
    wdt s = (if OsWatchdogEnabled (mWatchdogPolicy d) \<and> OsTimeoutSeconds (mWatchdogPolicy d) \<noteq> 0
             then wdt_enabled (val_of M IPMI_WATCHDOG_TIMER_OS_LOADER) (OsTimeoutAction (mWatchdogPolicy d))
                 (val_of M IPMI_WATCHDOG_TIMER_EXPIRATION_FLAG_OS_LOAD)
                 (OsTimeoutSeconds (mWatchdogPolicy d)) (wdt (WdtSystem d))
             else wdt (WdtSystem d))"
proof (cases "OsWatchdogEnabled (mWatchdogPolicy d)")
  case True
  then show ?thesis
    using enable_cases [OF assms(1,3,4), of c0 "OsTimeoutAction (mWatchdogPolicy d)"
        "val_of M IPMI_WATCHDOG_TIMER_EXPIRATION_FLAG_OS_LOAD" "OsTimeoutSeconds (mWatchdogPolicy d)"]
      assms(2) by (auto simp: EnableOsWatchdogTimer_def)
next
  case False
  then show ?thesis
    using assms(1,2) by (intro exI [of _ "WdtSystem d"]) (cases d; simp add: EnableOsWatchdogTimer_def)
qed

end

section \<open>What the watchdog does\<close>

text \<open>C34 A timer that is enabled runs, with the use, action and flags that were asked for, over any BMC
  that keeps the contract; its initial value is ten times the seconds while that fits sixteen
  bits, and a shorter time from 6554 seconds on.\<close>

theorem watchdog_enable:
  assumes "wdt_bmc M submit ok wdt" "ok s" "TimerUse \<noteq> 0" "CountdownValue \<noteq> 0"
    and "length Timer0 = sizeof M IPMI_GET_WATCHDOG_TIMER_RESPONSE"
  shows "\<exists>s'. IpmiEnableWatchdogTimer M submit Timer0 Cc0 TimerUse TimerAction FlagsClear CountdownValue s =
      Some (EFI_SUCCESS, s') \<and>
    wdt_running (wdt s') \<and> wdt_use (wdt s') = unat TimerUse mod 8 \<and>
    wdt_action (wdt s') = unat TimerAction mod 8 \<and>
    wdt_flags (wdt s') = wdt_flags (wdt s) AND NOT FlagsClear \<and>
    (if unat CountdownValue \<le> 6553 then wdt_initial (wdt s') = 10 * unat CountdownValue
     else wdt_initial (wdt s') < 10 * unat CountdownValue)"
proof -
  have "unat (CountdownValue * 10) = 10 * unat CountdownValue mod 65536"
    by (simp add: unat_word_ariths mult.commute)
  moreover have "10 * unat CountdownValue mod 65536 < 65536" by simp
  ultimately have "if unat CountdownValue \<le> 6553 then unat (CountdownValue * 10) = 10 * unat CountdownValue
      else unat (CountdownValue * 10) < 10 * unat CountdownValue" by auto
  then show ?thesis
    using wdt_bmc.enable_ok [OF assms, of Cc0 TimerAction FlagsClear]
    by (auto simp: wdt_enabled_def take_bit_eq_mod)
qed

lemma mock_reset_wdt:
  "wdt_of M (mWatchdog (mock_reset M)) =
     \<lparr>wdt_use = 0, wdt_action = 0, wdt_flags = 0, wdt_initial = 0, wdt_present = 0, wdt_running = False\<rparr>"
  by (simp add: wdt_of_def mock_reset_def fget8_def)

theorem watchdog_enable_witness:
  "\<exists>m. IpmiEnableWatchdogTimer ipmi_v2 (IpmiSubmitCommand_Mock ipmi_v2) (zero_mem 9) 0 2 1 2 600
      (mock_reset ipmi_v2) = Some (EFI_SUCCESS, m) \<and>
    wdt_running (wdt_of ipmi_v2 (mWatchdog m)) \<and> wdt_initial (wdt_of ipmi_v2 (mWatchdog m)) = 6000"
  using watchdog_enable [OF mock_direct.wdt.wdt_bmc_axioms, of "mock_reset ipmi_v2" 2 600 "zero_mem 9" 0 1 2]
  by auto

text \<open>C18 One boot, over any BMC that keeps the contract.  After the DXE driver's entry point the timer is
  the FRB2 timer of the policy, with its use, action, flag and time, if the policy asks for it with
  a non-zero time and no timer ran before; otherwise it is what it was.  After ReadyToBoot, however
  often that is signalled, the timer that ran is stopped.  After ExitBootServices it runs exactly
  if the policy read by the entry point asks for the OS timer with a non-zero time, with the OS
  loader's use, action, flag and time, whatever happened to the rest of the platform since, a
  change of the published policy included; and no later signal changes anything.\<close>

theorem watchdog_boot:
  assumes "wdt_bmc M submit ok wdt" "ok (WdtSystem d)"
    and "GetPolicy (WdtSystem d) = Some ((EFI_SUCCESS, p), WdtSystem d)"
    and "length WatchdogTimer0 = sizeof M IPMI_GET_WATCHDOG_TIMER_RESPONSE"
    and "length Timer0 = sizeof M IPMI_GET_WATCHDOG_TIMER_RESPONSE"
    and "val_of M IPMI_WATCHDOG_TIMER_BIOS_FRB2 \<noteq> 0" "val_of M IPMI_WATCHDOG_TIMER_OS_LOADER \<noteq> 0"
  shows "\<exists>d1 d2.
    IpmiWatchdogDxeEntryPoint M submit GetPolicy EFI_SUCCESS EFI_SUCCESS WatchdogTimer0 Timer0 Cc0 d =
      Some (EFI_SUCCESS, d1) \<and>
    wdt (WdtSystem d1) = wdt_after_entry M p (wdt (WdtSystem d)) \<and>
    signals M submit Timer0 Cc0 (ReadyToBoot # replicate n ReadyToBoot) d1 = Some d2 \<and>
    ok (WdtSystem d2) \<and> \<not> wdt_running (wdt (WdtSystem d2)) \<and>
    wdt (WdtSystem d2) = wdt_stopped (val_of M IPMI_WATCHDOG_TIMER_BIOS_FRB2)
      (val_of M IPMI_WATCHDOG_TIMER_EXPIRATION_FLAG_BIOS_FRB2) (wdt_tick (wdt (WdtSystem d1))) \<and>
    (\<forall>s. ok s \<longrightarrow> wdt s = wdt (WdtSystem d2) \<longrightarrow>
      (\<exists>d3. signals M submit Timer0 Cc0 (ExitBootServices # es) (d2\<lparr>WdtSystem := s\<rparr>) = Some d3 \<and>
        wdt (WdtSystem d3) =
          (if OsWatchdogEnabled p \<and> OsTimeoutSeconds p \<noteq> 0
           then wdt_enabled (val_of M IPMI_WATCHDOG_TIMER_OS_LOADER) (OsTimeoutAction p)
                  (val_of M IPMI_WATCHDOG_TIMER_EXPIRATION_FLAG_OS_LOAD) (OsTimeoutSeconds p) (wdt s)
           else wdt s)))"
proof -
  obtain d1 where 1: "IpmiWatchdogDxeEntryPoint M submit GetPolicy EFI_SUCCESS EFI_SUCCESS WatchdogTimer0
      Timer0 Cc0 d = Some (EFI_SUCCESS, d1)" "ok (WdtSystem d1)" "mWatchdogPolicy d1 = p"
    "mReadyToBootEvent d1" "mExitBootServicesEvent d1" "wdt (WdtSystem d1) = wdt_after_entry M p (wdt (WdtSystem d))"
    using wdt_bmc.entry_ok [where GetPolicy = GetPolicy and d = d and ok = ok, OF assms(1-6), of Cc0] by auto
  obtain s2 where 2: "signal M submit Timer0 Cc0 ReadyToBoot d1 =
      Some (d1\<lparr>WdtSystem := s2, mReadyToBootEvent := False\<rparr>)" "ok s2"
    "wdt s2 = wdt_stopped (val_of M IPMI_WATCHDOG_TIMER_BIOS_FRB2)
      (val_of M IPMI_WATCHDOG_TIMER_EXPIRATION_FLAG_BIOS_FRB2) (wdt_tick (wdt (WdtSystem d1)))"
    using wdt_bmc.ready_ok [where ok = ok and d = d1, OF assms(1) 1(2,4) assms(5)] by blast
  let ?d2 = "d1\<lparr>WdtSystem := s2, mReadyToBootEvent := False\<rparr>"
  have "signals M submit Timer0 Cc0 (replicate n ReadyToBoot) ?d2 = Some ?d2"
    by (induction n) simp_all
  then have r: "signals M submit Timer0 Cc0 (ReadyToBoot # replicate n ReadyToBoot) d1 = Some ?d2"
    using 2(1) by simp
  have stopped: "\<not> wdt_running (wdt s2)" using 2(3) by (simp add: wdt_stopped_def)
  have x: "\<exists>d3. signals M submit Timer0 Cc0 (ExitBootServices # es) (?d2\<lparr>WdtSystem := s\<rparr>) = Some d3 \<and>
      wdt (WdtSystem d3) = (if OsWatchdogEnabled p \<and> OsTimeoutSeconds p \<noteq> 0
         then wdt_enabled (val_of M IPMI_WATCHDOG_TIMER_OS_LOADER) (OsTimeoutAction p)
                (val_of M IPMI_WATCHDOG_TIMER_EXPIRATION_FLAG_OS_LOAD) (OsTimeoutSeconds p) (wdt s)
         else wdt s)" if s: "ok s" for s
  proof -
    let ?ds = "?d2\<lparr>WdtSystem := s\<rparr>"
    obtain s3 where 3: "signal M submit Timer0 Cc0 ExitBootServices ?ds =
        Some (?ds\<lparr>WdtSystem := s3, mExitBootServicesEvent := False\<rparr>)"
      "wdt s3 = (if OsWatchdogEnabled p \<and> OsTimeoutSeconds p \<noteq> 0
         then wdt_enabled (val_of M IPMI_WATCHDOG_TIMER_OS_LOADER) (OsTimeoutAction p)
                (val_of M IPMI_WATCHDOG_TIMER_EXPIRATION_FLAG_OS_LOAD) (OsTimeoutSeconds p) (wdt s)
         else wdt s)"
      using wdt_bmc.exit_ok [where ok = ok and d = ?ds and ?c0.0 = Cc0, OF assms(1) _ _ assms(5,7)] 1(3,5) s by auto
    then show ?thesis
      using signals_closed [of "?ds\<lparr>WdtSystem := s3, mExitBootServicesEvent := False\<rparr>"] by simp
  qed
  show ?thesis
    using 1(1,6) r 2(2,3) stopped x by (intro exI [of _ d1] exI [of _ ?d2]) simp
qed

definition sample_policy :: ipmi_watchdog_policy where
  "sample_policy = \<lparr>Frb2Enabled = True, Frb2TimeoutAction = 1, Frb2TimeoutSeconds = 600,
     OsWatchdogEnabled = True, OsTimeoutAction = 3, OsTimeoutSeconds = 900\<rparr>"

theorem watchdog_boot_witness:
  "\<exists>d1 d2 d3.
    IpmiWatchdogDxeEntryPoint ipmi_v2 (IpmiSubmitCommand_Mock ipmi_v2) (\<lambda>s. Some ((EFI_SUCCESS, sample_policy), s))
      EFI_SUCCESS EFI_SUCCESS (zero_mem 9) (zero_mem 9) 0
      \<lparr>mWatchdogPolicy = sample_policy, mReadyToBootEvent = False, mExitBootServicesEvent = False,
       WdtSystem = mock_reset ipmi_v2\<rparr> = Some (EFI_SUCCESS, d1) \<and>
    wdt_use (wdt_of ipmi_v2 (mWatchdog (WdtSystem d1))) = 1 \<and>
    wdt_running (wdt_of ipmi_v2 (mWatchdog (WdtSystem d1))) \<and>
    signals ipmi_v2 (IpmiSubmitCommand_Mock ipmi_v2) (zero_mem 9) 0 (ReadyToBoot # replicate 1 ReadyToBoot) d1 = Some d2 \<and>
    \<not> wdt_running (wdt_of ipmi_v2 (mWatchdog (WdtSystem d2))) \<and>
    signals ipmi_v2 (IpmiSubmitCommand_Mock ipmi_v2) (zero_mem 9) 0 (ExitBootServices # [ReadyToBoot, ExitBootServices]) d2 =
      Some d3 \<and>
    wdt_initial (wdt_of ipmi_v2 (mWatchdog (WdtSystem d3))) = 9000 \<and>
    wdt_running (wdt_of ipmi_v2 (mWatchdog (WdtSystem d3)))"
proof -
  let ?d = "\<lparr>mWatchdogPolicy = sample_policy, mReadyToBootEvent = False, mExitBootServicesEvent = False,
       WdtSystem = mock_reset ipmi_v2\<rparr>"
  let ?G = "\<lambda>s. Some ((EFI_SUCCESS, sample_policy), s)" and ?w = "\<lambda>m. wdt_of ipmi_v2 (mWatchdog m)"
  let ?submit = "IpmiSubmitCommand_Mock ipmi_v2"
  have pre: "mock_ok ipmi_v2 (WdtSystem ?d)" "?G (WdtSystem ?d) = Some ((EFI_SUCCESS, sample_policy), WdtSystem ?d)"
    "length (zero_mem 9) = sizeof ipmi_v2 IPMI_GET_WATCHDOG_TIMER_RESPONSE"
    "val_of ipmi_v2 IPMI_WATCHDOG_TIMER_BIOS_FRB2 \<noteq> 0" "val_of ipmi_v2 IPMI_WATCHDOG_TIMER_OS_LOADER \<noteq> 0"
    by simp_all
  obtain d1 d2 where run:
    "IpmiWatchdogDxeEntryPoint ipmi_v2 ?submit ?G EFI_SUCCESS EFI_SUCCESS (zero_mem 9) (zero_mem 9) 0 ?d =
       Some (EFI_SUCCESS, d1)" "?w (WdtSystem d1) = wdt_after_entry ipmi_v2 sample_policy (?w (WdtSystem ?d))"
    "signals ipmi_v2 ?submit (zero_mem 9) 0 (ReadyToBoot # replicate 1 ReadyToBoot) d1 = Some d2"
    "mock_ok ipmi_v2 (WdtSystem d2)" "\<not> wdt_running (?w (WdtSystem d2))"
    and exit: "\<forall>s. mock_ok ipmi_v2 s \<longrightarrow> ?w s = ?w (WdtSystem d2) \<longrightarrow>
      (\<exists>d3. signals ipmi_v2 ?submit (zero_mem 9) 0 (ExitBootServices # [ReadyToBoot, ExitBootServices])
          (d2\<lparr>WdtSystem := s\<rparr>) = Some d3 \<and>
        ?w (WdtSystem d3) = (if OsWatchdogEnabled sample_policy \<and> OsTimeoutSeconds sample_policy \<noteq> 0
          then wdt_enabled (val_of ipmi_v2 IPMI_WATCHDOG_TIMER_OS_LOADER) (OsTimeoutAction sample_policy)
            (val_of ipmi_v2 IPMI_WATCHDOG_TIMER_EXPIRATION_FLAG_OS_LOAD) (OsTimeoutSeconds sample_policy) (?w s)
          else ?w s))"
    using watchdog_boot [where ok = "mock_ok ipmi_v2" and GetPolicy = ?G and d = ?d and ?Cc0.0 = 0 and n = 1 and
        es = "[ReadyToBoot, ExitBootServices]", OF mock_direct.wdt.wdt_bmc_axioms pre(1,2,3,3,4,5), unfolded id_apply]
    by (elim exE conjE) (rule that; assumption)
  have "?w (WdtSystem d1) = wdt_after_entry ipmi_v2 sample_policy (?w (mock_reset ipmi_v2))" using run(2) by simp
  then have "wdt_use (?w (WdtSystem d1)) = 1" "wdt_running (?w (WdtSystem d1))"
    by (simp_all add: wdt_after_entry_def wdt_enabled_def sample_policy_def mock_reset_wdt)
  moreover obtain d3 where "signals ipmi_v2 ?submit (zero_mem 9) 0 (ExitBootServices # [ReadyToBoot, ExitBootServices]) d2 =
      Some d3" "wdt_initial (?w (WdtSystem d3)) = 9000" "wdt_running (?w (WdtSystem d3))"
    using exit [rule_format, OF run(4)] by (auto simp: wdt_enabled_def sample_policy_def)
  ultimately show ?thesis using run(1,3,5) by blast
qed

end
