(* ===== verification/Boot_Option.thy ===== *)
theory Boot_Option
  imports Command_Lib
begin

section \<open>The boot option library and the CMOS clear driver\<close>

text \<open>
  \<open>Library/IpmiBootOptionLib\<close>, \<open>IpmiCmosClear\<close> and \<open>Library/PlatformCmosClearLibNull\<close>.  A
  response is a header (completion code, parameter version, parameter valid) and the data of the
  parameter; a request is the parameter valid byte and the data.  OUT parameters that may be NULL
  are options; the selector of a boot device is its number.
\<close>

unbundle bit_operations_syntax

subsection \<open>Sizes and members\<close>

text \<open>\<open>IPMI_GET_BOOT_OPTIONS_RESPONSE_HDR\<close>, and where its \<open>ParameterValid\<close> starts.\<close>

definition boot_valid_base :: "ipmi_hdr \<Rightarrow> nat" where
  "boot_valid_base M = 1 + sizeof M IPMI_GET_BOOT_OPTIONS_PARAMETER_VERSION"

definition boot_hdr_size :: "ipmi_hdr \<Rightarrow> nat" where
  "boot_hdr_size M = boot_valid_base M + sizeof M IPMI_GET_BOOT_OPTIONS_PARAMETER_VALID"

abbreviation (input) flags_size :: "ipmi_hdr \<Rightarrow> nat" where
  "flags_size M \<equiv> sizeof M IPMI_BOOT_OPTIONS_RESPONSE_PARAMETER_5"

subsection \<open>Reading and writing a parameter\<close>

text \<open>The result holds the memory at \<open>Response\<close>; a failed ASSERT is \<open>None\<close>.\<close>

definition IpmiGetBootOption ::
    "ipmi_hdr \<Rightarrow> 's submit \<Rightarrow> u8 \<Rightarrow> u32 \<Rightarrow> bytes option \<Rightarrow> ('s, efi_status \<times> bytes) op" where
  "IpmiGetBootOption M submit ParameterSelector ResponseSize Response s =
     (case Response of
        None \<Rightarrow> None
      | Some Response0 \<Rightarrow>
          do {
            ASSERT (boot_hdr_size M \<le> unat ResponseSize);
            let Request = fput M 0 GetBoot_ParameterSelector (unat ParameterSelector)
                            (zero_mem (sizeof M IPMI_GET_BOOT_OPTIONS_REQUEST));
            let Response1 = copy_mem Response0 0 (zero_mem (unat ResponseSize));
            ((Status, R, DataSize), s1) \<leftarrow>
               submit (netfn_of M IPMI_NETFN_CHASSIS) (cmd_of M IPMI_CHASSIS_GET_SYSTEM_BOOT_OPTIONS)
                 (Some Request) (struct_size M IPMI_GET_BOOT_OPTIONS_REQUEST) Response1 ResponseSize s;
            if EFI_ERROR Status then Some ((Status, R), s1)
            else if unat DataSize < 1 then Some ((EFI_BAD_BUFFER_SIZE, R), s1)
            else if fget8 M 0 CompletionCode R \<noteq> cc_of M IPMI_COMP_CODE_NORMAL
            then Some ((EFI_PROTOCOL_ERROR, R), s1)
            else if DataSize < ResponseSize then Some ((EFI_BAD_BUFFER_SIZE, R), s1)
            else Some ((EFI_SUCCESS, R), s1)
          })"

definition IpmiCheckSetInProgress ::
    "ipmi_hdr \<Rightarrow> 's submit \<Rightarrow> bool option \<Rightarrow> ('s, efi_status \<times> bool option) op" where
  "IpmiCheckSetInProgress M submit SetInProgress s =
     (case SetInProgress of
        None \<Rightarrow> Some ((EFI_INVALID_PARAMETER, None), s)
      | Some _ \<Rightarrow>
          (let size = boot_hdr_size M + sizeof M IPMI_BOOT_OPTIONS_RESPONSE_PARAMETER_0 in
           do {
             ((Status, R), s1) \<leftarrow>
                IpmiGetBootOption M submit (val_of M IPMI_BOOT_OPTIONS_PARAMETER_SELECTOR_SET_IN_PROGRESS)
                  (of_nat size) (Some (zero_mem size)) s;
             if EFI_ERROR Status then Some ((Status, SetInProgress), s1)
             else if fget M (boot_valid_base M) GetValid_ParameterValid R \<noteq> 0
             then Some ((EFI_SUCCESS, Some False), s1)
             else Some ((EFI_SUCCESS, Some (odd (fget M (boot_hdr_size M) Param0_SetInProgress R))), s1)
           }))"

definition IpmiAcknowledgeBootOption :: "ipmi_hdr \<Rightarrow> 's submit \<Rightarrow> 's \<Rightarrow> 's option" where
  "IpmiAcknowledgeBootOption M submit s =
     (let base = sizeof M IPMI_SET_BOOT_OPTIONS_PARAMETER_VALID;
          size = base + sizeof M IPMI_BOOT_OPTIONS_RESPONSE_PARAMETER_4;
          Request = fput M base Param4_BootInitiatorAcknowledgeData 0
                     (fput M base Param4_WriteMask (unat (val_of M BOOT_OPTION_HANDLED_BY_BIOS))
                       (fputs M [(SetValid_ParameterSelector, unat (val_of M IPMI_BOOT_OPTIONS_PARAMETER_BOOT_INFO_ACK)),
                                 (SetValid_MarkParameterInvalid, 0)] (zero_mem size)))
      in map_option snd
           (submit (netfn_of M IPMI_NETFN_CHASSIS) (cmd_of M IPMI_CHASSIS_SET_SYSTEM_BOOT_OPTIONS)
              (Some Request) (of_nat size) (zero_mem (sizeof M IPMI_SET_BOOT_OPTIONS_RESPONSE))
              (struct_size M IPMI_SET_BOOT_OPTIONS_RESPONSE) s))"

definition IpmiSetBootFlags :: "ipmi_hdr \<Rightarrow> 's submit \<Rightarrow> bytes \<Rightarrow> ('s, efi_status) op" where
  "IpmiSetBootFlags M submit BootFlags s =
     do {
       let base = sizeof M IPMI_SET_BOOT_OPTIONS_PARAMETER_VALID;
       let size = base + flags_size M;
       let Request = copy_mem (fputs M [(SetValid_ParameterSelector, unat (val_of M IPMI_BOOT_OPTIONS_PARAMETER_BOOT_FLAGS)),
                                        (SetValid_MarkParameterInvalid, 0)] (zero_mem size))
                       base (take (flags_size M) BootFlags);
       ((Status, R, DataSize), s1) \<leftarrow>
          submit (netfn_of M IPMI_NETFN_CHASSIS) (cmd_of M IPMI_CHASSIS_SET_SYSTEM_BOOT_OPTIONS)
            (Some Request) (of_nat size) (zero_mem (sizeof M IPMI_SET_BOOT_OPTIONS_RESPONSE))
            (struct_size M IPMI_SET_BOOT_OPTIONS_RESPONSE) s;
       if EFI_ERROR Status then Some (Status, s1)
       else if unat DataSize < sizeof M IPMI_SET_BOOT_OPTIONS_RESPONSE then Some (Status, s1)
       else if fget8 M 0 CompletionCode R \<noteq> cc_of M IPMI_COMP_CODE_NORMAL then Some (EFI_PROTOCOL_ERROR, s1)
       else Some (Status, s1)
     }"

text \<open>The result: status, \<open>*BootFlags\<close> and \<open>*FlagsValid\<close>; the two pointers are never NULL here.\<close>

definition IpmiGetBootFlags :: "ipmi_hdr \<Rightarrow> 's submit \<Rightarrow> ('s, efi_status \<times> bytes \<times> bool) op" where
  "IpmiGetBootFlags M submit s =
     (let size = boot_hdr_size M + flags_size M; BootFlags = zero_mem (flags_size M) in
      do {
        ((Status, R), s1) \<leftarrow>
           IpmiGetBootOption M submit (val_of M IPMI_BOOT_OPTIONS_PARAMETER_BOOT_FLAGS) (of_nat size)
             (Some (zero_mem size)) s;
        if EFI_ERROR Status then Some ((Status, BootFlags, False), s1)
        else if fget M (boot_valid_base M) GetValid_ParameterValid R \<noteq> 0
        then Some ((EFI_SUCCESS, BootFlags, False), s1)
        else if fget M (boot_hdr_size M) Param5_BootFlagValid R = 0
        then Some ((EFI_SUCCESS, BootFlags, False), s1)
        else Some ((EFI_SUCCESS, take (flags_size M) (drop (boot_hdr_size M) R), True), s1)
      })"

subsection \<open>The two questions\<close>

definition IpmiGetBootDevice ::
    "ipmi_hdr \<Rightarrow> 's submit \<Rightarrow> nat option \<Rightarrow> ('s, efi_status \<times> nat option) op" where
  "IpmiGetBootDevice M submit Selector s =
     (case Selector of
        None \<Rightarrow> Some ((EFI_INVALID_PARAMETER, None), s)
      | Some _ \<Rightarrow> do {
          ((Status, SetInProgress), s1) \<leftarrow> IpmiCheckSetInProgress M submit (Some False) s;
          if EFI_ERROR Status then Some ((Status, Selector), s1)
          else if SetInProgress = Some True then Some ((EFI_NOT_READY, Selector), s1)
          else do {
            ((Status, FlagsData, FlagsValid), s2) \<leftarrow> IpmiGetBootFlags M submit s1;
            if EFI_ERROR Status then Some ((Status, Some 0), s2)
            else do {
              (Sel, s3) \<leftarrow>
                (if FlagsValid then do {
                   s3 \<leftarrow> (if fget M 0 Param5_PersistentOptions FlagsData = 0
                         then map_option snd (IpmiSetBootFlags M submit (zero_mem (flags_size M)) s2)
                         else Some s2);
                   Some (fget M 0 Param5_BootDeviceSelector FlagsData, s3)
                 }
                 else Some (0, s2));
              s4 \<leftarrow> IpmiAcknowledgeBootOption M submit s3;
              Some ((EFI_SUCCESS, Some Sel), s4)
            }
          }
        })"

definition IpmiGetCmosClearOption ::
    "ipmi_hdr \<Rightarrow> 's submit \<Rightarrow> bool option \<Rightarrow> ('s, efi_status \<times> bool option) op" where
  "IpmiGetCmosClearOption M submit ClearCmos s =
     (case ClearCmos of
        None \<Rightarrow> Some ((EFI_INVALID_PARAMETER, None), s)
      | Some _ \<Rightarrow> do {
          ((Status, SetInProgress), s1) \<leftarrow> IpmiCheckSetInProgress M submit (Some False) s;
          if EFI_ERROR Status then Some ((Status, Some False), s1)
          else if SetInProgress = Some True then Some ((EFI_NOT_READY, Some False), s1)
          else do {
            ((Status, FlagsData, FlagsValid), s2) \<leftarrow> IpmiGetBootFlags M submit s1;
            if EFI_ERROR Status then Some ((Status, Some False), s2)
            else if \<not> FlagsValid then Some ((EFI_SUCCESS, Some False), s2)
            else if fget M 0 Param5_CmosClear FlagsData \<noteq> 0 then do {
              (ignored, s3) \<leftarrow> IpmiSetBootFlags M submit (fput M 0 Param5_CmosClear 0 FlagsData) s2;
              Some ((EFI_SUCCESS, Some True), s3)
            }
            else Some ((EFI_SUCCESS, Some False), s2)
          }
        })"

subsection \<open>The CMOS clear driver\<close>

text \<open>
  \<open>PlatformClearCmos\<close> is a library of the platform: status and \<open>*RebootRequired\<close>.  A reset does not
  come back: the driver's result is \<open>Inl\<close> of the state in which the system was reset.
\<close>

definition PlatformClearCmos_Null :: "bool option \<Rightarrow> ('s, efi_status \<times> bool option) op" where
  "PlatformClearCmos_Null RebootRequired s =
     (case RebootRequired of
        None \<Rightarrow> Some ((EFI_INVALID_PARAMETER, None), s)
      | Some _ \<Rightarrow> Some ((EFI_UNSUPPORTED, Some False), s))"

definition IpmiCmosEntryPoint ::
    "ipmi_hdr \<Rightarrow> 's submit \<Rightarrow> (bool option \<Rightarrow> ('s, efi_status \<times> bool option) op) \<Rightarrow> 's \<Rightarrow>
       ('s + efi_status \<times> 's) option" where
  "IpmiCmosEntryPoint M submit PlatformClearCmos s =
     do {
       ((Status, ClearCmos), s1) \<leftarrow> IpmiGetCmosClearOption M submit (Some False) s;
       if EFI_ERROR Status then Some (Inr (Status, s1))
       else if ClearCmos = Some True then do {
         ((Status, RebootRequired), s2) \<leftarrow> PlatformClearCmos (Some False) s1;
         if EFI_ERROR Status then Some (Inr (Status, s2))
         else if RebootRequired = Some True then Some (Inl s2)
         else Some (Inr (EFI_SUCCESS, s2))
       }
       else Some (Inr (EFI_SUCCESS, s1))
     }"

section \<open>The contract with the BMC\<close>

text \<open>
  Boot options as the BMC keeps them: five bytes of boot flags, the acknowledge bits, and whether
  a set is in progress.
\<close>

definition get_boot_ok :: "ipmi_hdr \<Rightarrow> ipmi_val \<Rightarrow> bytes \<Rightarrow> bool" where
  "get_boot_ok M p d \<longleftrightarrow> length d = sizeof M IPMI_GET_BOOT_OPTIONS_REQUEST \<and>
     fget M 0 GetBoot_ParameterSelector d = unat (val_of M p) \<and>
     fget M 0 GetBoot_SetSelector d = 0 \<and> fget M 0 GetBoot_BlockSelector d = 0"

definition set_boot_ok :: "ipmi_hdr \<Rightarrow> ipmi_val \<Rightarrow> nat \<Rightarrow> bytes \<Rightarrow> bool" where
  "set_boot_ok M p n d \<longleftrightarrow> length d = sizeof M IPMI_SET_BOOT_OPTIONS_PARAMETER_VALID + n \<and>
     fget M 0 SetValid_ParameterSelector d = unat (val_of M p) \<and>
     fget M 0 SetValid_MarkParameterInvalid d = 0"

locale boot_bmc =
  fixes M :: ipmi_hdr and submit :: "'s submit" and ok :: "'s \<Rightarrow> bool"
    and flags :: "'s \<Rightarrow> bytes" and acks :: "'s \<Rightarrow> u8" and progress :: "'s \<Rightarrow> bool"
  assumes hdr_boot: "hdr_ok M"
    and selectors: "val_of M IPMI_BOOT_OPTIONS_PARAMETER_SELECTOR_SET_IN_PROGRESS < 128"
      "val_of M IPMI_BOOT_OPTIONS_PARAMETER_BOOT_FLAGS < 128"
      "val_of M IPMI_BOOT_OPTIONS_PARAMETER_BOOT_INFO_ACK < 128"
    and small: "boot_hdr_size M + sizeof M IPMI_BOOT_OPTIONS_RESPONSE_PARAMETER_0 < 250"
      "boot_hdr_size M + flags_size M < 250"
    and flags_len: "ok s \<Longrightarrow> length (flags s) = flags_size M"
    and get_progress:
      "ok s \<Longrightarrow> get_boot_ok M IPMI_BOOT_OPTIONS_PARAMETER_SELECTOR_SET_IN_PROGRESS d \<Longrightarrow>
         length buf = boot_hdr_size M + sizeof M IPMI_BOOT_OPTIONS_RESPONSE_PARAMETER_0 \<Longrightarrow>
         \<exists>R s'. submit (netfn_of M IPMI_NETFN_CHASSIS) (cmd_of M IPMI_CHASSIS_GET_SYSTEM_BOOT_OPTIONS)
             (Some d) (of_nat (length d)) buf (of_nat (length buf)) s =
             Some ((EFI_SUCCESS, R, of_nat (length buf)), s') \<and>
           fget8 M 0 CompletionCode R = cc_of M IPMI_COMP_CODE_NORMAL \<and>
           fget M (boot_valid_base M) GetValid_ParameterValid R = 0 \<and>
           odd (fget M (boot_hdr_size M) Param0_SetInProgress R) = progress s \<and>
           ok s' \<and> flags s' = flags s \<and> acks s' = acks s \<and> progress s' = progress s"
    and get_flags:
      "ok s \<Longrightarrow> get_boot_ok M IPMI_BOOT_OPTIONS_PARAMETER_BOOT_FLAGS d \<Longrightarrow>
         length buf = boot_hdr_size M + flags_size M \<Longrightarrow>
         \<exists>R s'. submit (netfn_of M IPMI_NETFN_CHASSIS) (cmd_of M IPMI_CHASSIS_GET_SYSTEM_BOOT_OPTIONS)
             (Some d) (of_nat (length d)) buf (of_nat (length buf)) s =
             Some ((EFI_SUCCESS, R, of_nat (length buf)), s') \<and>
           fget8 M 0 CompletionCode R = cc_of M IPMI_COMP_CODE_NORMAL \<and>
           fget M (boot_valid_base M) GetValid_ParameterValid R = 0 \<and>
           drop (boot_hdr_size M) R = flags s \<and>
           ok s' \<and> flags s' = flags s \<and> acks s' = acks s \<and> progress s' = progress s"
    and set_flags:
      "ok s \<Longrightarrow> set_boot_ok M IPMI_BOOT_OPTIONS_PARAMETER_BOOT_FLAGS (flags_size M) d \<Longrightarrow>
         length buf = sizeof M IPMI_SET_BOOT_OPTIONS_RESPONSE \<Longrightarrow>
         \<exists>R s'. submit (netfn_of M IPMI_NETFN_CHASSIS) (cmd_of M IPMI_CHASSIS_SET_SYSTEM_BOOT_OPTIONS)
             (Some d) (of_nat (length d)) buf (of_nat (length buf)) s =
             Some ((EFI_SUCCESS, R, of_nat (length buf)), s') \<and>
           fget8 M 0 CompletionCode R = cc_of M IPMI_COMP_CODE_NORMAL \<and>
           ok s' \<and> flags s' = drop (sizeof M IPMI_SET_BOOT_OPTIONS_PARAMETER_VALID) d \<and>
           acks s' = acks s \<and> progress s' = progress s"
    and set_acks:
      "ok s \<Longrightarrow>
         set_boot_ok M IPMI_BOOT_OPTIONS_PARAMETER_BOOT_INFO_ACK
           (sizeof M IPMI_BOOT_OPTIONS_RESPONSE_PARAMETER_4) d \<Longrightarrow>
         length buf = sizeof M IPMI_SET_BOOT_OPTIONS_RESPONSE \<Longrightarrow>
         \<exists>R s'. submit (netfn_of M IPMI_NETFN_CHASSIS) (cmd_of M IPMI_CHASSIS_SET_SYSTEM_BOOT_OPTIONS)
             (Some d) (of_nat (length d)) buf (of_nat (length buf)) s =
             Some ((EFI_SUCCESS, R, of_nat (length buf)), s') \<and>
           (let mask = fget8 M (sizeof M IPMI_SET_BOOT_OPTIONS_PARAMETER_VALID) Param4_WriteMask d;
                ack = fget8 M (sizeof M IPMI_SET_BOOT_OPTIONS_PARAMETER_VALID)
                        Param4_BootInitiatorAcknowledgeData d
            in acks s' = (acks s AND NOT mask) OR (mask AND ack)) \<and>
           ok s' \<and> flags s' = flags s \<and> progress s' = progress s"

unbundle bit_operations_syntax

section \<open>The library against the contract\<close>

lemma le_nat_drop: "le_nat (drop n bs) = drop_bit (8 * n) (le_nat bs)"
proof (induction n arbitrary: bs)
  case 0
  then show ?case by simp
next
  case (Suc n)
  show ?case
  proof (cases bs)
    case (Cons b cs)
    have "(unat b + 256 * le_nat cs) div 256 = le_nat cs" using u8_bound [of b] by simp
    moreover have "(2 :: nat) ^ (8 * Suc n) = 256 * 2 ^ (8 * n)" by (simp add: power_add)
    ultimately show ?thesis
      using Cons Suc by (simp add: drop_bit_eq_div div_mult2_eq del: mult_Suc_right)
  qed simp
qed

lemma fget_drop: "fget M base f bs = fget M 0 f (drop base bs)"
  by (simp add: fget_def bits_get_def le_nat_drop drop_bit_drop_bit add.commute)

lemma fget_fput_after:
  assumes "hdr_ok M" "g \<in> set (fields_of S)" "f \<in> set (fields_of T)" "sizeof M S \<le> base"
    and "base + sizeof M T \<le> length bs"
  shows "fget M 0 g (fput M base f v bs) = fget M 0 g bs"
proof -
  have "8 * base + fst (layout M f) + snd (layout M f) \<le> 8 * length bs"
    "fst (layout M g) + snd (layout M g) \<le> 8 * base"
    using hdr_ok_inside [OF assms(1,3)] hdr_ok_inside [OF assms(1,2)] assms(4,5) by linarith+
  then show ?thesis by (simp add: fget_def fput_def bits_get_put_other)
qed

lemma take_bit_7: "v < 128 \<Longrightarrow> take_bit 7 (unat (v :: u8)) = unat v"
  by (simp add: take_bit_nat_eq_self word_less_nat_alt)

definition boot_get_request :: "ipmi_hdr \<Rightarrow> u8 \<Rightarrow> bytes" where
  "boot_get_request M v =
     fput M 0 GetBoot_ParameterSelector (unat v) (zero_mem (sizeof M IPMI_GET_BOOT_OPTIONS_REQUEST))"

lemma boot_get_request:
  assumes "hdr_ok M" "val_of M p < 128"
  shows "get_boot_ok M p (boot_get_request M (val_of M p))"
  using fget_fput [OF assms(1), of GetBoot_ParameterSelector IPMI_GET_BOOT_OPTIONS_REQUEST _
      "zero_mem (sizeof M IPMI_GET_BOOT_OPTIONS_REQUEST)"] take_bit_7 [OF assms(2)]
  by (simp add: get_boot_ok_def boot_get_request_def)

lemma length_boot_get_request [simp]:
  "length (boot_get_request M v) = sizeof M IPMI_GET_BOOT_OPTIONS_REQUEST"
  by (simp add: boot_get_request_def)

definition boot_set_header :: "ipmi_hdr \<Rightarrow> ipmi_val \<Rightarrow> nat \<Rightarrow> bytes" where
  "boot_set_header M p n = fputs M [(SetValid_ParameterSelector, unat (val_of M p)),
     (SetValid_MarkParameterInvalid, 0)] (zero_mem (sizeof M IPMI_SET_BOOT_OPTIONS_PARAMETER_VALID + n))"

lemma length_boot_set_header [simp]:
  "length (boot_set_header M p n) = sizeof M IPMI_SET_BOOT_OPTIONS_PARAMETER_VALID + n"
  by (simp add: boot_set_header_def)

lemma boot_set_header:
  assumes "hdr_ok M" "val_of M p < 128"
  shows "fget M 0 SetValid_ParameterSelector (boot_set_header M p n) = unat (val_of M p)"
    "fget M 0 SetValid_MarkParameterInvalid (boot_set_header M p n) = 0"
  using fget_fputs [OF assms(1), of _ IPMI_SET_BOOT_OPTIONS_PARAMETER_VALID] take_bit_7 [OF assms(2)]
  by (simp_all add: boot_set_header_def del: fputs_simps)

lemma boot_set_request:
  assumes "hdr_ok M" "val_of M p < 128" "length x = n"
  defines "d \<equiv> copy_mem (boot_set_header M p n) (sizeof M IPMI_SET_BOOT_OPTIONS_PARAMETER_VALID) x"
  shows "set_boot_ok M p n d" "drop (sizeof M IPMI_SET_BOOT_OPTIONS_PARAMETER_VALID) d = x"
proof -
  let ?h = "sizeof M IPMI_SET_BOOT_OPTIONS_PARAMETER_VALID"
  have t: "take ?h d = take ?h (boot_set_header M p n)" by (simp add: d_def copy_mem_def)
  have "fget M 0 f d = fget M 0 f (boot_set_header M p n)"
    if "f \<in> set (fields_of IPMI_SET_BOOT_OPTIONS_PARAMETER_VALID)" for f
    using fget_take [OF assms(1) that, of ?h d] fget_take [OF assms(1) that, of ?h "boot_set_header M p n"] t
    by simp
  then show "set_boot_ok M p n d"
    using boot_set_header [OF assms(1,2)] assms(3)
    by (simp add: set_boot_ok_def) (simp add: d_def copy_mem_def)
  show "drop ?h d = x" using assms(3) by (simp add: d_def copy_mem_def)
qed

definition boot_flags_valid :: "ipmi_hdr \<Rightarrow> bytes \<Rightarrow> bool" where
  "boot_flags_valid M F \<longleftrightarrow> fget M 0 Param5_BootFlagValid F \<noteq> 0"

context boot_bmc
begin

definition same :: "'s \<Rightarrow> 's \<Rightarrow> bool" where
  "same s s' \<longleftrightarrow> ok s' \<and> flags s' = flags s \<and> acks s' = acks s \<and> progress s' = progress s"

lemma size_u32: "n < 250 \<Longrightarrow> unat (of_nat n :: u32) = n"
  by (simp add: unat_of_nat)

lemma hdr_size_pos: "0 < boot_hdr_size M"
  by (simp add: boot_hdr_size_def boot_valid_base_def)

lemma option_ok:
  assumes run: "submit (netfn_of M IPMI_NETFN_CHASSIS) (cmd_of M IPMI_CHASSIS_GET_SYSTEM_BOOT_OPTIONS)
      (Some (boot_get_request M v)) (struct_size M IPMI_GET_BOOT_OPTIONS_REQUEST) (zero_mem n) (of_nat n) s =
      Some ((EFI_SUCCESS, R, of_nat n), s')"
    and R: "fget8 M 0 CompletionCode R = cc_of M IPMI_COMP_CODE_NORMAL"
    and n: "boot_hdr_size M \<le> n" "n < 250"
  shows "IpmiGetBootOption M submit v (of_nat n) (Some (zero_mem n)) s = Some ((EFI_SUCCESS, R), s')"
  using run R n hdr_size_pos
  by (simp add: IpmiGetBootOption_def size_u32 copy_mem_0 flip: boot_get_request_def)

lemma check_progress:
  assumes "ok s"
  shows "\<exists>s'. IpmiCheckSetInProgress M submit (Some b) s = Some ((EFI_SUCCESS, Some (progress s)), s') \<and>
    same s s'"
proof -
  let ?n = "boot_hdr_size M + sizeof M IPMI_BOOT_OPTIONS_RESPONSE_PARAMETER_0"
  obtain R s' where 1: "submit (netfn_of M IPMI_NETFN_CHASSIS) (cmd_of M IPMI_CHASSIS_GET_SYSTEM_BOOT_OPTIONS)
      (Some (boot_get_request M (val_of M IPMI_BOOT_OPTIONS_PARAMETER_SELECTOR_SET_IN_PROGRESS)))
      (struct_size M IPMI_GET_BOOT_OPTIONS_REQUEST) (zero_mem ?n) (of_nat ?n) s = Some ((EFI_SUCCESS, R, of_nat ?n), s')"
    "fget8 M 0 CompletionCode R = cc_of M IPMI_COMP_CODE_NORMAL"
    "fget M (boot_valid_base M) GetValid_ParameterValid R = 0"
    "odd (fget M (boot_hdr_size M) Param0_SetInProgress R) = progress s" "same s s'"
    using get_progress [OF assms boot_get_request [OF hdr_boot selectors(1)], of "zero_mem ?n"]
    by (auto simp: same_def)
  have "IpmiGetBootOption M submit (val_of M IPMI_BOOT_OPTIONS_PARAMETER_SELECTOR_SET_IN_PROGRESS) (of_nat ?n)
      (Some (zero_mem ?n)) s = Some ((EFI_SUCCESS, R), s')"
    by (rule option_ok [OF 1(1,2)]) (use small in simp_all)
  then show ?thesis using 1(3-5) by (simp add: IpmiCheckSetInProgress_def Let_def)
qed

lemma get_boot_flags:
  assumes "ok s"
  shows "\<exists>s'. IpmiGetBootFlags M submit s =
      Some ((EFI_SUCCESS, if boot_flags_valid M (flags s) then flags s else zero_mem (flags_size M),
             boot_flags_valid M (flags s)), s') \<and> same s s'"
proof -
  let ?n = "boot_hdr_size M + flags_size M"
  obtain R s' where 1: "submit (netfn_of M IPMI_NETFN_CHASSIS) (cmd_of M IPMI_CHASSIS_GET_SYSTEM_BOOT_OPTIONS)
      (Some (boot_get_request M (val_of M IPMI_BOOT_OPTIONS_PARAMETER_BOOT_FLAGS)))
      (struct_size M IPMI_GET_BOOT_OPTIONS_REQUEST) (zero_mem ?n) (of_nat ?n) s = Some ((EFI_SUCCESS, R, of_nat ?n), s')"
    "fget8 M 0 CompletionCode R = cc_of M IPMI_COMP_CODE_NORMAL"
    "fget M (boot_valid_base M) GetValid_ParameterValid R = 0"
    "drop (boot_hdr_size M) R = flags s" "same s s'"
    using get_flags [OF assms boot_get_request [OF hdr_boot selectors(2)], of "zero_mem ?n"]
    by (auto simp: same_def)
  have "IpmiGetBootOption M submit (val_of M IPMI_BOOT_OPTIONS_PARAMETER_BOOT_FLAGS) (of_nat ?n)
      (Some (zero_mem ?n)) s = Some ((EFI_SUCCESS, R), s')"
    by (rule option_ok [OF 1(1,2)]) (use small in simp_all)
  moreover have "fget M (boot_hdr_size M) Param5_BootFlagValid R = fget M 0 Param5_BootFlagValid (flags s)"
    by (simp add: fget_drop [of M "boot_hdr_size M"] 1(4))
  ultimately show ?thesis
    using 1(3-5) flags_len [OF assms]
    by (simp add: IpmiGetBootFlags_def Let_def boot_flags_valid_def)
qed

lemma set_boot_flags:
  assumes "ok s" "length F = flags_size M"
  shows "\<exists>st s'. IpmiSetBootFlags M submit F s = Some (st, s') \<and> ok s' \<and> flags s' = F \<and>
    acks s' = acks s \<and> progress s' = progress s"
proof -
  let ?d = "copy_mem (boot_set_header M IPMI_BOOT_OPTIONS_PARAMETER_BOOT_FLAGS (flags_size M))
    (sizeof M IPMI_SET_BOOT_OPTIONS_PARAMETER_VALID) F"
  note d = boot_set_request [OF hdr_boot selectors(2) assms(2)]
  have len: "length ?d = sizeof M IPMI_SET_BOOT_OPTIONS_PARAMETER_VALID + flags_size M"
    using d(1) by (simp add: set_boot_ok_def)
  obtain R s' where "submit (netfn_of M IPMI_NETFN_CHASSIS) (cmd_of M IPMI_CHASSIS_SET_SYSTEM_BOOT_OPTIONS)
      (Some ?d) (of_nat (sizeof M IPMI_SET_BOOT_OPTIONS_PARAMETER_VALID + flags_size M))
      (zero_mem (sizeof M IPMI_SET_BOOT_OPTIONS_RESPONSE)) (struct_size M IPMI_SET_BOOT_OPTIONS_RESPONSE) s =
      Some ((EFI_SUCCESS, R, struct_size M IPMI_SET_BOOT_OPTIONS_RESPONSE), s')"
    "fget8 M 0 CompletionCode R = cc_of M IPMI_COMP_CODE_NORMAL" "ok s'" "flags s' = F" "acks s' = acks s"
    "progress s' = progress s"
    using set_flags [OF assms(1) d(1), of "zero_mem (sizeof M IPMI_SET_BOOT_OPTIONS_RESPONSE)"] len d(2)
    by auto
  then show ?thesis
    using assms(2)
    by (simp add: IpmiSetBootFlags_def Let_def flip: boot_set_header_def del: fputs_simps of_nat_add)
qed

end

unbundle bit_operations_syntax

text \<open>What a client is told, and what the flags are afterwards.\<close>

definition device_of :: "ipmi_hdr \<Rightarrow> bytes \<Rightarrow> nat" where
  "device_of M F = (if boot_flags_valid M F then fget M 0 Param5_BootDeviceSelector F else 0)"

definition after_device :: "ipmi_hdr \<Rightarrow> bytes \<Rightarrow> bytes" where
  "after_device M F = (if boot_flags_valid M F \<and> fget M 0 Param5_PersistentOptions F = 0
     then zero_mem (flags_size M) else F)"

definition cmos_of :: "ipmi_hdr \<Rightarrow> bytes \<Rightarrow> bool" where
  "cmos_of M F \<longleftrightarrow> boot_flags_valid M F \<and> fget M 0 Param5_CmosClear F \<noteq> 0"

definition after_cmos :: "ipmi_hdr \<Rightarrow> bytes \<Rightarrow> bytes" where
  "after_cmos M F = (if cmos_of M F then fput M 0 Param5_CmosClear 0 F else F)"

context boot_bmc
begin

lemma acknowledge:
  assumes "ok s"
  shows "\<exists>s'. IpmiAcknowledgeBootOption M submit s = Some s' \<and> ok s' \<and> flags s' = flags s \<and>
    acks s' = acks s AND NOT (val_of M BOOT_OPTION_HANDLED_BY_BIOS) \<and> progress s' = progress s"
proof -
  let ?h = "sizeof M IPMI_SET_BOOT_OPTIONS_PARAMETER_VALID"
  let ?P = IPMI_BOOT_OPTIONS_RESPONSE_PARAMETER_4
  let ?p = IPMI_BOOT_OPTIONS_PARAMETER_BOOT_INFO_ACK
  let ?H = "boot_set_header M ?p (sizeof M ?P)"
  define d1 where "d1 = fput M ?h Param4_WriteMask (unat (val_of M BOOT_OPTION_HANDLED_BY_BIOS)) ?H"
  define d where "d = fput M ?h Param4_BootInitiatorAcknowledgeData 0 d1"
  have len: "length d1 = ?h + sizeof M ?P" "length d = ?h + sizeof M ?P" by (simp_all add: d_def d1_def)
  have head: "fget M 0 g d = fget M 0 g ?H" if "g \<in> set (fields_of IPMI_SET_BOOT_OPTIONS_PARAMETER_VALID)" for g
    using fget_fput_after [OF hdr_boot that, of Param4_BootInitiatorAcknowledgeData ?P ?h d1 0]
      fget_fput_after [OF hdr_boot that, of Param4_WriteMask ?P ?h ?H "unat (val_of M BOOT_OPTION_HANDLED_BY_BIOS)"] len
    by (simp add: d_def d1_def)
  have ok: "set_boot_ok M ?p (sizeof M ?P) d"
    using head boot_set_header [OF hdr_boot selectors(3)] len(2) by (simp add: set_boot_ok_def)
  have mask: "fget8 M ?h Param4_WriteMask d = val_of M BOOT_OPTION_HANDLED_BY_BIOS"
    using fget_fput_other [OF hdr_boot, of Param4_BootInitiatorAcknowledgeData ?P Param4_WriteMask ?h d1 0]
      fget_fput_same [OF hdr_boot, of Param4_WriteMask ?P ?h ?H "unat (val_of M BOOT_OPTION_HANDLED_BY_BIOS)"] len
    by (simp add: d_def d1_def fget8_def)
  have ack: "fget8 M ?h Param4_BootInitiatorAcknowledgeData d = 0"
    using fget_fput_same [OF hdr_boot, of Param4_BootInitiatorAcknowledgeData ?P ?h d1 0] len
    by (simp add: d_def fget8_def)
  obtain R s' where "submit (netfn_of M IPMI_NETFN_CHASSIS) (cmd_of M IPMI_CHASSIS_SET_SYSTEM_BOOT_OPTIONS)
      (Some d) (of_nat (?h + sizeof M ?P))
      (zero_mem (sizeof M IPMI_SET_BOOT_OPTIONS_RESPONSE)) (struct_size M IPMI_SET_BOOT_OPTIONS_RESPONSE) s =
      Some ((EFI_SUCCESS, R, struct_size M IPMI_SET_BOOT_OPTIONS_RESPONSE), s')"
    "acks s' = acks s AND NOT (val_of M BOOT_OPTION_HANDLED_BY_BIOS)" "ok s'" "flags s' = flags s"
    "progress s' = progress s"
    using set_acks [OF assms ok, of "zero_mem (sizeof M IPMI_SET_BOOT_OPTIONS_RESPONSE)"] len(2) mask ack
    by (auto simp: Let_def)
  moreover have "d = fput M ?h Param4_BootInitiatorAcknowledgeData 0 (fput M ?h Param4_WriteMask
      (unat (val_of M BOOT_OPTION_HANDLED_BY_BIOS)) ?H)" by (simp add: d_def d1_def)
  ultimately show ?thesis
    by (simp add: IpmiAcknowledgeBootOption_def Let_def flip: boot_set_header_def del: fputs_simps of_nat_add)
qed

lemma boot_device:
  assumes "ok s" "\<not> progress s"
  shows "\<exists>s'. IpmiGetBootDevice M submit (Some x) s = Some ((EFI_SUCCESS, Some (device_of M (flags s))), s') \<and>
    ok s' \<and> flags s' = after_device M (flags s) \<and>
    acks s' = acks s AND NOT (val_of M BOOT_OPTION_HANDLED_BY_BIOS) \<and> \<not> progress s'"
proof -
  obtain s1 where 1: "IpmiCheckSetInProgress M submit (Some False) s = Some ((EFI_SUCCESS, Some False), s1)"
    "same s s1" using check_progress [OF assms(1)] assms(2) by auto
  then have ok1: "ok s1" by (simp add: same_def)
  let ?F = "flags s"
  obtain s2 where 2: "IpmiGetBootFlags M submit s1 =
      Some ((EFI_SUCCESS, if boot_flags_valid M ?F then ?F else zero_mem (flags_size M), boot_flags_valid M ?F), s2)"
    "same s1 s2" using get_boot_flags [OF ok1] 1(2) by (auto simp: same_def)
  then have ok2: "ok s2" by (simp add: same_def)
  let ?clear = "boot_flags_valid M ?F \<and> fget M 0 Param5_PersistentOptions ?F = 0"
  obtain st s3 where 3: "IpmiSetBootFlags M submit (zero_mem (flags_size M)) s2 = Some (st, s3)" "ok s3"
    "flags s3 = zero_mem (flags_size M)" "acks s3 = acks s2" "progress s3 = progress s2"
    using set_boot_flags [OF ok2, of "zero_mem (flags_size M)"] by auto
  define t where "t = (if ?clear then s3 else s2)"
  have t: "ok t" "flags t = after_device M ?F" "acks t = acks s" "\<not> progress t"
    using 1(2) 2(2) 3 assms(2) by (auto simp: t_def after_device_def same_def)
  obtain s4 where 4: "IpmiAcknowledgeBootOption M submit t = Some s4" "ok s4" "flags s4 = flags t"
    "acks s4 = acks t AND NOT (val_of M BOOT_OPTION_HANDLED_BY_BIOS)" "progress s4 = progress t"
    using acknowledge [OF t(1)] by blast
  have "IpmiGetBootDevice M submit (Some x) s = Some ((EFI_SUCCESS, Some (device_of M ?F)), s4)"
  proof (cases "boot_flags_valid M ?F")
    case True
    then show ?thesis
      using 1(1) 2(1) 3(1) 4(1)
      by (cases "fget M 0 Param5_PersistentOptions ?F = 0") (simp_all add: IpmiGetBootDevice_def device_of_def t_def)
  next
    case False
    then show ?thesis using 1(1) 2(1) 4(1) by (simp add: IpmiGetBootDevice_def device_of_def t_def)
  qed
  then show ?thesis using 4 t by auto
qed

lemma boot_device_busy:
  assumes "ok s" "progress s"
  shows "\<exists>s'. IpmiGetBootDevice M submit (Some x) s = Some ((EFI_NOT_READY, Some x), s') \<and> same s s'"
    "\<exists>s'. IpmiGetCmosClearOption M submit (Some b) s = Some ((EFI_NOT_READY, Some False), s') \<and> same s s'"
  using check_progress [OF assms(1), of False] assms(2)
  by (auto simp: IpmiGetBootDevice_def IpmiGetCmosClearOption_def)

lemma cmos_clear:
  assumes "ok s" "\<not> progress s"
  shows "\<exists>s'. IpmiGetCmosClearOption M submit (Some b) s = Some ((EFI_SUCCESS, Some (cmos_of M (flags s))), s') \<and>
    ok s' \<and> flags s' = after_cmos M (flags s) \<and> acks s' = acks s \<and> \<not> progress s'"
proof -
  obtain s1 where 1: "IpmiCheckSetInProgress M submit (Some False) s = Some ((EFI_SUCCESS, Some False), s1)"
    "same s s1" using check_progress [OF assms(1)] assms(2) by auto
  then have ok1: "ok s1" by (simp add: same_def)
  let ?F = "flags s"
  obtain s2 where 2: "IpmiGetBootFlags M submit s1 =
      Some ((EFI_SUCCESS, if boot_flags_valid M ?F then ?F else zero_mem (flags_size M), boot_flags_valid M ?F), s2)"
    "same s1 s2" using get_boot_flags [OF ok1] 1(2) by (auto simp: same_def)
  then have ok2: "ok s2" by (simp add: same_def)
  have "length (fput M 0 Param5_CmosClear 0 ?F) = flags_size M" using flags_len [OF assms(1)] by simp
  then obtain st s3 where 3: "IpmiSetBootFlags M submit (fput M 0 Param5_CmosClear 0 ?F) s2 = Some (st, s3)" "ok s3"
    "flags s3 = fput M 0 Param5_CmosClear 0 ?F" "acks s3 = acks s2" "progress s3 = progress s2"
    using set_boot_flags [OF ok2] by blast
  show ?thesis
  proof (cases "cmos_of M ?F")
    case True
    then show ?thesis
      using 1 2 3 assms(2)
      by (intro exI [of _ s3]) (simp add: IpmiGetCmosClearOption_def cmos_of_def after_cmos_def same_def)
  next
    case False
    then show ?thesis
      using 1 2 assms(2)
      by (intro exI [of _ s2]) (auto simp: IpmiGetCmosClearOption_def cmos_of_def after_cmos_def same_def)
  qed
qed

lemma after_cmos_fields:
  assumes "length F = flags_size M"
  shows "boot_flags_valid M (after_cmos M F) = boot_flags_valid M F" "device_of M (after_cmos M F) = device_of M F"
    "fget M 0 Param5_PersistentOptions (after_cmos M F) = fget M 0 Param5_PersistentOptions F"
    "\<not> cmos_of M (after_cmos M F)"
  using fget_fput [OF hdr_boot, of Param5_CmosClear IPMI_BOOT_OPTIONS_RESPONSE_PARAMETER_5 _ F 0] assms
  by (auto simp: after_cmos_def boot_flags_valid_def device_of_def cmos_of_def)

lemma after_device_zero: "\<not> boot_flags_valid M (zero_mem n)"
  by (simp add: boot_flags_valid_def)

end

end
