(* ===== verification/Boot_Mock.thy ===== *)
theory Boot_Mock
  imports Boot_Option
begin

section \<open>The mock BMC keeps the boot option contract\<close>

text \<open>
  The two handlers of \<open>MockChassis.c\<close> behind the contract \<open>boot_bmc\<close>.  The library and the mock
  describe the header of a message by different structures; \<open>boot_layout\<close> says that they agree,
  as they do in the headers of the IPMI specification.
\<close>

unbundle bit_operations_syntax

definition valid_pos :: "ipmi_hdr \<Rightarrow> nat" where
  "valid_pos M = 8 * boot_valid_base M + fst (layout M GetValid_ParameterValid)"

definition boot_layout :: "ipmi_hdr \<Rightarrow> bool" where
  "boot_layout M \<longleftrightarrow>
     sizeof M IPMI_GET_BOOT_OPTIONS_RESPONSE = boot_hdr_size M \<and>
     sizeof M IPMI_SET_BOOT_OPTIONS_REQUEST = sizeof M IPMI_SET_BOOT_OPTIONS_PARAMETER_VALID \<and>
     layout M SetBoot_ParameterSelector = layout M SetValid_ParameterSelector \<and>
     snd (layout M GetValid_ParameterValid) = 1 \<and> 8 \<le> valid_pos M \<and>
     disjoint_bits (layout M GetBootResp_ParameterSelector) (valid_pos M, 1) \<and>
     val_of M IPMI_BOOT_OPTIONS_PARAMETER_SELECTOR_SET_IN_PROGRESS < 128 \<and>
     val_of M IPMI_BOOT_OPTIONS_PARAMETER_BOOT_FLAGS < 128 \<and>
     val_of M IPMI_BOOT_OPTIONS_PARAMETER_BOOT_INFO_ACK < 128 \<and>
     val_of M IPMI_BOOT_OPTIONS_PARAMETER_SELECTOR_SET_IN_PROGRESS \<noteq> val_of M IPMI_BOOT_OPTIONS_PARAMETER_BOOT_FLAGS \<and>
     val_of M IPMI_BOOT_OPTIONS_PARAMETER_BOOT_INFO_ACK \<noteq> val_of M IPMI_BOOT_OPTIONS_PARAMETER_BOOT_FLAGS \<and>
     boot_hdr_size M + sizeof M IPMI_BOOT_OPTIONS_RESPONSE_PARAMETER_0 < 250 \<and>
     boot_hdr_size M + flags_size M < 250 \<and>
     sizeof M IPMI_SET_BOOT_OPTIONS_PARAMETER_VALID + flags_size M < 250 \<and>
     sizeof M IPMI_SET_BOOT_OPTIONS_PARAMETER_VALID + sizeof M IPMI_BOOT_OPTIONS_RESPONSE_PARAMETER_4 < 250"

lemma boot_layout_v2: "boot_layout ipmi_v2"
  by (simp add: boot_layout_def boot_hdr_size_def boot_valid_base_def valid_pos_def disjoint_bits_def)

locale mock_boot = mock_provider +
  assumes boot_layout: "boot_layout M"
begin

text \<open>The header of a reply: normal completion code, and the parameter is valid.\<close>

definition boot_header :: "nat \<Rightarrow> bytes" where
  "boot_header v = fputs M [(CompletionCode, unat (cc_of M IPMI_COMP_CODE_NORMAL)),
     (GetBootResp_ParameterSelector, v)] (cc_of M IPMI_COMP_CODE_INVALID_COMMAND # zero_mem 249)"

lemma length_boot_header [simp]: "length (boot_header v) = 250"
  by (simp add: boot_header_def)

lemma boot_reply:
  fixes v :: nat
  assumes "boot_hdr_size M + length x < 250"
  defines "R \<equiv> take (boot_hdr_size M + length x) (copy_mem (boot_header v) (boot_hdr_size M) x)"
  shows "length R = boot_hdr_size M + length x" "hd R = cc_of M IPMI_COMP_CODE_NORMAL"
    "fget8 M 0 CompletionCode R = cc_of M IPMI_COMP_CODE_NORMAL"
    "fget M (boot_valid_base M) GetValid_ParameterValid R = 0" "drop (boot_hdr_size M) R = x"
proof -
  let ?h = "boot_hdr_size M" and ?S = IPMI_GET_BOOT_OPTIONS_RESPONSE
  have h: "sizeof M ?S = ?h" using boot_layout by (simp add: boot_layout_def)
  have R: "R = take ?h (boot_header v) @ x"
    using assms(1) by (simp add: R_def copy_mem_def min_def)
  show len: "length R = ?h + length x" using R assms(1) by simp
  show "drop ?h R = x" using R assms(1) by simp
  have t: "take ?h R = take ?h (boot_header v)" using R assms(1) by simp
  have "fget M 0 CompletionCode R = fget M 0 CompletionCode (boot_header v)"
    using fget_take [OF hdr, of CompletionCode ?S ?h R] fget_take [OF hdr, of CompletionCode ?S ?h "boot_header v"] t h
    by simp
  also have "\<dots> = unat (cc_of M IPMI_COMP_CODE_NORMAL)"
    using fget_fputs [OF hdr, of CompletionCode ?S "[(CompletionCode, unat (cc_of M IPMI_COMP_CODE_NORMAL)),
     (GetBootResp_ParameterSelector, v)]" "cc_of M IPMI_COMP_CODE_INVALID_COMMAND # zero_mem 249"] assms(1) h
    by (simp add: boot_header_def del: fputs_simps)
  finally show cc: "fget8 M 0 CompletionCode R = cc_of M IPMI_COMP_CODE_NORMAL" by (simp add: fget8_def)
  have "0 < ?h" by (simp add: boot_hdr_size_def boot_valid_base_def)
  then have "R \<noteq> []" using len by auto
  then show "hd R = cc_of M IPMI_COMP_CODE_NORMAL" using cc fget8_CompletionCode [OF hdr] by simp
  let ?p = "valid_pos M"
  have p: "?p + 1 \<le> 8 * ?h"
  proof -
    have "fst (layout M GetValid_ParameterValid) + snd (layout M GetValid_ParameterValid)
        \<le> 8 * sizeof M IPMI_GET_BOOT_OPTIONS_PARAMETER_VALID"
      by (rule hdr_ok_inside [OF hdr]) simp
    then show ?thesis using boot_layout by (simp add: valid_pos_def boot_hdr_size_def boot_layout_def)
  qed
  have get: "fget M (boot_valid_base M) GetValid_ParameterValid R = bits_get ?p 1 R"
    using boot_layout by (simp add: fget_def valid_pos_def boot_layout_def)
  have "bits_get ?p 1 R = bits_get ?p 1 (boot_header v)"
    using bits_get_take [OF p, of R] bits_get_take [OF p, of "boot_header v"] t by simp
  also have "\<dots> = 0"
  proof -
    let ?r = "cc_of M IPMI_COMP_CODE_INVALID_COMMAND # zero_mem 249"
    have in1: "fst (layout M GetBootResp_ParameterSelector) + snd (layout M GetBootResp_ParameterSelector) \<le> 8 * 250"
      using hdr_ok_inside [OF hdr, of GetBootResp_ParameterSelector ?S] h assms(1) by simp
    have "bits_get ?p 1 ?r = 0"
    proof -
      have "unat (cc_of M IPMI_COMP_CODE_INVALID_COMMAND) < 2 ^ ?p"
        using u8_bound [of "cc_of M IPMI_COMP_CODE_INVALID_COMMAND"] boot_layout
          power_increasing [of 8 ?p "2 :: nat"] by (simp add: boot_layout_def)
      then show ?thesis by (simp add: bits_get_def zero_mem_def drop_bit_eq_div)
    qed
    then show ?thesis
      using boot_layout in1 bits_get_put_other [of "fst (layout M GetBootResp_ParameterSelector)"
          "snd (layout M GetBootResp_ParameterSelector)" "fput M 0 CompletionCode (unat (cc_of M IPMI_COMP_CODE_NORMAL)) ?r"
          ?p 1 v]
        bits_get_put_other [of 0 8 ?r ?p 1 "unat (cc_of M IPMI_COMP_CODE_NORMAL)"] hdr_ok_CompletionCode [OF hdr]
      by (simp add: boot_header_def fput_def boot_layout_def disjoint_bits_def)
  qed
  finally show "fget M (boot_valid_base M) GetValid_ParameterValid R = 0" using get by simp
qed

lemma reply_get_boot:
  assumes d: "get_boot_ok M p d"
    and p: "p = IPMI_BOOT_OPTIONS_PARAMETER_BOOT_FLAGS \<and> x = mBootFlags m \<or>
      p = IPMI_BOOT_OPTIONS_PARAMETER_SELECTOR_SET_IN_PROGRESS \<and>
      x = zero_mem (sizeof M IPMI_BOOT_OPTIONS_RESPONSE_PARAMETER_0)"
    and m: "length (mBootFlags m) = flags_size M"
  shows "\<exists>m'. mock_reply M (netfn_of M IPMI_NETFN_CHASSIS) (cmd_of M IPMI_CHASSIS_GET_SYSTEM_BOOT_OPTIONS) d m =
      Some (take (boot_hdr_size M + length x) (copy_mem (boot_header (unat (val_of M p))) (boot_hdr_size M) x), m') \<and>
    mBootFlags m' = mBootFlags m \<and> mBootOptionAcks m' = mBootOptionAcks m"
proof -
  let ?Q = IPMI_GET_BOOT_OPTIONS_REQUEST and ?h = "boot_hdr_size M"
  have S: "sizeof M ?Q < 250" using hdr by (simp add: hdr_ok_def)
  have len: "length d = sizeof M ?Q" using d by (simp add: get_boot_ok_def)
  have get: "fget M 0 f (d @ z) = fget M 0 f d" if "f \<in> set (fields_of ?Q)" for f z
    using fget_append_zero [OF hdr that len] .
  have f: "fget M 0 GetBoot_ParameterSelector (d @ z) = unat (val_of M p)"
    "fget M 0 GetBoot_SetSelector (d @ z) = 0" "fget M 0 GetBoot_BlockSelector (d @ z) = 0" for z
    using d by (simp_all add: get get_boot_ok_def)
  have map: "map_of (MockHandlers M) (netfn_of M IPMI_NETFN_CHASSIS, cmd_of M IPMI_CHASSIS_GET_SYSTEM_BOOT_OPTIONS) =
      Some (MockIpmiGetSystemBootOptions M)"
    by (rule handler_lookup [OF commands]) (simp add: MockHandlers_def)
  have h: "sizeof M IPMI_GET_BOOT_OPTIONS_RESPONSE = ?h" using boot_layout by (simp add: boot_layout_def)
  have small: "?h + length x < 250" using p m boot_layout by (auto simp: boot_layout_def)
  have pos: "0 < ?h" by (simp add: boot_hdr_size_def boot_valid_base_def)
  have n: "unat (of_nat (?h + length x) :: u8) = ?h + length x" "(0 :: u8) < of_nat (?h + length x)"
    using small pos unat_of_nat_u8 [of "?h + length x"] by (simp_all add: word_less_nat_alt del: of_nat_add)
  have ne: "unat (val_of M IPMI_BOOT_OPTIONS_PARAMETER_SELECTOR_SET_IN_PROGRESS) \<noteq>
      unat (val_of M IPMI_BOOT_OPTIONS_PARAMETER_BOOT_FLAGS)"
    using boot_layout by (simp add: boot_layout_def flip: word_unat_eq_iff)
  let ?m = "mock_begin M (netfn_of M IPMI_NETFN_CHASSIS) (cmd_of M IPMI_CHASSIS_GET_SYSTEM_BOOT_OPTIONS) m"
  have "MockIpmiGetSystemBootOptions M (d @ zero_mem (253 - length d)) (of_nat (length d))
      (cc_of M IPMI_COMP_CODE_INVALID_COMMAND # zero_mem 249) 250 ?m =
    Some ((copy_mem (boot_header (unat (val_of M p))) ?h x, of_nat (?h + length x)), ?m)"
    using p m S small ne
    by (elim disjE)
      (simp_all add: MockIpmiGetSystemBootOptions_def Let_def f h len unat_of_nat_u8 flip: boot_header_def
        del: fputs_simps of_nat_add)
  then show ?thesis
    using n by (simp add: mock_reply_def map del: of_nat_add)
qed

lemma fget_append_base:
  assumes "f \<in> set (fields_of S)" "base + sizeof M S \<le> length d"
  shows "fget M base f (d @ z) = fget M base f d"
proof -
  have "fget M 0 f (take (length d - base) (drop base (d @ z))) = fget M 0 f (drop base (d @ z))"
    using fget_take [OF hdr assms(1), of "length d - base" "drop base (d @ z)"] assms(2) by simp
  then show ?thesis using assms(2) by (simp add: fget_drop [of M base])
qed

lemma reply_set_boot:
  assumes d: "set_boot_ok M p n d"
    and p: "p = IPMI_BOOT_OPTIONS_PARAMETER_BOOT_FLAGS \<and> n = flags_size M \<or>
      p = IPMI_BOOT_OPTIONS_PARAMETER_BOOT_INFO_ACK \<and> n = sizeof M IPMI_BOOT_OPTIONS_RESPONSE_PARAMETER_4"
  shows "\<exists>R m'. mock_reply M (netfn_of M IPMI_NETFN_CHASSIS) (cmd_of M IPMI_CHASSIS_SET_SYSTEM_BOOT_OPTIONS) d m =
      Some (R, m') \<and> length R = sizeof M IPMI_SET_BOOT_OPTIONS_RESPONSE \<and>
    hd R = cc_of M IPMI_COMP_CODE_NORMAL \<and> fget8 M 0 CompletionCode R = cc_of M IPMI_COMP_CODE_NORMAL \<and>
    (if p = IPMI_BOOT_OPTIONS_PARAMETER_BOOT_FLAGS
     then mBootFlags m' = drop (sizeof M IPMI_SET_BOOT_OPTIONS_PARAMETER_VALID) d \<and>
          mBootOptionAcks m' = mBootOptionAcks m
     else mBootFlags m' = mBootFlags m \<and>
       (let mask = fget8 M (sizeof M IPMI_SET_BOOT_OPTIONS_PARAMETER_VALID) Param4_WriteMask d;
            ack = fget8 M (sizeof M IPMI_SET_BOOT_OPTIONS_PARAMETER_VALID) Param4_BootInitiatorAcknowledgeData d
        in mBootOptionAcks m' = (mBootOptionAcks m AND NOT mask) OR (mask AND ack)))"
proof -
  let ?h = "sizeof M IPMI_SET_BOOT_OPTIONS_PARAMETER_VALID" and ?S = IPMI_SET_BOOT_OPTIONS_RESPONSE
  let ?P = IPMI_BOOT_OPTIONS_RESPONSE_PARAMETER_4
  have h: "sizeof M IPMI_SET_BOOT_OPTIONS_REQUEST = ?h" using boot_layout by (simp add: boot_layout_def)
  have len: "length d = ?h + n" using d by (simp add: set_boot_ok_def)
  have small: "?h + n < 250" using p boot_layout by (auto simp: boot_layout_def)
  have sel: "fget M 0 SetBoot_ParameterSelector (d @ z) = unat (val_of M p)" for z
  proof -
    have "fget M 0 SetBoot_ParameterSelector (d @ z) = fget M 0 SetValid_ParameterSelector (d @ z)"
      using boot_layout by (simp add: fget_def boot_layout_def)
    also have "\<dots> = fget M 0 SetValid_ParameterSelector d"
      using fget_append_base [of SetValid_ParameterSelector IPMI_SET_BOOT_OPTIONS_PARAMETER_VALID 0 d z] len by simp
    finally show ?thesis using d by (simp add: set_boot_ok_def)
  qed
  have ne: "unat (val_of M IPMI_BOOT_OPTIONS_PARAMETER_BOOT_INFO_ACK) \<noteq>
      unat (val_of M IPMI_BOOT_OPTIONS_PARAMETER_BOOT_FLAGS)"
    using boot_layout by (simp add: boot_layout_def flip: word_unat_eq_iff)
  have pv: "p \<noteq> IPMI_BOOT_OPTIONS_PARAMETER_BOOT_FLAGS \<longleftrightarrow> p = IPMI_BOOT_OPTIONS_PARAMETER_BOOT_INFO_ACK"
    using p ne by auto
  let ?m = "mock_begin M (netfn_of M IPMI_NETFN_CHASSIS) (cmd_of M IPMI_CHASSIS_SET_SYSTEM_BOOT_OPTIONS) m"
  let ?r = "cc_of M IPMI_COMP_CODE_INVALID_COMMAND # zero_mem 249"
  let ?fvs = "[(CompletionCode, unat (cc_of M IPMI_COMP_CODE_NORMAL))]"
  have S: "sizeof M ?S < 250" using hdr by (simp add: hdr_ok_def)
  have mem: "((netfn_of M IPMI_NETFN_CHASSIS, cmd_of M IPMI_CHASSIS_SET_SYSTEM_BOOT_OPTIONS),
      MockIpmiSetSystemBootOptions M) \<in> set (MockHandlers M)"
    by (simp add: MockHandlers_def)
  define m1 where "m1 = (if p = IPMI_BOOT_OPTIONS_PARAMETER_BOOT_FLAGS then ?m\<lparr>mBootFlags := drop ?h d\<rparr>
    else ?m\<lparr>mBootOptionAcks := (mBootOptionAcks ?m AND NOT (fget8 M ?h Param4_WriteMask d)) OR
           (fget8 M ?h Param4_WriteMask d AND fget8 M ?h Param4_BootInitiatorAcknowledgeData d)\<rparr>)"
  have run: "MockIpmiSetSystemBootOptions M (d @ zero_mem (253 - length d)) (of_nat (length d)) ?r 250 ?m =
      Some ((fputs M ?fvs ?r, of_nat (sizeof M ?S)), m1)"
  proof (cases "p = IPMI_BOOT_OPTIONS_PARAMETER_BOOT_FLAGS")
    case True
    then have "n = flags_size M" using p by auto
    then show ?thesis
      using True S small len
      by (simp add: MockIpmiSetSystemBootOptions_def Let_def sel h unat_of_nat_u8 m1_def del: of_nat_add)
  next
    case False
    then have p': "p = IPMI_BOOT_OPTIONS_PARAMETER_BOOT_INFO_ACK" "n = sizeof M ?P" using p by auto
    have get: "fget M 0 f (drop ?h (d @ z)) = fget M ?h f d" if "f \<in> set (fields_of ?P)" for f z
      using fget_append_base [OF that, of ?h d z] len p'(2) by (simp add: fget_drop [of M ?h])
    have w: "fget M 0 Param4_WriteMask (drop ?h (d @ z)) = fget M ?h Param4_WriteMask d"
      "fget M 0 Param4_BootInitiatorAcknowledgeData (drop ?h (d @ z)) =
        fget M ?h Param4_BootInitiatorAcknowledgeData d" for z
      by (rule get; simp)+
    have u: "unat (of_nat (length d) :: u8) = ?h + n" using small len unat_of_nat_u8 [of "?h + n"] by simp
    show ?thesis
      unfolding MockIpmiSetSystemBootOptions_def Let_def sel h u fget8_def w m1_def
      using ne p' S u by simp
  qed
  obtain R where R: "mock_reply M (netfn_of M IPMI_NETFN_CHASSIS) (cmd_of M IPMI_CHASSIS_SET_SYSTEM_BOOT_OPTIONS) d m =
      Some (R, mock_end (of_nat (sizeof M ?S)) m1)" "length R = sizeof M ?S"
    "hd R = fget8 M 0 CompletionCode R"
    "\<And>g. g \<in> set (fields_of ?S) \<Longrightarrow> fget M 0 g R = (case map_of (rev ?fvs) g of
        Some v \<Rightarrow> take_bit (width_of g) v | None \<Rightarrow> fget M 0 g ?r)"
    by (rule mock_reply_struct [where S = ?S, OF hdr commands mem run]) simp_all
  have "fget8 M 0 CompletionCode R = cc_of M IPMI_COMP_CODE_NORMAL" using R(4) by (simp add: fget8_def)
  then show ?thesis using R(1-3) by (simp add: m1_def Let_def)
qed

end

sublocale mock_boot \<subseteq>
  boot: boot_bmc M submit ok "\<lambda>s. mBootFlags (bmc s)" "\<lambda>s. mBootOptionAcks (bmc s)" "\<lambda>_. False"
proof (unfold_locales, goal_cases)
  case 1
  show ?case by (rule hdr)
next
  case 2
  show ?case using boot_layout by (simp add: boot_layout_def)
next
  case 3
  show ?case using boot_layout by (simp add: boot_layout_def)
next
  case 4
  show ?case using boot_layout by (simp add: boot_layout_def)
next
  case 5
  show ?case using boot_layout by (simp add: boot_layout_def)
next
  case 6
  show ?case using boot_layout by (simp add: boot_layout_def)
next
  case (7 s)
  then show ?case using data_ok [OF 7] by (simp add: mock_data_ok_def)
next
  case (8 s d buf)
  let ?x = "zero_mem (sizeof M IPMI_BOOT_OPTIONS_RESPONSE_PARAMETER_0)"
  let ?R = "take (boot_hdr_size M + length ?x) (copy_mem (boot_header
    (unat (val_of M IPMI_BOOT_OPTIONS_PARAMETER_SELECTOR_SET_IN_PROGRESS))) (boot_hdr_size M) ?x)"
  have small: "boot_hdr_size M + length ?x < 250" using boot_layout by (simp add: boot_layout_def)
  note R = boot_reply [OF small, of "unat (val_of M IPMI_BOOT_OPTIONS_PARAMETER_SELECTOR_SET_IN_PROGRESS)"]
  obtain m' where m': "mock_reply M (netfn_of M IPMI_NETFN_CHASSIS) (cmd_of M IPMI_CHASSIS_GET_SYSTEM_BOOT_OPTIONS) d
      (bmc s) = Some (?R, m')" "mBootFlags m' = mBootFlags (bmc s)" "mBootOptionAcks m' = mBootOptionAcks (bmc s)"
    using reply_get_boot [OF 8(2)] data_ok [OF 8(1)] unfolding mock_data_ok_def by blast
  have d: "length d \<le> 252" using 8(2) struct_len by (simp add: get_boot_ok_def)
  have "unat (of_nat (length buf) :: u32) = length buf" using 8(3) small by (simp add: unat_of_nat del: of_nat_add)
  then obtain s' where "submit (netfn_of M IPMI_NETFN_CHASSIS) (cmd_of M IPMI_CHASSIS_GET_SYSTEM_BOOT_OPTIONS)
      (Some d) (of_nat (length d)) buf (of_nat (length buf)) s =
      Some ((EFI_SUCCESS, copy_mem buf 0 ?R, of_nat (length ?R)), s')" "ok s'" "bmc s' = m'"
    using answers [OF 8(1) m'(1) R(2) hdr_ok_netfn [OF hdr] d, of "Some d" "of_nat (length buf)" buf] R(1) 8(3) small
    by auto
  moreover have "copy_mem buf 0 ?R = ?R" using R(1) 8(3) by (intro copy_mem_0) simp
  moreover have "fget M (boot_hdr_size M) Param0_SetInProgress ?R = 0"
    by (simp only: fget_drop [of M "boot_hdr_size M"] R(5) fget_zero)
  ultimately show ?case
    using R(1,3,4) m'(2,3) 8(3) by (intro exI [of _ ?R] exI [of _ s']) simp
next
  case (9 s d buf)
  let ?x = "mBootFlags (bmc s)"
  let ?R = "take (boot_hdr_size M + length ?x) (copy_mem (boot_header
    (unat (val_of M IPMI_BOOT_OPTIONS_PARAMETER_BOOT_FLAGS))) (boot_hdr_size M) ?x)"
  have x: "length ?x = flags_size M" using data_ok [OF 9(1)] by (simp add: mock_data_ok_def)
  then have small: "boot_hdr_size M + length ?x < 250" using boot_layout by (simp add: boot_layout_def)
  note R = boot_reply [OF small, of "unat (val_of M IPMI_BOOT_OPTIONS_PARAMETER_BOOT_FLAGS)"]
  obtain m' where m': "mock_reply M (netfn_of M IPMI_NETFN_CHASSIS) (cmd_of M IPMI_CHASSIS_GET_SYSTEM_BOOT_OPTIONS) d
      (bmc s) = Some (?R, m')" "mBootFlags m' = mBootFlags (bmc s)" "mBootOptionAcks m' = mBootOptionAcks (bmc s)"
    using reply_get_boot [OF 9(2) _ x] by blast
  have d: "length d \<le> 252" using 9(2) struct_len by (simp add: get_boot_ok_def)
  have "unat (of_nat (length buf) :: u32) = length buf" using 9(3) small x by (simp add: unat_of_nat del: of_nat_add)
  then obtain s' where "submit (netfn_of M IPMI_NETFN_CHASSIS) (cmd_of M IPMI_CHASSIS_GET_SYSTEM_BOOT_OPTIONS)
      (Some d) (of_nat (length d)) buf (of_nat (length buf)) s =
      Some ((EFI_SUCCESS, copy_mem buf 0 ?R, of_nat (length ?R)), s')" "ok s'" "bmc s' = m'"
    using answers [OF 9(1) m'(1) R(2) hdr_ok_netfn [OF hdr] d, of "Some d" "of_nat (length buf)" buf] R(1) 9(3) small x
    by auto
  moreover have "copy_mem buf 0 ?R = ?R" using R(1) 9(3) x by (intro copy_mem_0) simp
  ultimately show ?case
    using R(1,3,4,5) m'(2,3) 9(3) x by (intro exI [of _ ?R] exI [of _ s']) simp
next
  case (10 s d buf)
  obtain R m' where m': "mock_reply M (netfn_of M IPMI_NETFN_CHASSIS) (cmd_of M IPMI_CHASSIS_SET_SYSTEM_BOOT_OPTIONS) d
      (bmc s) = Some (R, m')" "length R = sizeof M IPMI_SET_BOOT_OPTIONS_RESPONSE"
    "hd R = cc_of M IPMI_COMP_CODE_NORMAL" "fget8 M 0 CompletionCode R = cc_of M IPMI_COMP_CODE_NORMAL"
    "mBootFlags m' = drop (sizeof M IPMI_SET_BOOT_OPTIONS_PARAMETER_VALID) d"
    "mBootOptionAcks m' = mBootOptionAcks (bmc s)"
    using reply_set_boot [OF 10(2), of "bmc s"] by auto
  have d: "length d \<le> 252" using 10(2) boot_layout by (simp add: set_boot_ok_def boot_layout_def)
  obtain s' where "submit (netfn_of M IPMI_NETFN_CHASSIS) (cmd_of M IPMI_CHASSIS_SET_SYSTEM_BOOT_OPTIONS)
      (Some d) (of_nat (length d)) buf (of_nat (length buf)) s = Some ((EFI_SUCCESS, R, of_nat (length buf)), s')"
    "ok s'" "bmc s' = m'"
    using answers_struct [OF 10(1) m'(1,3) d, of "Some d"] m'(2) 10(3) by auto
  then show ?case using m'(4-6) by (intro exI [of _ R] exI [of _ s']) simp
next
  case (11 s d buf)
  have ne: "IPMI_BOOT_OPTIONS_PARAMETER_BOOT_INFO_ACK \<noteq> IPMI_BOOT_OPTIONS_PARAMETER_BOOT_FLAGS"
    using boot_layout by (auto simp: boot_layout_def)
  obtain R m' where m': "mock_reply M (netfn_of M IPMI_NETFN_CHASSIS) (cmd_of M IPMI_CHASSIS_SET_SYSTEM_BOOT_OPTIONS) d
      (bmc s) = Some (R, m')" "length R = sizeof M IPMI_SET_BOOT_OPTIONS_RESPONSE"
    "hd R = cc_of M IPMI_COMP_CODE_NORMAL" "mBootFlags m' = mBootFlags (bmc s)"
    "let mask = fget8 M (sizeof M IPMI_SET_BOOT_OPTIONS_PARAMETER_VALID) Param4_WriteMask d;
         ack = fget8 M (sizeof M IPMI_SET_BOOT_OPTIONS_PARAMETER_VALID) Param4_BootInitiatorAcknowledgeData d
     in mBootOptionAcks m' = (mBootOptionAcks (bmc s) AND NOT mask) OR (mask AND ack)"
    using reply_set_boot [OF 11(2), of "bmc s"] ne by auto
  have d: "length d \<le> 252" using 11(2) boot_layout by (simp add: set_boot_ok_def boot_layout_def)
  obtain s' where "submit (netfn_of M IPMI_NETFN_CHASSIS) (cmd_of M IPMI_CHASSIS_SET_SYSTEM_BOOT_OPTIONS)
      (Some d) (of_nat (length d)) buf (of_nat (length buf)) s = Some ((EFI_SUCCESS, R, of_nat (length buf)), s')"
    "ok s'" "bmc s' = m'"
    using answers_struct [OF 11(1) m'(1,3) d, of "Some d"] m'(2) 11(3) by auto
  then show ?case using m'(4,5) by (intro exI [of _ R] exI [of _ s']) simp
qed

interpretation mock_direct_boot: mock_boot ipmi_v2 "IpmiSubmitCommand_Mock ipmi_v2" id "mock_ok ipmi_v2"
  by unfold_locales (rule boot_layout_v2)

interpretation mock_generic_boot: mock_boot ipmi_v2 "mock_driver ipmi_v2 3" Port
  "\<lambda>inst. inst_ok inst \<and> mock_ok ipmi_v2 (Port inst)"
  by unfold_locales (rule boot_layout_v2)

end
