(* ===== verification/Boot_Props.thy ===== *)
theory Boot_Props
  imports Boot_Mock Sel_Props
begin

section \<open>What the boot options do\<close>

text \<open>
  Properties of \<open>IpmiBootOptionLib\<close> and of the CMOS clear driver over any BMC that keeps the
  contract \<open>boot_bmc\<close>, with the mock BMC behind both interfaces as the witnesses.
\<close>

subsection \<open>One question, asked again\<close>

text \<open>C19 A boot override is used once: over any BMC that keeps the contract, the first question is
  answered with the selector of valid boot flags and the handled-by-BIOS bit is cleared; the second
  question is answered with the same selector if the option is persistent and with no override
  if it is not.\<close>

theorem boot_device_once:
  assumes "boot_bmc M submit ok flags acks progress" "ok s" "\<not> progress s"
  shows "\<exists>s1 s2.
    IpmiGetBootDevice M submit (Some x) s = Some ((EFI_SUCCESS, Some (device_of M (flags s))), s1) \<and>
    acks s1 = acks s AND NOT (val_of M BOOT_OPTION_HANDLED_BY_BIOS) \<and>
    IpmiGetBootDevice M submit (Some y) s1 =
      Some ((EFI_SUCCESS, Some (if fget M 0 Param5_PersistentOptions (flags s) \<noteq> 0
                                then device_of M (flags s) else 0)), s2) \<and>
    ok s2"
proof -
  obtain s1 where 1: "IpmiGetBootDevice M submit (Some x) s = Some ((EFI_SUCCESS, Some (device_of M (flags s))), s1)"
    "ok s1" "flags s1 = after_device M (flags s)" "acks s1 = acks s AND NOT (val_of M BOOT_OPTION_HANDLED_BY_BIOS)"
    "\<not> progress s1"
    using boot_bmc.boot_device [OF assms, of x] by blast
  obtain s2 where 2: "IpmiGetBootDevice M submit (Some y) s1 = Some ((EFI_SUCCESS, Some (device_of M (flags s1))), s2)"
    "ok s2"
    using boot_bmc.boot_device [OF assms(1) 1(2,5), of y] by blast
  have "device_of M (flags s1) = (if fget M 0 Param5_PersistentOptions (flags s) \<noteq> 0 then device_of M (flags s) else 0)"
    using boot_bmc.after_device_zero [OF assms(1)] 1(3) by (simp add: after_device_def device_of_def)
  then show ?thesis using 1(1,4) 2 by auto
qed

text \<open>Boot flags for the witnesses: valid, boot from the selector 5, clear the CMOS.\<close>

definition sample_flags :: "nat \<Rightarrow> bytes" where
  "sample_flags persistent = fputs ipmi_v2 [(Param5_BootFlagValid, 1), (Param5_PersistentOptions, persistent),
     (Param5_BootDeviceSelector, 5), (Param5_CmosClear, 1)] (zero_mem (flags_size ipmi_v2))"

definition sample_mock :: "nat \<Rightarrow> mock_bmc" where
  "sample_mock persistent = mock_reset ipmi_v2\<lparr>mBootFlags := sample_flags persistent\<rparr>"

lemma sample_mock [simp]:
  "mock_ok ipmi_v2 (sample_mock p)" "mBootFlags (sample_mock p) = sample_flags p"
  "mBootOptionAcks (sample_mock p) = 0xFF"
  by (simp_all add: sample_mock_def mock_reset_def mock_ok_def mock_data_ok_def list_all_iff sample_flags_def
      del: fputs_simps)

lemma sample_flags [simp]:
  "boot_flags_valid ipmi_v2 (sample_flags p)" "device_of ipmi_v2 (sample_flags p) = 5"
  "cmos_of ipmi_v2 (sample_flags p)"
  "fget ipmi_v2 0 Param5_PersistentOptions (sample_flags p) = p mod 2"
  using fget_fputs [OF ipmi_v2_ok, of _ IPMI_BOOT_OPTIONS_RESPONSE_PARAMETER_5 _ "zero_mem (flags_size ipmi_v2)"]
  by (simp_all add: sample_flags_def boot_flags_valid_def device_of_def cmos_of_def take_bit_eq_mod
      del: fputs_simps)

theorem boot_device_once_witness:
  "\<exists>s1 s2. IpmiGetBootDevice ipmi_v2 (IpmiSubmitCommand_Mock ipmi_v2) (Some 0) (sample_mock 0) =
      Some ((EFI_SUCCESS, Some 5), s1) \<and> mBootOptionAcks s1 = 0xFE \<and>
    IpmiGetBootDevice ipmi_v2 (IpmiSubmitCommand_Mock ipmi_v2) (Some 9) s1 = Some ((EFI_SUCCESS, Some 0), s2)"
  using boot_device_once [OF mock_direct_boot.boot.boot_bmc_axioms, of "sample_mock 0" 0 9] by auto

subsection \<open>Two questions, in two orders\<close>

text \<open>C35 The order of the two questions matters: the CMOS question first, then the boot device, and both
  answers are those of the flags; the boot device first, and a valid option that is not persistent
  takes the request to clear the CMOS with it, so the CMOS question is answered with no.\<close>

theorem boot_question_order:
  assumes "boot_bmc M submit ok flags acks progress" "ok s" "\<not> progress s"
  shows "(\<exists>s1 s2.
    IpmiGetCmosClearOption M submit (Some b) s = Some ((EFI_SUCCESS, Some (cmos_of M (flags s))), s1) \<and>
    IpmiGetBootDevice M submit (Some x) s1 = Some ((EFI_SUCCESS, Some (device_of M (flags s))), s2)) \<and>
    (\<exists>s1 s2.
    IpmiGetBootDevice M submit (Some x) s = Some ((EFI_SUCCESS, Some (device_of M (flags s))), s1) \<and>
    IpmiGetCmosClearOption M submit (Some b) s1 =
      Some ((EFI_SUCCESS, Some (cmos_of M (flags s) \<and> fget M 0 Param5_PersistentOptions (flags s) \<noteq> 0)), s2))"
proof -
  have len: "length (flags s) = flags_size M" by (rule boot_bmc.flags_len [OF assms(1,2)])
  obtain s1 where 1: "IpmiGetCmosClearOption M submit (Some b) s = Some ((EFI_SUCCESS, Some (cmos_of M (flags s))), s1)"
    "ok s1" "flags s1 = after_cmos M (flags s)" "\<not> progress s1"
    using boot_bmc.cmos_clear [OF assms, of b] by blast
  obtain t1 where 2: "IpmiGetBootDevice M submit (Some x) s1 = Some ((EFI_SUCCESS, Some (device_of M (flags s))), t1)"
    using boot_bmc.boot_device [OF assms(1) 1(2,4), of x] boot_bmc.after_cmos_fields(2) [OF assms(1) len] 1(3)
    by auto
  obtain s2 where 3: "IpmiGetBootDevice M submit (Some x) s = Some ((EFI_SUCCESS, Some (device_of M (flags s))), s2)"
    "ok s2" "flags s2 = after_device M (flags s)" "\<not> progress s2"
    using boot_bmc.boot_device [OF assms, of x] by blast
  have "cmos_of M (flags s2) \<longleftrightarrow> cmos_of M (flags s) \<and> fget M 0 Param5_PersistentOptions (flags s) \<noteq> 0"
    using boot_bmc.after_device_zero [OF assms(1)] 3(3) by (auto simp: after_device_def cmos_of_def)
  then show ?thesis
    using 1(1) 2 3(1) boot_bmc.cmos_clear [OF assms(1) 3(2,4), of b] by fastforce
qed

theorem boot_question_order_witness:
  "(\<exists>s1 s2. IpmiGetCmosClearOption ipmi_v2 (mock_driver ipmi_v2 3) (Some False) (mock_instance (sample_mock 0)) =
      Some ((EFI_SUCCESS, Some True), s1) \<and>
    IpmiGetBootDevice ipmi_v2 (mock_driver ipmi_v2 3) (Some 0) s1 = Some ((EFI_SUCCESS, Some 5), s2)) \<and>
   (\<exists>s1 s2. IpmiGetBootDevice ipmi_v2 (mock_driver ipmi_v2 3) (Some 0) (mock_instance (sample_mock 0)) =
      Some ((EFI_SUCCESS, Some 5), s1) \<and>
    IpmiGetCmosClearOption ipmi_v2 (mock_driver ipmi_v2 3) (Some False) s1 = Some ((EFI_SUCCESS, Some False), s2))"
  using boot_question_order [OF mock_generic_boot.boot.boot_bmc_axioms, where s = "mock_instance (sample_mock 0)"
      and b = False and x = 0]
  by simp

subsection \<open>The CMOS clear driver\<close>

text \<open>C36 With the platform library the repository ships, a request to clear the CMOS is lost: the driver
  ends with EFI_UNSUPPORTED without clearing anything, the request is already taken back in
  the BMC, and the next boot finds none.\<close>

theorem cmos_request_lost:
  assumes "boot_bmc M submit ok flags acks progress" "ok s" "\<not> progress s" "cmos_of M (flags s)"
  shows "\<exists>s1 s2.
    IpmiCmosEntryPoint M submit PlatformClearCmos_Null s = Some (Inr (EFI_UNSUPPORTED, s1)) \<and>
    \<not> cmos_of M (flags s1) \<and>
    IpmiCmosEntryPoint M submit PlatformClearCmos_Null s1 = Some (Inr (EFI_SUCCESS, s2)) \<and>
    flags s2 = flags s1"
proof -
  have len: "length (flags s) = flags_size M" by (rule boot_bmc.flags_len [OF assms(1,2)])
  obtain s1 where 1: "IpmiGetCmosClearOption M submit (Some False) s = Some ((EFI_SUCCESS, Some True), s1)"
    "ok s1" "flags s1 = after_cmos M (flags s)" "\<not> progress s1"
    using boot_bmc.cmos_clear [OF assms(1-3), of False] assms(4) by auto
  have no: "\<not> cmos_of M (flags s1)" using boot_bmc.after_cmos_fields(4) [OF assms(1) len] 1(3) by simp
  obtain s2 where 2: "IpmiGetCmosClearOption M submit (Some False) s1 = Some ((EFI_SUCCESS, Some False), s2)"
    "flags s2 = flags s1"
    using boot_bmc.cmos_clear [OF assms(1) 1(2,4), of False] no by (auto simp: after_cmos_def)
  show ?thesis
    using 1(1) 2 no by (simp add: IpmiCmosEntryPoint_def PlatformClearCmos_Null_def)
qed

theorem cmos_request_lost_witness:
  "\<exists>s1 s2.
    IpmiCmosEntryPoint ipmi_v2 (IpmiSubmitCommand_Mock ipmi_v2) PlatformClearCmos_Null (sample_mock 1) =
      Some (Inr (EFI_UNSUPPORTED, s1)) \<and>
    IpmiCmosEntryPoint ipmi_v2 (IpmiSubmitCommand_Mock ipmi_v2) PlatformClearCmos_Null s1 =
      Some (Inr (EFI_SUCCESS, s2))"
  using cmos_request_lost [OF mock_direct_boot.boot.boot_bmc_axioms, of "sample_mock 1"] by auto

end
