(* ===== verification/Power_State.thy ===== *)
theory Power_State
  imports Command_Lib
begin

section \<open>The power restore policy and the ACPI power state\<close>

text \<open>
  \<open>IpmiPowerRestorePolicy\<close>, \<open>PlatformPowerRestorePolicyDefault\<close> and \<open>BmcAcpiPowerState\<close>: three
  drivers that tell the BMC what the platform wants or does.  Structures and bytes left
  uninitialised on the stack are arguments, as are the policy service and the SMM services.
\<close>

unbundle bit_operations_syntax

subsection \<open>The power restore policy\<close>

text \<open>\<open>PLATFORM_POWER_RESTORE_POLICY_TYPE\<close>, four bytes in the policy store, so any 32-bit value.\<close>

type_synonym restore_policy = u32

definition PowerRestorePolicyPowerOff :: restore_policy where "PowerRestorePolicyPowerOff = 0"
definition PowerRestorePolicyLastState :: restore_policy where "PowerRestorePolicyLastState = 1"
definition PowerRestorePolicyPowerOn :: restore_policy where "PowerRestorePolicyPowerOn = 2"
definition PowerRestorePolicyNoChange :: restore_policy where "PowerRestorePolicyNoChange = 3"

lemmas restore_policy_defs =
  PowerRestorePolicyPowerOff_def PowerRestorePolicyLastState_def PowerRestorePolicyPowerOn_def
  PowerRestorePolicyNoChange_def

definition POWER_RESTORE_POLICY_UNKNOWN :: u8 where "POWER_RESTORE_POLICY_UNKNOWN = 0x03"

text \<open>
  The driver is linked with a command library and a policy library; \<open>GetStatus\<close>, \<open>SetPolicy\<close> and
  \<open>GetPolicy\<close> are the three routines it calls.
\<close>

definition IpmiPowerRestorePolicyEntry_with ::
    "ipmi_hdr \<Rightarrow> (bytes \<Rightarrow> ('s, efi_status \<times> bytes) op) \<Rightarrow> (bytes \<Rightarrow> bytes \<Rightarrow> ('s, efi_status \<times> bytes) op) \<Rightarrow>
       ('s, efi_status \<times> restore_policy) op \<Rightarrow> bytes \<Rightarrow> bytes \<Rightarrow> bytes \<Rightarrow> ('s, efi_status) op" where
  "IpmiPowerRestorePolicyEntry_with M GetStatus SetPolicy GetPolicy ChassisStatus0 Request0 Response0 s =
     do {
       ((Status, RespData), s1) \<leftarrow> GetStatus ChassisStatus0 s;
       let CurrentPowerRestorePolicy =
         (if EFI_ERROR Status then POWER_RESTORE_POLICY_UNKNOWN
          else drop_bit 5 (fget8 M 0 Chassis_CurrentPowerState RespData) AND 0x3);
       ((Status, PolicyValue), s2) \<leftarrow> GetPolicy s1;
       if EFI_ERROR Status then Some (Status, s2)
       else if PolicyValue = ucast CurrentPowerRestorePolicy then Some (EFI_SUCCESS, s2)
       else if PolicyValue \<noteq> PowerRestorePolicyNoChange then do {
         let Request = fputs M [(PowerRestore_Policy, unat (ucast PolicyValue :: u8)),
                                (PowerRestore_Reserved, 0)] Request0;
         ((Status, Response), s3) \<leftarrow> SetPolicy Request Response0 s2;
         if EFI_ERROR Status then Some (Status, s3)
         else if fget8 M 0 CompletionCode Response \<noteq> 0 then Some (EFI_UNSUPPORTED, s3)
         else Some (EFI_SUCCESS, s3)
       }
       else Some (EFI_SUCCESS, s2)
     }"

definition IpmiPowerRestorePolicyEntry ::
    "ipmi_hdr \<Rightarrow> 's submit \<Rightarrow> ('s, efi_status \<times> restore_policy) op \<Rightarrow> bytes \<Rightarrow> bytes \<Rightarrow> bytes \<Rightarrow>
       ('s, efi_status) op" where
  "IpmiPowerRestorePolicyEntry M submit =
     IpmiPowerRestorePolicyEntry_with M (IpmiGetChassisStatus M submit) (IpmiSetPowerRestorePolicy M submit)"

text \<open>The default platform policy; \<open>SetPolicy\<close> is the policy service, a failed ASSERT is \<open>None\<close>.\<close>

definition PlatformPowerRestorePolicyDefaultEntry ::
    "(restore_policy \<Rightarrow> ('s, efi_status) op) \<Rightarrow> ('s, efi_status) op" where
  "PlatformPowerRestorePolicyDefaultEntry SetPolicy s =
     do {
       (Status, s1) \<leftarrow> SetPolicy PowerRestorePolicyNoChange s;
       ASSERT (Status = EFI_SUCCESS);
       Some (EFI_SUCCESS, s1)
     }"

subsection \<open>The ACPI power state\<close>

definition SetBmcAcpiPowerState ::
    "ipmi_hdr \<Rightarrow> 's submit \<Rightarrow> u8 \<Rightarrow> u8 \<Rightarrow> u8 \<Rightarrow> ('s, efi_status) op" where
  "SetBmcAcpiPowerState M submit Cc0 SystemPowerState DevicePowerState s =
     do {
       let SetAcpiPowerState = fputs M [(Acpi_SystemStateChange, 1),
                                        (Acpi_SystemPowerState, unat SystemPowerState),
                                        (Acpi_DeviceStateChange, 1),
                                        (Acpi_DevicePowerState, unat DevicePowerState)]
                                 (zero_mem (sizeof M IPMI_SET_ACPI_POWER_STATE_REQUEST));
       ((Status, Cc, DataSize), s1) \<leftarrow>
          submit (netfn_of M IPMI_NETFN_APP) (cmd_of M IPMI_APP_SET_ACPI_POWERSTATE)
            (Some SetAcpiPowerState) (struct_size M IPMI_SET_ACPI_POWER_STATE_REQUEST) [Cc0] 1 s;
       Some (Status, s1)
     }"

definition BmcAcpiPowerStateS5EntryCallBack :: "ipmi_hdr \<Rightarrow> 's submit \<Rightarrow> u8 \<Rightarrow> ('s, efi_status) op" where
  "BmcAcpiPowerStateS5EntryCallBack M submit Cc0 =
     SetBmcAcpiPowerState M submit Cc0 (val_of M IPMI_SYSTEM_POWER_STATE_S5_G2)
       (val_of M IPMI_DEVICE_POWER_STATE_D3)"

definition BmcAcpiPowerStateExitBootServicesCallback ::
    "ipmi_hdr \<Rightarrow> 's submit \<Rightarrow> u8 \<Rightarrow> ('s, efi_status) op" where
  "BmcAcpiPowerStateExitBootServicesCallback M submit Cc0 =
     SetBmcAcpiPowerState M submit Cc0 (val_of M IPMI_SYSTEM_POWER_STATE_S0_G0)
       (val_of M IPMI_DEVICE_POWER_STATE_D0)"

text \<open>
  \<open>gSmst\<close> says whether there is a system table; the other arguments are what the three SMM
  services return.  The result holds which of the two callbacks is registered.
\<close>

record power_callbacks =
  S5Entry :: bool
  SmmExitBootServices :: bool

definition InitializeBmcAcpiPowerStateSmm ::
    "bool \<Rightarrow> efi_status \<Rightarrow> efi_status \<Rightarrow> efi_status \<Rightarrow> efi_status \<times> power_callbacks" where
  "InitializeBmcAcpiPowerStateSmm gSmst LocateStatus RegisterStatus NotifyStatus =
     (let none = \<lparr>S5Entry = False, SmmExitBootServices = False\<rparr> in
      if \<not> gSmst then (EFI_UNSUPPORTED, none)
      else if EFI_ERROR LocateStatus then (LocateStatus, none)
      else (NotifyStatus, \<lparr>S5Entry = \<not> EFI_ERROR RegisterStatus,
                           SmmExitBootServices = \<not> EFI_ERROR NotifyStatus\<rparr>))"

text \<open>What the SMM core dispatches later; a callback's status is not used there.\<close>

datatype power_signal = PowerEventExitBootServices | PowerEventS5

fun power_event ::
    "ipmi_hdr \<Rightarrow> 's submit \<Rightarrow> u8 \<Rightarrow> power_callbacks \<Rightarrow> power_signal \<Rightarrow> 's \<Rightarrow> 's option" where
  "power_event M submit Cc0 c PowerEventExitBootServices s =
     (if SmmExitBootServices c
      then map_option snd (BmcAcpiPowerStateExitBootServicesCallback M submit Cc0 s) else Some s)"
| "power_event M submit Cc0 c PowerEventS5 s =
     (if S5Entry c then map_option snd (BmcAcpiPowerStateS5EntryCallBack M submit Cc0 s) else Some s)"

primrec power_events ::
    "ipmi_hdr \<Rightarrow> 's submit \<Rightarrow> u8 \<Rightarrow> power_callbacks \<Rightarrow> power_signal list \<Rightarrow> 's \<Rightarrow> 's option" where
  "power_events M submit Cc0 c [] s = Some s"
| "power_events M submit Cc0 c (e # es) s =
     do { s1 \<leftarrow> power_event M submit Cc0 c e s; power_events M submit Cc0 c es s1 }"

section \<open>The drivers against a BMC\<close>

text \<open>
  A BMC with the chassis commands, as the IPMI specification describes them: the restore policy is
  bits 5 and 6 of the power state, a set with a value below three stores it, and \<open>sets\<close> counts
  the sets.
\<close>

definition power_restore_bmc ::
    "ipmi_hdr \<Rightarrow> 's submit \<Rightarrow> ('s \<Rightarrow> bool) \<Rightarrow> ('s \<Rightarrow> u8) \<Rightarrow> ('s \<Rightarrow> nat) \<Rightarrow> bool" where
  "power_restore_bmc M submit ok policy sets \<longleftrightarrow>
     (\<forall>s buf. ok s \<longrightarrow> length buf = sizeof M IPMI_GET_CHASSIS_STATUS_RESPONSE \<longrightarrow>
        (\<exists>R z s'. submit (netfn_of M IPMI_NETFN_CHASSIS) (cmd_of M IPMI_CHASSIS_GET_STATUS) None 0 buf
            (struct_size M IPMI_GET_CHASSIS_STATUS_RESPONSE) s = Some ((EFI_SUCCESS, R, z), s') \<and>
          drop_bit 5 (fget8 M 0 Chassis_CurrentPowerState R) AND 0x3 = policy s \<and>
          ok s' \<and> policy s' = policy s \<and> sets s' = sets s)) \<and>
     (\<forall>s d buf. ok s \<longrightarrow> length d = sizeof M IPMI_SET_POWER_RESTORE_POLICY_REQUEST \<longrightarrow>
        length buf = sizeof M IPMI_SET_POWER_RESTORE_POLICY_RESPONSE \<longrightarrow>
        (\<exists>R z s'. submit (netfn_of M IPMI_NETFN_CHASSIS) (cmd_of M IPMI_CHASSIS_SET_POWER_RESTORE_POLICY)
            (Some d) (struct_size M IPMI_SET_POWER_RESTORE_POLICY_REQUEST) buf
            (struct_size M IPMI_SET_POWER_RESTORE_POLICY_RESPONSE) s = Some ((EFI_SUCCESS, R, z), s') \<and>
          fget8 M 0 CompletionCode R = 0 \<and> ok s' \<and> sets s' = Suc (sets s) \<and>
          policy s' = (if fget M 0 PowerRestore_Policy d < 3 then of_nat (fget M 0 PowerRestore_Policy d)
                       else policy s)))"

lemma ucast_up_down [simp]: "(ucast (ucast (x :: u8) :: u32) :: u8) = x"
  by (rule bit_word_eqI) (auto simp: bit_simps)

lemma unat_ucast_up: "unat (ucast (x :: u8) :: u32) = unat x"
  using u8_bound [of x] by (simp only: unsigned_ucast_eq) (simp add: take_bit_nat_eq_self)

lemma ucast_down_up: "x < 256 \<Longrightarrow> (ucast (ucast (x :: u32) :: u8) :: u32) = x"
  by (simp only: word_unat_eq_iff unat_ucast_up)
    (simp add: unsigned_ucast_eq word_less_nat_alt take_bit_nat_eq_self)

lemma restore_request:
  assumes "hdr_ok M" "length Request0 = sizeof M IPMI_SET_POWER_RESTORE_POLICY_REQUEST"
  shows "fget M 0 PowerRestore_Policy (fputs M [(PowerRestore_Policy, v), (PowerRestore_Reserved, 0)] Request0) =
    v mod 8"
  using fget_fputs [OF assms(1), of PowerRestore_Policy IPMI_SET_POWER_RESTORE_POLICY_REQUEST
      "[(PowerRestore_Policy, v), (PowerRestore_Reserved, 0)]" Request0] assms(2)
  by (simp add: take_bit_eq_mod del: fputs_simps)

lemma restore_entry:
  assumes bmc: "power_restore_bmc M submit ok policy sets" and M: "hdr_ok M" and s: "ok s"
    and pol: "\<And>t. ok t \<Longrightarrow> GetPolicy t = Some ((EFI_SUCCESS, p), t)" and p: "p < 4"
    and len: "length ChassisStatus0 = sizeof M IPMI_GET_CHASSIS_STATUS_RESPONSE"
      "length Request0 = sizeof M IPMI_SET_POWER_RESTORE_POLICY_REQUEST"
      "length Response0 = sizeof M IPMI_SET_POWER_RESTORE_POLICY_RESPONSE"
  shows "\<exists>s'. IpmiPowerRestorePolicyEntry M submit GetPolicy ChassisStatus0 Request0 Response0 s =
      Some (EFI_SUCCESS, s') \<and> ok s' \<and> policy s' = (if p = PowerRestorePolicyNoChange then policy s else ucast p) \<and>
    sets s' = (if p = PowerRestorePolicyNoChange \<or> p = ucast (policy s) then sets s else Suc (sets s))"
proof -
  obtain R z s1 where 1: "submit (netfn_of M IPMI_NETFN_CHASSIS) (cmd_of M IPMI_CHASSIS_GET_STATUS) None 0
      ChassisStatus0 (struct_size M IPMI_GET_CHASSIS_STATUS_RESPONSE) s = Some ((EFI_SUCCESS, R, z), s1)"
    "drop_bit 5 (fget8 M 0 Chassis_CurrentPowerState R) AND 0x3 = policy s" "ok s1" "policy s1 = policy s"
    "sets s1 = sets s"
    using bmc s len(1) unfolding power_restore_bmc_def by blast
  have get: "IpmiGetChassisStatus M submit ChassisStatus0 s = Some ((EFI_SUCCESS, R), s1)"
    using 1(1) by (simp add: IpmiGetChassisStatus_def call_fixed_def)
  let ?d = "fputs M [(PowerRestore_Policy, unat (ucast p :: u8)), (PowerRestore_Reserved, 0)] Request0"
  have d0: "length ?d = sizeof M IPMI_SET_POWER_RESTORE_POLICY_REQUEST" using len(2) by simp
  obtain R' z' s2 where 2: "submit (netfn_of M IPMI_NETFN_CHASSIS) (cmd_of M IPMI_CHASSIS_SET_POWER_RESTORE_POLICY)
      (Some ?d) (struct_size M IPMI_SET_POWER_RESTORE_POLICY_REQUEST) Response0
      (struct_size M IPMI_SET_POWER_RESTORE_POLICY_RESPONSE) s1 = Some ((EFI_SUCCESS, R', z'), s2)"
    "fget8 M 0 CompletionCode R' = 0" "ok s2" "sets s2 = Suc (sets s1)"
    "policy s2 = (if fget M 0 PowerRestore_Policy ?d < 3 then of_nat (fget M 0 PowerRestore_Policy ?d) else policy s1)"
    using bmc 1(3) len(2,3) d0 unfolding power_restore_bmc_def by blast
  have set: "IpmiSetPowerRestorePolicy M submit ?d Response0 s1 = Some ((EFI_SUCCESS, R'), s2)"
    using 2(1) by (simp add: IpmiSetPowerRestorePolicy_def call_fixed_def)
  have p8: "unat (ucast p :: u8) = unat p" "unat p < 4"
    using p by (simp_all add: word_less_nat_alt unsigned_ucast_eq take_bit_nat_eq_self)
  then have d: "fget M 0 PowerRestore_Policy ?d = unat p" using restore_request [OF M len(2)] by simp
  have p2: "policy s2 = ucast p" if "p \<noteq> PowerRestorePolicyNoChange"
  proof -
    have "unat p \<noteq> 3" using that by (auto simp: PowerRestorePolicyNoChange_def word_unat_eq_iff)
    then show ?thesis using 2(5) d p8(2) by (simp add: word_unat_eq_iff unat_of_nat p8(1))
  qed
  show ?thesis
  proof (cases "p = PowerRestorePolicyNoChange \<or> p = ucast (policy s)")
    case True
    then show ?thesis
      using 1 get pol [OF 1(3)]
      by (auto simp: IpmiPowerRestorePolicyEntry_def IpmiPowerRestorePolicyEntry_with_def Let_def)
  next
    case False
    then show ?thesis
      using 1 get set pol [OF 1(3)] 2 p2
      by (simp add: IpmiPowerRestorePolicyEntry_def IpmiPowerRestorePolicyEntry_with_def Let_def del: fputs_simps)
  qed
qed

text \<open>The states of the system and of its devices that the BMC was told.\<close>

definition acpi_bmc ::
    "ipmi_hdr \<Rightarrow> 's submit \<Rightarrow> ('s \<Rightarrow> bool) \<Rightarrow> ('s \<Rightarrow> nat \<times> nat) \<Rightarrow> bool" where
  "acpi_bmc M submit ok acpi \<longleftrightarrow>
     (\<forall>s d b. ok s \<longrightarrow> length d = sizeof M IPMI_SET_ACPI_POWER_STATE_REQUEST \<longrightarrow>
        (\<exists>r s'. submit (netfn_of M IPMI_NETFN_APP) (cmd_of M IPMI_APP_SET_ACPI_POWERSTATE) (Some d)
            (struct_size M IPMI_SET_ACPI_POWER_STATE_REQUEST) [b] 1 s = Some (r, s') \<and> ok s' \<and>
          acpi s' = (if fget M 0 Acpi_SystemStateChange d = 1 then fget M 0 Acpi_SystemPowerState d else fst (acpi s),
                     if fget M 0 Acpi_DeviceStateChange d = 1 then fget M 0 Acpi_DevicePowerState d else snd (acpi s))))"

lemma set_acpi:
  assumes "acpi_bmc M submit ok acpi" "hdr_ok M" "ok s" "sys < 128" "dev < 128"
  shows "\<exists>st s'. SetBmcAcpiPowerState M submit Cc0 sys dev s = Some (st, s') \<and> ok s' \<and>
    acpi s' = (unat sys, unat dev)"
proof -
  let ?fvs = "[(Acpi_SystemStateChange, 1), (Acpi_SystemPowerState, unat sys), (Acpi_DeviceStateChange, 1),
    (Acpi_DevicePowerState, unat dev)]"
  define d where "d = fputs M ?fvs (zero_mem (sizeof M IPMI_SET_ACPI_POWER_STATE_REQUEST))"
  have len: "length d = sizeof M IPMI_SET_ACPI_POWER_STATE_REQUEST" by (simp add: d_def)
  have f: "fget M 0 g d = (case map_of (rev ?fvs) g of Some v \<Rightarrow> take_bit (width_of g) v
      | None \<Rightarrow> fget M 0 g (zero_mem (sizeof M IPMI_SET_ACPI_POWER_STATE_REQUEST)))"
    if "g \<in> set (fields_of IPMI_SET_ACPI_POWER_STATE_REQUEST)" for g
    using fget_fputs [OF assms(2) that, of ?fvs] by (simp add: d_def del: fputs_simps)
  have "take_bit 7 (unat sys) = unat sys" "take_bit 7 (unat dev) = unat dev"
    using assms(4,5) by (simp_all add: word_less_nat_alt take_bit_nat_eq_self)
  then have v: "fget M 0 Acpi_SystemStateChange d = 1" "fget M 0 Acpi_SystemPowerState d = unat sys"
    "fget M 0 Acpi_DeviceStateChange d = 1" "fget M 0 Acpi_DevicePowerState d = unat dev"
    by (simp_all add: f)
  obtain r s' where "submit (netfn_of M IPMI_NETFN_APP) (cmd_of M IPMI_APP_SET_ACPI_POWERSTATE) (Some d)
      (struct_size M IPMI_SET_ACPI_POWER_STATE_REQUEST) [Cc0] 1 s = Some (r, s')" "ok s'"
    "acpi s' = (unat sys, unat dev)"
    using assms(1,3) len v unfolding acpi_bmc_def by fastforce
  then show ?thesis by (cases r) (simp add: SetBmcAcpiPowerState_def Let_def d_def del: fputs_simps)
qed

text \<open>What the BMC should be told at a signal, and the signals for which a callback is registered.\<close>

definition acpi_of :: "ipmi_hdr \<Rightarrow> power_signal \<Rightarrow> nat \<times> nat" where
  "acpi_of M e =
     (case e of
        PowerEventS5 \<Rightarrow>
          (unat (val_of M IPMI_SYSTEM_POWER_STATE_S5_G2), unat (val_of M IPMI_DEVICE_POWER_STATE_D3))
      | PowerEventExitBootServices \<Rightarrow>
          (unat (val_of M IPMI_SYSTEM_POWER_STATE_S0_G0), unat (val_of M IPMI_DEVICE_POWER_STATE_D0)))"

definition acpi_vals_ok :: "ipmi_hdr \<Rightarrow> bool" where
  "acpi_vals_ok M \<longleftrightarrow> (\<forall>v \<in> {IPMI_SYSTEM_POWER_STATE_S5_G2, IPMI_DEVICE_POWER_STATE_D3,
     IPMI_SYSTEM_POWER_STATE_S0_G0, IPMI_DEVICE_POWER_STATE_D0}. val_of M v < 128)"

definition handled :: "power_callbacks \<Rightarrow> power_signal \<Rightarrow> bool" where
  "handled c e \<longleftrightarrow> (case e of PowerEventS5 \<Rightarrow> S5Entry c | PowerEventExitBootServices \<Rightarrow> SmmExitBootServices c)"

lemma power_event_step:
  assumes "acpi_bmc M submit ok acpi" "hdr_ok M" "acpi_vals_ok M" "ok s"
  shows "\<exists>s'. power_event M submit Cc0 c e s = Some s' \<and> ok s' \<and>
    acpi s' = (if handled c e then acpi_of M e else acpi s)"
proof (cases "handled c e")
  case True
  then show ?thesis
    using set_acpi [OF assms(1,2,4), of "val_of M IPMI_SYSTEM_POWER_STATE_S5_G2" "val_of M IPMI_DEVICE_POWER_STATE_D3" Cc0]
      set_acpi [OF assms(1,2,4), of "val_of M IPMI_SYSTEM_POWER_STATE_S0_G0" "val_of M IPMI_DEVICE_POWER_STATE_D0" Cc0]
      assms(3)
    by (cases e) (auto simp: handled_def acpi_of_def acpi_vals_ok_def BmcAcpiPowerStateS5EntryCallBack_def
        BmcAcpiPowerStateExitBootServicesCallback_def)
next
  case False
  then show ?thesis using assms(4) by (cases e) (simp_all add: handled_def)
qed

lemma power_events_run:
  assumes "acpi_bmc M submit ok acpi" "hdr_ok M" "acpi_vals_ok M" "ok s"
  shows "\<exists>s'. power_events M submit Cc0 c es s = Some s' \<and> ok s' \<and>
    acpi s' = fold (\<lambda>e a. if handled c e then acpi_of M e else a) es (acpi s)"
  using assms(4)
proof (induction es arbitrary: s)
  case (Cons e es)
  obtain s1 where "power_event M submit Cc0 c e s = Some s1" "ok s1"
    "acpi s1 = (if handled c e then acpi_of M e else acpi s)"
    using power_event_step [OF assms(1-3) Cons.prems] by blast
  then show ?case using Cons.IH [of s1] by (auto split: if_splits)
qed simp

lemma fold_last:
  "fold (\<lambda>e a. if P e then f e else a) es a = (case filter P es of [] \<Rightarrow> a | fs \<Rightarrow> f (last fs))"
  by (induction es arbitrary: a) (auto split: list.splits)

section \<open>What the drivers do\<close>

text \<open>C22 The power restore policy converges: over any BMC with the chassis commands the PEI driver ends
  with EFI_SUCCESS and the BMC has the policy of the platform, or its own when the platform asks
  for no change; it sets the policy only when that differs, and running again sets nothing.\<close>

theorem power_restore_converges:
  assumes "power_restore_bmc M submit ok policy sets" "hdr_ok M" "ok s"
    and "\<And>t. ok t \<Longrightarrow> GetPolicy t = Some ((EFI_SUCCESS, p), t)" "p < 4"
    and "length ChassisStatus0 = sizeof M IPMI_GET_CHASSIS_STATUS_RESPONSE"
    and "length Request0 = sizeof M IPMI_SET_POWER_RESTORE_POLICY_REQUEST"
    and "length Response0 = sizeof M IPMI_SET_POWER_RESTORE_POLICY_RESPONSE"
  shows "\<exists>s1 s2.
    IpmiPowerRestorePolicyEntry M submit GetPolicy ChassisStatus0 Request0 Response0 s = Some (EFI_SUCCESS, s1) \<and>
    policy s1 = (if p = PowerRestorePolicyNoChange then policy s else ucast p) \<and>
    sets s1 = (if policy s1 = policy s then sets s else Suc (sets s)) \<and>
    IpmiPowerRestorePolicyEntry M submit GetPolicy ChassisStatus0 Request0 Response0 s1 = Some (EFI_SUCCESS, s2) \<and>
    policy s2 = policy s1 \<and> sets s2 = sets s1"
proof -
  note entry = restore_entry [OF assms(1,2) _ assms(4-8)]
  obtain s1 where 1: "IpmiPowerRestorePolicyEntry M submit GetPolicy ChassisStatus0 Request0 Response0 s =
      Some (EFI_SUCCESS, s1)" "ok s1" "policy s1 = (if p = PowerRestorePolicyNoChange then policy s else ucast p)"
    "sets s1 = (if p = PowerRestorePolicyNoChange \<or> p = ucast (policy s) then sets s else Suc (sets s))"
    using entry [OF assms(3)] by blast
  obtain s2 where 2: "IpmiPowerRestorePolicyEntry M submit GetPolicy ChassisStatus0 Request0 Response0 s1 =
      Some (EFI_SUCCESS, s2)" "policy s2 = (if p = PowerRestorePolicyNoChange then policy s1 else ucast p)"
    "sets s2 = (if p = PowerRestorePolicyNoChange \<or> p = ucast (policy s1) then sets s1 else Suc (sets s1))"
    using entry [OF 1(2)] by blast
  have "(ucast (ucast p :: u8) :: u32) = p" using assms(5) by (simp add: ucast_down_up word_less_nat_alt)
  then show ?thesis using 1 2 by (auto split: if_splits)
qed

text \<open>A chassis with a restore policy and a count of the sets, for the witness.\<close>

definition sample_chassis :: "(u8 \<times> nat) submit" where
  "sample_chassis nf c d n buf sz s =
     (if c = 1 then Some ((EFI_SUCCESS, [0, push_bit 5 (fst s), 0, 0, 0], 5), s)
      else case d of
        None \<Rightarrow> Some ((EFI_DEVICE_ERROR, buf, sz), s)
      | Some d0 \<Rightarrow>
          (let p = fget ipmi_v2 0 PowerRestore_Policy d0
           in Some ((EFI_SUCCESS, [0, 7], 2), (if p < 3 then of_nat p else fst s, Suc (snd s)))))"

lemma sample_chassis: "power_restore_bmc ipmi_v2 sample_chassis (\<lambda>s. fst s < 4) fst snd"
proof -
  have 1: "drop_bit 5 (fget8 ipmi_v2 0 Chassis_CurrentPowerState [0, push_bit 5 p, 0, 0, 0]) AND 0x3 = p"
    if "p < 4" for p :: u8
  proof -
    have "p \<in> {0, 1, 2, 3}" using that by (simp add: word_less_nat_alt word_unat_eq_iff) linarith
    then show ?thesis by (auto simp: fget8_def fget_def bits_get_def)
  qed
  have 2: "(of_nat n :: u8) < 4" if "n < 3" for n
    using that by (simp add: word_less_nat_alt unat_of_nat)
  have 3: "fget8 ipmi_v2 0 CompletionCode [0, 7] = 0" by (simp add: fget8_def fget_def bits_get_def)
  show ?thesis
    unfolding power_restore_bmc_def
    by (auto simp: sample_chassis_def 1 2 3 Let_def)
qed

theorem power_restore_converges_witness:
  "\<exists>s1 s2.
    IpmiPowerRestorePolicyEntry ipmi_v2 sample_chassis (\<lambda>t. Some ((EFI_SUCCESS, 2), t)) (zero_mem 5) (zero_mem 1)
      (zero_mem 2) (0, 0) = Some (EFI_SUCCESS, s1) \<and> s1 = (2, 1) \<and>
    IpmiPowerRestorePolicyEntry ipmi_v2 sample_chassis (\<lambda>t. Some ((EFI_SUCCESS, 2), t)) (zero_mem 5) (zero_mem 1)
      (zero_mem 2) s1 = Some (EFI_SUCCESS, s2) \<and> s2 = (2, 1)"
  using power_restore_converges [OF sample_chassis ipmi_v2_ok, of "(0, 0)" "\<lambda>t. Some ((EFI_SUCCESS, 2), t)" 2
      "zero_mem 5" "zero_mem 1" "zero_mem 2"]
  by (auto simp: PowerRestorePolicyNoChange_def prod_eq_iff)

text \<open>C23 The BMC follows the power state: when the SMM driver's entry point returned EFI_SUCCESS, the BMC
  was told the state of the last signal for which a callback is registered; the callback for S5
  is missing when its registration failed, which the entry point does not report.\<close>

theorem acpi_power_state_follows:
  assumes "acpi_bmc M submit ok acpi" "hdr_ok M" "acpi_vals_ok M" "ok s"
    and "InitializeBmcAcpiPowerStateSmm gSmst LocateStatus RegisterStatus NotifyStatus = (EFI_SUCCESS, c)"
  shows "\<exists>s'. power_events M submit Cc0 c es s = Some s' \<and>
    acpi s' = (case filter (\<lambda>e. e = PowerEventExitBootServices \<or> \<not> EFI_ERROR RegisterStatus) es of
                 [] \<Rightarrow> acpi s | fs \<Rightarrow> acpi_of M (last fs))"
proof -
  have "handled c = (\<lambda>e. e = PowerEventExitBootServices \<or> \<not> EFI_ERROR RegisterStatus)"
    using assms(5)
    by (intro ext) (auto simp: InitializeBmcAcpiPowerStateSmm_def handled_def Let_def split: if_splits power_signal.splits)
  then show ?thesis
    using power_events_run [OF assms(1-4), of Cc0 c es] fold_last [of "handled c" "acpi_of M" es "acpi s"] by auto
qed

definition sample_acpi :: "(nat \<times> nat) submit" where
  "sample_acpi nf c d n buf sz s =
     (case d of
        None \<Rightarrow> Some ((EFI_DEVICE_ERROR, buf, sz), s)
      | Some d0 \<Rightarrow> Some ((EFI_SUCCESS, [0], 1),
          (if fget ipmi_v2 0 Acpi_SystemStateChange d0 = 1 then fget ipmi_v2 0 Acpi_SystemPowerState d0 else fst s,
           if fget ipmi_v2 0 Acpi_DeviceStateChange d0 = 1 then fget ipmi_v2 0 Acpi_DevicePowerState d0 else snd s)))"

lemma sample_acpi: "acpi_bmc ipmi_v2 sample_acpi (\<lambda>s. True) (\<lambda>s. s)" "acpi_vals_ok ipmi_v2"
  by (simp_all add: acpi_bmc_def sample_acpi_def acpi_vals_ok_def)

theorem acpi_power_state_follows_witness:
  "(\<exists>s'. power_events ipmi_v2 sample_acpi 0 \<lparr>S5Entry = True, SmmExitBootServices = True\<rparr>
      [PowerEventExitBootServices, PowerEventS5] (9, 9) = Some s' \<and> s' = (5, 3)) \<and>
   (\<exists>s'. power_events ipmi_v2 sample_acpi 0 \<lparr>S5Entry = False, SmmExitBootServices = True\<rparr>
      [PowerEventExitBootServices, PowerEventS5] (9, 9) = Some s' \<and> s' = (0, 0))"
  using acpi_power_state_follows [OF sample_acpi(1) ipmi_v2_ok sample_acpi(2) TrueI, of True EFI_SUCCESS EFI_SUCCESS
      EFI_SUCCESS "\<lparr>S5Entry = True, SmmExitBootServices = True\<rparr>" 0 "[PowerEventExitBootServices, PowerEventS5]" "(9, 9)"]
    acpi_power_state_follows [OF sample_acpi(1) ipmi_v2_ok sample_acpi(2) TrueI, of True EFI_SUCCESS EFI_NOT_FOUND
      EFI_SUCCESS "\<lparr>S5Entry = False, SmmExitBootServices = True\<rparr>" 0 "[PowerEventExitBootServices, PowerEventS5]" "(9, 9)"]
  by (auto simp: InitializeBmcAcpiPowerStateSmm_def acpi_of_def)

end
