(* ===== verification/Sol_Fru.thy ===== *)
theory Sol_Fru
  imports Command_Lib
begin

section \<open>The serial-over-LAN status driver and the FRU driver\<close>

text \<open>
  \<open>SolStatus\<close> and \<open>IpmiFru\<close>: two drivers that ask the BMC and print what it says.  \<open>Stall\<close> is the
  boot service; structures left uninitialised on the stack are arguments.
\<close>

subsection \<open>Serial over LAN\<close>

definition SOL_CMD_RETRY_COUNT :: nat where "SOL_CMD_RETRY_COUNT = 10"

definition sol_get_request :: "ipmi_hdr \<Rightarrow> u8 \<Rightarrow> u8 \<Rightarrow> bytes" where
  "sol_get_request M Channel ParamSel =
     fputs M [(GetSol_ChannelNumber, unat Channel), (GetSol_ParameterSelector, unat ParamSel)]
       (zero_mem (sizeof M IPMI_GET_SOL_CONFIGURATION_PARAMETERS_REQUEST))"

text \<open>The loops count down the passes that are left; \<open>Response\<close> is the structure of the last pass.\<close>

primrec GetSOLStatus_loop ::
    "ipmi_hdr \<Rightarrow> 's submit \<Rightarrow> (nat \<Rightarrow> 's \<Rightarrow> 's) \<Rightarrow> u8 \<Rightarrow> u8 \<Rightarrow> nat \<Rightarrow> efi_status \<Rightarrow> bytes \<Rightarrow>
       ('s, efi_status \<times> bytes) op" where
  "GetSOLStatus_loop M submit Stall Channel ParamSel 0 Status Response s = Some ((Status, Response), s)"
| "GetSOLStatus_loop M submit Stall Channel ParamSel (Suc left) Status Response s =
     do {
       ((Status1, Response1, DataSize), s1) \<leftarrow>
          IpmiGetSolConfigurationParameters M submit (sol_get_request M Channel ParamSel)
            (zero_mem (sizeof M IPMI_GET_SOL_CONFIGURATION_PARAMETERS_RESPONSE))
            (struct_size M IPMI_GET_SOL_CONFIGURATION_PARAMETERS_RESPONSE) s;
       if Status1 = EFI_SUCCESS then Some ((Status1, Response1), s1)
       else GetSOLStatus_loop M submit Stall Channel ParamSel left Status1 Response1 (Stall 100000 s1)
     }"

definition GetSOLStatus ::
    "ipmi_hdr \<Rightarrow> 's submit \<Rightarrow> (nat \<Rightarrow> 's \<Rightarrow> 's) \<Rightarrow> u8 \<Rightarrow> u8 \<Rightarrow> u8 \<Rightarrow> ('s, efi_status \<times> u8) op" where
  "GetSOLStatus M submit Stall Channel ParamSel Data s =
     do {
       ((Status, Response), s1) \<leftarrow>
          GetSOLStatus_loop M submit Stall Channel ParamSel SOL_CMD_RETRY_COUNT EFI_SUCCESS [] s;
       Some ((Status, if Status = EFI_SUCCESS then fget8 M 0 GetSol_ParameterData0 Response else Data), s1)
     }"

primrec SetSOLParams_loop ::
    "ipmi_hdr \<Rightarrow> 's submit \<Rightarrow> (nat \<Rightarrow> 's \<Rightarrow> 's) \<Rightarrow> bytes \<Rightarrow> nat \<Rightarrow> efi_status \<Rightarrow> ('s, efi_status) op" where
  "SetSOLParams_loop M submit Stall Request 0 Status s = Some (Status, s)"
| "SetSOLParams_loop M submit Stall Request (Suc left) Status s =
     do {
       ((Status1, Cc), s1) \<leftarrow>
          IpmiSetSolConfigurationParameters M submit Request
            (struct_size M IPMI_SET_SOL_CONFIGURATION_PARAMETERS_REQUEST) [0] s;
       if Status1 = EFI_SUCCESS then Some (Status1, s1)
       else SetSOLParams_loop M submit Stall Request left Status1 (Stall 100000 s1)
     }"

definition SetSOLParams ::
    "ipmi_hdr \<Rightarrow> 's submit \<Rightarrow> (nat \<Rightarrow> 's \<Rightarrow> 's) \<Rightarrow> u8 \<Rightarrow> u8 \<Rightarrow> u8 \<Rightarrow> ('s, efi_status) op" where
  "SetSOLParams M submit Stall Channel ParamSel Data =
     SetSOLParams_loop M submit Stall
       (fputs M [(SetSol_ChannelNumber, unat Channel), (SetSol_ParameterSelector, unat ParamSel),
                 (SetSol_ParameterData0, unat Data)]
          (zero_mem (sizeof M IPMI_SET_SOL_CONFIGURATION_PARAMETERS_REQUEST)))
       SOL_CMD_RETRY_COUNT EFI_SUCCESS"

text \<open>\<open>for (Channel = 1; Channel <= PcdMaxSOLChannels; Channel++)\<close> with an eight-bit counter.\<close>

partial_function (option) SolStatus_loop ::
    "ipmi_hdr \<Rightarrow> 's submit \<Rightarrow> (nat \<Rightarrow> 's \<Rightarrow> 's) \<Rightarrow> u8 \<Rightarrow> u8 \<Rightarrow> efi_status \<Rightarrow> u8 \<Rightarrow> 's \<Rightarrow>
       (efi_status \<times> 's) option" where
  "SolStatus_loop M submit Stall PcdMaxSOLChannels Channel Status SolEnabled s =
     (if Channel \<le> PcdMaxSOLChannels then
        (case GetSOLStatus M submit Stall Channel
                (val_of M IPMI_SOL_CONFIGURATION_PARAMETER_SOL_ENABLE) SolEnabled s of
           None \<Rightarrow> None
         | Some ((Status1, SolEnabled1), s1) \<Rightarrow>
             SolStatus_loop M submit Stall PcdMaxSOLChannels (Channel + 1) Status1 SolEnabled1 s1)
      else Some (Status, s))"

definition SolStatusEntryPoint ::
    "ipmi_hdr \<Rightarrow> 's submit \<Rightarrow> (nat \<Rightarrow> 's \<Rightarrow> 's) \<Rightarrow> u8 \<Rightarrow> ('s, efi_status) op" where
  "SolStatusEntryPoint M submit Stall PcdMaxSOLChannels =
     SolStatus_loop M submit Stall PcdMaxSOLChannels 1 EFI_SUCCESS 0"

subsection \<open>FRU\<close>

definition InitializeFru ::
    "ipmi_hdr \<Rightarrow> 's submit \<Rightarrow> bytes \<Rightarrow> bytes \<Rightarrow> bytes \<Rightarrow> ('s, efi_status) op" where
  "InitializeFru M submit ControllerInfo0 Request0 Response0 s =
     do {
       ((Status, ControllerInfo), s1) \<leftarrow> IpmiGetDeviceId M submit ControllerInfo0 s;
       if EFI_ERROR Status then Some (Status, s1)
       else if fget M 0 DevId_FruInventorySupport ControllerInfo \<noteq> 0 then do {
         ((Status, Response), s2) \<leftarrow>
            IpmiGetFruInventoryAreaInfo M submit (fput M 0 FruArea_DeviceId 0 Request0) Response0 s1;
         if EFI_ERROR Status then Some (Status, s2) else Some (EFI_SUCCESS, s2)
       }
       else Some (EFI_SUCCESS, s1)
     }"

section \<open>Retries and channels\<close>

text \<open>
  A BMC that answers each channel in one way, and a count of the commands it got that neither a
  stall nor anything else changes.
\<close>

definition sol_bmc ::
    "ipmi_hdr \<Rightarrow> 's submit \<Rightarrow> (nat \<Rightarrow> 's \<Rightarrow> 's) \<Rightarrow> (nat \<Rightarrow> efi_status) \<Rightarrow> ('s \<Rightarrow> nat) \<Rightarrow> bool" where
  "sol_bmc M submit Stall sol count \<longleftrightarrow>
     (\<forall>s n. count (Stall n s) = count s) \<and>
     (\<forall>s d buf. length d = sizeof M IPMI_GET_SOL_CONFIGURATION_PARAMETERS_REQUEST \<longrightarrow>
        (\<exists>R z s'. submit (netfn_of M IPMI_NETFN_TRANSPORT) (cmd_of M IPMI_TRANSPORT_GET_SOL_CONFIG_PARAM)
            (Some d) (struct_size M IPMI_GET_SOL_CONFIGURATION_PARAMETERS_REQUEST) buf
            (struct_size M IPMI_GET_SOL_CONFIGURATION_PARAMETERS_RESPONSE) s =
            Some ((sol (fget M 0 GetSol_ChannelNumber d), R, z), s') \<and>
          count s' = Suc (count s)))"

text \<open>The channel number has four bits; a command that fails is sent ten times.\<close>

definition sol_commands :: "(nat \<Rightarrow> efi_status) \<Rightarrow> nat \<Rightarrow> nat" where
  "sol_commands sol ch = (if sol (ch mod 16) = EFI_SUCCESS then 1 else SOL_CMD_RETRY_COUNT)"

lemma sol_call:
  assumes "hdr_ok M" "sol_bmc M submit Stall sol count"
  shows "\<exists>R z s'. IpmiGetSolConfigurationParameters M submit (sol_get_request M ch p) buf
      (struct_size M IPMI_GET_SOL_CONFIGURATION_PARAMETERS_RESPONSE) s = Some ((sol (unat ch mod 16), R, z), s') \<and>
    count s' = Suc (count s)"
proof -
  let ?fvs = "[(GetSol_ChannelNumber, unat ch), (GetSol_ParameterSelector, unat p)]"
  let ?z = "zero_mem (sizeof M IPMI_GET_SOL_CONFIGURATION_PARAMETERS_REQUEST)"
  have "fget M 0 GetSol_ChannelNumber (sol_get_request M ch p) = unat ch mod 16"
    using fget_fputs [OF assms(1), of GetSol_ChannelNumber IPMI_GET_SOL_CONFIGURATION_PARAMETERS_REQUEST ?fvs ?z]
    by (simp add: sol_get_request_def take_bit_eq_mod del: fputs_simps)
  moreover have "length (sol_get_request M ch p) = sizeof M IPMI_GET_SOL_CONFIGURATION_PARAMETERS_REQUEST"
    by (simp add: sol_get_request_def)
  ultimately show ?thesis
    using assms(2) unfolding sol_bmc_def IpmiGetSolConfigurationParameters_def by metis
qed

lemma sol_loop:
  assumes "hdr_ok M" "sol_bmc M submit Stall sol count"
  shows "\<exists>R s'. GetSOLStatus_loop M submit Stall ch p (Suc n) st0 R0 s = Some ((sol (unat ch mod 16), R), s') \<and>
    count s' = count s + (if sol (unat ch mod 16) = EFI_SUCCESS then 1 else Suc n)"
proof (induction n arbitrary: st0 R0 s)
  case 0
  obtain R z s1 where "IpmiGetSolConfigurationParameters M submit (sol_get_request M ch p)
      (zero_mem (sizeof M IPMI_GET_SOL_CONFIGURATION_PARAMETERS_RESPONSE))
      (struct_size M IPMI_GET_SOL_CONFIGURATION_PARAMETERS_RESPONSE) s = Some ((sol (unat ch mod 16), R, z), s1)"
    "count s1 = Suc (count s)" using sol_call [OF assms] by blast
  moreover have "count (Stall 100000 s1) = Suc (count s)" using assms(2) calculation(2) by (simp add: sol_bmc_def)
  ultimately show ?case by simp
next
  case (Suc n)
  obtain R z s1 where 1: "IpmiGetSolConfigurationParameters M submit (sol_get_request M ch p)
      (zero_mem (sizeof M IPMI_GET_SOL_CONFIGURATION_PARAMETERS_RESPONSE))
      (struct_size M IPMI_GET_SOL_CONFIGURATION_PARAMETERS_RESPONSE) s = Some ((sol (unat ch mod 16), R, z), s1)"
    "count s1 = Suc (count s)" using sol_call [OF assms] by blast
  show ?case
  proof (cases "sol (unat ch mod 16) = EFI_SUCCESS")
    case True
    then show ?thesis using 1 by simp
  next
    case False
    have "count (Stall 100000 s1) = Suc (count s)" using assms(2) 1(2) by (simp add: sol_bmc_def)
    then show ?thesis
      using False 1(1) Suc.IH [of "sol (unat ch mod 16)" R "Stall 100000 s1"]
      by (subst GetSOLStatus_loop.simps(2)) auto
  qed
qed

lemma sol_channel:
  assumes "hdr_ok M" "sol_bmc M submit Stall sol count"
  shows "\<exists>d' s'. GetSOLStatus M submit Stall ch p d s = Some ((sol (unat ch mod 16), d'), s') \<and>
    count s' = count s + sol_commands sol (unat ch)"
proof -
  obtain R s' where 1: "GetSOLStatus_loop M submit Stall ch p SOL_CMD_RETRY_COUNT EFI_SUCCESS [] s =
      Some ((sol (unat ch mod 16), R), s')" "count s' = count s + sol_commands sol (unat ch)"
    using sol_loop [OF assms, of ch p 9 EFI_SUCCESS "[]" s]
    by (auto simp: SOL_CMD_RETRY_COUNT_def sol_commands_def simp del: GetSOLStatus_loop.simps)
  then show ?thesis by (simp add: GetSOLStatus_def del: GetSOLStatus_loop.simps)
qed

lemma sol_channels:
  assumes M: "hdr_ok M" "sol_bmc M submit Stall sol count" and max: "unat N < 255"
    and ch: "unat Channel + k = Suc (unat N)"
  shows "\<exists>s'. SolStatus_loop M submit Stall N Channel st en s =
      Some (if k = 0 then st else sol (unat N mod 16), s') \<and>
    count s' = count s + (\<Sum>c = unat Channel..unat N. sol_commands sol c)"
  using ch
proof (induction k arbitrary: Channel st en s)
  case 0
  then have "\<not> Channel \<le> N" by (simp add: word_le_nat_alt)
  then show ?case using 0 by (subst SolStatus_loop.simps) simp
next
  case (Suc k)
  then have le: "Channel \<le> N" by (simp add: word_le_nat_alt)
  obtain d' s1 where 1: "GetSOLStatus M submit Stall Channel (val_of M IPMI_SOL_CONFIGURATION_PARAMETER_SOL_ENABLE) en s =
      Some ((sol (unat Channel mod 16), d'), s1)" "count s1 = count s + sol_commands sol (unat Channel)"
    using sol_channel [OF M] by blast
  have next_ch: "unat (Channel + 1) = Suc (unat Channel)"
    using le max by (simp add: unat_word_ariths word_le_nat_alt)
  then obtain s' where 2: "SolStatus_loop M submit Stall N (Channel + 1) (sol (unat Channel mod 16)) d' s1 =
      Some (if k = 0 then sol (unat Channel mod 16) else sol (unat N mod 16), s')"
    "count s' = count s1 + (\<Sum>c = unat (Channel + 1)..unat N. sol_commands sol c)"
    using Suc.IH [of "Channel + 1"] Suc.prems by fastforce
  have "(\<Sum>c = unat Channel..unat N. sol_commands sol c) =
      sol_commands sol (unat Channel) + (\<Sum>c = Suc (unat Channel)..unat N. sol_commands sol c)"
    using le by (intro sum.atLeast_Suc_atMost) (simp add: word_le_nat_alt)
  moreover have "unat Channel = unat N" if "k = 0" using Suc.prems that by simp
  ultimately show ?case
    using 1 2 next_ch le by (subst SolStatus_loop.simps) auto
qed

text \<open>With 255 channels the counter wraps and the loop has no end.\<close>

lemma sol_endless: "SolStatus_loop M submit Stall 255 ch st en s = None"
proof -
  have "N \<noteq> 255" if "SolStatus_loop M submit Stall N ch st en s = Some r" for N r
  proof (rule SolStatus_loop.raw_induct [OF _ that, where P = "\<lambda>M submit Stall N ch st en s r. N \<noteq> 255"], goal_cases)
    case (1 loop M submit Stall N ch st en s r)
    have "ch \<le> 255" using u8_bound [of ch] by (simp add: word_le_nat_alt)
    then show ?case using 1 by (auto split: if_splits option.splits prod.splits)
  qed
  then show ?thesis by (cases "SolStatus_loop M submit Stall 255 ch st en s") auto
qed

text \<open>C29 The driver ends unless it is set up for 255 channels, when the eight-bit counter wraps and it
  never does.  It asks every channel once, and ten times when the BMC refuses; the channel is cut
  to four bits, and the status of the driver is that of the last channel whatever the others
  said.\<close>

theorem SolStatusEntryPoint_returns:
  assumes "hdr_ok M" "sol_bmc M submit Stall sol count"
  shows "case SolStatusEntryPoint M submit Stall PcdMaxSOLChannels s of
      None \<Rightarrow> PcdMaxSOLChannels = 255
    | Some (Status, s') \<Rightarrow> PcdMaxSOLChannels \<noteq> 255 \<and>
        Status = (if PcdMaxSOLChannels = 0 then EFI_SUCCESS else sol (unat PcdMaxSOLChannels mod 16)) \<and>
        count s' = count s + (\<Sum>c = 1..unat PcdMaxSOLChannels. sol_commands sol c)"
proof (cases "PcdMaxSOLChannels = 255")
  case True
  then show ?thesis by (simp add: SolStatusEntryPoint_def sol_endless)
next
  case False
  then have "unat PcdMaxSOLChannels < 255"
    using u8_bound [of PcdMaxSOLChannels] by (simp add: word_unat_eq_iff)
  then show ?thesis
    using False sol_channels [OF assms, of PcdMaxSOLChannels 1 "unat PcdMaxSOLChannels" EFI_SUCCESS 0 s]
    by (auto simp: SolStatusEntryPoint_def unat_eq_zero)
qed

definition sample_sol :: "nat submit" where
  "sample_sol nf c d n buf sz s =
     Some ((if map_option (fget ipmi_v2 0 GetSol_ChannelNumber) d = Some 2 then EFI_DEVICE_ERROR else EFI_SUCCESS,
            buf, sz), Suc s)"

theorem SolStatusEntryPoint_returns_witness:
  "SolStatusEntryPoint ipmi_v2 sample_sol (\<lambda>n s. s) 3 0 = Some (EFI_SUCCESS, 12)"
proof -
  have "sol_bmc ipmi_v2 sample_sol (\<lambda>n s. s) (\<lambda>c. if c = 2 then EFI_DEVICE_ERROR else EFI_SUCCESS) (\<lambda>s. s)"
    by (simp add: sol_bmc_def sample_sol_def)
  note run = SolStatusEntryPoint_returns [OF ipmi_v2_ok this, of 3 0]
  have "{1..3} = {1, 2, 3 :: nat}" by auto
  then show ?thesis
    using run by (simp add: sol_commands_def SOL_CMD_RETRY_COUNT_def split: option.splits prod.splits)
qed

end
