(* ===== verification/Ipmi_Tables.thy ===== *)
theory Ipmi_Tables
  imports Command_Lib
begin

section \<open>What the firmware tells the operating system\<close>

text \<open>
  \<open>IpmiSmbios\<close> (the SMBIOS record of type 38), \<open>SpmiTable\<close> (the ACPI table SPMI) and \<open>BmcAcpi\<close> (the
  SSDT of the BMC).  The tables are records with the members of the packed structures; the
  platform configuration database and the constants of the SMBIOS and ACPI headers, which are not
  part of the repository, are the record \<open>table_env\<close>; the services that add a record or install a
  table are arguments.
\<close>

unbundle bit_operations_syntax

subsection \<open>Configuration\<close>

record table_env =
  EFI_ACPI_5_0_SYSTEM_MEMORY :: u8
  EFI_ACPI_5_0_SYSTEM_IO :: u8
  IPMIDeviceInfoInterfaceTypeSSIF :: u8
  EFI_SMBIOS_TYPE_IPMI_DEVICE_INFORMATION :: u8
  sizeof_SMBIOS_TABLE_TYPE38 :: u8
  env_IpmiInterfaceType :: u8
  env_IpmiInterruptType :: u8
  env_IpmiGpe :: u8
  env_IpmiPciDeviceFlag :: u8
  env_IpmiGlobalSystemInterrupt :: u32
  env_IpmiAddressSpaceId :: u8
  env_IpmiRegisterBitWidth :: u8
  env_IpmiRegisterBitOffset :: u8
  env_IpmiAccessSize :: u8
  env_IpmiIoBaseAddress :: u16
  env_IpmiAddress :: u64
  env_IpmiDeviceId :: bytes
  env_InterruptInfo :: u8
  env_InterruptPolarity :: u8
  env_InterruptTriggerMode :: u8
  env_InterruptNumber :: u8
  env_I2CSlaveAddress :: u8
  env_NVStorageDeviceAddress :: u8
  env_AcpiDefaultOemId :: bytes
  env_AcpiDefaultOemTableId :: u64
  env_AcpiDefaultOemRevision :: u32
  env_AcpiDefaultCreatorId :: u32
  env_AcpiDefaultCreatorRevision :: u32

subsection \<open>SMBIOS type 38\<close>

record smbios_type38 =
  s38_HdrType :: u8
  s38_HdrLength :: u8
  s38_HdrHandle :: u16
  s38_InterfaceType :: u8
  s38_IPMISpecificationRevision :: u8
  s38_I2CSlaveAddress :: u8
  s38_NVStorageDeviceAddress :: u8
  s38_BaseAddress :: u64
  s38_BaseAddressModifier_InterruptInfo :: u8
  s38_InterruptNumber :: u8

definition mSmbiosTableType38 :: "table_env \<Rightarrow> smbios_type38" where
  "mSmbiosTableType38 E =
     \<lparr>s38_HdrType = EFI_SMBIOS_TYPE_IPMI_DEVICE_INFORMATION E,
      s38_HdrLength = sizeof_SMBIOS_TABLE_TYPE38 E, s38_HdrHandle = 0,
      s38_InterfaceType = env_IpmiInterfaceType E, s38_IPMISpecificationRevision = 0x20,
      s38_I2CSlaveAddress = env_I2CSlaveAddress E,
      s38_NVStorageDeviceAddress = env_NVStorageDeviceAddress E, s38_BaseAddress = 0,
      s38_BaseAddressModifier_InterruptInfo = 0, s38_InterruptNumber = env_InterruptNumber E\<rparr>"

definition IpmiRegisterSpacing :: "table_env \<Rightarrow> u8" where
  "IpmiRegisterSpacing E =
     (if env_IpmiRegisterBitWidth E = 0x08 then 0
      else if env_IpmiRegisterBitWidth E = 0x10 then 4
      else if env_IpmiRegisterBitWidth E = 0x20 then 2
      else 2 OR 4)"

text \<open>The assignments between the two calls; \<open>v\<close> is the specification version of the device id.\<close>

definition fill_type38 :: "table_env \<Rightarrow> u8 \<Rightarrow> smbios_type38 \<Rightarrow> smbios_type38" where
  "fill_type38 E v T0 =
     (let T = T0\<lparr>s38_IPMISpecificationRevision := drop_bit 4 (v AND 0xF0) OR push_bit 4 (v AND 0x0F)\<rparr> in
      if env_IpmiInterfaceType E \<noteq> IPMIDeviceInfoInterfaceTypeSSIF E then
        (let T1 = (if env_IpmiAddressSpaceId E = EFI_ACPI_5_0_SYSTEM_IO E then
                     T\<lparr>s38_BaseAddress := ucast (env_IpmiIoBaseAddress E OR 1),
                       s38_BaseAddressModifier_InterruptInfo :=
                         ucast (push_bit 4 (env_IpmiIoBaseAddress E AND 1))\<rparr>
                   else if env_IpmiAddressSpaceId E = EFI_ACPI_5_0_SYSTEM_MEMORY E then
                     T\<lparr>s38_BaseAddress := env_IpmiAddress E AND NOT 1,
                       s38_BaseAddressModifier_InterruptInfo := ucast (push_bit 4 (env_IpmiAddress E AND 1))\<rparr>
                   else T)
         in T1\<lparr>s38_BaseAddressModifier_InterruptInfo :=
                 s38_BaseAddressModifier_InterruptInfo T1 OR push_bit 6 (IpmiRegisterSpacing E AND 0x3) OR
                 push_bit 3 (env_InterruptInfo E AND 1) OR push_bit 1 (env_InterruptPolarity E AND 1) OR
                 (env_InterruptTriggerMode E AND 1)\<rparr>)
      else T\<lparr>s38_BaseAddress := env_IpmiAddress E\<rparr>)"

text \<open>\<open>LocateStatus\<close> is what the boot service returns for the SMBIOS protocol, \<open>SmbiosAdd\<close> its routine.\<close>

definition CreateIpmiSmbiosType38 ::
    "ipmi_hdr \<Rightarrow> table_env \<Rightarrow> 's submit \<Rightarrow> efi_status \<Rightarrow> (smbios_type38 \<Rightarrow> ('s, efi_status) op) \<Rightarrow> bytes \<Rightarrow>
       smbios_type38 \<Rightarrow> ('s, efi_status \<times> smbios_type38) op" where
  "CreateIpmiSmbiosType38 M E submit LocateStatus SmbiosAdd DeviceId0 Table s =
     (if EFI_ERROR LocateStatus then Some ((LocateStatus, Table), s)
      else do {
        ((Status, DeviceId), s1) \<leftarrow> IpmiGetDeviceId M submit DeviceId0 s;
        if EFI_ERROR Status then Some ((Status, Table), s1)
        else do {
          let Table1 = fill_type38 E (fget8 M 0 DevId_SpecificationVersion DeviceId) Table;
          (Status1, s2) \<leftarrow> SmbiosAdd Table1 s1;
          Some ((Status1, Table1), s2)
        }
      })"

text \<open>The driver: its table, and whether its ReadyToBoot event is open.\<close>

record 's smbios_driver =
  Type38 :: smbios_type38
  SmbiosReadyToBoot :: bool
  SmbiosSystem :: 's

definition IpmiSmbiosCreateOnReadyToBoot ::
    "ipmi_hdr \<Rightarrow> table_env \<Rightarrow> 's submit \<Rightarrow> efi_status \<Rightarrow> (smbios_type38 \<Rightarrow> ('s, efi_status) op) \<Rightarrow> bytes \<Rightarrow>
       's smbios_driver \<Rightarrow> 's smbios_driver option" where
  "IpmiSmbiosCreateOnReadyToBoot M E submit LocateStatus SmbiosAdd DeviceId0 d =
     map_option (\<lambda>((Status, Table), s). \<lparr>Type38 = Table, SmbiosReadyToBoot = False, SmbiosSystem = s\<rparr>)
       (CreateIpmiSmbiosType38 M E submit LocateStatus SmbiosAdd DeviceId0 (Type38 d) (SmbiosSystem d))"

definition IpmiSmbiosEntry ::
    "table_env \<Rightarrow> efi_status \<Rightarrow> 's \<Rightarrow> efi_status \<times> 's smbios_driver" where
  "IpmiSmbiosEntry E CreateEventStatus s =
     (CreateEventStatus, \<lparr>Type38 = mSmbiosTableType38 E, SmbiosReadyToBoot = \<not> EFI_ERROR CreateEventStatus,
                          SmbiosSystem = s\<rparr>)"

subsection \<open>SPMI\<close>

record acpi_table =
  AcpiLength :: u32
  OemId :: bytes
  OemTableId :: u64
  OemRevision :: u32
  CreatorId :: u32
  CreatorRevision :: u32

record spmi_table = acpi_table +
  spmi_InterfaceType :: u8
  spmi_SpecificationRevision :: u16
  spmi_InterruptType :: u8
  spmi_Gpe :: u8
  spmi_PciDeviceFlag :: u8
  spmi_GlobalSystemInterrupt :: u32
  spmi_AddressSpaceId :: u8
  spmi_RegisterBitWidth :: u8
  spmi_RegisterBitOffset :: u8
  spmi_AccessSize :: u8
  spmi_Address :: u64
  spmi_DeviceId :: bytes

text \<open>\<open>Size\<close> is the size of the structure in the ACPI headers.\<close>

definition mSpmiTable :: "table_env \<Rightarrow> u32 \<Rightarrow> spmi_table" where
  "mSpmiTable E Size =
     \<lparr>AcpiLength = Size, OemId = replicate 6 0x20, OemTableId = env_AcpiDefaultOemTableId E,
      OemRevision = env_AcpiDefaultOemRevision E, CreatorId = env_AcpiDefaultCreatorId E,
      CreatorRevision = env_AcpiDefaultCreatorRevision E,
      spmi_InterfaceType = env_IpmiInterfaceType E, spmi_SpecificationRevision = 0,
      spmi_InterruptType = env_IpmiInterruptType E, spmi_Gpe = env_IpmiGpe E,
      spmi_PciDeviceFlag = env_IpmiPciDeviceFlag E,
      spmi_GlobalSystemInterrupt = env_IpmiGlobalSystemInterrupt E,
      spmi_AddressSpaceId = env_IpmiAddressSpaceId E, spmi_RegisterBitWidth = env_IpmiRegisterBitWidth E,
      spmi_RegisterBitOffset = env_IpmiRegisterBitOffset E, spmi_AccessSize = env_IpmiAccessSize E,
      spmi_Address = 0, spmi_DeviceId = replicate 4 0\<rparr>"

text \<open>\<open>SM_CTRL_INFO\<close> of \<open>ServerManagement.h\<close>: sixteen packed bytes, the version is the sixth.\<close>

definition SM_CTRL_INFO_SIZE :: nat where "SM_CTRL_INFO_SIZE = 16"

definition SmCtrlInfo_SpecificationVersion :: "bytes \<Rightarrow> u8" where
  "SmCtrlInfo_SpecificationVersion info = info ! 5"

definition IpmiSpecRevision :: "u8 \<Rightarrow> u16" where
  "IpmiSpecRevision v = ucast (v AND 0xF0) OR push_bit 8 (ucast (v AND 0x0F))"

text \<open>\<open>allocated\<close> says whether the pool has the memory; \<open>locate\<close> finds the transport protocol.\<close>

definition UpdateAcpiSpmiTables ::
    "ipmi_hdr \<Rightarrow> table_env \<Rightarrow> bool \<Rightarrow> ('p, 's) locate_fn \<Rightarrow> ('p \<Rightarrow> 's ipmi_transport) \<Rightarrow> spmi_table \<Rightarrow>
       ('s, efi_status \<times> spmi_table) op" where
  "UpdateAcpiSpmiTables M E allocated locate iface Table s =
     (if \<not> allocated then Some ((EFI_OUT_OF_RESOURCES, Table), s)
      else
        (let Table1 = Table\<lparr>OemId := take 6 (env_AcpiDefaultOemId E)\<rparr> in
         do {
           ((Status, IpmiTransport), s1) \<leftarrow> locate s;
           if EFI_ERROR Status then Some ((Status, Table1), s1)
           else do {
             p \<leftarrow> IpmiTransport;
             ((Status, SmCtrlInfo, ResponseDataSize), s2) \<leftarrow>
                tp_IpmiSubmitCommand (iface p) 0 (netfn_of M IPMI_NETFN_APP) (cmd_of M IPMI_APP_GET_DEVICE_ID)
                  None 0 (zero_mem SM_CTRL_INFO_SIZE) (of_nat SM_CTRL_INFO_SIZE) s1;
             if EFI_ERROR Status then Some ((Status, Table1), s2)
             else Some ((Status, Table1\<lparr>
                     spmi_SpecificationRevision := IpmiSpecRevision (SmCtrlInfo_SpecificationVersion SmCtrlInfo),
                     spmi_Address := (if env_IpmiAddressSpaceId E = EFI_ACPI_5_0_SYSTEM_IO E
                                      then ucast (env_IpmiIoBaseAddress E) else env_IpmiAddress E),
                     spmi_DeviceId := take 4 (env_IpmiDeviceId E)\<rparr>), s2)
           }
         }))"

text \<open>
  \<open>LocateStatus\<close> is for the ACPI table protocol; a failed installation stops in an ASSERT, in the
  builds that have them (\<open>asserts\<close>).
\<close>

definition SpmiTableEntryPoint ::
    "ipmi_hdr \<Rightarrow> table_env \<Rightarrow> bool \<Rightarrow> efi_status \<Rightarrow> bool \<Rightarrow> ('p, 's) locate_fn \<Rightarrow> ('p \<Rightarrow> 's ipmi_transport) \<Rightarrow>
       (spmi_table \<Rightarrow> ('s, efi_status) op) \<Rightarrow> spmi_table \<Rightarrow> ('s, efi_status \<times> spmi_table) op" where
  "SpmiTableEntryPoint M E asserts LocateStatus allocated locate iface InstallAcpiTable Table s =
     (if EFI_ERROR LocateStatus then Some ((LocateStatus, Table), s)
      else do {
        ((Status, Table1), s1) \<leftarrow> UpdateAcpiSpmiTables M E allocated locate iface Table s;
        if EFI_ERROR Status then Some ((Status, Table1), s1)
        else do {
          (Status1, s2) \<leftarrow> InstallAcpiTable Table1 s1;
          if EFI_ERROR Status1 then do { ASSERT (\<not> asserts); Some ((Status1, Table1), s2) }
          else Some ((EFI_SUCCESS, Table1), s2)
        }
      })"

subsection \<open>The SSDT of the BMC\<close>

text \<open>
  A handle carries a firmware volume: \<open>HandleProtocol\<close> gives it, \<open>ReadFile\<close> says whether it holds
  the file with the tables.  A failed ASSERT is \<open>None\<close>.
\<close>

primrec LocateSupportProtocol_loop ::
    "('h \<Rightarrow> efi_status \<times> 'v) \<Rightarrow> ('v \<Rightarrow> efi_status) \<Rightarrow> u32 \<Rightarrow> 'h list \<Rightarrow> efi_status \<Rightarrow> 'v option \<Rightarrow>
       (efi_status \<times> 'v option) option" where
  "LocateSupportProtocol_loop HandleProtocol ReadFile Type [] Status Instance = Some (Status, Instance)"
| "LocateSupportProtocol_loop HandleProtocol ReadFile Type (h # hs) Status Instance =
     (let (Status1, v) = HandleProtocol h in
      if EFI_ERROR Status1 then None
      else if Type = 0 then Some (Status1, Some v)
      else if \<not> EFI_ERROR (ReadFile v) then Some (ReadFile v, Some v)
      else LocateSupportProtocol_loop HandleProtocol ReadFile Type hs (ReadFile v) (Some v))"

definition LocateSupportProtocol ::
    "efi_status \<times> 'h list \<Rightarrow> ('h \<Rightarrow> efi_status \<times> 'v) \<Rightarrow> ('v \<Rightarrow> efi_status) \<Rightarrow> u32 \<Rightarrow>
       (efi_status \<times> 'v option) option" where
  "LocateSupportProtocol HandleBuffer HandleProtocol ReadFile Type =
     (let (Status, handles) = HandleBuffer in
      if EFI_ERROR Status then Some (Status, None)
      else LocateSupportProtocol_loop HandleProtocol ReadFile Type handles Status None)"

definition EFI_ACPI_CREATOR_ID :: u32 where "EFI_ACPI_CREATOR_ID = 0x5446534D"
definition EFI_ACPI_CREATOR_REVISION :: u32 where "EFI_ACPI_CREATOR_REVISION = 0x0100000D"

definition UpdateDeviceSsdtTable :: "table_env \<Rightarrow> 'a acpi_table_scheme \<Rightarrow> efi_status \<times> 'a acpi_table_scheme" where
  "UpdateDeviceSsdtTable E T =
     (EFI_SUCCESS, T\<lparr>OemId := take 6 (env_AcpiDefaultOemId E), OemTableId := env_AcpiDefaultOemTableId E,
                     CreatorId := EFI_ACPI_CREATOR_ID, CreatorRevision := EFI_ACPI_CREATOR_REVISION\<rparr>)"

text \<open>\<open>ReadSection i\<close>: status, table and size of section \<open>i\<close> of the file; the loop ends at the first error.\<close>

partial_function (option) BmcAcpi_loop ::
    "table_env \<Rightarrow> (nat \<Rightarrow> efi_status \<times> 'a acpi_table_scheme \<times> u32) \<Rightarrow>
       ('a acpi_table_scheme \<Rightarrow> u32 \<Rightarrow> ('s, efi_status) op) \<Rightarrow> nat \<Rightarrow> 's \<Rightarrow> (efi_status \<times> 's) option" where
  "BmcAcpi_loop E ReadSection InstallAcpiTable Instance s =
     (let (Status, CurrentTable, Size) = ReadSection Instance in
      if EFI_ERROR Status then Some (EFI_SUCCESS, s)
      else
        (let (AcpiStatus, Table1) = UpdateDeviceSsdtTable E CurrentTable in
         if EFI_ERROR AcpiStatus then BmcAcpi_loop E ReadSection InstallAcpiTable (Instance + 1) s
         else if Size < AcpiLength Table1 then None
         else
           (case InstallAcpiTable Table1 (AcpiLength Table1) s of
              None \<Rightarrow> None
            | Some (Status1, s1) \<Rightarrow>
                if EFI_ERROR Status1 then None
                else BmcAcpi_loop E ReadSection InstallAcpiTable (Instance + 1) s1)))"

definition BmcAcpiEntryPoint ::
    "table_env \<Rightarrow> efi_status \<Rightarrow> efi_status \<times> 'h list \<Rightarrow> ('h \<Rightarrow> efi_status \<times> 'v) \<Rightarrow> ('v \<Rightarrow> efi_status) \<Rightarrow>
       ('v \<Rightarrow> nat \<Rightarrow> efi_status \<times> 'a acpi_table_scheme \<times> u32) \<Rightarrow>
       ('a acpi_table_scheme \<Rightarrow> u32 \<Rightarrow> ('s, efi_status) op) \<Rightarrow> ('s, efi_status) op" where
  "BmcAcpiEntryPoint E LocateStatus HandleBuffer HandleProtocol ReadFile ReadSection InstallAcpiTable s =
     (if EFI_ERROR LocateStatus then Some (EFI_ABORTED, s)
      else do {
        (Status, FwVol) \<leftarrow> LocateSupportProtocol HandleBuffer HandleProtocol ReadFile 1;
        if EFI_ERROR Status then Some (Status, s)
        else do {
          v \<leftarrow> FwVol;
          BmcAcpi_loop E (ReadSection v) InstallAcpiTable 0 s
        }
      })"

section \<open>What the tables say\<close>

text \<open>Both encodings of the version, read as their specifications say: major and minor number.\<close>

definition smbios_version :: "u8 \<Rightarrow> nat \<times> nat" where
  "smbios_version r = (unat (drop_bit 4 r), unat (r AND 0x0F))"

definition spmi_version :: "u16 \<Rightarrow> nat \<times> nat" where
  "spmi_version r = (unat (drop_bit 8 r), unat (drop_bit 4 (r AND 0xFF)))"

lemma nibble_masks:
  "(0x0F :: u8) = mask 4" "(0xF0 :: u8) = push_bit 4 (mask 4)" "(0xFF :: u16) = mask 8"
  by (simp_all add: mask_eq_exp_minus_1 push_bit_eq_mult)

lemma smbios_version:
  "smbios_version (drop_bit 4 (v AND 0xF0) OR push_bit 4 (v AND 0x0F)) = (unat (v AND 0x0F), unat (drop_bit 4 v))"
proof -
  have "drop_bit 4 (drop_bit 4 (v AND 0xF0) OR push_bit 4 (v AND 0x0F)) = v AND 0x0F"
    unfolding nibble_masks by (rule bit_word_eqI) (auto simp: bit_simps dest: bit_imp_le_length)
  moreover have "(drop_bit 4 (v AND 0xF0) OR push_bit 4 (v AND 0x0F)) AND 0x0F = drop_bit 4 v"
    unfolding nibble_masks by (rule bit_word_eqI) (auto simp: bit_simps dest: bit_imp_le_length)
  ultimately show ?thesis by (simp add: smbios_version_def)
qed

lemma fill_type38_version:
  "smbios_version (s38_IPMISpecificationRevision (fill_type38 E v T)) = (unat (v AND 0x0F), unat (drop_bit 4 v))"
proof -
  have "s38_IPMISpecificationRevision (fill_type38 E v T) = drop_bit 4 (v AND 0xF0) OR push_bit 4 (v AND 0x0F)"
    by (simp add: fill_type38_def Let_def)
  then show ?thesis by (simp only: smbios_version)
qed

lemma unat_ucast_u16: "unat (ucast (x :: u8) :: u16) = unat x"
  using u8_bound [of x] by (simp only: unsigned_ucast_eq) (simp add: take_bit_nat_eq_self)

lemma spmi_version: "spmi_version (IpmiSpecRevision v) = (unat (v AND 0x0F), unat (drop_bit 4 v))"
proof -
  have "drop_bit 8 (IpmiSpecRevision v) = ucast (v AND 0x0F)"
    unfolding nibble_masks IpmiSpecRevision_def
    by (rule bit_word_eqI) (auto simp: bit_simps dest: bit_imp_le_length)
  moreover have "drop_bit 4 (IpmiSpecRevision v AND 0xFF) = ucast (drop_bit 4 v)"
    unfolding nibble_masks IpmiSpecRevision_def
    by (rule bit_word_eqI) (auto simp: bit_simps dest: bit_imp_le_length)
  ultimately show ?thesis by (simp add: spmi_version_def unat_ucast_u16)
qed

lemma bit_one_u8 [bit_simps]: "bit (1 :: u8) n \<longleftrightarrow> n = 0"
  by (simp add: bit_1_iff)

text \<open>The address of the interface and its interrupt, read back from the record.\<close>

definition s38_address :: "smbios_type38 \<Rightarrow> u64" where
  "s38_address T = (s38_BaseAddress T AND NOT 1) OR
     (ucast (drop_bit 4 (s38_BaseAddressModifier_InterruptInfo T)) AND 1)"

lemma modifier_bits:
  fixes m sp i p t :: u8
  assumes "\<And>n. bit m n \<Longrightarrow> n = 4"
  defines "r \<equiv> m OR push_bit 6 (sp AND 0x3) OR push_bit 3 (i AND 1) OR push_bit 1 (p AND 1) OR (t AND 1)"
  shows "bit r 4 = bit m 4" "bit r 3 = bit i 0" "bit r 1 = bit p 0" "bit r 0 = bit t 0"
    "drop_bit 6 r = sp AND 0x3"
proof -
  have three: "(0x3 :: u8) = mask 2" by (simp add: mask_eq_exp_minus_1)
  show "bit r 4 = bit m 4" "bit r 3 = bit i 0" "bit r 1 = bit p 0" "bit r 0 = bit t 0"
    unfolding r_def three by (auto simp: bit_simps bit_double_iff mult.commute [of p 2] dest: assms(1))
  show "drop_bit 6 r = sp AND 0x3"
    unfolding r_def three by (rule bit_word_eqI) (auto simp: bit_simps dest!: assms(1))
qed

text \<open>What the drivers do with a device id that arrived, and with services that succeed.\<close>

lemma type38_run:
  assumes "IpmiGetDeviceId M submit DeviceId0 s = Some ((EFI_SUCCESS, R), s1)"
    and "SmbiosAdd (fill_type38 E (fget8 M 0 DevId_SpecificationVersion R) T) s1 = Some (st, s2)"
  shows "CreateIpmiSmbiosType38 M E submit EFI_SUCCESS SmbiosAdd DeviceId0 T s =
    Some ((st, fill_type38 E (fget8 M 0 DevId_SpecificationVersion R) T), s2)"
  using assms by (simp add: CreateIpmiSmbiosType38_def)

lemma fill_type38_io:
  fixes E :: table_env and v :: u8 and T :: smbios_type38
  assumes "env_IpmiInterfaceType E \<noteq> IPMIDeviceInfoInterfaceTypeSSIF E"
    and "env_IpmiAddressSpaceId E = EFI_ACPI_5_0_SYSTEM_IO E"
  defines "T' \<equiv> fill_type38 E v T"
  shows "s38_address T' = ucast (env_IpmiIoBaseAddress E)" "bit (s38_BaseAddress T') 0"
    "bit (s38_BaseAddressModifier_InterruptInfo T') 3 = bit (env_InterruptInfo E) 0"
    "bit (s38_BaseAddressModifier_InterruptInfo T') 1 = bit (env_InterruptPolarity E) 0"
    "bit (s38_BaseAddressModifier_InterruptInfo T') 0 = bit (env_InterruptTriggerMode E) 0"
    "drop_bit 6 (s38_BaseAddressModifier_InterruptInfo T') = IpmiRegisterSpacing E AND 0x3"
proof -
  let ?m = "ucast (push_bit 4 (env_IpmiIoBaseAddress E AND 1)) :: u8"
  have m: "bit ?m n \<Longrightarrow> n = 4" for n
    by (auto simp only: bit_unsigned_iff bit_push_bit_iff bit_and_iff bit_1_iff)
  note b = modifier_bits [of ?m "IpmiRegisterSpacing E" "env_InterruptInfo E" "env_InterruptPolarity E"
      "env_InterruptTriggerMode E", OF m]
  have T: "s38_BaseAddress T' = ucast (env_IpmiIoBaseAddress E OR 1)"
    "s38_BaseAddressModifier_InterruptInfo T' =
       ?m OR push_bit 6 (IpmiRegisterSpacing E AND 0x3) OR push_bit 3 (env_InterruptInfo E AND 1) OR
       push_bit 1 (env_InterruptPolarity E AND 1) OR (env_InterruptTriggerMode E AND 1)"
    using assms(1,2) by (simp_all add: T'_def fill_type38_def Let_def)
  show "bit (s38_BaseAddressModifier_InterruptInfo T') 3 = bit (env_InterruptInfo E) 0"
    "bit (s38_BaseAddressModifier_InterruptInfo T') 1 = bit (env_InterruptPolarity E) 0"
    "bit (s38_BaseAddressModifier_InterruptInfo T') 0 = bit (env_InterruptTriggerMode E) 0"
    "drop_bit 6 (s38_BaseAddressModifier_InterruptInfo T') = IpmiRegisterSpacing E AND 0x3"
    unfolding T(2) using b(2-5) by blast+
  show "bit (s38_BaseAddress T') 0" unfolding T(1) by (simp add: bit_simps)
  have four: "bit (s38_BaseAddressModifier_InterruptInfo T') 4 = bit (env_IpmiIoBaseAddress E) 0"
    unfolding T(2) b(1) by (simp add: bit_simps)
  show "s38_address T' = ucast (env_IpmiIoBaseAddress E)"
    unfolding s38_address_def by (rule bit_word_eqI) (auto simp: bit_simps T(1) four dest: bit_imp_le_length intro!: gr0I)
qed

lemma fill_type38_memory:
  fixes E :: table_env and v :: u8 and T :: smbios_type38
  assumes "env_IpmiInterfaceType E \<noteq> IPMIDeviceInfoInterfaceTypeSSIF E"
    and "env_IpmiAddressSpaceId E \<noteq> EFI_ACPI_5_0_SYSTEM_IO E"
    and "env_IpmiAddressSpaceId E = EFI_ACPI_5_0_SYSTEM_MEMORY E"
  defines "T' \<equiv> fill_type38 E v T"
  shows "s38_address T' = env_IpmiAddress E" "\<not> bit (s38_BaseAddress T') 0"
    "bit (s38_BaseAddressModifier_InterruptInfo T') 3 = bit (env_InterruptInfo E) 0"
    "bit (s38_BaseAddressModifier_InterruptInfo T') 1 = bit (env_InterruptPolarity E) 0"
    "bit (s38_BaseAddressModifier_InterruptInfo T') 0 = bit (env_InterruptTriggerMode E) 0"
    "drop_bit 6 (s38_BaseAddressModifier_InterruptInfo T') = IpmiRegisterSpacing E AND 0x3"
proof -
  let ?m = "ucast (push_bit 4 (env_IpmiAddress E AND 1)) :: u8"
  have m: "bit ?m n \<Longrightarrow> n = 4" for n
    by (auto simp only: bit_unsigned_iff bit_push_bit_iff bit_and_iff bit_1_iff)
  note b = modifier_bits [of ?m "IpmiRegisterSpacing E" "env_InterruptInfo E" "env_InterruptPolarity E"
      "env_InterruptTriggerMode E", OF m]
  have T: "s38_BaseAddress T' = env_IpmiAddress E AND NOT 1"
    "s38_BaseAddressModifier_InterruptInfo T' =
       ?m OR push_bit 6 (IpmiRegisterSpacing E AND 0x3) OR push_bit 3 (env_InterruptInfo E AND 1) OR
       push_bit 1 (env_InterruptPolarity E AND 1) OR (env_InterruptTriggerMode E AND 1)"
    using assms(1-3) by (simp_all add: T'_def fill_type38_def Let_def)
  show "bit (s38_BaseAddressModifier_InterruptInfo T') 3 = bit (env_InterruptInfo E) 0"
    "bit (s38_BaseAddressModifier_InterruptInfo T') 1 = bit (env_InterruptPolarity E) 0"
    "bit (s38_BaseAddressModifier_InterruptInfo T') 0 = bit (env_InterruptTriggerMode E) 0"
    "drop_bit 6 (s38_BaseAddressModifier_InterruptInfo T') = IpmiRegisterSpacing E AND 0x3"
    unfolding T(2) using b(2-5) by blast+
  show "\<not> bit (s38_BaseAddress T') 0" unfolding T(1) by (simp add: bit_simps)
  have four: "bit (s38_BaseAddressModifier_InterruptInfo T') 4 = bit (env_IpmiAddress E) 0"
    unfolding T(2) b(1) by (simp add: bit_simps)
  show "s38_address T' = env_IpmiAddress E"
    unfolding s38_address_def by (rule bit_word_eqI) (auto simp: bit_simps T(1) four dest: bit_imp_le_length intro!: gr0I)
qed

lemma spacing_bits:
  "IpmiRegisterSpacing E AND 0x3 = (if env_IpmiRegisterBitWidth E \<in> {0x08, 0x10} then 0 else 2)"
  by (simp add: IpmiRegisterSpacing_def)

text \<open>The tables of a firmware volume, installed one after the other.\<close>

lemma acpi_sections:
  assumes "\<And>i. ReadSection i = (if i < length Ts then (EFI_SUCCESS, Ts ! i, AcpiLength (Ts ! i)) else (st, Z))"
    and "EFI_ERROR st" "\<And>T n s. InstallAcpiTable T n s = Some (EFI_SUCCESS, install T n s)"
  shows "BmcAcpi_loop E ReadSection InstallAcpiTable i s =
    Some (EFI_SUCCESS, fold (\<lambda>T s. install (snd (UpdateDeviceSsdtTable E T)) (AcpiLength T) s) (drop i Ts) s)"
proof (induction "length Ts - i" arbitrary: i s)
  case 0
  then show ?case using assms(2) by (subst BmcAcpi_loop.simps) (simp add: assms(1) case_prod_beta)
next
  case (Suc k)
  then have "i < length Ts" by simp
  then have "drop i Ts = Ts ! i # drop (i + 1) Ts" by (simp add: Cons_nth_drop_Suc)
  then show ?case
    using Suc.hyps(1) [of "i + 1"] Suc.hyps(2) \<open>i < length Ts\<close>
    by (subst BmcAcpi_loop.simps) (simp add: assms(1,3) UpdateDeviceSsdtTable_def)
qed

lemma acpi_volume:
  assumes "\<And>h. HandleProtocol h = (EFI_SUCCESS, vol h)"
  shows "case find (\<lambda>v. \<not> EFI_ERROR (ReadFile v)) (map vol hs) of
      None \<Rightarrow> \<exists>st w. LocateSupportProtocol_loop HandleProtocol ReadFile 1 hs st0 w0 = Some (st, w) \<and>
        (hs = [] \<and> st = st0 \<or> EFI_ERROR st)
    | Some v \<Rightarrow> \<exists>st. LocateSupportProtocol_loop HandleProtocol ReadFile 1 hs st0 w0 = Some (st, Some v) \<and>
        \<not> EFI_ERROR st"
proof (induction hs arbitrary: st0 w0)
  case (Cons h hs)
  show ?case
    using Cons.IH [of "ReadFile (vol h)" "Some (vol h)"] assms [of h]
    by (cases "EFI_ERROR (ReadFile (vol h))") (fastforce split: option.splits)+
qed simp

section \<open>The records and tables that are published\<close>

text \<open>C24 The SMBIOS record of type 38: with a device id that arrived and an interface other than SSIF in
  one of the two address spaces, the record that is added has the version of the device id, the
  address can be read back from base and modifier, bit 0 of the base tells the I/O space, and the
  interrupt bits are those of the configuration.  The register spacing is 0 for a width of 8 and of
  16 bits and 2, which means 16-bit boundaries, for every other.\<close>

theorem smbios_type38_record:
  assumes "IpmiGetDeviceId M submit DeviceId0 s = Some ((EFI_SUCCESS, R), s1)"
    and "\<And>T. SmbiosAdd T s1 = Some (add T)"
    and "env_IpmiInterfaceType E \<noteq> IPMIDeviceInfoInterfaceTypeSSIF E"
    and "EFI_ACPI_5_0_SYSTEM_MEMORY E \<noteq> EFI_ACPI_5_0_SYSTEM_IO E"
    and "env_IpmiAddressSpaceId E \<in> {EFI_ACPI_5_0_SYSTEM_IO E, EFI_ACPI_5_0_SYSTEM_MEMORY E}"
  shows "\<exists>T. CreateIpmiSmbiosType38 M E submit EFI_SUCCESS SmbiosAdd DeviceId0 T0 s =
      Some ((fst (add T), T), snd (add T)) \<and>
    smbios_version (s38_IPMISpecificationRevision T) =
      (unat (fget8 M 0 DevId_SpecificationVersion R AND 0x0F), unat (drop_bit 4 (fget8 M 0 DevId_SpecificationVersion R))) \<and>
    s38_address T = (if env_IpmiAddressSpaceId E = EFI_ACPI_5_0_SYSTEM_IO E then ucast (env_IpmiIoBaseAddress E)
                     else env_IpmiAddress E) \<and>
    (bit (s38_BaseAddress T) 0 \<longleftrightarrow> env_IpmiAddressSpaceId E = EFI_ACPI_5_0_SYSTEM_IO E) \<and>
    bit (s38_BaseAddressModifier_InterruptInfo T) 3 = bit (env_InterruptInfo E) 0 \<and>
    bit (s38_BaseAddressModifier_InterruptInfo T) 1 = bit (env_InterruptPolarity E) 0 \<and>
    bit (s38_BaseAddressModifier_InterruptInfo T) 0 = bit (env_InterruptTriggerMode E) 0 \<and>
    drop_bit 6 (s38_BaseAddressModifier_InterruptInfo T) =
      (if env_IpmiRegisterBitWidth E \<in> {0x08, 0x10} then 0 else 2)"
proof -
  let ?v = "fget8 M 0 DevId_SpecificationVersion R"
  let ?T = "fill_type38 E ?v T0"
  have run: "CreateIpmiSmbiosType38 M E submit EFI_SUCCESS SmbiosAdd DeviceId0 T0 s =
      Some ((fst (add ?T), ?T), snd (add ?T))"
    by (rule type38_run [OF assms(1)]) (simp add: assms(2))
  show ?thesis
  proof (cases "env_IpmiAddressSpaceId E = EFI_ACPI_5_0_SYSTEM_IO E")
    case True
    show ?thesis
      by (rule exI [of _ ?T]) (use run True fill_type38_io [OF assms(3) True] in
        \<open>simp add: fill_type38_version spacing_bits\<close>)
  next
    case False
    show ?thesis
      by (rule exI [of _ ?T]) (use run False assms(5) fill_type38_memory [OF assms(3) False] in
        \<open>simp add: fill_type38_version spacing_bits\<close>)
  qed
qed

text \<open>C25 The SMBIOS record and the SPMI table name the same version of the specification: both drivers
  turn the nibbles of the byte in the device id around in their own format, and read back as major
  and minor number the results are equal.\<close>

theorem tables_same_version:
  assumes "IpmiGetDeviceId M submit DeviceId0 s = Some ((EFI_SUCCESS, R), s1)"
    and "SmbiosAdd (fill_type38 E (fget8 M 0 DevId_SpecificationVersion R) T0) s1 = Some (EFI_SUCCESS, s2)"
    and "locate t = Some ((EFI_SUCCESS, Some p), t1)"
    and "tp_IpmiSubmitCommand (iface p) 0 (netfn_of M IPMI_NETFN_APP) (cmd_of M IPMI_APP_GET_DEVICE_ID) None 0
           (zero_mem SM_CTRL_INFO_SIZE) (of_nat SM_CTRL_INFO_SIZE) t1 = Some ((EFI_SUCCESS, R', n), t2)"
    and "\<And>S. InstallAcpiTable S t2 = Some (EFI_SUCCESS, t3 S)"
    and "fget8 M 0 DevId_SpecificationVersion R = R' ! 5"
  shows "\<exists>T S. CreateIpmiSmbiosType38 M E submit EFI_SUCCESS SmbiosAdd DeviceId0 T0 s = Some ((EFI_SUCCESS, T), s2) \<and>
    SpmiTableEntryPoint M E asserts EFI_SUCCESS True locate iface InstallAcpiTable S0 t = Some ((EFI_SUCCESS, S), t3 S) \<and>
    smbios_version (s38_IPMISpecificationRevision T) = spmi_version (spmi_SpecificationRevision S) \<and>
    spmi_version (spmi_SpecificationRevision S) = (unat (R' ! 5 AND 0x0F), unat (drop_bit 4 (R' ! 5)))"
proof -
  let ?S = "S0\<lparr>OemId := take 6 (env_AcpiDefaultOemId E),
      spmi_SpecificationRevision := IpmiSpecRevision (R' ! 5),
      spmi_Address := (if env_IpmiAddressSpaceId E = EFI_ACPI_5_0_SYSTEM_IO E
                       then ucast (env_IpmiIoBaseAddress E) else env_IpmiAddress E),
      spmi_DeviceId := take 4 (env_IpmiDeviceId E)\<rparr>"
  have "SpmiTableEntryPoint M E asserts EFI_SUCCESS True locate iface InstallAcpiTable S0 t = Some ((EFI_SUCCESS, ?S), t3 ?S)"
    using assms(3-5)
    by (simp add: SpmiTableEntryPoint_def UpdateAcpiSpmiTables_def SmCtrlInfo_SpecificationVersion_def Let_def)
  moreover have "smbios_version (s38_IPMISpecificationRevision (fill_type38 E (R' ! 5) T0)) =
      spmi_version (spmi_SpecificationRevision ?S)"
    by (simp add: fill_type38_version spmi_version)
  ultimately show ?thesis
    using type38_run [where SmbiosAdd = SmbiosAdd, OF assms(1,2)] assms(6) by (auto simp: spmi_version)
qed

text \<open>C26 The SSDT of the BMC: the tables of the first firmware volume that holds the file are installed,
  in the order of its sections, with the OEM id of the platform and the creator of the driver;
  when no volume holds it the driver ends with an error and nothing is installed.\<close>

theorem bmc_acpi_installs:
  assumes "\<And>h. HandleProtocol h = (EFI_SUCCESS, vol h)" "hs \<noteq> []"
    and "\<And>v i. ReadSection v i = (if i < length (tables v) then (EFI_SUCCESS, tables v ! i, AcpiLength (tables v ! i))
           else (EFI_NOT_FOUND, Z))"
    and "\<And>T n s. InstallAcpiTable T n s = Some (EFI_SUCCESS, install T n s)"
  shows "case find (\<lambda>v. \<not> EFI_ERROR (ReadFile v)) (map vol hs) of
      None \<Rightarrow> \<exists>st. EFI_ERROR st \<and>
        BmcAcpiEntryPoint E EFI_SUCCESS (EFI_SUCCESS, hs) HandleProtocol ReadFile ReadSection InstallAcpiTable s =
          Some (st, s)
    | Some v \<Rightarrow>
        BmcAcpiEntryPoint E EFI_SUCCESS (EFI_SUCCESS, hs) HandleProtocol ReadFile ReadSection InstallAcpiTable s =
          Some (EFI_SUCCESS,
            fold (\<lambda>T s. install (T\<lparr>OemId := take 6 (env_AcpiDefaultOemId E), OemTableId := env_AcpiDefaultOemTableId E,
                                   CreatorId := 0x5446534D, CreatorRevision := 0x0100000D\<rparr>) (AcpiLength T) s)
              (tables v) s)"
proof -
  have run: "BmcAcpi_loop E (ReadSection v) InstallAcpiTable 0 s =
    Some (EFI_SUCCESS, fold (\<lambda>T s. install (snd (UpdateDeviceSsdtTable E T)) (AcpiLength T) s) (drop 0 (tables v)) s)" for v
    by (rule acpi_sections [OF assms(3) _ assms(4)]) simp
  show ?thesis
    using acpi_volume [where HandleProtocol = HandleProtocol and vol = vol and ReadFile = ReadFile and hs = hs
        and ?st0.0 = EFI_SUCCESS and ?w0.0 = None, OF assms(1)] assms(2)
    by (auto simp: BmcAcpiEntryPoint_def LocateSupportProtocol_def run UpdateDeviceSsdtTable_def
        EFI_ACPI_CREATOR_ID_def EFI_ACPI_CREATOR_REVISION_def split: option.splits)
qed

text \<open>A platform with a KCS interface at port 0xCA2, for the witnesses.\<close>

definition sample_env :: table_env where
  "sample_env =
     \<lparr>EFI_ACPI_5_0_SYSTEM_MEMORY = 0, EFI_ACPI_5_0_SYSTEM_IO = 1, IPMIDeviceInfoInterfaceTypeSSIF = 4,
      EFI_SMBIOS_TYPE_IPMI_DEVICE_INFORMATION = 38, sizeof_SMBIOS_TABLE_TYPE38 = 18,
      env_IpmiInterfaceType = 1, env_IpmiInterruptType = 0, env_IpmiGpe = 0, env_IpmiPciDeviceFlag = 0,
      env_IpmiGlobalSystemInterrupt = 0, env_IpmiAddressSpaceId = 1, env_IpmiRegisterBitWidth = 16,
      env_IpmiRegisterBitOffset = 0, env_IpmiAccessSize = 1, env_IpmiIoBaseAddress = 0xCA2, env_IpmiAddress = 0,
      env_IpmiDeviceId = [0, 0, 0, 0], env_InterruptInfo = 1, env_InterruptPolarity = 0,
      env_InterruptTriggerMode = 1, env_InterruptNumber = 0, env_I2CSlaveAddress = 0x20,
      env_NVStorageDeviceAddress = 0xFF, env_AcpiDefaultOemId = [0x41, 0x42, 0x43, 0x44, 0x45, 0x46],
      env_AcpiDefaultOemTableId = 7, env_AcpiDefaultOemRevision = 1, env_AcpiDefaultCreatorId = 2,
      env_AcpiDefaultCreatorRevision = 3\<rparr>"

definition sample_id :: bytes where
  "sample_id = [0, 0x20, 1, 2, 3, 0x02] @ zero_mem 10"

definition sample_device :: "unit submit" where
  "sample_device nf c d n buf sz s = Some ((EFI_SUCCESS, sample_id, sz), s)"

lemma sample_device_id:
  "IpmiGetDeviceId ipmi_v2 sample_device buf () =
     Some ((EFI_SUCCESS, sample_id), ())"
  by (simp add: IpmiGetDeviceId_def call_fixed_def sample_device_def)

lemma sample_env_simps:
  "EFI_ACPI_5_0_SYSTEM_MEMORY sample_env = 0" "EFI_ACPI_5_0_SYSTEM_IO sample_env = 1"
  "IPMIDeviceInfoInterfaceTypeSSIF sample_env = 4" "env_IpmiInterfaceType sample_env = 1"
  "env_IpmiAddressSpaceId sample_env = 1" "env_IpmiRegisterBitWidth sample_env = 16"
  "env_IpmiIoBaseAddress sample_env = 0xCA2" "env_AcpiDefaultOemId sample_env = [0x41, 0x42, 0x43, 0x44, 0x45, 0x46]"
  by (simp_all add: sample_env_def)

lemma sample_device_version: "fget8 ipmi_v2 0 DevId_SpecificationVersion sample_id = 2" "sample_id ! 5 = 2"
  by (simp_all add: sample_id_def fget8_def fget_def bits_get_def drop_bit_eq_div take_bit_eq_mod zero_mem_def le_nat_append)

theorem smbios_type38_record_witness:
  "\<exists>T. CreateIpmiSmbiosType38 ipmi_v2 sample_env sample_device EFI_SUCCESS (\<lambda>T s. Some (EFI_SUCCESS, s)) []
      (mSmbiosTableType38 sample_env) () = Some ((EFI_SUCCESS, T), ()) \<and>
    smbios_version (s38_IPMISpecificationRevision T) = (2, 0) \<and> s38_address T = 0xCA2 \<and> bit (s38_BaseAddress T) 0 \<and>
    drop_bit 6 (s38_BaseAddressModifier_InterruptInfo T) = 0"
  using smbios_type38_record [where SmbiosAdd = "\<lambda>T s. Some (EFI_SUCCESS, s)" and add = "\<lambda>T. (EFI_SUCCESS, ())",
      OF sample_device_id, of sample_env "[]" "mSmbiosTableType38 sample_env"]
  by (auto simp: sample_env_simps sample_device_version)

theorem tables_same_version_witness:
  "\<exists>T S. CreateIpmiSmbiosType38 ipmi_v2 sample_env sample_device EFI_SUCCESS (\<lambda>T s. Some (EFI_SUCCESS, s)) []
      (mSmbiosTableType38 sample_env) () = Some ((EFI_SUCCESS, T), ()) \<and>
    SpmiTableEntryPoint ipmi_v2 sample_env True EFI_SUCCESS True (\<lambda>s. Some ((EFI_SUCCESS, Some ()), s))
      (\<lambda>p. \<lparr>Revision = 0, tp_IpmiSubmitCommand = (\<lambda>lun. sample_device),
            tp_GetBmcStatus = (\<lambda>s. Some ((EFI_SUCCESS, None), s))\<rparr>)
      (\<lambda>S s. Some (EFI_SUCCESS, s)) (mSpmiTable sample_env 65) () = Some ((EFI_SUCCESS, S), ()) \<and>
    smbios_version (s38_IPMISpecificationRevision T) = (2, 0) \<and> spmi_version (spmi_SpecificationRevision S) = (2, 0)"
  using tables_same_version [where SmbiosAdd = "\<lambda>T s. Some (EFI_SUCCESS, s)" and
      locate = "\<lambda>s. Some ((EFI_SUCCESS, Some ()), s)" and InstallAcpiTable = "\<lambda>S s. Some (EFI_SUCCESS, s)" and
      iface = "\<lambda>p. \<lparr>Revision = 0, tp_IpmiSubmitCommand = (\<lambda>lun. sample_device),
            tp_GetBmcStatus = (\<lambda>s. Some ((EFI_SUCCESS, None), s))\<rparr>" and ?t3.0 = "\<lambda>S. ()" and E = sample_env
      and ?T0.0 = "mSmbiosTableType38 sample_env" and ?S0.0 = "mSpmiTable sample_env 65" and n = 16
      and R' = sample_id and ?DeviceId0.0 = "[]",
      OF sample_device_id refl refl _ refl]
  by (fastforce simp: sample_device_version sample_device_def SM_CTRL_INFO_SIZE_def)

theorem bmc_acpi_installs_witness:
  "BmcAcpiEntryPoint sample_env EFI_SUCCESS (EFI_SUCCESS, [False, True]) (\<lambda>h. (EFI_SUCCESS, h))
     (\<lambda>v. if v then EFI_SUCCESS else EFI_NOT_FOUND)
     (\<lambda>v i. if i < length (if v then [mSpmiTable sample_env 65] else [])
            then (EFI_SUCCESS, (if v then [mSpmiTable sample_env 65] else []) ! i,
                  AcpiLength ((if v then [mSpmiTable sample_env 65] else []) ! i))
            else (EFI_NOT_FOUND, mSpmiTable sample_env 65, 0))
     (\<lambda>T n s. Some (EFI_SUCCESS, s @ [(OemId T, CreatorId T, n)])) [] =
   Some (EFI_SUCCESS, [([0x41, 0x42, 0x43, 0x44, 0x45, 0x46], 0x5446534D, 65)])"
  using bmc_acpi_installs [where HandleProtocol = "\<lambda>h. (EFI_SUCCESS, h)" and vol = "\<lambda>h. h" and hs = "[False, True]" and
      tables = "\<lambda>v. if v then [mSpmiTable sample_env 65] else []" and
      InstallAcpiTable = "\<lambda>T n s. Some (EFI_SUCCESS, s @ [(OemId T, CreatorId T, n)])" and
      install = "\<lambda>T n s. s @ [(OemId T, CreatorId T, n)]" and Z = "(mSpmiTable sample_env 65, 0)" and
      ReadFile = "\<lambda>v. if v then EFI_SUCCESS else EFI_NOT_FOUND" and E = sample_env and s = "[]",
      OF refl _ refl refl]
  by (simp add: sample_env_simps mSpmiTable_def)

end
