(* ===== verification/Status_Reporter.thy ===== *)
theory Status_Reporter
  imports Sel_Props
begin

section \<open>The status reporter sample\<close>

text \<open>
  \<open>Samples/IpmiStatusReporter\<close>: a DXE driver that registers \<open>IpmiReportStatusCode\<close> for status codes
  until ExitBootServices, and the routine, which writes a code to the event log.  The masks
  \<open>EFI_STATUS_CODE_TYPE_MASK\<close> and \<open>EFI_STATUS_CODE_SEVERITY_MASK\<close> are constants of the PI headers and
  arguments here.
\<close>

unbundle bit_operations_syntax

subsection \<open>One status code\<close>

text \<open>\<open>SEL_STATUS_CODE_DATA\<close>: type, severity and the four bytes of the value.\<close>

definition SEL_STATUS_CODE_DATA :: "u32 \<Rightarrow> u32 \<Rightarrow> u32 \<Rightarrow> u32 \<Rightarrow> bytes" where
  "SEL_STATUS_CODE_DATA TYPE_MASK SEVERITY_MASK CodeType Value =
     [ucast (CodeType OR TYPE_MASK), ucast (drop_bit 12 (CodeType OR SEVERITY_MASK))] @ le32 Value"

definition IpmiReportStatusCode ::
    "ipmi_hdr \<Rightarrow> 's submit \<Rightarrow> bytes \<Rightarrow> u32 \<Rightarrow> u32 \<Rightarrow> bytes \<Rightarrow> u16 \<Rightarrow> u32 \<Rightarrow> u32 \<Rightarrow> ('s, efi_status) op" where
  "IpmiReportStatusCode M submit PcdIpmiSelOemManufacturerId TYPE_MASK SEVERITY_MASK Response0 RecordId0
       CodeType Value s =
     do {
       ((Status, RecordId), s1) \<leftarrow> SelAddOemEntry M submit PcdIpmiSelOemManufacturerId Response0 (Some RecordId0) 0
          (Some (SEL_STATUS_CODE_DATA TYPE_MASK SEVERITY_MASK CodeType Value)) s;
       Some (Status, s1)
     }"

subsection \<open>The driver\<close>

text \<open>Whether the handler is registered, and whether the event for ExitBootServices is open.\<close>

record 's status_reporter =
  RscRegistered :: bool
  mExitBootServicesEvent_open :: bool
  RscSystem :: 's

text \<open>The statuses are those of \<open>LocateProtocol\<close>, \<open>Register\<close> and \<open>CreateEvent\<close>; the entry point stops in
  an ASSERT when there is no handler protocol.\<close>

definition IpmiStatusReporterDxeEntryPoint ::
    "efi_status \<Rightarrow> efi_status \<Rightarrow> efi_status \<Rightarrow> 's \<Rightarrow> (efi_status \<times> 's status_reporter) option" where
  "IpmiStatusReporterDxeEntryPoint LocateStatus RegisterStatus CreateEventStatus s =
     (let d = \<lparr>RscRegistered = False, mExitBootServicesEvent_open = False, RscSystem = s\<rparr> in
      do {
        ASSERT (\<not> EFI_ERROR LocateStatus);
        if EFI_ERROR RegisterStatus then Some (RegisterStatus, d)
        else Some (CreateEventStatus, d\<lparr>RscRegistered := True,
                                        mExitBootServicesEvent_open := \<not> EFI_ERROR CreateEventStatus\<rparr>)
      })"

definition ExitBootServicesCallback :: "'s status_reporter \<Rightarrow> 's status_reporter" where
  "ExitBootServicesCallback d = d\<lparr>RscRegistered := False, mExitBootServicesEvent_open := False\<rparr>"

text \<open>What the firmware core calls: a status code, and the end of the boot services.\<close>

datatype rsc_event = ReportStatusCode u32 u32 | RscExitBootServices

inductive rsc_step ::
    "(u32 \<Rightarrow> u32 \<Rightarrow> ('s, efi_status) op) \<Rightarrow> 's status_reporter \<Rightarrow> rsc_event \<Rightarrow> 's status_reporter \<Rightarrow> bool"
  for report where
  rsc_report: "RscRegistered d \<Longrightarrow> report t v (RscSystem d) = Some (st, s) \<Longrightarrow>
     rsc_step report d (ReportStatusCode t v) (d\<lparr>RscSystem := s\<rparr>)"
| rsc_ignored: "\<not> RscRegistered d \<Longrightarrow> rsc_step report d (ReportStatusCode t v) d"
| rsc_exit: "mExitBootServicesEvent_open d \<Longrightarrow> rsc_step report d RscExitBootServices (ExitBootServicesCallback d)"
| rsc_no_exit: "\<not> mExitBootServicesEvent_open d \<Longrightarrow> rsc_step report d RscExitBootServices d"

inductive_cases rsc_reportE: "rsc_step report d (ReportStatusCode t v) d'"
inductive_cases rsc_exitE: "rsc_step report d RscExitBootServices d'"

inductive_simps rsc_step_simps:
  "rsc_step report d (ReportStatusCode t v) d'" "rsc_step report d RscExitBootServices d'"

inductive rsc_run ::
    "(u32 \<Rightarrow> u32 \<Rightarrow> ('s, efi_status) op) \<Rightarrow> 's status_reporter \<Rightarrow> rsc_event list \<Rightarrow> 's status_reporter \<Rightarrow> bool"
  for report where
  rsc_done: "rsc_run report d [] d"
| rsc_more: "rsc_step report d e d1 \<Longrightarrow> rsc_run report d1 es d2 \<Longrightarrow> rsc_run report d (e # es) d2"

subsection \<open>What is logged\<close>

text \<open>
  The two masks are combined with OR where AND is meant, so with the constants of the PI
  specification the type is always 0xFF and the severity is made of the reserved bits.
\<close>

lemma status_code_data:
  "take 2 (SEL_STATUS_CODE_DATA 0x000000FF 0xFF000000 CodeType Value) =
     [0xFF, ucast (drop_bit 12 (CodeType AND NOT 0xFF000000))]"
proof -
  have ff: "(0x000000FF :: u32) = mask 8" "(0xFF000000 :: u32) = push_bit 24 (mask 8)" "(0xFF :: u8) = mask 8"
    by (simp_all add: mask_eq_exp_minus_1)
  have "ucast (CodeType OR 0x000000FF) = (0xFF :: u8)"
    unfolding ff by (rule bit_word_eqI) (auto simp: bit_simps)
  moreover have "ucast (drop_bit 12 (CodeType OR 0xFF000000)) =
      (ucast (drop_bit 12 (CodeType AND NOT 0xFF000000)) :: u8)"
    unfolding ff by (rule bit_word_eqI) (auto simp: bit_simps)
  ultimately show ?thesis by (simp add: SEL_STATUS_CODE_DATA_def)
qed

text \<open>The record type 0 that the sample passes is not one of an OEM record: nothing is ever logged.\<close>

lemma report_refused:
  assumes "0 < val_of M IPMI_SEL_OEM_TIME_STAMP_RECORD_START"
  shows "IpmiReportStatusCode M submit manu TYPE_MASK SEVERITY_MASK Response0 RecordId0 CodeType Value s =
    Some (EFI_INVALID_PARAMETER, s)"
  using assms by (simp add: IpmiReportStatusCode_def SelAddOemEntry_def SelAddOemEntryEx_def)

theorem status_reporter_silent:
  assumes "0 < val_of M IPMI_SEL_OEM_TIME_STAMP_RECORD_START"
    and "rsc_run (IpmiReportStatusCode M submit manu TYPE_MASK SEVERITY_MASK Response0 RecordId0) d es d'"
  shows "RscSystem d' = RscSystem d"
  using assms(2)
proof (induction rule: rsc_run.induct)
  case (rsc_more d e d1 es d2)
  have "RscSystem d1 = RscSystem d"
    using rsc_more.hyps(1) by cases (simp_all add: report_refused [OF assms(1)] ExitBootServicesCallback_def)
  then show ?case using rsc_more.IH by simp
qed simp

text \<open>Once the driver has started, status codes are reported from then on until ExitBootServices; when
  its event could not be created the handler stays registered beyond that.\<close>

theorem status_reporter_unregistered:
  assumes "IpmiStatusReporterDxeEntryPoint LocateStatus RegisterStatus CreateEventStatus s = Some (st, d)"
    and "rsc_step report d RscExitBootServices d1" "rsc_run report d1 es d2"
  shows "RscRegistered d2 \<longleftrightarrow> \<not> EFI_ERROR RegisterStatus \<and> EFI_ERROR CreateEventStatus"
proof -
  have keep: "RscRegistered d' = RscRegistered d" "mExitBootServicesEvent_open d' = mExitBootServicesEvent_open d"
    if "rsc_run report d es d'" "\<not> mExitBootServicesEvent_open d" for d d' :: "'a status_reporter" and es
    using that by (induction rule: rsc_run.induct) (auto elim!: rsc_step.cases)
  have "\<not> mExitBootServicesEvent_open d1"
    using assms(2) by (auto simp: rsc_step_simps ExitBootServicesCallback_def)
  then have "RscRegistered d2 = RscRegistered d1" using keep(1) [OF assms(3)] by simp
  moreover have "RscRegistered d1 \<longleftrightarrow> RscRegistered d \<and> \<not> mExitBootServicesEvent_open d"
    using assms(2) by (auto simp: rsc_step_simps ExitBootServicesCallback_def)
  ultimately show ?thesis
    using assms(1) by (auto simp: IpmiStatusReporterDxeEntryPoint_def Let_def ASSERT_def split: if_splits)
qed

end
