(* ===== verification/Debug_Print.thy ===== *)
theory Debug_Print
  imports Generic_Ipmi
begin

section \<open>The debug print of a message\<close>

text \<open>
  \<open>IpmiPrintCommand\<close> of \<open>GenericIpmi.c\<close>, which the driver calls with every command it sends and every
  response it gets.  Its result is the text on the debug port; \<^theory_text>\<open>None\<close> is a read behind the memory
  at \<open>Data\<close>.  The text has no influence on the driver, so that the definitions of \<open>Generic_Ipmi\<close> do
  not mention it; what matters is that it reads nothing it must not read, and that it is complete.
\<close>

unbundle bit_operations_syntax

definition newline :: string where "newline = [CHR 0x0A]"

definition hex_digits :: string where "hex_digits = ''0123456789abcdef''"

text \<open>The conversion \<open>%02x\<close> of a byte.\<close>

definition format_02x :: "u8 \<Rightarrow> string" where
  "format_02x b = [hex_digits ! (unat b div 16), hex_digits ! (unat b mod 16)]"

definition print_byte :: "bytes option \<Rightarrow> nat \<Rightarrow> string option" where
  "print_byte Data Index =
     (case Data of
        None \<Rightarrow> Some (format_02x 0 @ '' '')
      | Some D \<Rightarrow> if Index < length D then Some (format_02x (D ! Index) @ '' '') else None)"

text \<open>\<open>for (Index = 0; Index < DataSize; Index++)\<close>: both have eight bits, so that the index never wraps.\<close>

primrec IpmiPrintCommand_loop :: "bytes option \<Rightarrow> nat list \<Rightarrow> string option" where
  "IpmiPrintCommand_loop Data [] = Some []"
| "IpmiPrintCommand_loop Data (Index # is) =
     do {
       b \<leftarrow> print_byte Data Index;
       rest \<leftarrow> IpmiPrintCommand_loop Data is;
       Some ((if Index mod 16 = 0 then newline else []) @ b @ rest)
     }"

definition print_head :: "bool \<Rightarrow> u8 \<Rightarrow> u8 \<Rightarrow> u8 \<Rightarrow> u8 \<Rightarrow> string" where
  "print_head Response NetFunction Command Completion DataSize =
     ''*************** IPMI '' @ (if Response then ''Response'' else ''Command'') @ '' Start ***************'' @ newline @
     ''NetFunction:       0x'' @ format_02x NetFunction @ newline @
     ''Command:           0x'' @ format_02x Command @ newline @
     (if Response then ''Completion Code:   0x'' @ format_02x Completion @ newline else []) @
     ''DataSize:          0x'' @ format_02x DataSize @ newline"

definition print_tail :: "bool \<Rightarrow> string" where
  "print_tail Response =
     newline @ ''**************** IPMI '' @ (if Response then ''Response'' else ''Command'') @
     '' End ****************'' @ newline"

definition IpmiPrintCommand :: "bool \<Rightarrow> u8 \<Rightarrow> u8 \<Rightarrow> u8 \<Rightarrow> bytes option \<Rightarrow> u8 \<Rightarrow> string option" where
  "IpmiPrintCommand Response NetFunction Command Completion Data DataSize =
     do {
       dump \<leftarrow> IpmiPrintCommand_loop Data [0..<unat DataSize];
       Some (print_head Response NetFunction Command Completion DataSize @ dump @ print_tail Response)
     }"

subsection \<open>What it reads\<close>

lemma print_loop_returns:
  "(\<exists>t. IpmiPrintCommand_loop Data is = Some t) \<longleftrightarrow> (\<forall>D. Data = Some D \<longrightarrow> (\<forall>i \<in> set is. i < length D))"
  by (induction "is") (auto simp: print_byte_def split: option.splits)

lemma print_returns:
  "(\<exists>t. IpmiPrintCommand r nf c cc Data n = Some t) \<longleftrightarrow> (\<forall>D. Data = Some D \<longrightarrow> unat n \<le> length D)"
proof -
  have "(\<exists>t. IpmiPrintCommand r nf c cc Data n = Some t) \<longleftrightarrow>
      (\<exists>t. IpmiPrintCommand_loop Data [0..<unat n] = Some t)"
    by (auto simp: IpmiPrintCommand_def bind_eq_Some_conv)
  also have "\<dots> \<longleftrightarrow> (\<forall>D. Data = Some D \<longrightarrow> unat n \<le> length D)"
    unfolding print_loop_returns by (cases Data) (auto simp: subset_eq not_less [symmetric] intro: leI)
  finally show ?thesis .
qed

text \<open>The two calls of the driver stay inside the caller's command data and its own buffer: the first
  prints the data it is about to copy, the second what lies behind the header of a response of at
  most 254 bytes, which a lawful transport never exceeds.\<close>

lemma driver_prints:
  "case Data of None \<Rightarrow> True | Some D \<Rightarrow> unat n \<le> length D \<Longrightarrow>
     \<exists>t. IpmiPrintCommand False nf c 0 Data n = Some t"
  "length reply = MAX_TEMP_DATA \<Longrightarrow> 3 \<le> unat k \<Longrightarrow>
     \<exists>t. IpmiPrintCommand True nf c cc (Some (drop 3 reply)) (k - 3) = Some t"
proof -
  show "\<exists>t. IpmiPrintCommand False nf c 0 Data n = Some t"
    if "case Data of None \<Rightarrow> True | Some D \<Rightarrow> unat n \<le> length D"
    using that by (auto simp: print_returns)
  assume "length reply = MAX_TEMP_DATA" "3 \<le> unat k"
  moreover from this have "unat (k - 3) = unat k - 3" by (simp add: unat_sub word_le_nat_alt)
  ultimately show "\<exists>t. IpmiPrintCommand True nf c cc (Some (drop 3 reply)) (k - 3) = Some t"
    using u8_bound [of k] by (simp add: print_returns size_defs)
qed

subsection \<open>The dump is complete\<close>

text \<open>A reader of the debug log: digits in pairs, line breaks skipped.\<close>

definition hex_value :: "char \<Rightarrow> nat" where
  "hex_value c = length (takeWhile (\<lambda>d. d \<noteq> c) hex_digits)"

fun read_dump :: "string \<Rightarrow> bytes" where
  "read_dump (c # d # e # cs) =
     (if c = CHR 0x0A then read_dump (d # e # cs)
      else of_nat (16 * hex_value c + hex_value d) # read_dump cs)"
| "read_dump _ = []"

lemma hex_digit_facts:
  assumes "n < 16"
  shows "hex_value (hex_digits ! n) = n" "hex_digits ! n \<noteq> CHR 0x0A"
proof -
  have "list_all (\<lambda>n. hex_value (hex_digits ! n) = n \<and> hex_digits ! n \<noteq> CHR 0x0A) [0..<16]" by code_simp
  then show "hex_value (hex_digits ! n) = n" "hex_digits ! n \<noteq> CHR 0x0A"
    using assms by (auto simp: list_all_iff)
qed

lemma read_dump_byte: "read_dump (format_02x b @ '' '' @ cs) = b # read_dump cs"
proof -
  have "unat b div 16 < 16" "unat b mod 16 < 16" using u8_bound [of b] by auto
  then show ?thesis using hex_digit_facts by (simp add: format_02x_def)
qed

lemma read_dump_newline: "read_dump (newline @ format_02x b @ '' '' @ cs) = b # read_dump cs"
  using read_dump_byte [of b cs] by (simp add: newline_def format_02x_def)

lemma read_dump_loop:
  "IpmiPrintCommand_loop (Some D) is = Some t \<Longrightarrow> read_dump t = map ((!) D) is"
proof (induction "is" arbitrary: t)
  case (Cons i "is")
  then obtain rest where rest: "IpmiPrintCommand_loop (Some D) is = Some rest"
    and t: "t = (if i mod 16 = 0 then newline else []) @ format_02x (D ! i) @ '' '' @ rest"
    by (auto simp: print_byte_def bind_eq_Some_conv split: if_splits)
  show ?case
    using Cons.IH [OF rest] unfolding t by (simp add: read_dump_byte [simplified] read_dump_newline [simplified])
qed simp

text \<open>The text determines the data: what is printed between head and tail reads back as the bytes.\<close>

lemma print_is_complete:
  assumes "IpmiPrintCommand r nf c cc (Some D) n = Some t"
  shows "\<exists>dump. t = print_head r nf c cc n @ dump @ print_tail r \<and> read_dump dump = take (unat n) D"
proof -
  obtain dump where d: "IpmiPrintCommand_loop (Some D) [0..<unat n] = Some dump"
    "t = print_head r nf c cc n @ dump @ print_tail r"
    using assms by (auto simp: IpmiPrintCommand_def bind_eq_Some_conv)
  have "unat n \<le> length D" using print_returns [of r nf c cc "Some D" n] assms by auto
  then have "map ((!) D) [0..<unat n] = take (unat n) D" by (auto intro: nth_equalityI)
  then show ?thesis using d read_dump_loop [OF d(1)] by auto
qed

end
