(* ===== verification/Dxe_Stack.thy ===== *)
theory Dxe_Stack
  imports Sel_Props Watchdog Boot_Props
begin

section \<open>The whole DXE stack over the mock\<close>

text \<open>
  A DXE client of \<open>IpmiBaseLibDxe\<close> reaches the mock through four layers: the library looks up the
  protocol, the protocol entry of the generic driver narrows the sizes, the driver frames, sends
  and checks, and \<open>IpmiTransportLibMock\<close> hands the frame to the mock.  This theory shows that the
  stack is a provider of every contract the feature libraries use, that it takes the mock through
  the same step as the two-layer stack of \<open>IpmiBaseLibMock\<close>, and that no run of commands leads
  the mock out of its data types.
\<close>

subsection \<open>A library whose lookup succeeds\<close>

definition located :: "('p, 's) locate_fn \<Rightarrow> 'p \<Rightarrow> ('p, 's) base_lib \<Rightarrow> bool" where
  "located locate p b \<longleftrightarrow>
     mIpmiTransport b = Some p \<or>
     mIpmiTransport b = None \<and> locate (System b) = Some ((EFI_SUCCESS, Some p), System b)"

lemma located_once:
  assumes "located locate p b"
  shows "locate_once locate b = Some (Inr p, b\<lparr>mIpmiTransport := Some p\<rparr>)"
  using assms by (cases b) (auto simp: located_def locate_once_def)

lemma submit_located:
  assumes "located locate p b"
    and "tp_IpmiSubmitCommand (iface p) 0 nf c cd n buf sz (System b) = Some (res, s)"
  shows "IpmiSubmitCommand_Dxe locate iface nf c cd n buf sz b =
    Some (res, b\<lparr>mIpmiTransport := Some p, System := s\<rparr>)"
  using assms by (simp add: IpmiSubmitCommand_Dxe_def located_once)

abbreviation dxe_submit_mock ::
    "ipmi_hdr \<Rightarrow> ('p, mock_bmc ipmi_bmc_instance) locate_fn \<Rightarrow> u8 \<Rightarrow>
     ('p, mock_bmc ipmi_bmc_instance) base_lib submit" where
  "dxe_submit_mock M locate R \<equiv> IpmiSubmitCommand_Dxe locate
     (\<lambda>_. generic_transport M (SendDataToBmcPort_Mock M) ReceiveBmcDataFromPort_Mock R)"

lemma dxe_submit_mock:
  assumes "located locate p b" "mock_driver M R nf c cd n buf sz (System b) = Some (res, s)"
  shows "dxe_submit_mock M locate R nf c cd n buf sz b =
    Some (res, b\<lparr>mIpmiTransport := Some p, System := s\<rparr>)"
  using assms by (intro submit_located) (simp_all add: generic_transport_def)

text \<open>The service of a platform on which the protocol is installed.\<close>

definition installed :: "'p \<Rightarrow> ('p, 's) locate_fn" where
  "installed p s = Some ((EFI_SUCCESS, Some p), s)"

lemma located_installed: "mIpmiTransport b \<in> {None, Some p} \<Longrightarrow> located (installed p) p b"
  by (auto simp: located_def installed_def)

interpretation mock_dxe: mock_provider ipmi_v2 "dxe_submit_mock ipmi_v2 (installed p) 3"
  "\<lambda>b. Port (System b)"
  "\<lambda>b. mIpmiTransport b \<in> {None, Some p} \<and> inst_ok (System b) \<and> mock_ok ipmi_v2 (Port (System b))"
  for p
proof (unfold_locales, goal_cases)
  case (4 b nf c d r m' cd sz buf)
  then have loc: "located (installed p) p b" by (intro located_installed) simp
  obtain s where "mock_driver ipmi_v2 3 nf c cd (of_nat (length d)) buf sz (System b) =
      Some ((EFI_SUCCESS, copy_mem buf 0 r, of_nat (length r)), s)"
    "inst_ok s \<and> mock_ok ipmi_v2 (Port s)" "Port s = m'"
    using mock_generic.answers [of "System b" nf c d r m' cd sz buf] 4 by auto
  then show ?case using dxe_submit_mock [OF loc] by fastforce
next
  case (5 b nf c d r m' cd sz buf)
  then have loc: "located (installed p) p b" by (intro located_installed) simp
  obtain st buf' sz' s where "mock_driver ipmi_v2 3 nf c cd (of_nat (length d)) buf sz (System b) =
      Some ((st, buf', sz'), s)" "inst_ok s \<and> mock_ok ipmi_v2 (Port s)" "Port s = m'"
    "if EFI_ERROR st then buf' = buf
     else st = EFI_SUCCESS \<and> buf' = copy_mem buf 0 r \<and> sz' = of_nat (length r)"
    using mock_generic.refuses [of "System b" nf c d r m' cd sz buf] 5 by auto
  then show ?case using dxe_submit_mock [OF loc] by fastforce
qed (simp_all add: v2_commands)

interpretation mock_dxe_boot: mock_boot ipmi_v2 "dxe_submit_mock ipmi_v2 (installed p) 3"
  "\<lambda>b. Port (System b)"
  "\<lambda>b. mIpmiTransport b \<in> {None, Some p} \<and> inst_ok (System b) \<and> mock_ok ipmi_v2 (Port (System b))"
  for p
  by unfold_locales (rule boot_layout_v2)

subsection \<open>Two stacks, one step of the BMC\<close>

text \<open>The DXE stack over the mock transport against the mock base library, on the same request: both take the BMC to the
  same state.  On the normal completion code the caller gets the same status, bytes and size from
  both; on any other one the base library hands on the bytes, and the DXE stack reports an error
  that the completion code decides and leaves the caller's buffer alone.\<close>

theorem dxe_stack_agrees:
  assumes "hdr_ok M" "located locate p b" "inst_ok (System b)" "mock_ok M (Port (System b))" "0 < R"
    and "mock_reply M nf c d (Port (System b)) = Some (r, m')" "nf < 64" "length d \<le> 252"
    and "case cd of None \<Rightarrow> d = [] | Some d' \<Rightarrow> d' = d" "length r \<le> unat sz" "unat sz < 256"
  shows "IpmiSubmitCommand_Mock M nf c cd (of_nat (length d)) buf sz (Port (System b)) =
      Some ((EFI_SUCCESS, copy_mem buf 0 r, of_nat (length r)), m') \<and>
    (\<exists>st buf' sz' b'.
      dxe_submit_mock M locate R nf c cd (of_nat (length d)) buf sz b = Some ((st, buf', sz'), b') \<and>
      Port (System b') = m' \<and> inst_ok (System b') \<and> mIpmiTransport b' = Some p \<and>
      (if hd r = cc_of M IPMI_COMP_CODE_NORMAL
       then st = EFI_SUCCESS \<and> buf' = copy_mem buf 0 r \<and> sz' = of_nat (length r)
       else buf' = buf \<and>
         st = (if BmcStatus (System b) = BMC_UPDATE_IN_PROGRESS then EFI_UNSUPPORTED
               else if hd r = cc_of M IPMI_COMP_CODE_INSUFFICIENT_PRIVILEGE then EFI_SECURITY_VIOLATION
               else EFI_DEVICE_ERROR)))"
proof (cases "hd r = cc_of M IPMI_COMP_CODE_NORMAL")
  case True
  from mock_driver_answers [OF assms(1,6,4,3,7,8,5,9) True assms(10,11), of buf] obtain s where
    "mock_driver M R nf c cd (of_nat (length d)) buf sz (System b) =
       Some ((EFI_SUCCESS, copy_mem buf 0 r, of_nat (length r)), s)" "inst_ok s" "Port s = m'"
    by blast
  then show ?thesis
    using True mock_base_reply [OF assms(1,6,4,7) _ assms(9,10), of buf] assms(8)
      dxe_submit_mock [OF assms(2)] by fastforce
next
  case False
  from mock_driver_refuses [OF assms(1,6,4,3,7,8,5,9) False, of buf sz] obtain st sz' s where s:
    "mock_driver M R nf c cd (of_nat (length d)) buf sz (System b) = Some ((st, buf, sz'), s)"
    "inst_ok s" "Port s = m'"
    "st = (if BmcStatus (System b) = BMC_UPDATE_IN_PROGRESS then EFI_UNSUPPORTED
           else if hd r = cc_of M IPMI_COMP_CODE_INSUFFICIENT_PRIVILEGE then EFI_SECURITY_VIOLATION
           else EFI_DEVICE_ERROR)"
    by blast
  show ?thesis
    using False mock_base_reply [OF assms(1,6,4,7) _ assms(9,10), of buf] assms(8) s(2-4)
    by (simp add: dxe_submit_mock [OF assms(2) s(1)] del: if_split)
qed

text \<open>An unknown command on a freshly started platform: the mock base library hands on the byte 0xC1,
  the DXE stack turns it into a device error.\<close>

theorem dxe_stack_agrees_witness:
  "\<exists>m b' z. IpmiSubmitCommand_Mock ipmi_v2 0x2E 1 None 0 [7, 7] 2 (mock_reset ipmi_v2) =
      Some ((EFI_SUCCESS, [0xC1, 7], 1), m) \<and>
    dxe_submit_mock ipmi_v2 (installed ()) 3 0x2E 1 None 0 [7, 7] 2
      \<lparr>mIpmiTransport = None, System = mock_instance (mock_reset ipmi_v2)\<rparr> =
      Some ((EFI_DEVICE_ERROR, [7, 7], z), b') \<and> Port (System b') = m"
proof -
  let ?b = "\<lparr>mIpmiTransport = None :: unit option, System = mock_instance (mock_reset ipmi_v2)\<rparr>"
  have "located (installed ()) () ?b" by (rule located_installed) simp
  moreover have "map_of (MockHandlers ipmi_v2) (0x2E, 1) = None"
    by (simp add: MockHandlers_def)
  ultimately show ?thesis
    using dxe_stack_agrees [of ipmi_v2 "installed ()" "()" ?b 3 "0x2E" 1 "[]" "[0xC1]" _ None 2 "[7, 7]"]
    by (simp add: mock_reply_def copy_mem_def BMC_OK_def BMC_UPDATE_IN_PROGRESS_def) blast
qed

subsection \<open>Runs of the mock\<close>

text \<open>The states a client of \<open>IpmiBaseLibMock\<close> can bring the mock to, in any order of requests.\<close>

inductive mock_run :: "ipmi_hdr \<Rightarrow> mock_bmc \<Rightarrow> mock_bmc \<Rightarrow> bool" for M where
  mock_start: "mock_run M m m"
| mock_step: "mock_run M m m1 \<Longrightarrow>
    IpmiSubmitCommand_Mock M nf c cd n buf sz m1 = Some ((st, buf', sz'), m2) \<Longrightarrow> mock_run M m m2"

lemma mock_run_ok: "mock_run M m m' \<Longrightarrow> mock_ok M m \<Longrightarrow> mock_ok M m'"
  by (induction rule: mock_run.induct) (auto elim: mock_submit_cases)

text \<open>C21 The data types of the mock: however many commands it has run since its reset, its log has one
  hundred records of sixteen bytes, watchdog and boot flags have the size of their structures and
  the response buffer is cleared; and a further command that returns is answered with EFI_SUCCESS
  and at least one byte, writes nothing behind the size it reports, which is at most the size it
  was given, and never makes the caller's memory grow.\<close>

theorem mock_stays_well_typed:
  assumes "mock_run M (mock_reset M) m"
    and "IpmiSubmitCommand_Mock M nf c cd n buf sz m = Some ((st, buf', sz'), m')"
  shows "mock_ok M m' \<and> st = EFI_SUCCESS \<and> 0 < sz' \<and> sz' \<le> sz \<and>
    drop (unat sz') buf' = drop (unat sz') buf \<and> (unat sz \<le> length buf \<longrightarrow> length buf' = length buf)"
proof -
  have "mock_ok M m" using mock_run_ok [OF assms(1)] by simp
  with assms(2) obtain r where r: "st = EFI_SUCCESS" "r \<noteq> []" "length r \<le> unat sz"
    "sz' = of_nat (length r)" "buf' = copy_mem buf 0 r" "mock_ok M m'"
    by (rule mock_submit_cases)
  have "length r < 2 ^ 32" using r(3) unsigned_less [of sz] by (auto intro: le_less_trans)
  then have "unat sz' = length r" using r(4) by (simp add: unat_of_nat take_bit_nat_eq_self)
  then show ?thesis
    using r by (auto simp: word_less_nat_alt word_le_nat_alt copy_mem_def)
qed

theorem mock_stays_well_typed_witness:
  "\<exists>m1 m2. IpmiSubmitCommand_Mock ipmi_v2 0x2E 1 None 0 [7, 7] 2 (mock_reset ipmi_v2) =
      Some ((EFI_SUCCESS, [0xC1, 7], 1), m1) \<and>
    IpmiSubmitCommand_Mock ipmi_v2 0x2E 1 None 0 [7, 7] 2 m1 = Some ((EFI_SUCCESS, [0xC1, 7], 1), m2) \<and>
    mock_ok ipmi_v2 m2"
proof -
  have unknown: "\<exists>m'. IpmiSubmitCommand_Mock ipmi_v2 0x2E 1 None 0 [7, 7] 2 m =
      Some ((EFI_SUCCESS, [0xC1, 7], 1), m')" if "mock_ok ipmi_v2 m" for m
    using mock_base_reply [of ipmi_v2 "0x2E" 1 "[]" m "[0xC1]" _ None 2 "[7, 7]"] that
    by (simp add: mock_reply_def MockHandlers_def copy_mem_def)
  obtain m1 where m1: "IpmiSubmitCommand_Mock ipmi_v2 0x2E 1 None 0 [7, 7] 2 (mock_reset ipmi_v2) =
      Some ((EFI_SUCCESS, [0xC1, 7], 1), m1)"
    using unknown [of "mock_reset ipmi_v2"] by auto
  have run: "mock_run ipmi_v2 (mock_reset ipmi_v2) m1" by (rule mock_step [OF mock_start m1])
  obtain m2 where m2: "IpmiSubmitCommand_Mock ipmi_v2 0x2E 1 None 0 [7, 7] 2 m1 =
      Some ((EFI_SUCCESS, [0xC1, 7], 1), m2)"
    using unknown [of m1] mock_run_ok [OF run] by auto
  show ?thesis using m1 m2 mock_stays_well_typed [OF run m2] by blast
qed

end
