(* ===== verification/Link_Stack.thy ===== *)
theory Link_Stack
  imports Dxe_Stack
begin

section \<open>The whole DXE stack over a link that carries messages\<close>

text \<open>
  What the firmware of a real platform runs: a client of \<open>IpmiBaseLibDxe\<close>, the generic driver and a
  transport library with a BMC behind it.  The interface between driver and transport is the locale
  \<open>bmc_link\<close>: a message that is sent over an idle link leaves the BMC's reply pending, and receiving
  it leaves the link idle.  The BMC is a state and a function \<open>serve\<close> on it.  \<open>Kcs_Stack\<close> and
  \<open>Ssif_Stack\<close> show that the two transports are such links for every BMC that keeps to their
  protocols.
\<close>

abbreviation dxe_submit_link ::
    "ipmi_hdr \<Rightarrow> 't send_fn \<Rightarrow> 't recv_fn \<Rightarrow> ('p, 't ipmi_bmc_instance) locate_fn \<Rightarrow> u8 \<Rightarrow>
       ('p, 't ipmi_bmc_instance) base_lib submit" where
  "dxe_submit_link M send recv locate R \<equiv> IpmiSubmitCommand_Dxe locate (\<lambda>_. generic_transport M send recv R)"

text \<open>A driver that can send: its buffer has its size, its timeout is \<open>P\<close>, the link is idle.\<close>

definition link_ready :: "('t \<Rightarrow> bool) \<Rightarrow> u64 \<Rightarrow> 't ipmi_bmc_instance \<Rightarrow> bool" where
  "link_ready idle P inst \<longleftrightarrow> inst_ok inst \<and> IpmiTimeoutPeriod inst = P \<and> idle (Port inst)"

text \<open>The status of a call the BMC refuses with the completion code \<open>cc\<close>.\<close>

definition refusal_status :: "ipmi_hdr \<Rightarrow> u32 \<Rightarrow> u8 \<Rightarrow> efi_status" where
  "refusal_status M bmc_status cc =
     (if bmc_status = BMC_UPDATE_IN_PROGRESS then EFI_UNSUPPORTED
      else if cc = cc_of M IPMI_COMP_CODE_INSUFFICIENT_PRIVILEGE then EFI_SECURITY_VIOLATION
      else EFI_DEVICE_ERROR)"

lemma refusal_status_error: "EFI_ERROR (refusal_status M s cc)"
  by (simp add: refusal_status_def)

text \<open>\<open>dev\<close> is the BMC behind an idle link, \<open>pending e m\<close> a link with the reply \<open>m\<close> to fetch from a BMC
  whose state is \<open>e\<close>; \<open>sound\<close> are the replies the link can carry, of the lengths the driver's buffer
  has room for.\<close>

type_synonym 'm server = "bytes \<Rightarrow> 'm \<Rightarrow> (bytes \<times> 'm) option"

locale bmc_link =
  fixes send :: "'t send_fn" and recv :: "'t recv_fn" and idle :: "'t \<Rightarrow> bool" and dev :: "'t \<Rightarrow> 'm"
    and pending :: "'m \<Rightarrow> bytes \<Rightarrow> 't \<Rightarrow> bool" and sound :: "bytes \<Rightarrow> bool"
    and serve :: "'m server" and P :: u64
  assumes link_send: "idle t \<Longrightarrow> 2 \<le> unat n \<Longrightarrow> unat n \<le> length d \<Longrightarrow>
      serve (take (unat n) d) (dev t) = Some (m, e) \<Longrightarrow> 3 \<le> length m \<Longrightarrow> length m \<le> 254 \<Longrightarrow>
      \<exists>t'. send P d n t = Some (EFI_SUCCESS, t') \<and> pending e m t'"
    and link_recv: "pending e m t \<Longrightarrow> sound m \<Longrightarrow> 3 \<le> length m \<Longrightarrow> length m \<le> unat n \<Longrightarrow> unat n \<le> length D \<Longrightarrow>
      \<exists>t'. recv P D n t = Some ((EFI_SUCCESS, m @ drop (length m) D, of_nat (length m)), t') \<and> idle t' \<and> dev t' = e"
begin

text \<open>The exchange the driver asks for.\<close>

lemma exchange:
  assumes inst: "link_ready idle P inst" and d: "length d \<le> 252"
    and reply: "serve ([hdr_byte 0 nf, c] @ d) (dev (Port inst)) = Some ([h, c'] @ r, e)" "r \<noteq> []" "length r \<le> 252"
      "sound ([h, c'] @ r)"
  defines "F \<equiv> command_frame 0 nf c d (of_nat (length d)) (TempData inst)"
  obtains t1 t2 where
    "send (IpmiTimeoutPeriod inst) F (of_nat (length d) + 2) (Port inst) = Some (EFI_SUCCESS, t1)"
    "recv (IpmiTimeoutPeriod inst) F 254 t1 =
       Some ((EFI_SUCCESS, ([h, c'] @ r) @ drop (length ([h, c'] @ r)) F, of_nat (2 + length r)), t2)"
    "idle t2" "dev t2 = e" "length F = 255"
proof -
  let ?n = "of_nat (length d) :: u8"
  have n: "unat ?n = length d" "unat (?n + 2) = length d + 2"
    using d by (simp_all add: unat_of_nat_u8 unat_word_ariths)
  have T: "length (TempData inst) = MAX_TEMP_DATA" using inst by (simp add: link_ready_def inst_ok_def)
  have F: "length F = 255" "take (unat (?n + 2)) F = [hdr_byte 0 nf, c] @ d"
    using length_command_frame [OF T, of ?n] take_command_frame [OF T, of ?n d] d n by (simp_all add: F_def size_defs)
  have idle: "idle (Port inst)" "IpmiTimeoutPeriod inst = P" using inst by (simp_all add: link_ready_def)
  have r1: "1 \<le> length r" using reply(2) by (cases r) auto
  obtain t1 where send: "send P F (?n + 2) (Port inst) = Some (EFI_SUCCESS, t1)" "pending e ([h, c'] @ r) t1"
    using link_send [OF idle(1), of "?n + 2" F] F n(2) d reply(1,3) r1 by auto
  obtain t2 where "recv P F 254 t1 =
      Some ((EFI_SUCCESS, ([h, c'] @ r) @ drop (length ([h, c'] @ r)) F, of_nat (2 + length r)), t2)" "idle t2" "dev t2 = e"
    using link_recv [OF send(2) reply(4), of 254 F] F(1) reply(3) r1 by auto
  then show thesis using that send(1) idle(2) F(1) by blast
qed

lemma driver_reply:
  assumes inst: "link_ready idle P inst" and R: "0 < R" and d: "length d \<le> 252"
    and reply: "serve ([hdr_byte 0 nf, c] @ d) (dev (Port inst)) = Some ([h, c'] @ r, e)" "r \<noteq> []" "length r \<le> 252"
      "sound ([h, c'] @ r)"
    and normal: "hd r = cc_of M IPMI_COMP_CODE_NORMAL" and sz: "length r \<le> unat (sz :: u8)"
  shows "\<exists>inst'. IpmiSendCommandInternal M send recv R nf 0 c
      (Some d) (of_nat (length d)) (RespCaller buf) (Some sz) inst =
      Some ((EFI_SUCCESS, RespCaller (copy_mem buf 0 r), Some (of_nat (length r))), inst') \<and>
    link_ready idle P inst' \<and> dev (Port inst') = e \<and> BmcStatus inst' = BMC_OK"
proof -
  let ?F = "command_frame 0 nf c d (of_nat (length d)) (TempData inst)" and ?k = "of_nat (2 + length r) :: u8"
  let ?msg = "([h, c'] @ r) @ drop (length ([h, c'] @ r)) ?F"
  obtain t1 t2 where ex:
    "send (IpmiTimeoutPeriod inst) ?F (of_nat (length d) + 2) (Port inst) = Some (EFI_SUCCESS, t1)"
    "recv (IpmiTimeoutPeriod inst) ?F 254 t1 = Some ((EFI_SUCCESS, ?msg, ?k), t2)"
    "idle t2" "dev t2 = e" "length ?F = 255"
    by (rule exchange [OF inst d reply])
  have r1: "1 \<le> length r" using reply(2) by (cases r) auto
  have k: "unat ?k = 2 + length r" using reply(3) by (intro unat_of_nat_u8) simp
  have msg: "length ?msg = 255" "?msg ! 2 = cc_of M IPMI_COMP_CODE_NORMAL" "take (length r) (drop 2 ?msg) = r"
    using ex(5) reply(2,3) normal by (simp_all add: hd_conv_nth nth_append)
  have "IpmiSendCommandInternal M send recv R nf 0 c (Some d) (of_nat (length d)) (RespCaller buf) (Some sz) inst =
    Some ((EFI_SUCCESS, RespCaller (take (unat ?k - 2) (drop 2 ?msg) @ drop (unat ?k - 2) buf),
           Some (of_nat (unat ?k - 2))), inst\<lparr>TempData := ?msg, Port := t2, BmcStatus := BMC_OK\<rparr>)"
    by (rule internal_reply [where send = send and recv = recv, OF ex(1,2)]) (use msg(1,2) k r1 reply(3) sz R in simp_all)
  then show ?thesis
    using ex(3,4) inst msg k by (simp add: link_ready_def inst_ok_def size_defs copy_mem_def)
qed

lemma driver_refused:
  assumes inst: "link_ready idle P inst" and R: "0 < R" and d: "length d \<le> 252"
    and reply: "serve ([hdr_byte 0 nf, c] @ d) (dev (Port inst)) = Some ([h, c'] @ r, e)" "r \<noteq> []" "length r \<le> 252"
      "sound ([h, c'] @ r)"
    and refused: "hd r \<noteq> cc_of M IPMI_COMP_CODE_NORMAL"
  shows "\<exists>inst'. IpmiSendCommandInternal M send recv R nf 0 c
      (Some d) (of_nat (length d)) (RespCaller buf) (Some sz) inst =
      Some ((refusal_status M (BmcStatus inst) (hd r), RespCaller buf, Some sz), inst') \<and>
    link_ready idle P inst' \<and> dev (Port inst') = e"
proof -
  let ?F = "command_frame 0 nf c d (of_nat (length d)) (TempData inst)" and ?k = "of_nat (2 + length r) :: u8"
  let ?msg = "([h, c'] @ r) @ drop (length ([h, c'] @ r)) ?F"
  obtain t1 t2 where ex:
    "send (IpmiTimeoutPeriod inst) ?F (of_nat (length d) + 2) (Port inst) = Some (EFI_SUCCESS, t1)"
    "recv (IpmiTimeoutPeriod inst) ?F 254 t1 = Some ((EFI_SUCCESS, ?msg, ?k), t2)"
    "idle t2" "dev t2 = e" "length ?F = 255"
    by (rule exchange [OF inst d reply])
  have "unat ?k = 2 + length r" using reply(3) by (intro unat_of_nat_u8) simp
  moreover have "0 < length r" using reply(2) by simp
  ultimately have k: "3 \<le> unat ?k" by linarith
  have msg: "length ?msg = 255" "?msg ! 2 \<noteq> cc_of M IPMI_COMP_CODE_NORMAL" "?msg ! 2 = hd r"
    using ex(5) reply(2,3) refused by (simp_all add: hd_conv_nth nth_append)
  show ?thesis
    using internal_refused [where send = send and recv = recv and Resp = "RespCaller buf" and sz = "Some sz",
        OF ex(1,2) k msg(2) R] ex(3,4) inst msg(1)
    unfolding msg(3) by (auto simp: link_ready_def inst_ok_def size_defs refusal_status_def)
qed

text \<open>The layers above the driver: the protocol entry and the base library.\<close>

lemma stack_reply:
  assumes "located locate p b" "link_ready idle P (System b)" "0 < R"
    and "length d \<le> 252" "case cd of None \<Rightarrow> d = [] | Some d' \<Rightarrow> d' = d"
    and "serve ([hdr_byte 0 nf, c] @ d) (dev (Port (System b))) = Some ([h, c'] @ r, e)" "r \<noteq> []" "length r \<le> 252"
    and "sound ([h, c'] @ r)"
    and "hd r = cc_of M IPMI_COMP_CODE_NORMAL" "length r \<le> unat sz" "unat sz < 256"
  shows "\<exists>b'. dxe_submit_link M send recv locate R nf c cd (of_nat (length d)) buf sz b =
      Some ((EFI_SUCCESS, copy_mem buf 0 r, of_nat (length r)), b') \<and>
    link_ready idle P (System b') \<and> dev (Port (System b')) = e \<and> BmcStatus (System b') = BMC_OK \<and>
    mIpmiTransport b' = Some p"
proof -
  have z: "unat (ucast sz :: u8) = unat sz"
    using assms(12) by (simp add: unsigned_ucast_eq take_bit_nat_eq_self)
  obtain s where s: "IpmiSendCommandInternal M send recv R nf 0 c
      (Some d) (of_nat (length d)) (RespCaller buf) (Some (ucast sz)) (System b) =
      Some ((EFI_SUCCESS, RespCaller (copy_mem buf 0 r), Some (of_nat (length r))), s)"
    "link_ready idle P s" "dev (Port s) = e" "BmcStatus s = BMC_OK"
    using driver_reply [OF assms(2-4,6-10), of "ucast sz" buf] assms(11) z by auto
  have "ucast (of_nat (length r) :: u8) = (of_nat (length r) :: u32)"
    using assms(8) by (simp add: word_unat_eq_iff unsigned_ucast_eq unat_of_nat take_bit_eq_mod)
  then have "generic_submit M send recv R 0 nf c cd (of_nat (length d)) buf sz (System b) =
      Some ((EFI_SUCCESS, copy_mem buf 0 r, of_nat (length r)), s)"
    using generic_submit_from [OF assms(5,4) s(1)] assms(12) by (simp add: set_low8_small)
  then have "dxe_submit_link M send recv locate R nf c cd (of_nat (length d)) buf sz b =
      Some ((EFI_SUCCESS, copy_mem buf 0 r, of_nat (length r)), b\<lparr>mIpmiTransport := Some p, System := s\<rparr>)"
    by (intro submit_located [OF assms(1)]) (simp add: generic_transport_def)
  then show ?thesis using s(2-4) by simp
qed

lemma stack_refused:
  assumes "located locate p b" "link_ready idle P (System b)" "0 < R"
    and "length d \<le> 252" "case cd of None \<Rightarrow> d = [] | Some d' \<Rightarrow> d' = d"
    and "serve ([hdr_byte 0 nf, c] @ d) (dev (Port (System b))) = Some ([h, c'] @ r, e)" "r \<noteq> []" "length r \<le> 252"
    and "sound ([h, c'] @ r)"
    and "hd r \<noteq> cc_of M IPMI_COMP_CODE_NORMAL"
  shows "\<exists>sz' b'. dxe_submit_link M send recv locate R nf c cd (of_nat (length d)) buf sz b =
      Some ((refusal_status M (BmcStatus (System b)) (hd r), buf, sz'), b') \<and>
    link_ready idle P (System b') \<and> dev (Port (System b')) = e \<and> mIpmiTransport b' = Some p"
proof -
  let ?st = "refusal_status M (BmcStatus (System b)) (hd r)"
  obtain s where s: "IpmiSendCommandInternal M send recv R nf 0 c
      (Some d) (of_nat (length d)) (RespCaller buf) (Some (ucast sz)) (System b) =
      Some ((?st, RespCaller buf, Some (ucast sz)), s)" "link_ready idle P s" "dev (Port s) = e"
    using driver_refused [OF assms(2-4,6-10), of buf "ucast sz"] by auto
  have "dxe_submit_link M send recv locate R nf c cd (of_nat (length d)) buf sz b =
      Some ((?st, buf, set_low8 sz (ucast sz)), b\<lparr>mIpmiTransport := Some p, System := s\<rparr>)"
    using generic_submit_from [OF assms(5,4) s(1)]
    by (intro submit_located [OF assms(1)]) (simp add: generic_transport_def)
  then show ?thesis using s(2,3) by simp
qed

end

end
