(* ===== verification/Kcs_Stack.thy ===== *)
theory Kcs_Stack
  imports Link_Stack Transport_Kcs
begin

section \<open>The whole DXE stack over the KCS interface\<close>

text \<open>
  Any BMC that keeps the contract \<open>kcs_bmc\<close> makes the KCS transport a link, so that the properties of
  the layers compose: the bytes of the reply arrive in the client's buffer, and the state that is
  left is again one from which the next command can be sent.
\<close>

unbundle bit_operations_syntax

abbreviation dxe_submit_kcs ::
    "ipmi_hdr \<Rightarrow> 'w kcs_hw \<Rightarrow> ('p, 'w ipmi_bmc_instance) locate_fn \<Rightarrow> u8 \<Rightarrow>
       ('p, 'w ipmi_bmc_instance) base_lib submit" where
  "dxe_submit_kcs M hw locate R \<equiv>
     dxe_submit_link M (SendDataToBmcPort_Kcs hw) (ReceiveBmcDataFromPort_Kcs hw) locate R"

text \<open>An idle interface, and a driver that can send over it.\<close>

definition kcs_idle :: "('w \<Rightarrow> 'm kcs_phase) \<Rightarrow> ('w \<Rightarrow> nat) \<Rightarrow> u64 \<Rightarrow> 'w \<Rightarrow> bool" where
  "kcs_idle ph lag P w \<longleftrightarrow> is_KIdle (ph w) \<and> lag w < unat P"

definition kcs_ready :: "('w \<Rightarrow> 'm kcs_phase) \<Rightarrow> ('w \<Rightarrow> nat) \<Rightarrow> u64 \<Rightarrow> 'm \<Rightarrow> 'w ipmi_bmc_instance \<Rightarrow> bool" where
  "kcs_ready ph lag P e inst \<longleftrightarrow> inst_ok inst \<and> IpmiTimeoutPeriod inst = P \<and> ph (Port inst) = KIdle e \<and>
     lag (Port inst) < unat P"

lemma kcs_ready_link:
  "kcs_ready ph lag P e inst \<longleftrightarrow> link_ready (kcs_idle ph lag P) P inst \<and> kcs_dev (ph (Port inst)) = e"
  by (auto simp: kcs_ready_def link_ready_def kcs_idle_def is_KIdle_def)

sublocale kcs_bmc \<subseteq> link: bmc_link "SendDataToBmcPort_Kcs hw" "ReceiveBmcDataFromPort_Kcs hw"
  "kcs_idle ph lag P" "\<lambda>w. kcs_dev (ph w)" "\<lambda>e m w. ph w = KRead e m \<and> lag w < unat P" "\<lambda>m. True" serve P
proof (unfold_locales, goal_cases)
  case (1 w n d m e)
  then have "ph w = KIdle (kcs_dev (ph w))" "lag w < unat P" "0 < n"
    by (auto simp: kcs_idle_def is_KIdle_def word_less_nat_alt)
  with 1 show ?case by (intro send_message)
next
  case (2 e m w n D)
  moreover from this have "m \<noteq> []" "0 < unat P" by auto
  ultimately obtain w' where "ReceiveBmcDataFromPort_Kcs hw P D n w =
      Some ((EFI_SUCCESS, m @ drop (length m) D, of_nat (length m)), w')" "ph w' = KIdle e" "lag w' = 0"
    using receive_message [of w e m n D] by auto
  then show ?case using \<open>0 < unat P\<close> by (auto simp: kcs_idle_def)
qed

context kcs_bmc
begin

lemmas over_kcs = link.stack_reply
lemmas kcs_link = link.bmc_link_axioms

end

text \<open>C6 The layers composed, over the KCS ports: a command of a DXE client reaches every BMC that keeps
  to the KCS protocol as header, command and data; when the BMC answers with the normal completion
  code, the client gets EFI_SUCCESS, the completion code and data in its buffer with the memory
  behind them unchanged, and their number; the interface is idle again with the BMC in the state
  its answer left, the BMC marked healthy and the protocol found, so that the next command starts
  from such a state.\<close>

theorem kcs_stack_reply:
  assumes "kcs_bmc hw ph lag serve P" "located locate p b" "kcs_ready ph lag P e (System b)" "0 < R"
    and "length d \<le> 252" "case cd of None \<Rightarrow> d = [] | Some d' \<Rightarrow> d' = d"
    and "serve ([hdr_byte 0 nf, c] @ d) e = Some ([h, c'] @ r, e')" "r \<noteq> []" "hd r = cc_of M IPMI_COMP_CODE_NORMAL"
    and "length r \<le> 252" "length r \<le> unat sz" "unat sz < 256"
  shows "\<exists>b'. dxe_submit_kcs M hw locate R nf c cd (of_nat (length d)) buf sz b =
      Some ((EFI_SUCCESS, copy_mem buf 0 r, of_nat (length r)), b') \<and>
    kcs_ready ph lag P e' (System b') \<and> BmcStatus (System b') = BMC_OK \<and> located locate p b'"
  using kcs_bmc.over_kcs [OF assms(1,2) _ assms(4-6) _ assms(8,10) TrueI assms(9,11,12)] assms(3,7)
  by (simp add: kcs_ready_link located_def) blast

theorem kcs_stack_reply_witness:
  "\<exists>b'. dxe_submit_kcs ipmi_v2 (ideal_kcs (\<lambda>m e. Some (take 2 m @ 0 # drop 2 m, e + 1))) (installed ()) 3
      0x2E 1 (Some [4, 5]) 2 [7, 7, 7, 7] 4
      \<lparr>mIpmiTransport = None, System = \<lparr>Signature = 0, IpmiTimeoutPeriod = 100000, SlaveAddress = 0,
         TempData = zero_mem MAX_TEMP_DATA, BmcStatus = BMC_OK, ErrorStatus = 0, SoftErrorCount = 0,
         Port = (KIdle (41 :: nat), 7)\<rparr>\<rparr> =
      Some ((EFI_SUCCESS, [0, 4, 5, 7], 3), b') \<and>
    located (installed ()) () b' \<and> fst (Port (System b')) = KIdle 42"
proof -
  let ?i = "\<lparr>Signature = 0, IpmiTimeoutPeriod = 100000, SlaveAddress = 0, TempData = zero_mem MAX_TEMP_DATA,
    BmcStatus = BMC_OK, ErrorStatus = 0, SoftErrorCount = 0, Port = (KIdle (41 :: nat), 7)\<rparr>"
  let ?b = "\<lparr>mIpmiTransport = None :: unit option, System = ?i\<rparr>"
  have "located (installed ()) () ?b" by (rule located_installed) simp
  moreover have "kcs_ready fst snd 100000 41 (System ?b)" by (simp add: kcs_ready_def inst_ok_def)
  ultimately show ?thesis
    using kcs_stack_reply [where hw = "ideal_kcs (\<lambda>m e. Some (take 2 m @ 0 # drop 2 m, e + 1))" and p = "()"
        and b = ?b and R = 3 and d = "[4, 5]" and e = "41 :: nat" and e' = 42
        and cd = "Some [4, 5]" and nf = "0x2E" and c = 1 and h = "hdr_byte 0 0x2E" and c' = 1 and r = "[0, 4, 5]"
        and M = ipmi_v2 and sz = 4 and buf = "[7, 7, 7, 7]", OF ideal_bmc.kcs_bmc_axioms]
    by (simp add: copy_mem_def kcs_ready_def) blast
qed

end
