(* ===== verification/Ssif_Stack.thy ===== *)
theory Ssif_Stack
  imports Link_Stack Transport_Ssif
begin

section \<open>The SSIF protocol, and the whole DXE stack over it\<close>

text \<open>
  The contract of a BMC that keeps to the SSIF protocol behind a SMBus library: which block transfers
  it accepts in which phase and what it hands out.  Against every such BMC the SSIF transport is a
  link that carries messages, so that the properties of the stack above hold.  The SMBus library
  of the unit test keeps the contract once its two buffers are joined by a BMC that answers.
\<close>

unbundle bit_operations_syntax

subsection \<open>The contract\<close>

text \<open>The phases: idle, a message in several blocks under way, a reply to fetch, and the rest of a
  reply with the number of its next block; each with the state of the BMC.\<close>

datatype 'm ssif_phase =
    SOff | is_SIdle: SIdle (ssif_dev: 'm) | SWriting 'm bytes | SReply 'm bytes | SReading 'm bytes u8

text \<open>What a block transfer hands out: the bytes \<open>x\<close> in front of what the buffer held.\<close>

definition hands_out ::
    "'b smbus_lib \<Rightarrow> u8 \<Rightarrow> bytes \<Rightarrow> bytes \<Rightarrow> 'b \<Rightarrow> 'b \<Rightarrow> bool" where
  "hands_out bus c Block x b b' \<longleftrightarrow>
     BmcSmbusBlockRead bus c Block SSIF_MAX_READ_BUFFER_SIZE b =
       Some ((EFI_SUCCESS, x @ drop (length x) Block, of_nat (length x)), b') \<and> length x \<le> 32"

locale ssif_bmc = smbus bus for bus :: "'b smbus_lib" +
  fixes ph :: "'b \<Rightarrow> 'm ssif_phase" and serve :: "'m server"
  assumes open_ok: "\<exists>b'. BmcSmbusOpen bus b = Some (EFI_SUCCESS, b') \<and> ph b' = ph b"
    and close_ok: "\<exists>st b'. BmcSmbusClose bus b = Some (st, b') \<and> ph b' = ph b"
    and write_single: "ph b = SIdle e \<Longrightarrow> x \<noteq> [] \<Longrightarrow> length x \<le> 32 \<Longrightarrow>
        serve x e = Some (m, e') \<Longrightarrow> m \<noteq> [] \<Longrightarrow> length m \<le> 254 \<Longrightarrow>
        \<exists>b'. BmcSmbusBlockWrite bus SMBUS_CMD_WRITE x (of_nat (length x)) b = Some (EFI_SUCCESS, b') \<and>
          ph b' = SReply e' m"
    and write_start: "ph b = SIdle e \<Longrightarrow> length x = 32 \<Longrightarrow>
        \<exists>b'. BmcSmbusBlockWrite bus SMBUS_CMD_MULT_WRITE_START x (of_nat (length x)) b = Some (EFI_SUCCESS, b') \<and>
          ph b' = SWriting e x"
    and write_middle: "ph b = SWriting e w \<Longrightarrow> length x = 32 \<Longrightarrow> length w + length x \<le> 255 \<Longrightarrow>
        \<exists>b'. BmcSmbusBlockWrite bus SMBUS_CMD_MULT_WRITE_MIDDLE x (of_nat (length x)) b = Some (EFI_SUCCESS, b') \<and>
          ph b' = SWriting e (w @ x)"
    and write_end: "ph b = SWriting e w \<Longrightarrow> x \<noteq> [] \<Longrightarrow> length x \<le> 32 \<Longrightarrow> length w + length x \<le> 255 \<Longrightarrow>
        serve (w @ x) e = Some (m, e') \<Longrightarrow> m \<noteq> [] \<Longrightarrow> length m \<le> 254 \<Longrightarrow>
        \<exists>b'. BmcSmbusBlockWrite bus SMBUS_CMD_MULT_WRITE_END x (of_nat (length x)) b = Some (EFI_SUCCESS, b') \<and>
          ph b' = SReply e' m"
    and read_first: "ph b = SReply e m \<Longrightarrow> m \<noteq> [] \<Longrightarrow> 64 \<le> length Block \<Longrightarrow>
        \<exists>x b'. hands_out bus SMBUS_CMD_READ Block x b b' \<and>
          (x = m \<and> ph b' = SIdle e \<or>
           (\<exists>y m'. m = y @ m' \<and> x = [0, 1] @ y \<and> ph b' = SReading e m' 0))"
    and read_next: "ph b = SReading e m k \<Longrightarrow> 64 \<le> length Block \<Longrightarrow>
        \<exists>x b'. hands_out bus SMBUS_CMD_MULT_READ Block x b b' \<and>
          (x = 0xFF # m \<and> ph b' = SIdle e \<or>
           (k \<noteq> 0xFF \<and> (\<exists>y m'. m = y @ m' \<and> x = k # y \<and> ph b' = SReading e m' (k + 1))))"
begin

subsection \<open>Sending\<close>

lemma write_rest:
  assumes "x \<noteq> []" "ph b = SWriting e w" "length w + length x \<le> 255" "serve (w @ x) e = Some (m, e')" "m \<noteq> []"
    "length m \<le> 254"
  shows "\<exists>b'. smbus_write_all bus (ssif_label_rest (ssif_chunks x)) EFI_SUCCESS b = Some (EFI_SUCCESS, b') \<and>
    ph b' = SReply e' m"
  using assms
proof (induction x arbitrary: w b rule: ssif_chunks.induct)
  case (1 x)
  show ?case
  proof (cases "drop 32 x = []")
    case True
    then have x: "take 32 x = x" "length x \<le> 32" by simp_all
    obtain b1 where "BmcSmbusBlockWrite bus SMBUS_CMD_MULT_WRITE_END x (of_nat (length x)) b =
        Some (EFI_SUCCESS, b1)" "ph b1 = SReply e' m"
      using write_end [OF 1(3,2) x(2) 1(4-7)] by blast
    then show ?thesis using ssif_chunks_Cons [OF 1(2)] True x(1) by simp
  next
    case False
    then have x: "length (take 32 x) = 32" "length w + length (take 32 x) \<le> 255"
      "length (w @ take 32 x) + length (drop 32 x) = length w + length x"
      using 1(4) by simp_all
    then obtain b1 where b1: "BmcSmbusBlockWrite bus SMBUS_CMD_MULT_WRITE_MIDDLE (take 32 x)
        (of_nat (length (take 32 x))) b = Some (EFI_SUCCESS, b1)" "ph b1 = SWriting e (w @ take 32 x)"
      using write_middle [OF 1(3) x(1,2)] by blast
    have whole: "(w @ take 32 x) @ drop 32 x = w @ x" by simp
    obtain b2 where "smbus_write_all bus (ssif_label_rest (ssif_chunks (drop 32 x))) EFI_SUCCESS b1 =
        Some (EFI_SUCCESS, b2)" "ph b2 = SReply e' m"
      using 1(1) [OF 1(2) False b1(2), unfolded x(3) whole, OF 1(4-7)] by blast
    then show ?thesis
      using b1(1) ssif_chunks_Cons [OF 1(2)] ssif_chunks_Cons [OF False] by simp
  qed
qed

lemma write_message:
  assumes "w \<noteq> []" "ph b = SIdle e" "length w \<le> 255" "serve w e = Some (m, e')" "m \<noteq> []" "length m \<le> 254"
  shows "\<exists>b'. smbus_write_all bus (ssif_packets w) EFI_SUCCESS b = Some (EFI_SUCCESS, b') \<and>
    ph b' = SReply e' m"
proof (cases "drop 32 w = []")
  case True
  then show ?thesis
    using write_single [OF assms(2,1) _ assms(4-6)] assms(1) by (auto simp: ssif_packets_def ssif_chunks_Cons)
next
  case False
  then have w: "length (take 32 w) = 32" "length (take 32 w) + length (drop 32 w) = length w" by simp_all
  then obtain b1 where b1: "BmcSmbusBlockWrite bus SMBUS_CMD_MULT_WRITE_START (take 32 w)
      (of_nat (length (take 32 w))) b = Some (EFI_SUCCESS, b1)" "ph b1 = SWriting e (take 32 w)"
    using write_start [OF assms(2) w(1)] by auto
  obtain b2 where "smbus_write_all bus (ssif_label_rest (ssif_chunks (drop 32 w))) EFI_SUCCESS b1 =
      Some (EFI_SUCCESS, b2)" "ph b2 = SReply e' m"
    using write_rest [OF False b1(2), unfolded w(2)] assms(3-6) by auto
  then show ?thesis
    using b1(1) ssif_chunks_Cons [OF assms(1)] ssif_chunks_Cons [OF False] by (simp add: ssif_packets_def)
qed

lemma send_message:
  assumes "ph b = SIdle e" "0 < n" "unat n \<le> length d"
    and "serve (take (unat n) d) e = Some (m, e')" "m \<noteq> []" "length m \<le> 254"
  shows "\<exists>b'. SendDataToBmcPort_Ssif bus P d n b = Some (EFI_SUCCESS, b') \<and> ph b' = SReply e' m"
proof -
  obtain b1 where b1: "BmcSmbusOpen bus b = Some (EFI_SUCCESS, b1)" "ph b1 = SIdle e"
    using open_ok [of b] assms(1) by auto
  have "take (unat n) d \<noteq> []" "length (take (unat n) d) \<le> 255"
    using assms(2,3) u8_bound [of n] by (auto simp: word_less_nat_alt)
  then obtain b2 where b2: "smbus_write_all bus (ssif_packets (take (unat n) d)) EFI_SUCCESS b1 = Some (EFI_SUCCESS, b2)"
    "ph b2 = SReply e' m"
    using write_message [OF _ b1(2) _ assms(4-6)] by blast
  obtain st b3 where "BmcSmbusClose bus b2 = Some (st, b3)" "ph b3 = ph b2" using close_ok by blast
  then show ?thesis using b1 b2 by (simp add: send_packets [OF assms(2,3)])
qed

end

subsection \<open>Receiving\<close>

lemma copy_mem_twice:
  assumes "k + length x \<le> length D"
  shows "copy_mem (copy_mem D k x) (k + length x) y = copy_mem D k (x @ y)"
  using assms by (simp add: copy_mem_def add.assoc add.commute add.left_commute)

lemma unat_ofs:
  assumes "unat (ofs :: u8) + k \<le> unat (n :: u8)"
  shows "unat (of_nat k :: u8) = k" "unat (ofs + of_nat k) = unat ofs + k"
  using assms u8_bound [of n] by (simp_all add: unat_of_nat unat_word_ariths)

text \<open>A later block: its tag in front of the bytes \<open>y\<close>.\<close>

lemma ssif_block_next:
  assumes "length y \<le> 31" "unat ofs + length y \<le> unat n" "t = 0xFF \<or> t = k"
  shows "ssif_block SMBUS_CMD_MULT_READ k EFI_SUCCESS ((t # y) @ rest) (of_nat (length (t # y))) Data ofs n =
    (if t = 0xFF then SsifStop EFI_SUCCESS (copy_mem Data (unat ofs) y) (ofs + of_nat (length y))
     else SsifMore (t + 1) (copy_mem Data (unat ofs) y) (ofs + of_nat (length y)))"
  using assms unat_ofs(1) [OF assms(2)]
  by (auto simp: ssif_block_def Let_def SMBUS_CMD_READ_def SMBUS_CMD_MULT_READ_def)

text \<open>The first block: a whole message, or the mark of a longer one in front of the bytes \<open>y\<close>.\<close>

lemma ssif_block_first:
  assumes "unat (of_nat (length x) :: u8) = length x" "unat ofs + length x \<le> unat n" "\<not> (x ! 0 = 0 \<and> x ! 1 = 1)"
    "2 \<le> length x"
  shows "ssif_block SMBUS_CMD_READ 0 EFI_SUCCESS (x @ rest) (of_nat (length x)) Data ofs n =
    SsifStop EFI_SUCCESS (copy_mem Data (unat ofs) x) (ofs + of_nat (length x))"
  using assms by (auto simp: ssif_block_def Let_def nth_append)

lemma ssif_block_start:
  assumes "length y \<le> 30" "length y \<le> unat n"
  shows "ssif_block SMBUS_CMD_READ 0 EFI_SUCCESS (([0, 1] @ y) @ rest) (of_nat (length ([0, 1] @ y))) Data 0 n =
    SsifMore 0 (copy_mem Data 0 y) (of_nat (length y))"
  using assms unat_ofs(1) [of 0 "length y" n] by (simp add: ssif_block_def Let_def)

context ssif_bmc
begin

lemma read_rest:
  assumes "ph b = SReading e m k" "64 \<le> length Block" "unat ofs + length m \<le> unat n" "unat n \<le> length Data"
  shows "\<exists>b'. ReceiveBmcDataFromPort_Ssif_loop bus SMBUS_CMD_MULT_READ k Block Data ofs n b =
      Some ((EFI_SUCCESS, copy_mem Data (unat ofs) m, ofs + of_nat (length m)), b') \<and> ph b' = SIdle e"
  using assms
proof (induction "255 - unat k" arbitrary: b m k Block ofs Data rule: less_induct)
  case less
  obtain x b1 where r: "hands_out bus SMBUS_CMD_MULT_READ Block x b b1"
    and x: "x = 0xFF # m \<and> ph b1 = SIdle e \<or>
      k \<noteq> 0xFF \<and> (\<exists>y m'. m = y @ m' \<and> x = k # y \<and> ph b1 = SReading e m' (k + 1))"
    using read_next [OF less.prems(1,2)] by blast
  let ?B = "x @ drop (length x) Block"
  have B: "64 \<le> length ?B" "length x \<le> 32" using r less.prems(2) by (auto simp: hands_out_def)
  show ?case
    using x
  proof (elim disjE conjE exE)
    assume "x = 0xFF # m" "ph b1 = SIdle e"
    then show ?thesis
      using r ssif_block_next [of m ofs n "0xFF" k] less.prems(3)
      by (simp add: hands_out_def ReceiveBmcDataFromPort_Ssif_loop.simps [of bus])
  next
    fix y m' assume k: "k \<noteq> 0xFF" and y: "m = y @ m'" "x = k # y" "ph b1 = SReading e m' (k + 1)"
    have fits: "length y \<le> 31" "unat ofs + length y \<le> unat n" using B(2) y less.prems(3) by simp_all
    let ?D = "copy_mem Data (unat ofs) y" and ?o = "ofs + of_nat (length y)"
    have o': "unat ?o = unat ofs + length y" by (rule unat_ofs(2) [OF fits(2)])
    have smaller: "255 - unat (k + 1) < 255 - unat k"
      using k u8_bound [of k] unat_plus_one_u8 [OF k] by (simp add: word_unat_eq_iff)
    have "unat n \<le> length ?D" "unat ?o + length m' \<le> unat n"
      using less.prems(3,4) fits y(1) unfolding o' by (simp_all add: mem_simps)
    then obtain b2 where "ReceiveBmcDataFromPort_Ssif_loop bus SMBUS_CMD_MULT_READ (k + 1) ?B ?D ?o n b1 =
        Some ((EFI_SUCCESS, copy_mem ?D (unat ?o) m', ?o + of_nat (length m')), b2)" "ph b2 = SIdle e"
      using less.hyps [OF smaller y(3) B(1)] by blast
    moreover have "copy_mem ?D (unat ?o) m' = copy_mem Data (unat ofs) m"
      unfolding o' y(1) using fits less.prems(4) by (intro copy_mem_twice) simp
    ultimately show ?thesis
      using r k ssif_block_next [OF fits, of k k] y(1,2)
      by (simp add: hands_out_def ReceiveBmcDataFromPort_Ssif_loop.simps [of bus _ k] algebra_simps)
  qed
qed

lemma receive_message:
  assumes "ph b = SReply e m" "2 \<le> length m" "length m \<le> unat n" "unat n \<le> length D" "64 \<le> length Block"
    and "\<not> (m ! 0 = 0 \<and> m ! 1 = 1)"
  shows "\<exists>b'. ReceiveBmcDataFromPort_Ssif bus Block P D n b =
      Some ((EFI_SUCCESS, m @ drop (length m) D, of_nat (length m)), b') \<and> ph b' = SIdle e"
proof -
  obtain b1 where b1: "BmcSmbusOpen bus b = Some (EFI_SUCCESS, b1)" "ph b1 = SReply e m"
    using open_ok [of b] assms(1) by auto
  have "m \<noteq> []" using assms(2) by auto
  then obtain x b2 where r: "hands_out bus SMBUS_CMD_READ Block x b1 b2"
    and x: "x = m \<and> ph b2 = SIdle e \<or> (\<exists>y m'. m = y @ m' \<and> x = [0, 1] @ y \<and> ph b2 = SReading e m' 0)"
    using read_first [OF b1(2) _ assms(5)] by blast
  have D: "copy_mem D 0 m = m @ drop (length m) D" by (simp add: copy_mem_def)
  obtain b3 where b3: "ReceiveBmcDataFromPort_Ssif_loop bus SMBUS_CMD_READ 0 Block D 0 n b1 =
      Some ((EFI_SUCCESS, copy_mem D 0 m, of_nat (length m)), b3)" "ph b3 = SIdle e"
    using x
  proof (elim disjE conjE exE)
    assume m: "x = m" "ph b2 = SIdle e"
    then have "ssif_block SMBUS_CMD_READ 0 EFI_SUCCESS (m @ drop (length m) Block) (of_nat (length m)) D 0 n =
        SsifStop EFI_SUCCESS (copy_mem D 0 m) (of_nat (length m))"
      using ssif_block_first [of m 0 n _ D] assms(2,3,6) unat_ofs(1) [of 0 "length m" n] by simp
    then show ?thesis
      using r m by (intro that [of b2]) (simp_all add: hands_out_def ReceiveBmcDataFromPort_Ssif_loop.simps [of bus])
  next
    fix y m' assume y: "m = y @ m'" "x = [0, 1] @ y" "ph b2 = SReading e m' 0"
    let ?D = "copy_mem D 0 y" and ?B = "x @ drop (length x) Block"
    have len: "length y \<le> 30" "length y \<le> unat n" "64 \<le> length ?B"
      using r y assms(3,5) by (auto simp: hands_out_def)
    have o': "unat (of_nat (length y) :: u8) = length y" using unat_ofs(1) [of 0 "length y" n] len(2) by simp
    have "unat n \<le> length ?D" using assms(4) len(2) by (simp add: mem_simps)
    then obtain b3 where "ReceiveBmcDataFromPort_Ssif_loop bus SMBUS_CMD_MULT_READ 0 ?B ?D (of_nat (length y)) n b2 =
        Some ((EFI_SUCCESS, copy_mem ?D (length y) m', of_nat (length y) + of_nat (length m')), b3)" "ph b3 = SIdle e"
      using read_rest [OF y(3) len(3), of "of_nat (length y)" n ?D] assms(3) y(1) unfolding o' by auto
    moreover have "copy_mem ?D (length y) m' = copy_mem D 0 m"
      using copy_mem_twice [of 0 y D m'] y(1) len(2) assms(4) by simp
    ultimately show ?thesis
      using r ssif_block_start [OF len(1,2)] y(1,2)
      by (intro that [of b3]) (simp_all add: hands_out_def ReceiveBmcDataFromPort_Ssif_loop.simps [of bus SMBUS_CMD_READ])
  qed
  obtain st b4 where "BmcSmbusClose bus b3 = Some (st, b4)" "ph b4 = ph b3" using close_ok by blast
  then show ?thesis
    using b1(1) b3 unfolding D by (simp add: ReceiveBmcDataFromPort_Ssif_def)
qed

end

text \<open>Over such a bus the transport is a link, whatever its block buffer on the stack holds.\<close>

definition ssif_sound :: "bytes \<Rightarrow> bool" where
  "ssif_sound m \<longleftrightarrow> \<not> (m ! 0 = 0 \<and> m ! 1 = 1)"

context ssif_bmc
begin

lemma ssif_link:
  assumes "64 \<le> length BlockBuffer"
  shows "bmc_link (SendDataToBmcPort_Ssif bus) (ReceiveBmcDataFromPort_Ssif bus BlockBuffer)
    (\<lambda>b. is_SIdle (ph b)) (\<lambda>b. ssif_dev (ph b)) (\<lambda>e m b. ph b = SReply e m) ssif_sound serve P"
proof (unfold_locales, goal_cases)
  case (1 b n d m e)
  moreover from this have "ph b = SIdle (ssif_dev (ph b))" "0 < n" "m \<noteq> []"
    by (auto simp: word_less_nat_alt is_SIdle_def)
  ultimately show ?case by (intro send_message)
next
  case (2 e m b n D)
  then obtain b' where "ReceiveBmcDataFromPort_Ssif bus BlockBuffer P D n b =
      Some ((EFI_SUCCESS, m @ drop (length m) D, of_nat (length m)), b')" "ph b' = SIdle e"
    using receive_message [of b e m n D BlockBuffer P] assms by (auto simp: ssif_sound_def)
  then show ?case by auto
qed

end

subsection \<open>The SMBus library of the unit test with an answering BMC behind it\<close>

text \<open>Once a message is complete, the BMC empties the buffers of the library and puts its reply into
  the receive buffer, with the routines the unit test uses.\<close>

definition answering_bus :: "'m server \<Rightarrow> (smbus_test \<times> 'm) smbus_lib" where
  "answering_bus serve = \<lparr>BmcSmbusOpen = (\<lambda>b. Some (EFI_SUCCESS, b)),
     BmcSmbusClose = (\<lambda>b. Some (EFI_SUCCESS, b)),
     BmcSmbusBlockWrite = (\<lambda>c x n (b, e).
        do {
          (Status, b1) \<leftarrow> test_BlockWrite c x n b;
          if Status = EFI_SUCCESS \<and> c \<in> {SMBUS_CMD_WRITE, SMBUS_CMD_MULT_WRITE_END}
          then do {
            (m, e1) \<leftarrow> serve (take (unat (TxSize b1)) (TxBuffer b1)) e;
            b2 \<leftarrow> SetRxBuffer m (of_nat (length m)) (SmbusTestLibReset b1);
            Some (Status, (b2, e1))
          }
          else Some (Status, (b1, e))
        }),
     BmcSmbusBlockRead = (\<lambda>c Block n (b, e). map_option (\<lambda>(r, b1). (r, (b1, e))) (test_BlockRead c Block n b))\<rparr>"

definition bus_writing :: "smbus_test \<Rightarrow> 'm \<Rightarrow> 'm ssif_phase" where
  "bus_writing b e = (if unat (TxSize b) \<le> 255 then SWriting e (take (unat (TxSize b)) (TxBuffer b)) else SOff)"

definition bus_reading :: "smbus_test \<Rightarrow> 'm \<Rightarrow> 'm ssif_phase" where
  "bus_reading b e =
     (let m = unat (RxSize b); k = unat (RxOffset b) in
      if 254 < m \<or> m < k then SOff
      else if k = 0 then SReply e (take m (RxBuffer b))
      else if k = m \<and> (m \<le> 32 \<or> RxBlock b = 0) then SIdle e
      else if 32 < m \<and> m - k \<le> 31 * (256 - unat (RxBlock b))
      then SReading e (drop k (take m (RxBuffer b))) (RxBlock b)
      else SOff)"

fun bus_phase :: "smbus_test \<times> 'm \<Rightarrow> 'm ssif_phase" where
  "bus_phase (b, e) =
     (if length (RxBuffer b) \<noteq> 1024 \<or> length (TxBuffer b) \<noteq> 1024 then SOff
      else if TxSize b \<noteq> 0 then bus_writing b e
      else if RxSize b = 0 then SIdle e
      else bus_reading b e)"

lemma bus_idle: "bus_phase (b, e0) = SIdle e \<Longrightarrow> e0 = e \<and> TxSize b = 0 \<and> length (TxBuffer b) = 1024 \<and> length (RxBuffer b) = 1024"
  by (auto simp: bus_writing_def bus_reading_def Let_def split: if_splits)

lemma bus_writing_state:
  "bus_phase (b, e0) = SWriting e m \<Longrightarrow> e0 = e \<and> length (TxBuffer b) = 1024 \<and> length (RxBuffer b) = 1024 \<and>
     TxSize b \<noteq> 0 \<and> unat (TxSize b) = length m \<and> take (length m) (TxBuffer b) = m"
  by (auto simp: bus_writing_def bus_reading_def Let_def split: if_splits)

lemma bus_reply_state:
  "bus_phase (b, e0) = SReply e m \<Longrightarrow> e0 = e \<and> TxSize b = 0 \<and> length (TxBuffer b) = 1024 \<and> length (RxBuffer b) = 1024 \<and>
     RxSize b \<noteq> 0 \<and> RxOffset b = 0 \<and> unat (RxSize b) \<le> 254 \<and> m = take (unat (RxSize b)) (RxBuffer b)"
  by (auto simp: bus_writing_def bus_reading_def Let_def unat_eq_zero split: if_splits)

lemma bus_reading_state:
  "bus_phase (b, e0) = SReading e m k \<Longrightarrow> e0 = e \<and> TxSize b = 0 \<and> length (TxBuffer b) = 1024 \<and> length (RxBuffer b) = 1024 \<and>
     RxSize b \<noteq> 0 \<and> k = RxBlock b \<and> m = drop (unat (RxOffset b)) (take (unat (RxSize b)) (RxBuffer b)) \<and>
     0 < unat (RxOffset b) \<and> unat (RxOffset b) \<le> unat (RxSize b) \<and> 32 < unat (RxSize b) \<and> unat (RxSize b) \<le> 254 \<and>
     unat (RxSize b) - unat (RxOffset b) \<le> 31 * (256 - unat (RxBlock b))"
  by (auto simp: bus_writing_def bus_reading_def Let_def split: if_splits)

lemma answering_simps [simp]:
  "BmcSmbusOpen (answering_bus serve) be = Some (EFI_SUCCESS, be)"
  "BmcSmbusClose (answering_bus serve) be = Some (EFI_SUCCESS, be)"
  "BmcSmbusBlockRead (answering_bus serve) c Block n (b, e) =
     map_option (\<lambda>(r, b1). (r, (b1, e))) (test_BlockRead c Block n b)"
  by (simp_all add: answering_bus_def)

text \<open>A block of a message whose end is still to come, and the last one.\<close>

lemma answering_part:
  assumes "unat (TxSize b) + length x \<le> 255" "length x = 32" "length (TxBuffer b) = 1024" "length (RxBuffer b) = 1024"
    and "c = SMBUS_CMD_MULT_WRITE_START \<and> TxSize b = 0 \<or> c = SMBUS_CMD_MULT_WRITE_MIDDLE \<and> TxSize b \<noteq> 0"
  shows "\<exists>b'. BmcSmbusBlockWrite (answering_bus serve) c x (of_nat (length x)) (b, e) = Some (EFI_SUCCESS, b') \<and>
    bus_phase b' = SWriting e (take (unat (TxSize b)) (TxBuffer b) @ x)"
proof -
  let ?b = "b\<lparr>TxBuffer := copy_mem (TxBuffer b) (unat (TxSize b)) x, TxSize := TxSize b + of_nat (length x)\<rparr>"
  have "BmcSmbusBlockWrite BmcSmbusLibTest c x (of_nat (length x)) b = Some (EFI_SUCCESS, ?b)"
    by (rule test_write_block) (use assms in \<open>auto simp: ssif_defs\<close>)
  then have wr: "BmcSmbusBlockWrite (answering_bus serve) c x (of_nat (length x)) (b, e) = Some (EFI_SUCCESS, (?b, e))"
    using assms(5) by (auto simp: answering_bus_def BmcSmbusLibTest_def ssif_defs)
  have sz: "unat (TxSize ?b) = unat (TxSize b) + length x"
    using assms(1) by (simp add: unat_word_ariths unat_of_nat)
  then have "TxSize ?b \<noteq> 0" using assms(2) by auto
  then have "bus_phase (?b, e) = SWriting e (take (unat (TxSize b)) (TxBuffer b) @ x)"
    using assms(1,3,4) sz by (simp add: bus_writing_def mem_simps)
  with wr show ?thesis by blast
qed

lemma answering_last:
  assumes "unat (TxSize b) + length x \<le> 255" "length x \<le> 32" "length (TxBuffer b) = 1024" "length (RxBuffer b) = 1024"
    and "c = SMBUS_CMD_WRITE \<and> TxSize b = 0 \<or> c = SMBUS_CMD_MULT_WRITE_END \<and> TxSize b \<noteq> 0"
    and "serve (take (unat (TxSize b)) (TxBuffer b) @ x) e = Some (m, e')" "m \<noteq> []" "length m \<le> 254"
  shows "\<exists>b'. BmcSmbusBlockWrite (answering_bus serve) c x (of_nat (length x)) (b, e) = Some (EFI_SUCCESS, b') \<and>
    bus_phase b' = SReply e' m"
proof -
  let ?b = "b\<lparr>TxBuffer := copy_mem (TxBuffer b) (unat (TxSize b)) x, TxSize := TxSize b + of_nat (length x)\<rparr>"
  let ?b' = "(SmbusTestLibReset ?b)\<lparr>RxBuffer := copy_mem (zero_mem 1024) 0 m, RxSize := of_nat (length m)\<rparr>"
  have wr: "test_BlockWrite c x (of_nat (length x)) b = Some (EFI_SUCCESS, ?b)"
    using test_write_block [of b x c] assms by (auto simp: ssif_defs BmcSmbusLibTest_def)
  have "unat (TxSize ?b) = unat (TxSize b) + length x"
    using assms(1) by (simp add: unat_word_ariths unat_of_nat)
  then have "take (unat (TxSize ?b)) (TxBuffer ?b) = take (unat (TxSize b)) (TxBuffer b) @ x"
    using assms(1,3) by (simp add: mem_simps)
  moreover have m: "unat (of_nat (length m) :: u32) = length m" using assms(8) by (simp add: unat_of_nat)
  ultimately have "BmcSmbusBlockWrite (answering_bus serve) c x (of_nat (length x)) (b, e) = Some (EFI_SUCCESS, (?b', e'))"
    using wr assms(5,6,8)
    by (auto simp: answering_bus_def SetRxBuffer_def SmbusTestLibReset_def TEST_BUFFER_SIZE_def ssif_defs)
  moreover have "RxSize ?b' \<noteq> 0" using m assms(7) by (auto simp: word_unat_eq_iff)
  then have "bus_phase (?b', e') = SReply e' m"
    using assms(8) m
    by (simp add: bus_reading_def SmbusTestLibReset_def TEST_BUFFER_SIZE_def Let_def mem_simps)
  ultimately show ?thesis by blast
qed

lemma answering_first:
  assumes "bus_phase (b, e) = SReply e m" "m \<noteq> []" "64 \<le> length Block"
  shows "\<exists>x b'. hands_out (answering_bus serve) SMBUS_CMD_READ Block x (b, e) b' \<and>
      (x = m \<and> bus_phase b' = SIdle e \<or> (\<exists>y m'. m = y @ m' \<and> x = [0, 1] @ y \<and> bus_phase b' = SReading e m' 0))"
proof -
  note s = bus_reply_state [OF assms(1)]
  let ?k = "unat (RxSize b)"
  have k: "0 < ?k" "RxSize b \<noteq> 0" using s by (auto simp: unat_gt_0)
  show ?thesis
  proof (cases "?k \<le> 32")
    case True
    let ?b = "b\<lparr>RxOffset := RxSize b\<rparr>"
    have "hands_out (answering_bus serve) SMBUS_CMD_READ Block m (b, e) (?b, e)"
      using test_first_read_single [OF refl k(1) True, of Block] s True by (simp add: hands_out_def copy_mem_def)
    moreover have "bus_phase (?b, e) = SIdle e"
      using s k True by (simp add: bus_reading_def Let_def)
    ultimately show ?thesis by blast
  next
    case False
    let ?b = "b\<lparr>RxOffset := 30, RxBlock := 0\<rparr>" and ?y = "take 30 (RxBuffer b)"
    have y30: "length ?y = 30" "?y = take 30 m" using s False by (simp_all add: min_def)
    have y: "length ?y = 30" "m = ?y @ drop 30 m" unfolding y30(2) using y30 by simp_all
    have wide: "unat (RxSize b) - 30 \<le> 7936" using s by linarith
    have "hands_out (answering_bus serve) SMBUS_CMD_READ Block ([0, 1] @ ?y) (b, e) (?b, e)"
      using test_first_read_multi [OF refl, of b Block] s False assms(3) y(1) by (simp add: hands_out_def)
    moreover have "bus_phase (?b, e) = SReading e (drop 30 m) 0"
      using s k False wide by (simp add: bus_reading_def Let_def)
    ultimately show ?thesis using y(2) by blast
  qed
qed

lemma answering_next:
  assumes "bus_phase (b, e) = SReading e m k" "64 \<le> length Block"
  shows "\<exists>x b'. hands_out (answering_bus serve) SMBUS_CMD_MULT_READ Block x (b, e) b' \<and>
      (x = 0xFF # m \<and> bus_phase b' = SIdle e \<or>
       (k \<noteq> 0xFF \<and> (\<exists>y m'. m = y @ m' \<and> x = k # y \<and> bus_phase b' = SReading e m' (k + 1))))"
proof -
  note s = bus_reading_state [OF assms(1)]
  define n o' where "n = unat (RxSize b)" and "o' = unat (RxOffset b)"
  define rs where "rs = min 31 (n - o')"
  let ?y = "take rs (drop o' (RxBuffer b))"
  let ?b = "b\<lparr>RxBlock := RxBlock b + 1, RxOffset := of_nat (o' + rs)\<rparr>"
  have rs: "rs \<le> n - o'" "rs \<le> 31" by (simp_all add: rs_def)
  have so: "0 < o'" "o' \<le> n" "n \<le> 254" using s by (simp_all add: n_def o'_def)
  have m: "m = take (n - o') (drop o' (RxBuffer b))" using s by (simp add: n_def o'_def drop_take)
  have len: "length (RxBuffer b) = 1024" using s by simp
  have y: "length ?y = rs" "?y = take rs m"
    using rs so len by (simp, subst m, simp)
  then have split: "m = ?y @ drop rs m" by simp
  have u: "unat (RxOffset ?b) = o' + rs" using rs so by (simp add: unat_of_nat del: of_nat_add)
  have "hands_out (answering_bus serve) SMBUS_CMD_MULT_READ Block (k # ?y) (b, e) (?b, e)"
    using test_mult_read [OF n_def [symmetric] _ o'_def [symmetric] so(1,2) assms(2) _ rs_def] s so y(1) rs(2)
    by (simp add: hands_out_def copy_mem_poke [unfolded One_nat_def] del: length_take length_drop)
  moreover have "k = 0xFF \<longrightarrow> ?y = m \<and> bus_phase (?b, e) = SIdle e"
  proof
    assume k: "k = 0xFF"
    then have "rs = n - o'" using s by (simp add: rs_def n_def o'_def)
    then have "?y = m" "unat (RxOffset ?b) = unat (RxSize b)"
      using y s u so by (simp_all add: n_def o'_def)
    then show "?y = m \<and> bus_phase (?b, e) = SIdle e"
      using s so k by (simp add: bus_reading_def Let_def)
  qed
  moreover have "k \<noteq> 0xFF \<longrightarrow> bus_phase (?b, e) = SReading e (drop rs m) (k + 1)"
  proof
    assume k: "k \<noteq> 0xFF"
    then have k1: "unat (k + 1) = Suc (unat k)" "k + 1 \<noteq> 0" by (auto simp: unat_plus_one_u8 word_unat_eq_iff)
    have "n - (o' + rs) \<le> 31 * (256 - Suc (unat k))"
    proof (cases "n - o' \<le> 31")
      case False
      moreover have "n - o' \<le> 31 * (256 - unat k)" using s by (simp add: n_def o'_def)
      ultimately show ?thesis using u8_bound [of k] by (simp add: rs_def)
    qed (simp add: rs_def)
    then show "bus_phase (?b, e) = SReading e (drop rs m) (k + 1)"
      using s so rs k1 u by (auto simp: bus_reading_def Let_def n_def o'_def add.commute)
  qed
  ultimately show ?thesis using split by metis
qed

interpretation answering: ssif_bmc "answering_bus serve" bus_phase serve for serve :: "'m server"
proof (unfold_locales, goal_cases)
  case (1 n d d' c be)
  then show ?case by (cases be) (simp add: answering_bus_def test_write_reads [OF 1])
next
  case (4 be e x m e')
  then show ?case
    using bus_idle [of "fst be" "snd be" e] answering_last [of "fst be" x SMBUS_CMD_WRITE serve e m e'] by (cases be) simp
next
  case (5 be e x)
  then show ?case
    using bus_idle [of "fst be" "snd be" e] answering_part [of "fst be" x SMBUS_CMD_MULT_WRITE_START serve e]
    by (cases be) simp
next
  case (6 be e w x)
  then show ?case
    using bus_writing_state [of "fst be" "snd be" e w]
      answering_part [of "fst be" x SMBUS_CMD_MULT_WRITE_MIDDLE serve e] by (cases be) simp
next
  case (7 be e w x m e')
  then show ?case
    using bus_writing_state [of "fst be" "snd be" e w]
      answering_last [of "fst be" x SMBUS_CMD_MULT_WRITE_END serve e m e'] by (cases be) simp
next
  case (8 be e m Block)
  then have be: "be = (fst be, e)" using bus_reply_state [of "fst be" "snd be" e m] by (cases be) simp
  have "bus_phase (fst be, e) = SReply e m" using 8(1) be by metis
  from answering_first [OF this 8(2,3), of serve] show ?case using be by metis
next
  case (9 be e m k Block)
  then have be: "be = (fst be, e)" using bus_reading_state [of "fst be" "snd be" e m k] by (cases be) simp
  have "bus_phase (fst be, e) = SReading e m k" using 9(1) be by metis
  from answering_next [OF this 9(2), of serve] show ?case using be by metis
qed simp_all

subsection \<open>The stack\<close>

abbreviation dxe_submit_ssif ::
    "ipmi_hdr \<Rightarrow> 'b smbus_lib \<Rightarrow> bytes \<Rightarrow> ('p, 'b ipmi_bmc_instance) locate_fn \<Rightarrow> u8 \<Rightarrow>
       ('p, 'b ipmi_bmc_instance) base_lib submit" where
  "dxe_submit_ssif M bus BlockBuffer locate R \<equiv>
     dxe_submit_link M (SendDataToBmcPort_Ssif bus) (ReceiveBmcDataFromPort_Ssif bus BlockBuffer) locate R"

text \<open>C7 The layers composed, over SMBus: a command of a DXE client reaches every BMC that keeps to the
  SSIF protocol as header, command and data, in one block or in several; when the BMC answers with
  the normal completion code, in one block or in several, the client gets EFI_SUCCESS, the
  completion code and data in its buffer with the memory behind them unchanged, and their number;
  bus and driver are again in a state from which the next command can start.  The only replies
  left out are those whose header is the mark of a longer message.\<close>

theorem ssif_stack_reply:
  assumes "ssif_bmc bus ph serve" "located locate p b" "inst_ok (System b)" "ph (Port (System b)) = SIdle e" "0 < R"
    and "length d \<le> 252" "case cd of None \<Rightarrow> d = [] | Some d' \<Rightarrow> d' = d"
    and "serve ([hdr_byte 0 nf, c] @ d) e = Some ([h, c'] @ r, e')" "r \<noteq> []" "hd r = cc_of M IPMI_COMP_CODE_NORMAL"
    and "length r \<le> 252" "length r \<le> unat sz" "unat sz < 256" "h \<noteq> 0 \<or> c' \<noteq> 1" "64 \<le> length BlockBuffer"
  shows "\<exists>b'. dxe_submit_ssif M bus BlockBuffer locate R nf c cd (of_nat (length d)) buf sz b =
      Some ((EFI_SUCCESS, copy_mem buf 0 r, of_nat (length r)), b') \<and>
    inst_ok (System b') \<and> ph (Port (System b')) = SIdle e' \<and> BmcStatus (System b') = BMC_OK \<and> located locate p b'"
proof -
  let ?P = "IpmiTimeoutPeriod (System b)"
  have "link_ready (\<lambda>b. is_SIdle (ph b)) ?P (System b)" "ssif_dev (ph (Port (System b))) = e"
    "ssif_sound ([h, c'] @ r)"
    using assms(3,4,14) by (simp_all add: link_ready_def ssif_sound_def)
  with bmc_link.stack_reply [OF ssif_bmc.ssif_link [OF assms(1,15)] assms(2) _ assms(5-7) _ assms(9,11) _ assms(10,12,13)]
    assms(8)
  obtain b' where b': "dxe_submit_ssif M bus BlockBuffer locate R nf c cd (of_nat (length d)) buf sz b =
      Some ((EFI_SUCCESS, copy_mem buf 0 r, of_nat (length r)), b')"
    "link_ready (\<lambda>b. is_SIdle (ph b)) ?P (System b')" "ssif_dev (ph (Port (System b'))) = e'"
    "BmcStatus (System b') = BMC_OK" "mIpmiTransport b' = Some p"
    by blast
  then show ?thesis by (auto simp: link_ready_def located_def is_SIdle_def)
qed

text \<open>A BMC that answers with forty bytes, which takes the library several blocks.\<close>

theorem ssif_stack_reply_witness:
  "\<exists>b'. dxe_submit_ssif ipmi_v2 (answering_bus (\<lambda>m e. Some (take 2 m @ 0 # replicate 40 7, e + 1))) (zero_mem 64)
      (installed ()) 3 0x2E 1 (Some [4, 5]) 2 (replicate 50 9) 50
      \<lparr>mIpmiTransport = None, System = \<lparr>Signature = 0, IpmiTimeoutPeriod = 0, SlaveAddress = 0,
         TempData = zero_mem MAX_TEMP_DATA, BmcStatus = BMC_OK, ErrorStatus = 0, SoftErrorCount = 0,
         Port = (test_reset, 41 :: nat)\<rparr>\<rparr> =
      Some ((EFI_SUCCESS, 0 # replicate 40 7 @ replicate 9 9, 41), b') \<and>
    located (installed ()) () b' \<and> bus_phase (Port (System b')) = SIdle 42"
proof -
  let ?i = "\<lparr>Signature = 0, IpmiTimeoutPeriod = 0, SlaveAddress = 0, TempData = zero_mem MAX_TEMP_DATA,
    BmcStatus = BMC_OK, ErrorStatus = 0, SoftErrorCount = 0, Port = (test_reset, 41 :: nat)\<rparr>"
  let ?b = "\<lparr>mIpmiTransport = None :: unit option, System = ?i\<rparr>"
  let ?serve = "\<lambda>(m :: bytes) (e :: nat). Some (take 2 m @ 0 # replicate 40 7, e + 1)"
  have "located (installed ()) () ?b" by (rule located_installed) simp
  moreover have "inst_ok ?i" "bus_phase (test_reset, 41 :: nat) = SIdle 41" by (simp_all add: inst_ok_def)
  moreover have "?serve ([hdr_byte 0 0x2E, 1] @ [4, 5]) 41 = Some ([hdr_byte 0 0x2E, 1] @ 0 # replicate 40 7, 42)" by simp
  moreover have "copy_mem (replicate 50 9) 0 (0 # replicate 40 (7 :: u8)) = 0 # replicate 40 7 @ replicate 9 9"
    by (simp add: copy_mem_def)
  ultimately show ?thesis
    using ssif_stack_reply [where bus = "answering_bus ?serve" and p = "()" and b = ?b and R = 3 and d = "[4, 5]"
        and cd = "Some [4, 5]" and nf = "0x2E" and c = 1 and h = "hdr_byte 0 0x2E" and c' = 1 and e = "41 :: nat"
        and e' = 42 and r = "0 # replicate 40 7" and M = ipmi_v2 and sz = 50 and buf = "replicate 50 9"
        and BlockBuffer = "zero_mem 64", OF answering.ssif_bmc_axioms]
    by (simp add: hdr_byte_def del: bus_phase.simps) blast
qed

end
