(* ===== verification/Link_Mock.thy ===== *)
theory Link_Mock
  imports Kcs_Stack Ssif_Stack
begin

section \<open>The mock behind a real bus\<close>

text \<open>
  The BMC of the test package at the far end of a link: its message handling, \<open>MockIpmiCommand\<close> and
  \<open>MockIpmiResponse\<close>, as the \<open>serve\<close> of a \<open>bmc_link\<close>.  Whatever the link is, the DXE stack over it takes
  the mock through the same steps as the mock base library; so it keeps every contract the feature
  libraries rely on, and their properties hold over the KCS ports and over SMBus.
\<close>

unbundle bit_operations_syntax

definition mock_serve :: "ipmi_hdr \<Rightarrow> mock_bmc server" where
  "mock_serve M msg m =
     do {
       (Status, m1) \<leftarrow> MockIpmiCommand M (msg @ zero_mem (255 - length msg)) (of_nat (length msg)) m;
       ((Status1, Response, Size), m2) \<leftarrow> MockIpmiResponse (zero_mem 255) 254 m1;
       Some (take (unat Size) Response, m2)
     }"

lemma mock_serve_reply:
  assumes "hdr_ok M" "mock_reply M nf c d m = Some (r, m')" "mock_ok M m" "nf < 64" "length d \<le> 252"
  shows "mock_serve M ([hdr_byte 0 nf, c] @ d) m = Some ([hdr_byte 0 (nf OR 1), c] @ r, m')"
    "r \<noteq> []" "length r \<le> 250" "mock_ok M m'"
proof -
  let ?F = "([hdr_byte 0 nf, c] @ d) @ zero_mem (255 - length ([hdr_byte 0 nf, c] @ d))"
  have F: "take (length d + 2) ?F = [hdr_byte 0 nf, c] @ d" "length ?F = 255" "length d \<le> 253"
    using assms(5) by (simp_all add: zero_mem_def)
  obtain m1 where m1: "MockIpmiCommand M ?F (of_nat (length d + 2)) m = Some (EFI_SUCCESS, m1)"
    "mResponseValid m1" "unat (mResponseSize m1) = 2 + length r"
    "take (2 + length r) (mResponse m1) = [hdr_byte 0 (nf OR 1), c] @ r"
    "m1\<lparr>mResponse := zero_mem 252, mResponseValid := False\<rparr> = m'"
    using mock_command_reply [OF assms(1-4) F(3,1,2)] by metis
  show r: "r \<noteq> []" "length r \<le> 250" "mock_ok M m'" using mock_reply_ok [OF assms(2,3)] assms(5) by auto
  have "mResponseSize m1 < 254" "mResponseSize m1 \<noteq> 0"
    using m1(3) r by (auto simp: word_less_nat_alt word_unat_eq_iff)
  then have "MockIpmiResponse (zero_mem 255) 254 m1 =
      Some ((EFI_SUCCESS, copy_mem (zero_mem 255) 0 ([hdr_byte 0 (nf OR 1), c] @ r), mResponseSize m1), m')"
    using m1 r by (simp add: MockIpmiResponse_eq)
  then show "mock_serve M ([hdr_byte 0 nf, c] @ d) m = Some ([hdr_byte 0 (nf OR 1), c] @ r, m')"
    using m1(1,3) by (simp add: mock_serve_def copy_mem_def add.commute)
qed

lemma answer_header: "nf < 64 \<Longrightarrow> hdr_byte 0 (nf OR 1) \<noteq> 0"
proof
  assume "nf < 64" "hdr_byte 0 (nf OR 1) = 0"
  then have "\<not> bit (hdr_byte 0 (nf OR 1)) 2" by simp
  then show False by (simp add: hdr_byte_def bit_simps)
qed

locale mock_link = bmc_link send recv idle dev pending sound "mock_serve M" P
  for send :: "'t send_fn" and recv :: "'t recv_fn" and idle :: "'t \<Rightarrow> bool" and dev :: "'t \<Rightarrow> mock_bmc"
    and pending sound M P +
  assumes sound: "m ! 0 \<noteq> 0 \<Longrightarrow> sound m" and hdr: "hdr_ok M"
begin

lemma agrees:
  assumes "located locate p b" "link_ready idle P (System b)" "mock_ok M (dev (Port (System b)))" "0 < R"
    and "mock_reply M nf c d (dev (Port (System b))) = Some (r, m')" "nf < 64" "length d \<le> 252"
    and "case cd of None \<Rightarrow> d = [] | Some d' \<Rightarrow> d' = d" "length r \<le> unat sz" "unat sz < 256"
  shows "\<exists>st buf' sz' b'.
      dxe_submit_link M send recv locate R nf c cd (of_nat (length d)) buf sz b = Some ((st, buf', sz'), b') \<and>
      dev (Port (System b')) = m' \<and> link_ready idle P (System b') \<and> mIpmiTransport b' = Some p \<and> mock_ok M m' \<and>
      (if hd r = cc_of M IPMI_COMP_CODE_NORMAL
       then st = EFI_SUCCESS \<and> buf' = copy_mem buf 0 r \<and> sz' = of_nat (length r)
       else buf' = buf \<and> st = refusal_status M (BmcStatus (System b)) (hd r))"
proof -
  note serve = mock_serve_reply [OF hdr assms(5,3,6,7)]
  have r: "length r \<le> 252" "sound ([hdr_byte 0 (nf OR 1), c] @ r)"
    using serve(3) answer_header [OF assms(6)] by (auto intro: sound)
  show ?thesis
  proof (cases "hd r = cc_of M IPMI_COMP_CODE_NORMAL")
    case True
    then show ?thesis
      using stack_reply [OF assms(1,2,4,7,8) serve(1,2) r True assms(9,10)] serve(4) by fastforce
  next
    case False
    then show ?thesis
      using stack_refused [OF assms(1,2,4,7,8) serve(1,2) r False] serve(4) by fastforce
  qed
qed

lemma provides:
  assumes "0 < R" "distinct (map fst (MockHandlers M))"
  shows "mock_provider M (dxe_submit_link M send recv (installed p) R) (\<lambda>b. dev (Port (System b)))
    (\<lambda>b. mIpmiTransport b \<in> {None, Some p} \<and> link_ready idle P (System b) \<and> mock_ok M (dev (Port (System b))))"
proof (unfold_locales, goal_cases)
  case (4 b nf c d r m' cd sz buf)
  then have "located (installed p) p b" by (intro located_installed) simp
  from agrees [OF this _ _ assms(1) 4(2,4-8)] 4(1,3) show ?case by fastforce
next
  case (5 b nf c d r m' cd sz buf)
  then have "located (installed p) p b" by (intro located_installed) simp
  from agrees [OF this _ _ assms(1) 5(2,4-8)] 5(1,3) show ?case by (fastforce simp: refusal_status_error)
qed (use hdr assms(2) in simp_all)

end

subsection \<open>Any sequence of requests\<close>

text \<open>The mock base library on a request, as a function of the reply.\<close>

lemma mock_command_None:
  assumes "mock_reply M nf c d m = None" "mock_ok M m" "nf < 64" "length d \<le> 253"
  shows "MockIpmiCommand M (copy_mem (copy_mem (zero_mem 255) 0 [hdr_byte 0 nf, c]) 2 d) (of_nat (length d + 2)) m = None"
proof -
  note rq = mock_request [OF assms(4), of "hdr_byte 0 nf" c]
  have sz: "unat (of_nat (length d + 2) :: u8) = length d + 2" "(of_nat (length d + 2) :: u8) - 2 = of_nat (length d)"
    using assms(4) unat_of_nat_u8 [of "length d + 2"] by simp_all
  have mr: "mResponse m = zero_mem 252" using assms(2) by (simp add: mock_ok_def mock_sizes)
  have RD: "poke (drop 2 (zero_mem 252)) 0 x = x # zero_mem 249" for x :: u8 by (simp add: poke_0 zero_mem_def)
  have z: "hdr_lun (zero_mem 252 ! 0) = 0" by (simp add: hdr_lun_def zero_mem_def)
  obtain h where h: "map_of (MockHandlers M) (nf, c) = Some h"
    using assms(1) by (auto simp: mock_reply_def split: option.splits)
  let ?call = "h (d @ zero_mem (253 - length d)) (of_nat (length d))
      (cc_of M IPMI_COMP_CODE_INVALID_COMMAND # zero_mem 249) 250 (mock_begin M nf c m)"
  consider "?call = None" | r1 m1 where "?call = Some ((r1, 0), m1)"
  proof (cases ?call)
    case (Some x)
    obtain r1 k m1 where x: "x = ((r1, k), m1)" by (cases x) auto
    have "k = 0" using assms(1) h Some x by (cases "k = 0") (simp_all add: mock_reply_def word_gt_0)
    then show thesis using that Some x by blast
  qed (rule that)
  then show ?thesis
    using h assms(3) sz
    by cases (simp_all add: MockIpmiCommand_def Let_def rq mr RD z mock_sizes mock_begin_def ASSERT_def del: of_nat_add)
qed

lemma mock_base_run:
  assumes "hdr_ok M" "mock_ok M m" "nf < 64" "length d \<le> 253" "case cd of None \<Rightarrow> d = [] | Some d' \<Rightarrow> d' = d"
    and run: "IpmiSubmitCommand_Mock M nf c cd (of_nat (length d)) buf sz m = Some ((st, buf', sz'), m')"
  shows "\<exists>r. mock_reply M nf c d m = Some (r, m') \<and> st = EFI_SUCCESS \<and> buf' = copy_mem buf 0 r \<and>
    sz' = of_nat (length r) \<and> length r \<le> unat sz"
proof -
  let ?R = "copy_mem (copy_mem (zero_mem 255) 0 [hdr_byte 0 nf, c]) 2 d"
  have n: "unat (of_nat (length d) :: u32) = length d" using assms(4) by (simp add: unat_of_nat)
  have data: "(case cd of None \<Rightarrow> [] | Some d' \<Rightarrow> take (unat (of_nat (length d) :: u32)) d') = d"
    using assms(5) n by (auto split: option.splits)
  have size: "ucast (of_nat (length d) + 2 :: u32) = (of_nat (length d + 2) :: u8)"
    using assms(4) by (simp add: word_unat_eq_iff unsigned_ucast_eq unat_word_ariths unat_of_nat take_bit_eq_mod)
  have "mock_reply M nf c d m \<noteq> None"
  proof
    assume "mock_reply M nf c d m = None"
    from mock_command_None [OF this assms(2-4)] run show False
      by (simp add: IpmiSubmitCommand_Mock_def Let_def data size MOCK_BASE_IPMI_BUFFER_SIZE_def del: of_nat_add)
  qed
  then obtain r m1 where reply: "mock_reply M nf c d m = Some (r, m1)" by auto
  show ?thesis
    using mock_base_result [OF assms(1) reply assms(2-5), of buf sz] run reply by (auto split: if_splits)
qed

record ipmi_request =
  rq_NetFunction :: u8
  rq_Command :: u8
  rq_Data :: "bytes option"
  rq_Response :: bytes
  rq_Size :: u32

definition rq_bytes :: "ipmi_request \<Rightarrow> bytes" where
  "rq_bytes rq = (case rq_Data rq of None \<Rightarrow> [] | Some d \<Rightarrow> d)"

text \<open>What fits the protocol: a net function of six bits, data and response the driver's buffer can hold.\<close>

definition request_ok :: "ipmi_request \<Rightarrow> bool" where
  "request_ok rq \<longleftrightarrow> rq_NetFunction rq < 64 \<and> length (rq_bytes rq) \<le> 252 \<and> unat (rq_Size rq) < 256"

type_synonym ipmi_answer = "efi_status \<times> bytes \<times> u32"

primrec client_run :: "'s submit \<Rightarrow> ipmi_request list \<Rightarrow> ('s, ipmi_answer list) op" where
  "client_run submit [] s = Some ([], s)"
| "client_run submit (rq # rqs) s =
     do {
       (a, s1) \<leftarrow> submit (rq_NetFunction rq) (rq_Command rq) (rq_Data rq) (of_nat (length (rq_bytes rq)))
          (rq_Response rq) (rq_Size rq) s;
       (as, s2) \<leftarrow> client_run submit rqs s1;
       Some (a # as, s2)
     }"

text \<open>\<open>a\<close> from the mock base library, \<open>a'\<close> from the DXE stack.\<close>

definition answer_agrees :: "ipmi_hdr \<Rightarrow> ipmi_request \<Rightarrow> ipmi_answer \<Rightarrow> ipmi_answer \<Rightarrow> bool" where
  "answer_agrees M rq a a' \<longleftrightarrow>
     (if hd (fst (snd a)) = cc_of M IPMI_COMP_CODE_NORMAL then a' = a
      else EFI_ERROR (fst a') \<and> fst (snd a') = rq_Response rq)"

fun answers_agree :: "ipmi_hdr \<Rightarrow> ipmi_request list \<Rightarrow> ipmi_answer list \<Rightarrow> ipmi_answer list \<Rightarrow> bool" where
  "answers_agree M [] [] [] = True"
| "answers_agree M (rq # rqs) (a # as) (a' # as') = (answer_agrees M rq a a' \<and> answers_agree M rqs as as')"
| "answers_agree M _ _ _ = False"

context mock_link
begin

lemma client_step:
  assumes "located locate p b" "link_ready idle P (System b)" "mock_ok M (dev (Port (System b)))" "0 < R" "request_ok rq"
    and "IpmiSubmitCommand_Mock M (rq_NetFunction rq) (rq_Command rq) (rq_Data rq) (of_nat (length (rq_bytes rq)))
      (rq_Response rq) (rq_Size rq) (dev (Port (System b))) = Some (a, m')"
  shows "\<exists>a' b'. dxe_submit_link M send recv locate R (rq_NetFunction rq) (rq_Command rq) (rq_Data rq)
      (of_nat (length (rq_bytes rq))) (rq_Response rq) (rq_Size rq) b = Some (a', b') \<and> answer_agrees M rq a a' \<and>
    located locate p b' \<and> link_ready idle P (System b') \<and> mock_ok M m' \<and> dev (Port (System b')) = m'"
proof -
  obtain st R0 z where a: "a = (st, R0, z)" by (cases a)
  have rq: "rq_NetFunction rq < 64" "length (rq_bytes rq) \<le> 252" "unat (rq_Size rq) < 256"
    using assms(5) by (simp_all add: request_ok_def)
  have d: "case rq_Data rq of None \<Rightarrow> rq_bytes rq = [] | Some d' \<Rightarrow> d' = rq_bytes rq"
    by (simp add: rq_bytes_def split: option.split)
  have short: "length (rq_bytes rq) \<le> 253" using rq(2) by simp
  obtain r where r: "mock_reply M (rq_NetFunction rq) (rq_Command rq) (rq_bytes rq) (dev (Port (System b))) = Some (r, m')"
    "st = EFI_SUCCESS" "R0 = copy_mem (rq_Response rq) 0 r" "z = of_nat (length r)" "length r \<le> unat (rq_Size rq)"
    using mock_base_run [OF hdr assms(3) rq(1) short d assms(6) [unfolded a]] by blast
  have "r \<noteq> []" using mock_reply_ok [OF r(1) assms(3)] rq(2) by auto
  then have hd: "hd R0 = hd r" using r(3) by (simp add: copy_mem_def)
  obtain st' buf' sz' b' where "dxe_submit_link M send recv locate R (rq_NetFunction rq) (rq_Command rq) (rq_Data rq)
      (of_nat (length (rq_bytes rq))) (rq_Response rq) (rq_Size rq) b = Some ((st', buf', sz'), b')"
    "dev (Port (System b')) = m'" "link_ready idle P (System b')" "mIpmiTransport b' = Some p" "mock_ok M m'"
    "if hd r = cc_of M IPMI_COMP_CODE_NORMAL
     then st' = EFI_SUCCESS \<and> buf' = copy_mem (rq_Response rq) 0 r \<and> sz' = of_nat (length r)
     else buf' = rq_Response rq \<and> st' = refusal_status M (BmcStatus (System b)) (hd r)"
    using agrees [OF assms(1-4) r(1) rq(1,2) d r(5) rq(3)] by blast
  then show ?thesis
    using a r(2-4) hd by (auto simp: answer_agrees_def located_def refusal_status_error split: if_splits)
qed

lemma client_agrees:
  assumes "located locate p b" "link_ready idle P (System b)" "mock_ok M (dev (Port (System b)))" "0 < R"
    and "list_all request_ok rqs"
    and "client_run (IpmiSubmitCommand_Mock M) rqs (dev (Port (System b))) = Some (as, m')"
  shows "\<exists>as' b'. client_run (dxe_submit_link M send recv locate R) rqs b = Some (as', b') \<and>
    answers_agree M rqs as as' \<and> dev (Port (System b')) = m' \<and> link_ready idle P (System b') \<and> located locate p b'"
  using assms
proof (induction rqs arbitrary: b as)
  case (Cons rq rqs)
  obtain a as1 m1 where 1: "IpmiSubmitCommand_Mock M (rq_NetFunction rq) (rq_Command rq) (rq_Data rq)
      (of_nat (length (rq_bytes rq))) (rq_Response rq) (rq_Size rq) (dev (Port (System b))) = Some (a, m1)"
    "client_run (IpmiSubmitCommand_Mock M) rqs m1 = Some (as1, m')" "as = a # as1"
    using Cons.prems(6) by (auto simp: bind_eq_Some_conv)
  have ok: "request_ok rq" "list_all request_ok rqs" using Cons.prems(5) by simp_all
  obtain a' b1 where 2: "dxe_submit_link M send recv locate R (rq_NetFunction rq) (rq_Command rq) (rq_Data rq)
      (of_nat (length (rq_bytes rq))) (rq_Response rq) (rq_Size rq) b = Some (a', b1)" "answer_agrees M rq a a'"
    "located locate p b1" "link_ready idle P (System b1)" "mock_ok M m1" "dev (Port (System b1)) = m1"
    using client_step [OF Cons.prems(1-4) ok(1) 1(1)] by blast
  obtain as' b2 where "client_run (dxe_submit_link M send recv locate R) rqs b1 = Some (as', b2)"
    "answers_agree M rqs as1 as'" "dev (Port (System b2)) = m'" "link_ready idle P (System b2)" "located locate p b2"
    using Cons.IH [OF 2(3,4) _ Cons.prems(4) ok(2), of as1] 1(2) 2(5,6) by auto
  then show ?case using 1(3) 2(1,2) by simp
qed simp

end

text \<open>C20 Any client, any link: when a client of the mock base library gets answers to a sequence of
  requests, each within the sizes of the protocol, the same requests through the DXE library, the
  generic driver and a transport that carries messages to the same mock are answered too.  They
  take the mock through the same states, each answer with the normal completion code is the same in
  status, bytes and size, each other one is an error that leaves the caller's memory alone, and the
  stack is ready for more at the end.\<close>

theorem link_client_agrees:
  assumes "mock_link send recv idle dev pending sound M P"
    and "located locate p b" "link_ready idle P (System b)" "mock_ok M (dev (Port (System b)))" "0 < R"
    and "list_all request_ok rqs"
    and "client_run (IpmiSubmitCommand_Mock M) rqs (dev (Port (System b))) = Some (as, m')"
  shows "\<exists>as' b'. client_run (dxe_submit_link M send recv locate R) rqs b = Some (as', b') \<and>
    answers_agree M rqs as as' \<and> dev (Port (System b')) = m' \<and> link_ready idle P (System b') \<and> located locate p b'"
  by (rule mock_link.client_agrees [OF assms])

subsection \<open>The mock behind the KCS ports and behind SMBus\<close>

lemma kcs_mock_link:
  assumes "kcs_bmc hw ph lag (mock_serve M) P" "hdr_ok M"
  shows "mock_link (SendDataToBmcPort_Kcs hw) (ReceiveBmcDataFromPort_Kcs hw) (kcs_idle ph lag P)
    (\<lambda>w. kcs_dev (ph w)) (\<lambda>e m w. ph w = KRead e m \<and> lag w < unat P) (\<lambda>m. True) M P"
  using kcs_bmc.kcs_link [OF assms(1)] assms(2) by (simp add: mock_link_def mock_link_axioms_def)

lemma ssif_mock_link:
  assumes "ssif_bmc bus ph (mock_serve M)" "hdr_ok M" "64 \<le> length BlockBuffer"
  shows "mock_link (SendDataToBmcPort_Ssif bus) (ReceiveBmcDataFromPort_Ssif bus BlockBuffer)
    (\<lambda>b. is_SIdle (ph b)) (\<lambda>b. ssif_dev (ph b)) (\<lambda>e m b. ph b = SReply e m) ssif_sound M P"
  using ssif_bmc.ssif_link [OF assms(1,3), of P] assms(2)
  by (simp add: mock_link_def mock_link_axioms_def ssif_sound_def)

abbreviation submit_over_kcs :: "'p \<Rightarrow> ('p, (mock_bmc kcs_phase \<times> nat) ipmi_bmc_instance) base_lib submit" where
  "submit_over_kcs p \<equiv> dxe_submit_kcs ipmi_v2 (ideal_kcs (mock_serve ipmi_v2)) (installed p) 3"

abbreviation submit_over_ssif :: "'p \<Rightarrow> ('p, (smbus_test \<times> mock_bmc) ipmi_bmc_instance) base_lib submit" where
  "submit_over_ssif p \<equiv> dxe_submit_ssif ipmi_v2 (answering_bus (mock_serve ipmi_v2)) (zero_mem 64) (installed p) 3"

interpretation kcs_mock: mock_link "SendDataToBmcPort_Kcs (ideal_kcs (mock_serve ipmi_v2))"
  "ReceiveBmcDataFromPort_Kcs (ideal_kcs (mock_serve ipmi_v2))" "kcs_idle fst snd 100000" "\<lambda>w. kcs_dev (fst w)"
  "\<lambda>e m w. fst w = KRead e m \<and> snd w < unat (100000 :: u64)" "\<lambda>m. True" ipmi_v2 100000
  by (rule kcs_mock_link [OF ideal_bmc.kcs_bmc_axioms ipmi_v2_ok])

interpretation ssif_mock: mock_link "SendDataToBmcPort_Ssif (answering_bus (mock_serve ipmi_v2))"
  "ReceiveBmcDataFromPort_Ssif (answering_bus (mock_serve ipmi_v2)) (zero_mem 64)" "\<lambda>b. is_SIdle (bus_phase b)"
  "\<lambda>b. ssif_dev (bus_phase b)" "\<lambda>e m b. bus_phase b = SReply e m" ssif_sound ipmi_v2 P for P
  by (rule ssif_mock_link [OF answering.ssif_bmc_axioms ipmi_v2_ok]) simp

text \<open>Both stacks keep the contracts of the feature libraries.\<close>

interpretation kcs_stack: mock_boot ipmi_v2 "submit_over_kcs p" "\<lambda>b. kcs_dev (fst (Port (System b)))"
  "\<lambda>b. mIpmiTransport b \<in> {None, Some p} \<and> link_ready (kcs_idle fst snd 100000) 100000 (System b) \<and>
     mock_ok ipmi_v2 (kcs_dev (fst (Port (System b))))" for p
  by (rule mock_boot.intro [OF kcs_mock.provides]) (simp_all add: v2_commands mock_boot_axioms_def boot_layout_v2)

interpretation ssif_stack: mock_boot ipmi_v2 "submit_over_ssif p" "\<lambda>b. ssif_dev (bus_phase (Port (System b)))"
  "\<lambda>b. mIpmiTransport b \<in> {None, Some p} \<and> link_ready (\<lambda>b. is_SIdle (bus_phase b)) P (System b) \<and>
     mock_ok ipmi_v2 (ssif_dev (bus_phase (Port (System b))))" for p P
  by (rule mock_boot.intro [OF ssif_mock.provides]) (simp_all add: v2_commands mock_boot_axioms_def boot_layout_v2)

text \<open>Over the KCS ports, a watchdog reset and a command the mock does not know: the first is answered
  in the same way through both, the second is the byte 0xC1 through the mock base library and an
  error through the stack.\<close>

definition sample_requests :: "ipmi_request list" where
  "sample_requests =
     [\<lparr>rq_NetFunction = 6, rq_Command = 0x22, rq_Data = None, rq_Response = [7, 7], rq_Size = 2\<rparr>,
      \<lparr>rq_NetFunction = 0x2E, rq_Command = 1, rq_Data = Some [5], rq_Response = [7, 7], rq_Size = 2\<rparr>]"

lemma sample_on_mock:
  assumes "mock_ok ipmi_v2 m"
  shows "\<exists>m'. client_run (IpmiSubmitCommand_Mock ipmi_v2) sample_requests m =
    Some ([(EFI_SUCCESS, [0, 7], 1), (EFI_SUCCESS, [0xC1, 7], 1)], m')"
proof -
  have "length (mWatchdog m) = sizeof ipmi_v2 IPMI_GET_WATCHDOG_TIMER_RESPONSE"
    using assms by (simp add: mock_ok_def mock_data_ok_def)
  from mock_direct.reply_reset_wdt [OF this] obtain m1 where r1: "mock_reply ipmi_v2 6 0x22 [] m = Some ([0], m1)"
    by auto
  have 1: "IpmiSubmitCommand_Mock ipmi_v2 6 0x22 None 0 [7, 7] 2 m = Some ((EFI_SUCCESS, [0, 7], 1), m1)"
    using mock_base_reply [OF ipmi_v2_ok r1 assms, of None 2 "[7, 7]"] by (simp add: copy_mem_def)
  have m1: "mock_ok ipmi_v2 m1" using mock_reply_ok [OF r1 assms] by simp
  obtain m2 where r2: "mock_reply ipmi_v2 0x2E 1 [5] m1 = Some ([0xC1], m2)"
    by (simp add: mock_reply_def MockHandlers_def)
  have "IpmiSubmitCommand_Mock ipmi_v2 0x2E 1 (Some [5]) 1 [7, 7] 2 m1 = Some ((EFI_SUCCESS, [0xC1, 7], 1), m2)"
    using mock_base_reply [OF ipmi_v2_ok r2 m1, of "Some [5]" 2 "[7, 7]"] by (simp add: copy_mem_def)
  with 1 show ?thesis by (simp add: sample_requests_def rq_bytes_def)
qed

theorem link_client_agrees_witness:
  "\<exists>st z b'. client_run (submit_over_kcs ()) sample_requests
      \<lparr>mIpmiTransport = None, System = \<lparr>Signature = 0, IpmiTimeoutPeriod = 100000, SlaveAddress = 0,
         TempData = zero_mem MAX_TEMP_DATA, BmcStatus = BMC_OK, ErrorStatus = 0, SoftErrorCount = 0,
         Port = (KIdle (mock_reset ipmi_v2), 7)\<rparr>\<rparr> =
      Some ([(EFI_SUCCESS, [0, 7], 1), (st, [7, 7], z)], b') \<and> EFI_ERROR st"
proof -
  let ?i = "\<lparr>Signature = 0, IpmiTimeoutPeriod = 100000, SlaveAddress = 0, TempData = zero_mem MAX_TEMP_DATA,
    BmcStatus = BMC_OK, ErrorStatus = 0, SoftErrorCount = 0, Port = (KIdle (mock_reset ipmi_v2), 7 :: nat)\<rparr>"
  let ?b = "\<lparr>mIpmiTransport = None :: unit option, System = ?i\<rparr>"
  have "located (installed ()) () ?b" by (rule located_installed) simp
  moreover have "link_ready (kcs_idle fst snd 100000) 100000 (System ?b)"
    by (simp add: link_ready_def inst_ok_def kcs_idle_def)
  moreover have "list_all request_ok sample_requests" by (simp add: sample_requests_def request_ok_def rq_bytes_def)
  moreover obtain m' where "client_run (IpmiSubmitCommand_Mock ipmi_v2) sample_requests (mock_reset ipmi_v2) =
      Some ([(EFI_SUCCESS, [0, 7], 1), (EFI_SUCCESS, [0xC1, 7], 1)], m')"
    using sample_on_mock [OF mock_reset_ok] by blast
  ultimately obtain as' b' where run: "client_run (submit_over_kcs ()) sample_requests ?b = Some (as', b')"
    "answers_agree ipmi_v2 sample_requests [(EFI_SUCCESS, [0, 7], 1), (EFI_SUCCESS, [0xC1, 7], 1)] as'"
    using link_client_agrees [OF kcs_mock.mock_link_axioms, of "installed ()" "()" ?b 3 sample_requests] by auto
  from run(2) obtain a1 a2 where "as' = [a1, a2]"
    by (auto simp: sample_requests_def elim!: answers_agree.elims)
  with run show ?thesis
    by (cases a2) (auto simp: sample_requests_def answer_agrees_def)
qed

end
