(* ===== verification/Unit_Tests.thy ===== *)
theory Unit_Tests
  imports Watchdog Boot_Props Power_State
begin

section \<open>The unit tests of the libraries\<close>

text \<open>
  The host tests of the repository as definitions over the model: \<open>WatchdogUnitTest\<close>,
  \<open>BootOptionUnitTest\<close> and \<open>SelUnitTest\<close> over the mock BMC, and the tests of the power restore
  policy over their mock routines.  A test is a function of the state of the mock; it ends in
  \<open>None\<close> when an assertion of the test fails or the code under test stops.  \<open>junk n\<close> are the \<open>n\<close>
  bytes of an uninitialised local variable.
\<close>

unbundle bit_operations_syntax

type_synonym 's unit_test = "'s \<Rightarrow> 's option"

abbreviation (input) UT_ASSERT :: "bool \<Rightarrow> unit option" where
  "UT_ASSERT \<equiv> ASSERT"

text \<open>\<open>RunAllTestSuites\<close>: the tests in the order in which they were added, each with its clean up.\<close>

primrec run_tests :: "('s unit_test \<times> ('s \<Rightarrow> 's)) list \<Rightarrow> 's unit_test" where
  "run_tests [] s = Some s"
| "run_tests (t # ts) s = do { s1 \<leftarrow> fst t s; run_tests ts (snd t s1) }"

subsection \<open>Watchdog\<close>

definition ResetTestState_Watchdog :: "ipmi_hdr \<Rightarrow> mock_bmc \<Rightarrow> mock_bmc" where
  "ResetTestState_Watchdog M m = m\<lparr>mWatchdog := zero_mem (sizeof M IPMI_GET_WATCHDOG_TIMER_RESPONSE)\<rparr>"

definition TestStartWatchdog :: "ipmi_hdr \<Rightarrow> (nat \<Rightarrow> bytes) \<Rightarrow> u8 \<Rightarrow> mock_bmc unit_test" where
  "TestStartWatchdog M junk Cc0 m =
     do {
       (Status, m1) \<leftarrow> IpmiEnableWatchdogTimer M (IpmiSubmitCommand_Mock M)
          (junk (sizeof M IPMI_GET_WATCHDOG_TIMER_RESPONSE)) Cc0
          (val_of M IPMI_WATCHDOG_TIMER_BIOS_FRB2) (val_of M IPMI_WATCHDOG_TIMER_ACTION_HARD_RESET)
          (val_of M IPMI_WATCHDOG_TIMER_EXPIRATION_FLAG_BIOS_FRB2) 600 m;
       UT_ASSERT (Status = EFI_SUCCESS);
       UT_ASSERT (fget M 0 GetWdt_InitialCountdownValue (mWatchdog m1) = 6000);
       UT_ASSERT (fget M 0 GetWdt_TimeoutAction (mWatchdog m1) =
                  unat (val_of M IPMI_WATCHDOG_TIMER_ACTION_HARD_RESET));
       UT_ASSERT (fget M 0 GetWdt_TimerRunning (mWatchdog m1) = 1);
       Some m1
     }"

definition TestStopWatchdog :: "ipmi_hdr \<Rightarrow> (nat \<Rightarrow> bytes) \<Rightarrow> u8 \<Rightarrow> mock_bmc unit_test" where
  "TestStopWatchdog M junk Cc0 m =
     do {
       (Status, m1) \<leftarrow> IpmiEnableWatchdogTimer M (IpmiSubmitCommand_Mock M)
          (junk (sizeof M IPMI_GET_WATCHDOG_TIMER_RESPONSE)) Cc0
          (val_of M IPMI_WATCHDOG_TIMER_BIOS_FRB2) (val_of M IPMI_WATCHDOG_TIMER_ACTION_HARD_RESET)
          (val_of M IPMI_WATCHDOG_TIMER_EXPIRATION_FLAG_BIOS_FRB2) 600 m;
       UT_ASSERT (Status = EFI_SUCCESS);
       UT_ASSERT (fget M 0 GetWdt_TimerRunning (mWatchdog m1) = 1);
       (Ignored, m2) \<leftarrow> IpmiDisableWatchdogTimer M (IpmiSubmitCommand_Mock M)
          (junk (sizeof M IPMI_GET_WATCHDOG_TIMER_RESPONSE)) Cc0
          (val_of M IPMI_WATCHDOG_TIMER_BIOS_FRB2) (val_of M IPMI_WATCHDOG_TIMER_ACTION_HARD_RESET) m1;
       UT_ASSERT (Status = EFI_SUCCESS);
       UT_ASSERT (fget M 0 GetWdt_TimerRunning (mWatchdog m2) = 0);
       Some m2
     }"

definition IpmiWatchdogTestMain :: "ipmi_hdr \<Rightarrow> (nat \<Rightarrow> bytes) \<Rightarrow> u8 \<Rightarrow> mock_bmc unit_test" where
  "IpmiWatchdogTestMain M junk Cc0 =
     run_tests [(TestStartWatchdog M junk Cc0, ResetTestState_Watchdog M),
                (TestStopWatchdog M junk Cc0, ResetTestState_Watchdog M)]"

subsection \<open>Boot options\<close>

definition INVALID_SELECTOR :: nat where "INVALID_SELECTOR = 0xFFFF"

definition BIOS_ACKED_VALUE :: "ipmi_hdr \<Rightarrow> u8" where
  "BIOS_ACKED_VALUE M = 0xFF AND NOT (val_of M BOOT_OPTION_HANDLED_BY_BIOS)"

definition ResetTestState_Boot :: "ipmi_hdr \<Rightarrow> mock_bmc \<Rightarrow> mock_bmc" where
  "ResetTestState_Boot M m =
     m\<lparr>mBootFlags := zero_mem (sizeof M IPMI_BOOT_OPTIONS_RESPONSE_PARAMETER_5), mBootOptionAcks := 0xFF\<rparr>"

text \<open>Assignments to members of \<open>mBootFlags\<close>.\<close>

definition set_mBootFlags :: "ipmi_hdr \<Rightarrow> (ipmi_field \<times> nat) list \<Rightarrow> mock_bmc \<Rightarrow> mock_bmc" where
  "set_mBootFlags M fvs m = m\<lparr>mBootFlags := fputs M fvs (mBootFlags m)\<rparr>"

text \<open>One question, with the assertions on the status and on the selector.\<close>

definition ask_boot_device :: "ipmi_hdr \<Rightarrow> nat \<Rightarrow> nat \<Rightarrow> mock_bmc unit_test" where
  "ask_boot_device M Selector0 expected m =
     do {
       ((Status, Selector), m1) \<leftarrow> IpmiGetBootDevice M (IpmiSubmitCommand_Mock M) (Some Selector0) m;
       UT_ASSERT (Status = EFI_SUCCESS);
       UT_ASSERT (Selector = Some expected);
       Some m1
     }"

definition TestGetBootOptionNone :: "ipmi_hdr \<Rightarrow> mock_bmc unit_test" where
  "TestGetBootOptionNone M m =
     do {
       m1 \<leftarrow> ask_boot_device M INVALID_SELECTOR 0 m;
       UT_ASSERT (mBootOptionAcks m1 = BIOS_ACKED_VALUE M);
       Some m1
     }"

definition TestGetBootOptionInvalid :: "ipmi_hdr \<Rightarrow> mock_bmc unit_test" where
  "TestGetBootOptionInvalid M m =
     do {
       let m0 = set_mBootFlags M [(Param5_BootFlagValid, 0),
                                  (Param5_BootDeviceSelector, unat (val_of M BootCd))] m;
       m1 \<leftarrow> ask_boot_device M INVALID_SELECTOR 0 m0;
       UT_ASSERT (mBootOptionAcks m1 = BIOS_ACKED_VALUE M);
       Some m1
     }"

definition TestGetBootOptionNoPersistance :: "ipmi_hdr \<Rightarrow> mock_bmc unit_test" where
  "TestGetBootOptionNoPersistance M m =
     do {
       let m0 = set_mBootFlags M [(Param5_BootFlagValid, 1),
                                  (Param5_BootDeviceSelector, unat (val_of M BootCd))] m;
       m1 \<leftarrow> ask_boot_device M INVALID_SELECTOR (unat (val_of M BootCd)) m0;
       m2 \<leftarrow> ask_boot_device M (unat (val_of M BootCd)) 0 m1;
       UT_ASSERT (mBootOptionAcks m2 = BIOS_ACKED_VALUE M);
       Some m2
     }"

primrec ask_boot_device_times :: "ipmi_hdr \<Rightarrow> nat \<Rightarrow> nat \<Rightarrow> nat \<Rightarrow> mock_bmc unit_test" where
  "ask_boot_device_times M 0 Selector0 expected m = Some m"
| "ask_boot_device_times M (Suc n) Selector0 expected m =
     do {
       m1 \<leftarrow> ask_boot_device M Selector0 expected m;
       ask_boot_device_times M n Selector0 expected m1
     }"

definition TestGetBootOptionPersistance :: "ipmi_hdr \<Rightarrow> mock_bmc unit_test" where
  "TestGetBootOptionPersistance M m =
     do {
       let m0 = set_mBootFlags M [(Param5_BootFlagValid, 1), (Param5_PersistentOptions, 1),
                                  (Param5_BootDeviceSelector, unat (val_of M BootCd))] m;
       m1 \<leftarrow> ask_boot_device_times M 5 INVALID_SELECTOR (unat (val_of M BootCd)) m0;
       UT_ASSERT (mBootOptionAcks m1 = BIOS_ACKED_VALUE M);
       Some m1
     }"

definition ask_cmos :: "ipmi_hdr \<Rightarrow> bool \<Rightarrow> bool \<Rightarrow> mock_bmc unit_test" where
  "ask_cmos M CmosClear0 expected m =
     do {
       ((Status, CmosClear), m1) \<leftarrow> IpmiGetCmosClearOption M (IpmiSubmitCommand_Mock M) (Some CmosClear0) m;
       UT_ASSERT (Status = EFI_SUCCESS);
       UT_ASSERT (CmosClear = Some expected);
       Some m1
     }"

definition TestGetBootOptionCmosClear :: "ipmi_hdr \<Rightarrow> mock_bmc unit_test" where
  "TestGetBootOptionCmosClear M m =
     do {
       m1 \<leftarrow> ask_cmos M True False (set_mBootFlags M [(Param5_BootFlagValid, 0), (Param5_CmosClear, 1)] m);
       m2 \<leftarrow> ask_cmos M True False (set_mBootFlags M [(Param5_BootFlagValid, 1), (Param5_CmosClear, 0)] m1);
       m3 \<leftarrow> ask_cmos M False True (set_mBootFlags M [(Param5_BootFlagValid, 1), (Param5_CmosClear, 1)] m2);
       Some m3
     }"

definition BootOptionTestMain :: "ipmi_hdr \<Rightarrow> mock_bmc unit_test" where
  "BootOptionTestMain M =
     run_tests [(TestGetBootOptionNone M, ResetTestState_Boot M),
                (TestGetBootOptionInvalid M, ResetTestState_Boot M),
                (TestGetBootOptionNoPersistance M, ResetTestState_Boot M),
                (TestGetBootOptionPersistance M, ResetTestState_Boot M),
                (TestGetBootOptionCmosClear M, ResetTestState_Boot M)]"

subsection \<open>System event log\<close>

text \<open>Members of a \<open>SEL_RECORD\<close>.\<close>

definition rec_RecordId :: "bytes \<Rightarrow> u16" where "rec_RecordId r = of_nat (le_nat (take 2 r))"
definition rec_RecordType :: "bytes \<Rightarrow> u8" where "rec_RecordType r = r ! 2"
definition rec_System_SensorType :: "bytes \<Rightarrow> u8" where "rec_System_SensorType r = r ! 10"
definition rec_System_SensorNumber :: "bytes \<Rightarrow> u8" where "rec_System_SensorNumber r = r ! 11"
definition rec_System_EventDirType :: "bytes \<Rightarrow> u8" where "rec_System_EventDirType r = r ! 12"
definition rec_System_Data :: "bytes \<Rightarrow> bytes" where "rec_System_Data r = take 3 (drop 13 r)"
definition rec_Oem_Data :: "bytes \<Rightarrow> bytes" where "rec_Oem_Data r = take 6 (drop 10 r)"
definition rec_OemNonTimestamped_Data :: "bytes \<Rightarrow> bytes" where
  "rec_OemNonTimestamped_Data r = take 13 (drop 3 r)"

definition TestSelGetInfo :: "ipmi_hdr \<Rightarrow> 's submit \<Rightarrow> (nat \<Rightarrow> bytes) \<Rightarrow> 's unit_test" where
  "TestSelGetInfo M submit junk s =
     do {
       ((Status, SelInfo), s1) \<leftarrow> SelGetInfo M submit (junk (sizeof M IPMI_GET_SEL_INFO_RESPONSE))
          (Some \<lparr>Version = 0, NumberOfEntries = 0, FreeSpace = 0, LastAddTimeStamp = 0,
                 LastEraseTimeStamp = 0, OperationSupported = 0\<rparr>) s;
       UT_ASSERT (Status = EFI_SUCCESS);
       info \<leftarrow> SelInfo;
       UT_ASSERT (Version info > 0);
       Some s1
     }"

text \<open>The uninitialised \<open>RecordId\<close> of a test.\<close>

definition junk_id :: "(nat \<Rightarrow> bytes) \<Rightarrow> u16" where "junk_id junk = of_nat (le_nat (junk 2))"

definition TestSelAddSystemEntry :: "ipmi_hdr \<Rightarrow> 's submit \<Rightarrow> (nat \<Rightarrow> bytes) \<Rightarrow> 's unit_test" where
  "TestSelAddSystemEntry M submit junk s =
     do {
       ((Status, Id), s1) \<leftarrow> SelAddSystemEntry M submit (junk (sizeof M IPMI_ADD_SEL_ENTRY_RESPONSE))
          (Some (junk_id junk)) 1 2 3 4 5 6 s;
       UT_ASSERT (Status = EFI_SUCCESS);
       RecordId \<leftarrow> Id;
       ((Status, Rec, Next), s2) \<leftarrow> SelGetEntry M submit RecordId (Some (junk SEL_ENTRY_SIZE)) None s1;
       UT_ASSERT (Status = EFI_SUCCESS);
       Record \<leftarrow> Rec;
       UT_ASSERT (rec_RecordId Record = RecordId);
       UT_ASSERT (rec_RecordType Record = val_of M IPMI_SEL_SYSTEM_RECORD);
       UT_ASSERT (rec_System_SensorType Record = 1);
       UT_ASSERT (rec_System_SensorNumber Record = 2);
       UT_ASSERT (rec_System_EventDirType Record = 3);
       UT_ASSERT (rec_System_Data Record ! 0 = 4);
       UT_ASSERT (rec_System_Data Record ! 1 = 5);
       UT_ASSERT (rec_System_Data Record ! 2 = 6);
       Some s2
     }"

definition TestSelAddOemEntry :: "ipmi_hdr \<Rightarrow> 's submit \<Rightarrow> bytes \<Rightarrow> (nat \<Rightarrow> bytes) \<Rightarrow> 's unit_test" where
  "TestSelAddOemEntry M submit PcdIpmiSelOemManufacturerId junk s =
     do {
       let Data = [0x10, 0x11, 0x12, 0x13, 0x14, 0x15];
       let R0 = junk (sizeof M IPMI_ADD_SEL_ENTRY_RESPONSE);
       ((Status, Id0), s1) \<leftarrow> SelAddOemEntry M submit PcdIpmiSelOemManufacturerId R0 None
          (val_of M IPMI_SEL_SYSTEM_RECORD) (Some Data) s;
       UT_ASSERT (Status = EFI_INVALID_PARAMETER);
       ((Status, Id1), s2) \<leftarrow> SelAddOemEntryEx M submit R0 (Some (junk_id junk))
          (val_of M IPMI_SEL_OEM_TIME_STAMP_RECORD_START) None (Some Data) s1;
       UT_ASSERT (Status = EFI_INVALID_PARAMETER);
       ((Status, Id), s3) \<leftarrow> SelAddOemEntry M submit PcdIpmiSelOemManufacturerId R0 Id1
          (val_of M IPMI_SEL_OEM_TIME_STAMP_RECORD_START) (Some Data) s2;
       UT_ASSERT (Status = EFI_SUCCESS);
       RecordId \<leftarrow> Id;
       ((Status, Rec, Next), s4) \<leftarrow> SelGetEntry M submit RecordId (Some (junk SEL_ENTRY_SIZE)) None s3;
       UT_ASSERT (Status = EFI_SUCCESS);
       Record \<leftarrow> Rec;
       UT_ASSERT (rec_RecordId Record = RecordId);
       UT_ASSERT (rec_RecordType Record = val_of M IPMI_SEL_OEM_TIME_STAMP_RECORD_START);
       UT_ASSERT (Data = rec_Oem_Data Record);
       Some s4
     }"

definition TestSelAddOemNoTimestampEntry :: "ipmi_hdr \<Rightarrow> 's submit \<Rightarrow> (nat \<Rightarrow> bytes) \<Rightarrow> 's unit_test" where
  "TestSelAddOemNoTimestampEntry M submit junk s =
     do {
       let Data = [0x10, 0x11, 0x12, 0x13, 0x14, 0x15, 0x16, 0x17, 0x18, 0x19, 0x1A, 0x1B, 0x1C];
       let R0 = junk (sizeof M IPMI_ADD_SEL_ENTRY_RESPONSE);
       ((Status, Id0), s1) \<leftarrow> SelAddOemEntryNoTimestamp M submit R0 None
          (val_of M IPMI_SEL_SYSTEM_RECORD) Data s;
       UT_ASSERT (Status = EFI_INVALID_PARAMETER);
       ((Status, Id), s2) \<leftarrow> SelAddOemEntryNoTimestamp M submit R0 (Some (junk_id junk))
          (val_of M IPMI_SEL_OEM_NO_TIME_STAMP_RECORD_START) Data s1;
       UT_ASSERT (Status = EFI_SUCCESS);
       RecordId \<leftarrow> Id;
       ((Status, Rec, Next), s3) \<leftarrow> SelGetEntry M submit RecordId (Some (junk SEL_ENTRY_SIZE)) None s2;
       UT_ASSERT (Status = EFI_SUCCESS);
       Record \<leftarrow> Rec;
       UT_ASSERT (rec_RecordId Record = RecordId);
       UT_ASSERT (rec_RecordType Record = val_of M IPMI_SEL_OEM_NO_TIME_STAMP_RECORD_START);
       UT_ASSERT (Data = rec_OemNonTimestamped_Data Record);
       Some s3
     }"

definition TestSelTime :: "ipmi_hdr \<Rightarrow> 's submit \<Rightarrow> (nat \<Rightarrow> bytes) \<Rightarrow> u8 \<Rightarrow> 's unit_test" where
  "TestSelTime M submit junk Cc0 s =
     do {
       (Status, s1) \<leftarrow> SelSetTime M submit (junk (sizeof M IPMI_SET_SEL_TIME_REQUEST)) Cc0 100 s;
       UT_ASSERT (Status = EFI_SUCCESS);
       ((Status, T), s2) \<leftarrow> SelGetTime M submit (junk (sizeof M IPMI_GET_SEL_TIME_RESPONSE)) (Some 0) s1;
       UT_ASSERT (Status = EFI_SUCCESS);
       Time \<leftarrow> T;
       UT_ASSERT (Time \<ge> 100);
       Some s2
     }"

definition SelTestMain :: "ipmi_hdr \<Rightarrow> 's submit \<Rightarrow> bytes \<Rightarrow> (nat \<Rightarrow> bytes) \<Rightarrow> u8 \<Rightarrow> 's unit_test" where
  "SelTestMain M submit PcdIpmiSelOemManufacturerId junk Cc0 =
     run_tests [(TestSelGetInfo M submit junk, \<lambda>s. s), (TestSelAddSystemEntry M submit junk, \<lambda>s. s),
                (TestSelAddOemEntry M submit PcdIpmiSelOemManufacturerId junk, \<lambda>s. s),
                (TestSelAddOemNoTimestampEntry M submit junk, \<lambda>s. s), (TestSelTime M submit junk Cc0, \<lambda>s. s)]"

subsection \<open>Power restore policy\<close>

text \<open>
  \<open>MockApi.c\<close>: every mock routine has a queue of values to return (\<open>will_return\<close>) and one of
  expected arguments (\<open>expect_value\<close>); a routine that finds its queue empty fails the test, and so
  does a test that leaves values behind.  The size \<open>GetPolicy\<close> returns is that of the policy.
\<close>

datatype mock_fn = Mock_GetPolicy | Mock_IpmiGetChassisStatus | Mock_IpmiSetPowerRestorePolicy

datatype mock_value = MockByte u8 | MockStatus efi_status | MockSize nat | MockPolicy restore_policy

record cmocka =
  return_values :: "mock_fn \<Rightarrow> mock_value list"
  expectations :: "mock_fn \<Rightarrow> u8 list"
  calls :: "mock_fn \<Rightarrow> nat"

definition will_return :: "mock_fn \<Rightarrow> mock_value \<Rightarrow> cmocka \<Rightarrow> cmocka" where
  "will_return f v c = c\<lparr>return_values := (return_values c)(f := return_values c f @ [v])\<rparr>"

definition expect_value :: "mock_fn \<Rightarrow> u8 \<Rightarrow> cmocka \<Rightarrow> cmocka" where
  "expect_value f v c = c\<lparr>expectations := (expectations c)(f := expectations c f @ [v])\<rparr>"

definition expect_function_calls :: "mock_fn \<Rightarrow> nat \<Rightarrow> cmocka \<Rightarrow> cmocka" where
  "expect_function_calls f n c = c\<lparr>calls := (calls c)(f := calls c f + n)\<rparr>"

definition mock :: "mock_fn \<Rightarrow> (cmocka, mock_value) op" where
  "mock f c = (case return_values c f of [] \<Rightarrow> None | v # vs \<Rightarrow> Some (v, c\<lparr>return_values := (return_values c)(f := vs)\<rparr>))"

definition check_expected :: "mock_fn \<Rightarrow> u8 \<Rightarrow> cmocka \<Rightarrow> cmocka option" where
  "check_expected f v c =
     (case expectations c f of
        [] \<Rightarrow> None
      | w # ws \<Rightarrow> if v = w then Some (c\<lparr>expectations := (expectations c)(f := ws)\<rparr>) else None)"

definition function_called :: "mock_fn \<Rightarrow> cmocka \<Rightarrow> cmocka option" where
  "function_called f c =
     (case calls c f of 0 \<Rightarrow> None | Suc n \<Rightarrow> Some (c\<lparr>calls := (calls c)(f := n)\<rparr>))"

definition mock_byte :: "mock_fn \<Rightarrow> (cmocka, u8) op" where
  "mock_byte f c = (case mock f c of Some (MockByte b, c1) \<Rightarrow> Some (b, c1) | _ \<Rightarrow> None)"

definition mock_status :: "mock_fn \<Rightarrow> (cmocka, efi_status) op" where
  "mock_status f c = (case mock f c of Some (MockStatus st, c1) \<Rightarrow> Some (st, c1) | _ \<Rightarrow> None)"

text \<open>The GUID of the policy is the number \<open>gPlatformPowerRestorePolicyGuid\<close> in the queue of
  expectations; the driver passes that GUID.\<close>

definition gPlatformPowerRestorePolicyGuid :: u8 where "gPlatformPowerRestorePolicyGuid = 1"

definition GetPolicy_mock :: "restore_policy \<Rightarrow> (cmocka, efi_status \<times> restore_policy) op" where
  "GetPolicy_mock Policy0 c =
     do {
       c1 \<leftarrow> check_expected Mock_GetPolicy gPlatformPowerRestorePolicyGuid c;
       (Status, c2) \<leftarrow> mock_status Mock_GetPolicy c1;
       if EFI_ERROR Status then Some ((Status, Policy0), c2)
       else (case mock Mock_GetPolicy c2 of
               Some (MockSize n, c3) \<Rightarrow>
                 (case mock Mock_GetPolicy c3 of
                    Some (MockPolicy p, c4) \<Rightarrow> Some ((Status, p), c4)
                  | _ \<Rightarrow> None)
             | _ \<Rightarrow> None)
     }"

definition IpmiGetChassisStatus_mock :: "ipmi_hdr \<Rightarrow> bytes \<Rightarrow> (cmocka, efi_status \<times> bytes) op" where
  "IpmiGetChassisStatus_mock M GetChassisStatusResponse c =
     do {
       (b, c1) \<leftarrow> mock_byte Mock_IpmiGetChassisStatus c;
       (Status, c2) \<leftarrow> mock_status Mock_IpmiGetChassisStatus c1;
       Some ((Status, fput M 0 Chassis_CurrentPowerState (unat b) GetChassisStatusResponse), c2)
     }"

definition IpmiSetPowerRestorePolicy_mock ::
    "ipmi_hdr \<Rightarrow> bytes \<Rightarrow> bytes \<Rightarrow> (cmocka, efi_status \<times> bytes) op" where
  "IpmiSetPowerRestorePolicy_mock M ChassisControlRequest ChassisControlResponse c =
     do {
       c1 \<leftarrow> function_called Mock_IpmiSetPowerRestorePolicy c;
       c2 \<leftarrow> check_expected Mock_IpmiSetPowerRestorePolicy (ChassisControlRequest ! 0) c1;
       (cc, c3) \<leftarrow> mock_byte Mock_IpmiSetPowerRestorePolicy c2;
       (Status, c4) \<leftarrow> mock_status Mock_IpmiSetPowerRestorePolicy c3;
       Some ((Status, fputs M [(CompletionCode, unat cc),
                               (PowerRestore_Support, fget M 0 PowerRestore_Policy ChassisControlRequest)]
                        ChassisControlResponse), c4)
     }"

text \<open>The entry point, linked with the three mock routines.\<close>

definition IpmiPowerRestorePolicyEntry_mocked :: "ipmi_hdr \<Rightarrow> (nat \<Rightarrow> bytes) \<Rightarrow> (cmocka, efi_status) op" where
  "IpmiPowerRestorePolicyEntry_mocked M junk =
     IpmiPowerRestorePolicyEntry_with M (IpmiGetChassisStatus_mock M) (IpmiSetPowerRestorePolicy_mock M)
       (GetPolicy_mock (of_nat (le_nat (junk 4)))) (junk (sizeof M IPMI_GET_CHASSIS_STATUS_RESPONSE))
       (junk (sizeof M IPMI_SET_POWER_RESTORE_POLICY_REQUEST))
       (junk (sizeof M IPMI_SET_POWER_RESTORE_POLICY_RESPONSE))"

text \<open>What the tests set up, in the order in which they do: the chassis status, the policy, the set.\<close>

definition will_return_chassis :: "restore_policy \<Rightarrow> efi_status \<Rightarrow> cmocka \<Rightarrow> cmocka" where
  "will_return_chassis p Status c =
     will_return Mock_IpmiGetChassisStatus (MockStatus Status)
       (will_return Mock_IpmiGetChassisStatus (MockByte (push_bit 5 (ucast p))) c)"

definition will_return_policy :: "restore_policy \<Rightarrow> cmocka \<Rightarrow> cmocka" where
  "will_return_policy p c =
     will_return Mock_GetPolicy (MockPolicy p)
       (will_return Mock_GetPolicy (MockSize 4)
         (will_return Mock_GetPolicy (MockStatus EFI_SUCCESS)
           (expect_value Mock_GetPolicy gPlatformPowerRestorePolicyGuid c)))"

definition expect_set :: "restore_policy \<Rightarrow> u8 \<Rightarrow> efi_status \<Rightarrow> cmocka \<Rightarrow> cmocka" where
  "expect_set p cc Status c =
     will_return Mock_IpmiSetPowerRestorePolicy (MockStatus Status)
       (will_return Mock_IpmiSetPowerRestorePolicy (MockByte cc)
         (expect_value Mock_IpmiSetPowerRestorePolicy (ucast p)
           (expect_function_calls Mock_IpmiSetPowerRestorePolicy 1 c)))"

definition run_entry :: "ipmi_hdr \<Rightarrow> (nat \<Rightarrow> bytes) \<Rightarrow> efi_status \<Rightarrow> cmocka unit_test" where
  "run_entry M junk expectedStatus c =
     do {
       (status, c1) \<leftarrow> IpmiPowerRestorePolicyEntry_mocked M junk c;
       UT_ASSERT (status = expectedStatus);
       Some c1
     }"

definition TestNoUpdateToBmcWhenLocalInvalid :: "ipmi_hdr \<Rightarrow> (nat \<Rightarrow> bytes) \<Rightarrow> cmocka unit_test" where
  "TestNoUpdateToBmcWhenLocalInvalid M junk c =
     run_entry M junk EFI_DEVICE_ERROR
       (will_return Mock_GetPolicy (MockStatus EFI_DEVICE_ERROR)
         (expect_value Mock_GetPolicy gPlatformPowerRestorePolicyGuid
           (will_return_chassis PowerRestorePolicyPowerOn EFI_DEVICE_ERROR c)))"

definition TestNoUpdateToBmcWhenInSync :: "ipmi_hdr \<Rightarrow> (nat \<Rightarrow> bytes) \<Rightarrow> cmocka unit_test" where
  "TestNoUpdateToBmcWhenInSync M junk c =
     do {
       c1 \<leftarrow> run_entry M junk EFI_SUCCESS
          (will_return_policy PowerRestorePolicyPowerOff
            (will_return_chassis PowerRestorePolicyPowerOff EFI_SUCCESS c));
       run_entry M junk EFI_SUCCESS
          (will_return_policy PowerRestorePolicyLastState
            (will_return_chassis PowerRestorePolicyLastState EFI_SUCCESS c1))
     }"

definition TestNoUpdateToBmcWhenLocalValueIsNoChange :: "ipmi_hdr \<Rightarrow> (nat \<Rightarrow> bytes) \<Rightarrow> cmocka unit_test" where
  "TestNoUpdateToBmcWhenLocalValueIsNoChange M junk c =
     run_entry M junk EFI_SUCCESS
       (will_return_policy PowerRestorePolicyNoChange
         (will_return_chassis PowerRestorePolicyPowerOff EFI_SUCCESS c))"

definition TestFailReturnedIfBmcUpdateFails :: "ipmi_hdr \<Rightarrow> (nat \<Rightarrow> bytes) \<Rightarrow> cmocka unit_test" where
  "TestFailReturnedIfBmcUpdateFails M junk c =
     do {
       c1 \<leftarrow> run_entry M junk EFI_INVALID_PARAMETER
          (expect_set PowerRestorePolicyPowerOn 0 EFI_INVALID_PARAMETER
            (will_return_policy PowerRestorePolicyPowerOn
              (will_return_chassis PowerRestorePolicyPowerOff EFI_SUCCESS c)));
       run_entry M junk EFI_UNSUPPORTED
          (expect_set PowerRestorePolicyPowerOff 2 EFI_SUCCESS
            (will_return_policy PowerRestorePolicyPowerOff
              (will_return_chassis PowerRestorePolicyPowerOn EFI_SUCCESS c1)))
     }"

definition TestValidBmcUpdate :: "ipmi_hdr \<Rightarrow> (nat \<Rightarrow> bytes) \<Rightarrow> cmocka unit_test" where
  "TestValidBmcUpdate M junk c =
     run_entry M junk EFI_SUCCESS
       (expect_set PowerRestorePolicyPowerOff 0 EFI_SUCCESS
         (will_return_policy PowerRestorePolicyPowerOff
           (will_return_chassis PowerRestorePolicyPowerOn EFI_SUCCESS c)))"

definition UefiTestMain :: "ipmi_hdr \<Rightarrow> (nat \<Rightarrow> bytes) \<Rightarrow> cmocka unit_test" where
  "UefiTestMain M junk =
     run_tests [(TestNoUpdateToBmcWhenLocalInvalid M junk, \<lambda>c. c), (TestNoUpdateToBmcWhenInSync M junk, \<lambda>c. c),
                (TestNoUpdateToBmcWhenLocalValueIsNoChange M junk, \<lambda>c. c),
                (TestFailReturnedIfBmcUpdateFails M junk, \<lambda>c. c), (TestValidBmcUpdate M junk, \<lambda>c. c)]"

section \<open>The watchdog and boot option tests pass\<close>

lemma width_mWatchdog:
  "mock_ok M m \<Longrightarrow> hdr_ok M \<Longrightarrow> fget M 0 GetWdt_TimerRunning (mWatchdog m) < 2"
  using fget_bound [of M GetWdt_TimerRunning IPMI_GET_WATCHDOG_TIMER_RESPONSE 0] by simp

lemma mock_ok_simps [simp]:
  "mock_ok M m \<Longrightarrow> mock_ok M (ResetTestState_Watchdog M m)"
  "mock_ok M m \<Longrightarrow> mock_ok M (ResetTestState_Boot M m)"
  "mock_ok M m \<Longrightarrow> mock_ok M (set_mBootFlags M fvs m)"
  by (auto simp: mock_ok_def mock_data_ok_def ResetTestState_Watchdog_def ResetTestState_Boot_def
      set_mBootFlags_def)

lemma fget_running:
  assumes "mock_ok ipmi_v2 m"
  shows "fget ipmi_v2 0 GetWdt_TimerRunning (mWatchdog m) =
    (if wdt_running (wdt_of ipmi_v2 (mWatchdog m)) then 1 else 0)"
  using width_mWatchdog [OF assms ipmi_v2_ok] by (auto simp: wdt_of_def)

lemma fget_wdt:
  "fget M 0 GetWdt_InitialCountdownValue W = wdt_initial (wdt_of M W)"
  "fget M 0 GetWdt_TimeoutAction W = wdt_action (wdt_of M W)"
  by (simp_all add: wdt_of_def)

lemma watchdog_tests:
  assumes "mock_ok ipmi_v2 m" "\<And>n. length (junk n) = n"
  shows "\<exists>m'. TestStartWatchdog ipmi_v2 junk Cc0 m = Some m' \<and> mock_ok ipmi_v2 m'"
    "\<exists>m'. TestStopWatchdog ipmi_v2 junk Cc0 m = Some m' \<and> mock_ok ipmi_v2 m'"
proof -
  let ?sub = "IpmiSubmitCommand_Mock ipmi_v2" and ?J = "junk (sizeof ipmi_v2 IPMI_GET_WATCHDOG_TIMER_RESPONSE)"
  obtain m1 where 1: "IpmiEnableWatchdogTimer ipmi_v2 ?sub ?J Cc0 1 1 2 600 m = Some (EFI_SUCCESS, m1)"
    "mock_ok ipmi_v2 m1" "wdt_of ipmi_v2 (mWatchdog m1) = wdt_enabled 1 1 2 600 (wdt_of ipmi_v2 (mWatchdog m))"
    using mock_direct.wdt.enable_ok [of m 1 600 ?J Cc0 1 2] assms by auto
  have J: "length ?J = sizeof ipmi_v2 IPMI_GET_WATCHDOG_TIMER_RESPONSE" using assms(2) .
  obtain m2 where 2: "IpmiDisableWatchdogTimer ipmi_v2 ?sub ?J Cc0 1 1 m1 = Some (EFI_SUCCESS, m2)"
    "mock_ok ipmi_v2 m2"
    "wdt_of ipmi_v2 (mWatchdog m2) = wdt_stopped 1 1 (wdt_tick (wdt_of ipmi_v2 (mWatchdog m1)))"
    using mock_direct.wdt.disable_ok [OF 1(2) J, of Cc0 1 1] by auto
  show "\<exists>m'. TestStartWatchdog ipmi_v2 junk Cc0 m = Some m' \<and> mock_ok ipmi_v2 m'"
    using 1 by (simp add: TestStartWatchdog_def fget_running fget_wdt wdt_enabled_def)
  show "\<exists>m'. TestStopWatchdog ipmi_v2 junk Cc0 m = Some m' \<and> mock_ok ipmi_v2 m'"
    using 1 2 by (simp add: TestStopWatchdog_def fget_running wdt_enabled_def wdt_stopped_def)
qed

text \<open>One question in a mock that keeps its shape.\<close>

lemma ask_boot_device:
  assumes "mock_ok ipmi_v2 m" "expected = device_of ipmi_v2 (mBootFlags m)"
  shows "\<exists>m'. ask_boot_device ipmi_v2 x expected m = Some m' \<and> mock_ok ipmi_v2 m' \<and>
    mBootFlags m' = after_device ipmi_v2 (mBootFlags m) \<and>
    mBootOptionAcks m' = mBootOptionAcks m AND NOT 1"
  using mock_direct_boot.boot.boot_device [of m x] assms by (auto simp: ask_boot_device_def)

lemma ask_cmos:
  assumes "mock_ok ipmi_v2 m" "expected = cmos_of ipmi_v2 (mBootFlags m)"
  shows "\<exists>m'. ask_cmos ipmi_v2 b expected m = Some m' \<and> mock_ok ipmi_v2 m'"
  using mock_direct_boot.boot.cmos_clear [of m b] assms by (auto simp: ask_cmos_def)

lemma set_flags_fields:
  assumes "mock_ok ipmi_v2 m" "fst ` set fvs \<subseteq> set (fields_of IPMI_BOOT_OPTIONS_RESPONSE_PARAMETER_5)"
    and "g \<in> set (fields_of IPMI_BOOT_OPTIONS_RESPONSE_PARAMETER_5)"
  shows "fget ipmi_v2 0 g (mBootFlags (set_mBootFlags ipmi_v2 fvs m)) =
    (case map_of (rev fvs) g of Some v \<Rightarrow> take_bit (width_of g) v | None \<Rightarrow> fget ipmi_v2 0 g (mBootFlags m))"
  using fget_fputs [OF ipmi_v2_ok assms(3,2)] assms(1)
  by (simp add: set_mBootFlags_def mock_ok_def mock_data_ok_def)

lemma set_flags_acks [simp]: "mBootOptionAcks (set_mBootFlags M fvs m) = mBootOptionAcks m"
  by (simp add: set_mBootFlags_def)

lemma acked_twice: "(a AND NOT 1) AND NOT 1 = a AND NOT (1 :: u8)"
  by (rule bit_word_eqI) (auto simp: bit_simps)

text \<open>The state in which the clean up leaves the mock, and in which it starts.\<close>

definition boot_clean :: "mock_bmc \<Rightarrow> bool" where
  "boot_clean m \<longleftrightarrow> mock_ok ipmi_v2 m \<and> mBootFlags m = zero_mem (flags_size ipmi_v2) \<and> mBootOptionAcks m = 0xFF"

lemma boot_clean_reset: "mock_ok ipmi_v2 m \<Longrightarrow> boot_clean (ResetTestState_Boot ipmi_v2 m)"
  by (simp add: boot_clean_def) (simp add: ResetTestState_Boot_def)

lemma boot_device_times:
  assumes "mock_ok ipmi_v2 m" "e = device_of ipmi_v2 (mBootFlags m)"
    "fget ipmi_v2 0 Param5_PersistentOptions (mBootFlags m) \<noteq> 0" "0 < n"
  shows "\<exists>m'. ask_boot_device_times ipmi_v2 n x e m = Some m' \<and> mock_ok ipmi_v2 m' \<and>
    mBootOptionAcks m' = mBootOptionAcks m AND NOT 1"
  using assms
proof (induction n arbitrary: m)
  case (Suc n)
  obtain m1 where 1: "ask_boot_device ipmi_v2 x e m = Some m1" "mock_ok ipmi_v2 m1"
    "mBootFlags m1 = mBootFlags m" "mBootOptionAcks m1 = mBootOptionAcks m AND NOT 1"
    using ask_boot_device [OF Suc.prems(1,2), of x] Suc.prems(3) by (auto simp: after_device_def)
  show ?case
  proof (cases n)
    case 0
    then show ?thesis using 1 by simp
  next
    case (Suc k)
    then show ?thesis using Suc.IH [of m1] 1 Suc.prems(2,3) by (auto simp: acked_twice)
  qed
qed simp

lemma boot_tests:
  assumes "boot_clean m"
  shows "\<exists>m'. TestGetBootOptionNone ipmi_v2 m = Some m' \<and> mock_ok ipmi_v2 m'"
    "\<exists>m'. TestGetBootOptionInvalid ipmi_v2 m = Some m' \<and> mock_ok ipmi_v2 m'"
    "\<exists>m'. TestGetBootOptionNoPersistance ipmi_v2 m = Some m' \<and> mock_ok ipmi_v2 m'"
    "\<exists>m'. TestGetBootOptionPersistance ipmi_v2 m = Some m' \<and> mock_ok ipmi_v2 m'"
    "\<exists>m'. TestGetBootOptionCmosClear ipmi_v2 m = Some m' \<and> mock_ok ipmi_v2 m'"
proof -
  have m: "mock_ok ipmi_v2 m" "mBootFlags m = zero_mem (flags_size ipmi_v2)" "mBootOptionAcks m = 0xFF"
    using assms by (simp_all add: boot_clean_def)
  note fields = device_of_def cmos_of_def boot_flags_valid_def set_flags_fields take_bit_eq_mod m
  have ack: "BIOS_ACKED_VALUE ipmi_v2 = 0xFF AND NOT 1" by (simp add: BIOS_ACKED_VALUE_def)
  show "\<exists>m'. TestGetBootOptionNone ipmi_v2 m = Some m' \<and> mock_ok ipmi_v2 m'"
    using ask_boot_device [OF m(1) refl, of INVALID_SELECTOR]
    by (auto simp: TestGetBootOptionNone_def ack fields)
  let ?m = "set_mBootFlags ipmi_v2 [(Param5_BootFlagValid, 0), (Param5_BootDeviceSelector, 5)] m"
  show "\<exists>m'. TestGetBootOptionInvalid ipmi_v2 m = Some m' \<and> mock_ok ipmi_v2 m'"
    using ask_boot_device [of ?m _ INVALID_SELECTOR, OF _ refl]
    by (auto simp: TestGetBootOptionInvalid_def ack fields)
  let ?m = "set_mBootFlags ipmi_v2 [(Param5_BootFlagValid, 1), (Param5_BootDeviceSelector, 5)] m"
  obtain m1 where 1: "ask_boot_device ipmi_v2 INVALID_SELECTOR 5 ?m = Some m1" "mock_ok ipmi_v2 m1"
    "mBootFlags m1 = zero_mem (flags_size ipmi_v2)" "mBootOptionAcks m1 = 0xFF AND NOT 1"
    using ask_boot_device [of ?m 5 INVALID_SELECTOR] by (auto simp: fields after_device_def)
  show "\<exists>m'. TestGetBootOptionNoPersistance ipmi_v2 m = Some m' \<and> mock_ok ipmi_v2 m'"
    using 1 ask_boot_device [OF 1(2) refl, of 5]
    by (auto simp: TestGetBootOptionNoPersistance_def ack fields)
  let ?m = "set_mBootFlags ipmi_v2 [(Param5_BootFlagValid, 1), (Param5_PersistentOptions, 1),
      (Param5_BootDeviceSelector, 5)] m"
  show "\<exists>m'. TestGetBootOptionPersistance ipmi_v2 m = Some m' \<and> mock_ok ipmi_v2 m'"
    using boot_device_times [of ?m 5 5 INVALID_SELECTOR]
    by (auto simp: TestGetBootOptionPersistance_def ack fields simp del: ask_boot_device_times.simps)
  let ?f = "\<lambda>v c. set_mBootFlags ipmi_v2 [(Param5_BootFlagValid, v), (Param5_CmosClear, c)]"
  obtain m1 where 1: "ask_cmos ipmi_v2 True False (?f 0 1 m) = Some m1" "mock_ok ipmi_v2 m1"
    using ask_cmos [of "?f 0 1 m" False True] by (auto simp: fields)
  obtain m2 where 2: "ask_cmos ipmi_v2 True False (?f 1 0 m1) = Some m2" "mock_ok ipmi_v2 m2"
    using ask_cmos [of "?f 1 0 m1" False True] 1(2) by (auto simp: fields)
  obtain m3 where 3: "ask_cmos ipmi_v2 False True (?f 1 1 m2) = Some m3" "mock_ok ipmi_v2 m3"
    using ask_cmos [of "?f 1 1 m2" True False] 2(2) by (auto simp: fields)
  show "\<exists>m'. TestGetBootOptionCmosClear ipmi_v2 m = Some m' \<and> mock_ok ipmi_v2 m'"
    using 1 2 3 by (simp add: TestGetBootOptionCmosClear_def)
qed

section \<open>The event log tests pass\<close>

context mock_provider
begin

lemma sel_info_version:
  assumes "ok s" "length R0 = sizeof M IPMI_GET_SEL_INFO_RESPONSE"
  shows "\<exists>i s'. SelGetInfo M submit R0 (Some i0) s = Some ((EFI_SUCCESS, Some i), s') \<and> Version i = 0x51 \<and>
    ok s' \<and> mock_log (bmc s') = mock_log (bmc s) \<and> mSelTime (bmc s') = mSelTime (bmc s)"
proof -
  let ?S = IPMI_GET_SEL_INFO_RESPONSE
  let ?m = "mock_begin M (netfn_of M IPMI_NETFN_STORAGE) (cmd_of M IPMI_STORAGE_GET_SEL_INFO) (bmc s)"
  let ?r = "cc_of M IPMI_COMP_CODE_INVALID_COMMAND # zero_mem 249"
  have mem: "((netfn_of M IPMI_NETFN_STORAGE, cmd_of M IPMI_STORAGE_GET_SEL_INFO), MockIpmiSelGetInfo M) \<in> set (MockHandlers M)"
    by (simp add: MockHandlers_def)
  have S: "sizeof M ?S < 250" using hdr by (simp add: hdr_ok_def)
  obtain fvs where fvs: "MockIpmiSelGetInfo M ([] @ zero_mem (253 - length ([] :: bytes)))
      (of_nat (length ([] :: bytes))) ?r 250 ?m = Some ((fputs M fvs ?r, of_nat (sizeof M ?S)), ?m)"
    "map_of (rev fvs) CompletionCode = Some (unat (cc_of M IPMI_COMP_CODE_NORMAL))"
    "map_of (rev fvs) SelInfo_Version = Some 0x51" "fst ` set fvs \<subseteq> set (fields_of ?S)"
    using S by (simp add: MockIpmiSelGetInfo_def Let_def del: fputs_simps)
  obtain R where R: "mock_reply M (netfn_of M IPMI_NETFN_STORAGE) (cmd_of M IPMI_STORAGE_GET_SEL_INFO) [] (bmc s) =
      Some (R, mock_end (of_nat (sizeof M ?S)) ?m)" "length R = sizeof M ?S"
    "\<And>g. g \<in> set (fields_of ?S) \<Longrightarrow> fget M 0 g R =
        (case map_of (rev fvs) g of Some v \<Rightarrow> take_bit (width_of g) v | None \<Rightarrow> fget M 0 g ?r)"
    "hd R = fget8 M 0 CompletionCode R"
    by (rule mock_reply_struct [OF hdr commands mem fvs(1,4)]) simp_all
  have cc: "fget8 M 0 CompletionCode R = cc_of M IPMI_COMP_CODE_NORMAL" "fget8 M 0 SelInfo_Version R = 0x51"
    using R(3) fvs(2,3) by (simp_all add: fget8_def)
  obtain s' where "submit (netfn_of M IPMI_NETFN_STORAGE) (cmd_of M IPMI_STORAGE_GET_SEL_INFO) None 0 R0
      (of_nat (sizeof M ?S)) s = Some ((EFI_SUCCESS, R, of_nat (sizeof M ?S)), s')" "ok s'"
      "bmc s' = mock_end (of_nat (sizeof M ?S)) ?m"
    using answers_struct [OF assms(1) R(1), of None ?S R0] R(2,4) cc assms(2) by auto
  then show ?thesis
    using cc by (auto simp: SelGetInfo_def comp_code_status [OF hdr] mock_log_def)
qed

end

text \<open>A record that is added is read back, with its id.\<close>

context sel_bmc
begin

lemma add_then_get:
  assumes "ok s" "length e = 16" "length (log s) < cap" "length r = 16"
    "length R0 = sizeof M IPMI_ADD_SEL_ENTRY_RESPONSE"
  shows "\<exists>s1 s2. IpmiAddSelEntry M submit R0 e (Some x) s =
      Some ((EFI_SUCCESS, Some (of_nat (length (log s)))), s1) \<and>
    SelGetEntry M submit (of_nat (length (log s))) (Some r) None s1 =
      Some ((EFI_SUCCESS, Some (sel_stored M (clock s) (of_nat (length (log s))) e), None), s2) \<and>
    ok s2 \<and> length (log s2) = Suc (length (log s))"
proof -
  obtain s1 where 1: "IpmiAddSelEntry M submit R0 e (Some x) s =
      Some ((EFI_SUCCESS, Some (of_nat (length (log s)))), s1)" "ok s1"
    "log s1 = log s @ [sel_stored M (clock s) (of_nat (length (log s))) e]"
    using SelAdd_room [OF assms(1-3,5), of "Some x"] by auto
  have "unat (of_nat (length (log s)) :: u16) = length (log s)"
    using assms(3) cap by (simp add: unat_of_nat)
  then show ?thesis
    using SelGetEntry_present [OF 1(2), of "of_nat (length (log s))" r None] 1 assms(4) by auto
qed

end

lemma length_le: "length (le16 i) = 2" "length (le32 u) = 4"
  by (simp_all add: le16_def le32_def)

lemma stored_record:
  assumes "length b = 13"
  shows "sel_stored M c i (sel_record t b) = le16 i @ t #
    (if t < val_of M IPMI_SEL_OEM_NO_TIME_STAMP_RECORD_START then le32 (c + 1) @ drop 4 b else b)"
proof -
  show ?thesis
    using assms
    by (simp add: length_le sel_stored_def sel_record_def sel_set_RecordId_def sel_RecordType_def sel_set_TimeStamp_def
        copy_mem_def Let_def nth_append)
qed

lemmas record_members =
  rec_RecordId_def rec_RecordType_def rec_System_SensorType_def rec_System_SensorNumber_def
  rec_System_EventDirType_def rec_System_Data_def rec_Oem_Data_def rec_OemNonTimestamped_Data_def

lemma record_simps [simp]:
  "rec_RecordId (le16 i @ x) = i" "rec_RecordType (le16 i @ t # x) = t"
  "rec_System_SensorType (le16 i @ t # le32 u @ [a0, a1, a2, b0, b1, b2, c0, c1, c2]) = b0"
  "rec_System_SensorNumber (le16 i @ t # le32 u @ [a0, a1, a2, b0, b1, b2, c0, c1, c2]) = b1"
  "rec_System_EventDirType (le16 i @ t # le32 u @ [a0, a1, a2, b0, b1, b2, c0, c1, c2]) = b2"
  "rec_System_Data (le16 i @ t # le32 u @ [a0, a1, a2, b0, b1, b2, c0, c1, c2]) = [c0, c1, c2]"
  "rec_Oem_Data (le16 i @ t # le32 u @ [a0, a1, a2, b0, b1, b2, c0, c1, c2]) = [b0, b1, b2, c0, c1, c2]"
  "length d = 13 \<Longrightarrow> rec_OemNonTimestamped_Data (le16 i @ t # d) = d"
  by (simp_all add: record_members length_le nth_append)

lemma nat_le_numeral:
  "nat_le (numeral k) n = of_nat (n mod 256) # nat_le (pred_numeral k) (n div 256)"
  by (simp only: numeral_eq_Suc nat_le.simps)

lemma le_lists: "le32 0 = [0, 0, 0, 0]" "le16 0x21 = [0x21, 0]"
  by (simp_all add: le32_def le16_def nat_le_numeral)

lemma sel_time_test:
  assumes "sel_bmc ipmi_v2 submit ok log clock cap" "ok s" "\<And>n. length (junk n) = n"
  shows "\<exists>s'. TestSelTime ipmi_v2 submit junk Cc0 s = Some s' \<and> ok s'"
proof -
  obtain s1 where 1: "SelSetTime ipmi_v2 submit (junk (sizeof ipmi_v2 IPMI_SET_SEL_TIME_REQUEST)) Cc0 100 s =
      Some (EFI_SUCCESS, s1)" "ok s1" "clock s1 = 100"
    using sel_bmc.SelSetTime_sets [OF assms(1,2), of "junk (sizeof ipmi_v2 IPMI_SET_SEL_TIME_REQUEST)" Cc0 100] assms(3)
    by auto
  show "\<exists>s'. TestSelTime ipmi_v2 submit junk Cc0 s = Some s' \<and> ok s'"
    using 1 sel_bmc.SelGetTime_tick [OF assms(1) 1(2), of "junk (sizeof ipmi_v2 IPMI_GET_SEL_TIME_RESPONSE)" 0] assms(3)
    by (auto simp: TestSelTime_def)
qed

lemma sel_tests:
  assumes "sel_bmc ipmi_v2 submit ok log clock cap" "ok s" "length (log s) < cap"
    and junk: "\<And>n. length (junk n) = n"
  shows "\<exists>s'. TestSelAddSystemEntry ipmi_v2 submit junk s = Some s' \<and> ok s' \<and> length (log s') = Suc (length (log s))"
    "length manu = 3 \<Longrightarrow>
     \<exists>s'. TestSelAddOemEntry ipmi_v2 submit manu junk s = Some s' \<and> ok s' \<and> length (log s') = Suc (length (log s))"
    "\<exists>s'. TestSelAddOemNoTimestampEntry ipmi_v2 submit junk s = Some s' \<and> ok s' \<and>
       length (log s') = Suc (length (log s))"
proof -
  note get = sel_bmc.add_then_get [OF assms(1,2) _ assms(3), of _ "junk SEL_ENTRY_SIZE" "junk (sizeof ipmi_v2 IPMI_ADD_SEL_ENTRY_RESPONSE)"]
  show "\<exists>s'. TestSelAddSystemEntry ipmi_v2 submit junk s = Some s' \<and> ok s' \<and> length (log s') = Suc (length (log s))"
    using get [of "sel_record 2 ([0, 0, 0, 0, 0x21, 0, 4, 1, 2, 3, 4, 5, 6])" "junk_id junk"]
    by (simp add: junk SEL_ENTRY_SIZE_def TestSelAddSystemEntry_def SelAddSystemEntry_def length_sel_record
        stored_record le_lists) fastforce
  show "\<exists>s'. TestSelAddOemEntry ipmi_v2 submit manu junk s = Some s' \<and> ok s' \<and> length (log s') = Suc (length (log s))"
    if m: "length manu = 3"
  proof -
    obtain a b c where "manu = [a, b, c]" using m by (auto simp: numeral_eq_Suc length_Suc_conv)
    then show ?thesis
      using get [of "sel_record 0xC0 ([0, 0, 0, 0, a, b, c, 0x10, 0x11, 0x12, 0x13, 0x14, 0x15])" "junk_id junk"]
      by (simp add: junk SEL_ENTRY_SIZE_def TestSelAddOemEntry_def SelAddOemEntry_def SelAddOemEntryEx_def
          length_sel_record stored_record le_lists) fastforce
  qed
  show "\<exists>s'. TestSelAddOemNoTimestampEntry ipmi_v2 submit junk s = Some s' \<and> ok s' \<and>
      length (log s') = Suc (length (log s))"
    using get [of "sel_record 0xE0 ([0x10, 0x11, 0x12, 0x13, 0x14, 0x15, 0x16, 0x17, 0x18, 0x19, 0x1A, 0x1B, 0x1C])"
        "junk_id junk"]
    by (simp add: junk SEL_ENTRY_SIZE_def TestSelAddOemNoTimestampEntry_def SelAddOemEntryNoTimestamp_def
        length_sel_record stored_record) fastforce
qed

section \<open>The power restore policy tests pass\<close>

definition no_mocks :: cmocka where
  "no_mocks = \<lparr>return_values = (\<lambda>f. []), expectations = (\<lambda>f. []), calls = (\<lambda>f. 0)\<rparr>"

lemma power_request_byte:
  assumes "v < 8"
  shows "fputs ipmi_v2 [(PowerRestore_Policy, v), (PowerRestore_Reserved, 0)] [b] = [of_nat v]"
proof -
  let ?r = "fputs ipmi_v2 [(PowerRestore_Policy, v), (PowerRestore_Reserved, 0)] [b]"
  have "length ?r = 1" by simp
  then obtain c where c: "?r = [c]" by (metis length_0_conv length_Suc_conv One_nat_def)
  have f: "fget ipmi_v2 0 PowerRestore_Policy [c] = v" "fget ipmi_v2 0 PowerRestore_Reserved [c] = 0"
    using fget_fputs [OF ipmi_v2_ok, of _ IPMI_SET_POWER_RESTORE_POLICY_REQUEST
        "[(PowerRestore_Policy, v), (PowerRestore_Reserved, 0)]" "[b]"] assms
    unfolding c by (simp_all add: take_bit_eq_mod del: fputs_simps)
  have "unat c mod 8 = v" "unat c div 8 mod 32 = 0"
    using f by (simp_all add: fget_def bits_get_def take_bit_eq_mod drop_bit_eq_div)
  moreover have "unat c div 8 < 32" using u8_bound [of c] by linarith
  ultimately have "unat c = v" using div_mult_mod_eq [of "unat c" 8] by simp
  then have "c = of_nat v" by auto
  then show ?thesis using c by simp
qed

lemma fun_upd_const [simp]: "(\<lambda>f. x)(a := x) = (\<lambda>f. x)"
  by auto

lemma chassis_byte:
  assumes "length R = sizeof ipmi_v2 IPMI_GET_CHASSIS_STATUS_RESPONSE"
  shows "fget8 ipmi_v2 0 Chassis_CurrentPowerState (fput ipmi_v2 0 Chassis_CurrentPowerState (unat b) R) = b"
  using fget_fput [OF ipmi_v2_ok, of Chassis_CurrentPowerState IPMI_GET_CHASSIS_STATUS_RESPONSE
      Chassis_CurrentPowerState R "unat b"] assms
  by (simp add: fget8_def)

lemma response_byte:
  assumes "length R = sizeof ipmi_v2 IPMI_SET_POWER_RESTORE_POLICY_RESPONSE"
  shows "fget8 ipmi_v2 0 CompletionCode (fputs ipmi_v2 [(CompletionCode, unat c), (PowerRestore_Support, v)] R) = c"
  using fget_fputs [OF ipmi_v2_ok, of CompletionCode IPMI_SET_POWER_RESTORE_POLICY_RESPONSE
      "[(CompletionCode, unat c), (PowerRestore_Support, v)]" R] assms
  by (simp add: fget8_def del: fputs_simps)

lemmas cmocka_defs =
  will_return_def expect_value_def expect_function_calls_def mock_def check_expected_def function_called_def
  mock_byte_def mock_status_def no_mocks_def gPlatformPowerRestorePolicyGuid_def

lemma chassis_mock:
  assumes "return_values c Mock_IpmiGetChassisStatus = [MockByte b, MockStatus st]"
  shows "IpmiGetChassisStatus_mock M R c = Some ((st, fput M 0 Chassis_CurrentPowerState (unat b) R),
    c\<lparr>return_values := (return_values c)(Mock_IpmiGetChassisStatus := [])\<rparr>)"
  using assms by (simp add: IpmiGetChassisStatus_mock_def mock_byte_def mock_status_def mock_def)

lemma policy_mock:
  assumes "return_values c Mock_GetPolicy = [MockStatus EFI_SUCCESS, MockSize n, MockPolicy p]"
    "expectations c Mock_GetPolicy = [gPlatformPowerRestorePolicyGuid]"
  shows "GetPolicy_mock P0 c = Some ((EFI_SUCCESS, p),
    c\<lparr>return_values := (return_values c)(Mock_GetPolicy := []), expectations := (expectations c)(Mock_GetPolicy := [])\<rparr>)"
  using assms by (simp add: GetPolicy_mock_def mock_status_def mock_def check_expected_def)

lemma set_mock:
  assumes "return_values c Mock_IpmiSetPowerRestorePolicy = [MockByte cc, MockStatus st]"
    "expectations c Mock_IpmiSetPowerRestorePolicy = [Q ! 0]" "calls c Mock_IpmiSetPowerRestorePolicy = 1"
  shows "IpmiSetPowerRestorePolicy_mock M Q R c =
    Some ((st, fputs M [(CompletionCode, unat cc), (PowerRestore_Support, fget M 0 PowerRestore_Policy Q)] R),
      c\<lparr>return_values := (return_values c)(Mock_IpmiSetPowerRestorePolicy := []),
        expectations := (expectations c)(Mock_IpmiSetPowerRestorePolicy := []),
        calls := (calls c)(Mock_IpmiSetPowerRestorePolicy := 0)\<rparr>)"
  using assms
  by (simp add: IpmiSetPowerRestorePolicy_mock_def mock_byte_def mock_status_def mock_def check_expected_def
      function_called_def del: fputs_simps)

text \<open>The entry point against the mocks: when it agrees with the BMC, and when it does not.\<close>

lemmas mock_setup_defs =
  will_return_chassis_def will_return_policy_def expect_set_def will_return_def expect_value_def
  expect_function_calls_def no_mocks_def

definition policy_values :: "restore_policy set" where "policy_values = {0, 1, 2}"

lemma chassis_policy: "q \<in> policy_values \<Longrightarrow> ucast (drop_bit 5 (push_bit 5 (ucast q :: u8)) AND 0x3) = q"
  by (auto simp: policy_values_def)

lemma run_entry_quiet:
  assumes "\<And>n. length (junk n) = n" "q \<in> policy_values" "p = q \<or> p = PowerRestorePolicyNoChange"
  shows "run_entry ipmi_v2 junk EFI_SUCCESS (will_return_policy p (will_return_chassis q EFI_SUCCESS no_mocks)) =
    Some no_mocks"
proof -
  let ?c = "will_return_policy p (will_return_chassis q EFI_SUCCESS no_mocks)"
  have 1: "IpmiGetChassisStatus_mock ipmi_v2 R ?c = Some ((EFI_SUCCESS,
      fput ipmi_v2 0 Chassis_CurrentPowerState (unat (push_bit 5 (ucast q :: u8))) R), will_return_policy p no_mocks)" for R
    by (subst chassis_mock [where b = "push_bit 5 (ucast q)" and st = EFI_SUCCESS])
      (simp_all add: mock_setup_defs fun_upd_twist)
  have 2: "GetPolicy_mock P0 (will_return_policy p no_mocks) = Some ((EFI_SUCCESS, p), no_mocks)" for P0
    by (subst policy_mock [where n = 4 and p = p]) (simp_all add: mock_setup_defs)
  show ?thesis
    using 1 2 assms chassis_policy [OF assms(2)]
    by (auto simp: run_entry_def IpmiPowerRestorePolicyEntry_mocked_def IpmiPowerRestorePolicyEntry_with_def
        chassis_byte Let_def simp del: fputs_simps)
qed

lemma run_entry_sets:
  assumes junk: "\<And>n. length (junk n) = n" and q: "q \<in> policy_values" "p \<in> policy_values" "p \<noteq> q"
    and st: "e = (if EFI_ERROR st then st else if cc \<noteq> 0 then EFI_UNSUPPORTED else EFI_SUCCESS)"
  shows "run_entry ipmi_v2 junk e
      (expect_set p cc st (will_return_policy p (will_return_chassis q EFI_SUCCESS no_mocks))) = Some no_mocks"
proof -
  let ?S = "expect_set p cc st"
  have 1: "IpmiGetChassisStatus_mock ipmi_v2 R (?S (will_return_policy p (will_return_chassis q EFI_SUCCESS no_mocks))) =
      Some ((EFI_SUCCESS, fput ipmi_v2 0 Chassis_CurrentPowerState (unat (push_bit 5 (ucast q :: u8))) R),
        ?S (will_return_policy p no_mocks))" for R
    by (subst chassis_mock [where b = "push_bit 5 (ucast q)" and st = EFI_SUCCESS])
      (simp_all add: mock_setup_defs fun_upd_twist)
  have 2: "GetPolicy_mock P0 (?S (will_return_policy p no_mocks)) = Some ((EFI_SUCCESS, p), ?S no_mocks)" for P0
    by (subst policy_mock [where n = 4 and p = p]) (simp_all add: mock_setup_defs fun_upd_twist)
  have p: "unat (ucast p :: u8) < 8" "p \<noteq> PowerRestorePolicyNoChange" "of_nat (unat (ucast p :: u8)) = (ucast p :: u8)"
    using q(2) by (auto simp: policy_values_def PowerRestorePolicyNoChange_def)
  obtain b where b: "junk 1 = [b]" using junk [of 1] by (metis length_0_conv length_Suc_conv One_nat_def)
  have Q: "fputs ipmi_v2 [(PowerRestore_Policy, unat (ucast p :: u8)), (PowerRestore_Reserved, 0)] (junk 1) = [ucast p]"
    using power_request_byte [OF p(1)] p(3) by (simp only: b)
  have 3: "IpmiSetPowerRestorePolicy_mock ipmi_v2 [ucast p] R (?S no_mocks) =
      Some ((st, fputs ipmi_v2 [(CompletionCode, unat cc),
               (PowerRestore_Support, fget ipmi_v2 0 PowerRestore_Policy [ucast p])] R), no_mocks)" for R
    by (subst set_mock [where cc = cc and st = st]) (simp_all add: mock_setup_defs)
  have len: "sizeof ipmi_v2 IPMI_SET_POWER_RESTORE_POLICY_REQUEST = 1" by simp
  show ?thesis
    using 1 2 3 Q q p(2) junk chassis_policy [OF q(1)]
    unfolding run_entry_def IpmiPowerRestorePolicyEntry_mocked_def IpmiPowerRestorePolicyEntry_with_def Let_def len
    by (simp add: chassis_byte response_byte st del: fputs_simps)
qed

lemma power_tests:
  assumes junk: "\<And>n. length (junk n) = n"
  shows "TestNoUpdateToBmcWhenLocalInvalid ipmi_v2 junk no_mocks = Some no_mocks"
    "TestNoUpdateToBmcWhenInSync ipmi_v2 junk no_mocks = Some no_mocks"
    "TestNoUpdateToBmcWhenLocalValueIsNoChange ipmi_v2 junk no_mocks = Some no_mocks"
    "TestFailReturnedIfBmcUpdateFails ipmi_v2 junk no_mocks = Some no_mocks"
    "TestValidBmcUpdate ipmi_v2 junk no_mocks = Some no_mocks"
proof -
  note quiet = run_entry_quiet [of junk, OF junk] and sets = run_entry_sets [of junk, OF junk]
  show "TestNoUpdateToBmcWhenLocalInvalid ipmi_v2 junk no_mocks = Some no_mocks"
    by (simp add: TestNoUpdateToBmcWhenLocalInvalid_def run_entry_def IpmiPowerRestorePolicyEntry_mocked_def
        IpmiPowerRestorePolicyEntry_with_def IpmiGetChassisStatus_mock_def GetPolicy_mock_def mock_setup_defs
        mock_byte_def mock_status_def mock_def check_expected_def Let_def fun_upd_twist)
  show "TestNoUpdateToBmcWhenInSync ipmi_v2 junk no_mocks = Some no_mocks"
    by (simp add: TestNoUpdateToBmcWhenInSync_def quiet restore_policy_defs policy_values_def)
  show "TestNoUpdateToBmcWhenLocalValueIsNoChange ipmi_v2 junk no_mocks = Some no_mocks"
    by (simp add: TestNoUpdateToBmcWhenLocalValueIsNoChange_def quiet restore_policy_defs policy_values_def)
  show "TestFailReturnedIfBmcUpdateFails ipmi_v2 junk no_mocks = Some no_mocks"
    by (simp add: TestFailReturnedIfBmcUpdateFails_def sets restore_policy_defs policy_values_def)
  show "TestValidBmcUpdate ipmi_v2 junk no_mocks = Some no_mocks"
    by (simp add: TestValidBmcUpdate_def sets restore_policy_defs policy_values_def)
qed

section \<open>All of them\<close>

lemma sel_suite:
  assumes "mock_provider ipmi_v2 submit bmc ok" "ok s" "unat (mNextRecordId (bmc s)) + 3 \<le> SEL_COUNT"
    "length manu = 3" "\<And>n. length (junk n) = n"
  shows "\<exists>s'. SelTestMain ipmi_v2 submit manu junk Cc0 s = Some s' \<and> ok s'"
proof -
  let ?log = "\<lambda>s. mock_log (bmc s)" and ?clock = "\<lambda>s. mSelTime (bmc s)"
  note bmc = mock_provider.sel_contract [OF assms(1)]
  note tests = sel_tests [OF bmc _ _ assms(5)]
  have len: "length (?log s) + 3 \<le> SEL_COUNT"
    using assms(2,3) mock_provider.length_mock_log [OF assms(1)] by simp
  obtain s1 where 1: "TestSelGetInfo ipmi_v2 submit junk s = Some s1" "ok s1" "?log s1 = ?log s"
    using mock_provider.sel_info_version [OF assms(1,2), of "junk (sizeof ipmi_v2 IPMI_GET_SEL_INFO_RESPONSE)"
        "\<lparr>Version = 0, NumberOfEntries = 0, FreeSpace = 0, LastAddTimeStamp = 0,
          LastEraseTimeStamp = 0, OperationSupported = 0\<rparr>", OF assms(5)]
    by (auto simp: TestSelGetInfo_def)
  obtain s2 where 2: "TestSelAddSystemEntry ipmi_v2 submit junk s1 = Some s2" "ok s2"
    "length (?log s2) = Suc (length (?log s))"
    using tests(1) [of s1] 1(2,3) len by auto
  obtain s3 where 3: "TestSelAddOemEntry ipmi_v2 submit manu junk s2 = Some s3" "ok s3"
    "length (?log s3) = Suc (Suc (length (?log s)))"
    using tests(2) [of s2 manu] 2(2,3) len assms(4) by auto
  obtain s4 where 4: "TestSelAddOemNoTimestampEntry ipmi_v2 submit junk s3 = Some s4" "ok s4"
    "length (?log s4) = Suc (Suc (Suc (length (?log s))))"
    using tests(3) [of s3] 3(2,3) len by auto
  obtain s5 where "TestSelTime ipmi_v2 submit junk Cc0 s4 = Some s5" "ok s5"
    using sel_time_test [OF bmc 4(2), of junk Cc0] assms(5) by auto
  then show ?thesis using 1(1) 2(1) 3(1) 4(1) by (auto simp: SelTestMain_def)
qed

lemma mock_suites:
  assumes "mock_ok ipmi_v2 m" "\<And>n. length (junk n) = n"
  shows "\<exists>m'. IpmiWatchdogTestMain ipmi_v2 junk Cc0 m = Some m'"
    "\<exists>m'. BootOptionTestMain ipmi_v2 (ResetTestState_Boot ipmi_v2 m) = Some m'"
proof -
  note w = watchdog_tests [of _ junk Cc0, OF _ assms(2)]
  show "\<exists>m'. IpmiWatchdogTestMain ipmi_v2 junk Cc0 m = Some m'"
  proof -
    obtain m1 where 1: "TestStartWatchdog ipmi_v2 junk Cc0 m = Some m1" "mock_ok ipmi_v2 m1"
      using w(1) [OF assms(1)] by blast
    obtain m2 where "TestStopWatchdog ipmi_v2 junk Cc0 (ResetTestState_Watchdog ipmi_v2 m1) = Some m2"
      using w(2) [of "ResetTestState_Watchdog ipmi_v2 m1"] 1(2) by auto
    then show ?thesis using 1(1) by (simp add: IpmiWatchdogTestMain_def)
  qed
  define clean where "clean m = ResetTestState_Boot ipmi_v2 m" for m
  have c: "boot_clean (clean m)" if "mock_ok ipmi_v2 m" for m
    using boot_clean_reset [OF that] by (simp add: clean_def)
  obtain m1 where 1: "TestGetBootOptionNone ipmi_v2 (clean m) = Some m1" "mock_ok ipmi_v2 m1"
    using boot_tests(1) [OF c [OF assms(1)]] by blast
  obtain m2 where 2: "TestGetBootOptionInvalid ipmi_v2 (clean m1) = Some m2" "mock_ok ipmi_v2 m2"
    using boot_tests(2) [OF c [OF 1(2)]] by blast
  obtain m3 where 3: "TestGetBootOptionNoPersistance ipmi_v2 (clean m2) = Some m3" "mock_ok ipmi_v2 m3"
    using boot_tests(3) [OF c [OF 2(2)]] by blast
  obtain m4 where 4: "TestGetBootOptionPersistance ipmi_v2 (clean m3) = Some m4" "mock_ok ipmi_v2 m4"
    using boot_tests(4) [OF c [OF 3(2)]] by blast
  obtain m5 where 5: "TestGetBootOptionCmosClear ipmi_v2 (clean m4) = Some m5"
    using boot_tests(5) [OF c [OF 4(2)]] by blast
  show "\<exists>m'. BootOptionTestMain ipmi_v2 (ResetTestState_Boot ipmi_v2 m) = Some m'"
    using 1 2 3 4 5 by (simp add: BootOptionTestMain_def clean_def)
qed

text \<open>C27 The host test suites pass, whatever the uninitialised variables of the tests hold.  The
  watchdog suite runs over \<open>IpmiBaseLibMock\<close>, in every well-typed state of the mock BMC; the boot
  option suite over the same, from every such state once its boot flags are cleared, as the
  \<open>ResetTestState\<close> of the suite leaves them; the SEL suite through \<open>IpmiBaseLibMock\<close> and through the
  generic driver alike, from every such state whose log has room for three records; and the tests
  of the power restore policy from cmocka queues with nothing in them, which they leave empty: no
  mock routine is called too often or not at all.\<close>

theorem library_unit_tests_pass:
  assumes "mock_ok ipmi_v2 m" "inst_ok inst" "Port inst = m" "unat (mNextRecordId m) + 3 \<le> SEL_COUNT"
    and "\<And>n. length (junk n) = n" "length PcdIpmiSelOemManufacturerId = 3"
  shows "(\<exists>m'. IpmiWatchdogTestMain ipmi_v2 junk Cc0 m = Some m') \<and>
    (\<exists>m'. BootOptionTestMain ipmi_v2 (ResetTestState_Boot ipmi_v2 m) = Some m') \<and>
    (\<exists>m'. SelTestMain ipmi_v2 (IpmiSubmitCommand_Mock ipmi_v2) PcdIpmiSelOemManufacturerId junk Cc0 m = Some m') \<and>
    (\<exists>inst'. SelTestMain ipmi_v2 (mock_driver ipmi_v2 3) PcdIpmiSelOemManufacturerId junk Cc0 inst = Some inst') \<and>
    UefiTestMain ipmi_v2 junk no_mocks = Some no_mocks"
proof (intro conjI)
  show "\<exists>m'. IpmiWatchdogTestMain ipmi_v2 junk Cc0 m = Some m'"
    "\<exists>m'. BootOptionTestMain ipmi_v2 (ResetTestState_Boot ipmi_v2 m) = Some m'"
    using mock_suites [OF assms(1,5)] by blast+
  show "\<exists>m'. SelTestMain ipmi_v2 (IpmiSubmitCommand_Mock ipmi_v2) PcdIpmiSelOemManufacturerId junk Cc0 m = Some m'"
    using sel_suite [OF mock_direct.mock_provider_axioms, where s = m and junk = junk and ?Cc0.0 = Cc0
        and manu = PcdIpmiSelOemManufacturerId] assms by auto
  show "\<exists>inst'. SelTestMain ipmi_v2 (mock_driver ipmi_v2 3) PcdIpmiSelOemManufacturerId junk Cc0 inst = Some inst'"
    using sel_suite [OF mock_generic.mock_provider_axioms, where s = inst and junk = junk and ?Cc0.0 = Cc0
        and manu = PcdIpmiSelOemManufacturerId] assms by auto
  show "UefiTestMain ipmi_v2 junk no_mocks = Some no_mocks"
    using power_tests [of junk, OF assms(5)] by (simp add: UefiTestMain_def)
qed

lemma mock_reset_first: "mNextRecordId (mock_reset M) = 0"
  by (simp add: mock_reset_def)

theorem library_unit_tests_pass_witness:
  "(\<exists>m'. IpmiWatchdogTestMain ipmi_v2 zero_mem 0 (mock_reset ipmi_v2) = Some m') \<and>
   (\<exists>m'. SelTestMain ipmi_v2 (IpmiSubmitCommand_Mock ipmi_v2) [1, 2, 3] zero_mem 0 (mock_reset ipmi_v2) = Some m') \<and>
   UefiTestMain ipmi_v2 zero_mem no_mocks = Some no_mocks"
  using library_unit_tests_pass [of "mock_reset ipmi_v2" "mock_instance (mock_reset ipmi_v2)" zero_mem "[1, 2, 3]" 0]
  by (simp add: mock_reset_first mock_sizes)

end
