(* ===== verification/Unit_Tests_Stack.thy ===== *)
theory Unit_Tests_Stack
  imports Unit_Tests Generic_Init Transport_Ssif
begin

section \<open>The unit tests of the transport and of the generic driver\<close>

text \<open>
  \<open>SsifUnitTest\<close> over the SMBus library of the test, and \<open>GenericIpmiUnitTest\<close> over the mock
  transport: the driver is initialised, asked for its status, sends a command and refuses buffers
  that are too small.  A test is a function of the state of the mocks, as in \<open>Unit_Tests\<close>.
\<close>

unbundle bit_operations_syntax

subsection \<open>SSIF\<close>

text \<open>The state: the bus, and the static \<open>Mod\<close> of \<open>PatternBuffer\<close>.\<close>

type_synonym ssif_test_state = "smbus_test \<times> u32"

definition PatternBuffer :: "bytes \<Rightarrow> nat \<Rightarrow> u32 \<Rightarrow> bytes \<times> u32" where
  "PatternBuffer Buffer Size Mod =
     (copy_mem Buffer 0 (map (\<lambda>Index. ucast (Mod + of_nat Index)) [0..<Size]), Mod + 1)"

definition ResetTestState_Ssif :: "ssif_test_state \<Rightarrow> ssif_test_state" where
  "ResetTestState_Ssif s = (SmbusTestLibReset (fst s), snd s)"

primrec write_sizes :: "u8 list \<Rightarrow> bytes \<Rightarrow> ssif_test_state unit_test" where
  "write_sizes [] TestData s = Some s"
| "write_sizes (n # ns) TestData s =
     do {
       let (TestData1, Mod1) = PatternBuffer TestData (unat n) (snd s);
       (Status, b1) \<leftarrow> SendDataToBmcPort_Ssif BmcSmbusLibTest 0 TestData1 n (fst s);
       UT_ASSERT (Status = EFI_SUCCESS);
       UT_ASSERT (CheckTxBuffer TestData1 (ucast n) b1);
       write_sizes ns TestData1 (SmbusTestLibReset b1, Mod1)
     }"

definition TestSsifSimpleWrite :: "(nat \<Rightarrow> bytes) \<Rightarrow> ssif_test_state unit_test" where
  "TestSsifSimpleWrite junk =
     write_sizes [8, SSIF_MAX_WRITE_SIZE, SSIF_MAX_WRITE_SIZE + 1, 250] (junk 250)"

text \<open>\<open>BlockBuffer\<close> is the uninitialised block buffer in the receive of the transport.\<close>

primrec read_sizes :: "bytes \<Rightarrow> u8 list \<Rightarrow> bytes \<Rightarrow> bytes \<Rightarrow> ssif_test_state unit_test" where
  "read_sizes BlockBuffer [] TestData ReadData s = Some s"
| "read_sizes BlockBuffer (n # ns) TestData ReadData s =
     do {
       let (TestData1, Mod1) = PatternBuffer TestData (unat n) (snd s);
       b1 \<leftarrow> SetRxBuffer TestData1 (ucast n) (fst s);
       ((Status, ReadData1, ReadSize), b2) \<leftarrow>
          ReceiveBmcDataFromPort_Ssif BmcSmbusLibTest BlockBuffer 0 ReadData 250 b1;
       UT_ASSERT (Status = EFI_SUCCESS);
       UT_ASSERT (ReadSize = n);
       UT_ASSERT (take (unat ReadSize) TestData1 = take (unat ReadSize) ReadData1);
       read_sizes BlockBuffer ns TestData1 ReadData1 (SmbusTestLibReset b2, Mod1)
     }"

definition TestSsifSimpleRead :: "bytes \<Rightarrow> (nat \<Rightarrow> bytes) \<Rightarrow> ssif_test_state unit_test" where
  "TestSsifSimpleRead BlockBuffer junk =
     read_sizes BlockBuffer [8, of_nat SSIF_MAX_READ_SIZE, of_nat SSIF_MAX_READ_SIZE + 1, 250]
       (junk 250) (junk 250)"

definition SsifTestMain :: "bytes \<Rightarrow> (nat \<Rightarrow> bytes) \<Rightarrow> ssif_test_state unit_test" where
  "SsifTestMain BlockBuffer junk =
     run_tests [(TestSsifSimpleWrite junk, ResetTestState_Ssif),
                (TestSsifSimpleRead BlockBuffer junk, ResetTestState_Ssif)]"

lemma reset_simps [simp]:
  "RxBuffer (SmbusTestLibReset b) = zero_mem 1024" "TxBuffer (SmbusTestLibReset b) = zero_mem 1024"
  "RxOffset (SmbusTestLibReset b) = 0" "RxSize (SmbusTestLibReset b) = 0" "TxSize (SmbusTestLibReset b) = 0"
  by (simp_all add: SmbusTestLibReset_def TEST_BUFFER_SIZE_def)

lemma length_pattern: "n \<le> length d \<Longrightarrow> length (fst (PatternBuffer d n k)) = length d"
  by (simp add: PatternBuffer_def mem_simps)

lemma write_sizes_pass:
  assumes "list_all (\<lambda>n. 0 < n \<and> unat n \<le> length d) ns" "TxSize b = 0" "length (TxBuffer b) = 1024"
  shows "\<exists>b'. write_sizes ns d (b, k) = Some (b', k + of_nat (length ns))"
  using assms
proof (induction ns arbitrary: d b k)
  case (Cons n ns)
  let ?d = "fst (PatternBuffer d (unat n) k)"
  have d: "length ?d = length d" using Cons.prems(1) by (simp add: length_pattern)
  obtain b1 where "SendDataToBmcPort_Ssif BmcSmbusLibTest 0 ?d n b = Some (EFI_SUCCESS, b1)"
    "CheckTxBuffer ?d (ucast n) b1"
    using test_send_arrives [of n ?d b 0] Cons.prems d by auto
  moreover obtain b2 where "write_sizes ns ?d (SmbusTestLibReset b1, k + 1) = Some (b2, k + 1 + of_nat (length ns))"
    using Cons.IH [of ?d "SmbusTestLibReset b1" "k + 1"] Cons.prems(1) d by auto
  ultimately show ?case by (simp add: PatternBuffer_def algebra_simps)
qed simp

text \<open>The pattern of a message that fits one block must not begin with 0 and 1.\<close>

lemma pattern_nth:
  assumes "i < n" "n \<le> length d"
  shows "take n (fst (PatternBuffer d n k)) ! i = ucast (k + of_nat i)"
  using assms by (simp add: PatternBuffer_def copy_mem_def nth_append)

lemma read_sizes_pass:
  assumes "list_all (\<lambda>n. 2 \<le> unat n \<and> unat n \<le> length d \<and> unat n \<le> 250) ns" "length r = 250" "64 \<le> length Block"
    and "\<And>i. i < length ns \<Longrightarrow> (ucast (k + of_nat i) :: u8) \<noteq> 0" "RxOffset b = 0" "length (RxBuffer b) = 1024"
  shows "\<exists>b'. read_sizes Block ns d r (b, k) = Some (b', k + of_nat (length ns))"
  using assms
proof (induction ns arbitrary: d r b k)
  case (Cons n ns)
  let ?d = "fst (PatternBuffer d (unat n) k)" and ?m = "unat n"
  have d: "length ?d = length d" using Cons.prems(1) by (simp add: length_pattern)
  have n: "unat (ucast n :: u32) = ?m" "?m \<le> 250" "2 \<le> ?m" "?m \<le> length d"
    using Cons.prems(1) by (simp_all add: unat_ucast_up)
  let ?b = "b\<lparr>RxBuffer := copy_mem (RxBuffer b) 0 (take ?m ?d), RxSize := ucast n, RxOffset := 0\<rparr>"
  have set: "SetRxBuffer ?d (ucast n) b = Some ?b" using n by (simp add: SetRxBuffer_def TEST_BUFFER_SIZE_def)
  have rx: "length (RxBuffer ?b) = 1024" "take ?m (RxBuffer ?b) = take ?m ?d" "RxBuffer ?b ! 0 = ucast k"
    using Cons.prems(6) n d pattern_nth [of 0 ?m d k]
    by (simp_all add: copy_mem_def mem_simps nth_append min_def)
  have "(ucast k :: u8) \<noteq> 0" using Cons.prems(4) [of 0] by simp
  then obtain b2 where "ReceiveBmcDataFromPort_Ssif BmcSmbusLibTest Block 0 r 250 ?b =
      Some ((EFI_SUCCESS, take ?m (RxBuffer ?b) @ drop ?m r, of_nat ?m), b2)"
    using test_receive_arrives [of ?b ?m 250 r Block 0] n rx Cons.prems(2,3) by auto
  moreover obtain b3 where "read_sizes Block ns ?d (take ?m (RxBuffer ?b) @ drop ?m r) (SmbusTestLibReset b2, k + 1) =
      Some (b3, k + 1 + of_nat (length ns))"
    using Cons.IH [of ?d "take ?m (RxBuffer ?b) @ drop ?m r" "k + 1" "SmbusTestLibReset b2"] Cons.prems n d rx
      Cons.prems(4) [of "Suc _"]
    by (auto simp: algebra_simps)
  ultimately show ?case using set rx(2) n(4) d by (simp add: PatternBuffer_def algebra_simps)
qed simp

text \<open>The suite: the read test passes because the write test has moved the pattern on.\<close>

lemma ssif_suite:
  assumes "\<And>n. length (junk n) = n" "length BlockBuffer = 64"
  shows "\<exists>s'. SsifTestMain BlockBuffer junk (test_reset, 0) = Some s'"
proof -
  obtain b1 where 1: "TestSsifSimpleWrite junk (test_reset, 0) = Some (b1, 4)"
    using write_sizes_pass [of "junk 250" "[8, SSIF_MAX_WRITE_SIZE, SSIF_MAX_WRITE_SIZE + 1, 250]" test_reset 0] assms(1)
    by (auto simp: TestSsifSimpleWrite_def SSIF_MAX_WRITE_SIZE_def simp del: write_sizes.simps)
  have "(ucast (4 + of_nat i :: u32) :: u8) \<noteq> 0" if "i < 4" for i
  proof -
    have "i = 0 \<or> i = 1 \<or> i = 2 \<or> i = 3" using that by linarith
    then show ?thesis by auto
  qed
  then obtain b2 where "TestSsifSimpleRead BlockBuffer junk (SmbusTestLibReset b1, 4) = Some (b2, 8)"
    using read_sizes_pass [of "junk 250" "[8, of_nat SSIF_MAX_READ_SIZE, of_nat SSIF_MAX_READ_SIZE + 1, 250]" "junk 250"
        BlockBuffer 4 "SmbusTestLibReset b1"] assms
    by (auto simp: TestSsifSimpleRead_def SSIF_MAX_READ_SIZE_def simp del: read_sizes.simps)
  then show ?thesis using 1 by (simp add: SsifTestMain_def ResetTestState_Ssif_def)
qed

text \<open>Run first, the read test would fail: its first message begins with 0 and 1.\<close>

lemma read_cut_short:
  assumes b: "unat (RxSize b) = 8" "RxOffset b = 0" "RxBlock b = 0xFF" "8 \<le> length (RxBuffer b)"
    and first: "RxBuffer b ! 0 = 0" "RxBuffer b ! 1 = 1" and len: "length Block = 64" "length D = 250"
  shows "\<exists>D' b'. ReceiveBmcDataFromPort_Ssif BmcSmbusLibTest Block 0 D 250 b = Some ((EFI_SUCCESS, D', 6), b')"
proof -
  let ?B = "copy_mem Block 0 (take 8 (RxBuffer b))" and ?b = "b\<lparr>RxOffset := RxSize b\<rparr>"
  have B: "?B ! 0 = 0" "?B ! 1 = 1" using b(4) first by (simp_all add: copy_mem_def nth_append)
  have 1: "test_BlockRead SMBUS_CMD_READ Block n b = Some ((EFI_SUCCESS, ?B, 8), ?b)" for n
    using test_first_read_single [OF b(1) _ _ b(2)] by simp
  obtain D1 where 2: "ssif_block SMBUS_CMD_READ 0 EFI_SUCCESS ?B 8 D 0 250 = SsifMore 0 D1 6"
    using B by (simp add: ssif_block_def Let_def)
  have "RxSize b \<noteq> 0" using b(1) by auto
  then have 3: "test_BlockRead SMBUS_CMD_MULT_READ Block' n ?b =
      Some ((EFI_SUCCESS, poke Block' 0 0xFF, 1), ?b\<lparr>RxBlock := 0\<rparr>)" for Block' n
    using b(3)
    by (simp add: test_BlockRead_def Let_def SMBUS_CMD_MULT_READ_def SMBUS_CMD_READ_def SSIF_MAX_READ_SIZE_def
        copy_mem_def)
  have 4: "\<exists>D2. ssif_block SMBUS_CMD_MULT_READ 0 EFI_SUCCESS (poke ?B 0 0xFF) 1 D1 6 250 = SsifStop EFI_SUCCESS D2 6"
    using len by (simp add: ssif_block_def Let_def SMBUS_CMD_READ_def SMBUS_CMD_MULT_READ_def poke_def copy_mem_def)
  then show ?thesis
    using 1 2 3 by (auto simp: ReceiveBmcDataFromPort_Ssif_def
        ReceiveBmcDataFromPort_Ssif_loop.simps [of _ SMBUS_CMD_READ]
        ReceiveBmcDataFromPort_Ssif_loop.simps [of _ SMBUS_CMD_MULT_READ])
qed

lemma read_test_first:
  assumes "\<And>n. length (junk n) = n" "length BlockBuffer = 64"
  shows "TestSsifSimpleRead BlockBuffer junk (test_reset, 0) = None"
proof -
  let ?d = "fst (PatternBuffer (junk 250) 8 0)"
  let ?b = "test_reset\<lparr>RxBuffer := copy_mem (RxBuffer test_reset) 0 (take 8 ?d), RxSize := 8, RxOffset := 0\<rparr>"
  have len: "length ?d = 250" using assms(1) by (simp add: length_pattern)
  have rx: "8 \<le> length (RxBuffer ?b)" "RxBuffer ?b ! 0 = 0" "RxBuffer ?b ! 1 = 1"
    using pattern_nth [of 0 8 "junk 250" 0] pattern_nth [of 1 8 "junk 250" 0] assms(1) len
    by (simp_all add: copy_mem_def mem_simps nth_append)
  obtain D b' where 1: "ReceiveBmcDataFromPort_Ssif BmcSmbusLibTest BlockBuffer 0 (junk 250) 250 ?b =
      Some ((EFI_SUCCESS, D, 6), b')"
    using read_cut_short [of ?b BlockBuffer "junk 250"] rx assms by auto
  have 2: "SetRxBuffer ?d 8 test_reset = Some ?b" by (simp add: SetRxBuffer_def TEST_BUFFER_SIZE_def)
  show ?thesis
    using 1 2 by (simp add: TestSsifSimpleRead_def case_prod_beta ASSERT_def)
qed

subsection \<open>The generic driver\<close>

text \<open>The configuration of \<open>IpmiFeaturePkgHostTest.dsc\<close> and of the package, with the null platform
  library and the null timer library.\<close>

definition host_env :: "ipmi_hdr \<Rightarrow> mock_bmc gi_env" where
  "host_env M =
     \<lparr>env_hdr = M, env_send = SendDataToBmcPort_Mock M, env_recv = ReceiveBmcDataFromPort_Mock,
      env_init = InitializeIpmiTransportHardware_Mock, env_delay = (\<lambda>us m. m),
      PlatformIpmiInitialize = PlatformIpmiInitialize_Null,
      GetDeviceSpecificTestResults = GetDeviceSpecificTestResults_Null,
      PcdIpmiCommandMaxReties = 3, PcdIpmiBmcReadyDelayTimer = 120, PcdBmcTimeoutSeconds = 30,
      PcdIpmiCommandTimeoutSeconds = 5, PcdIpmiCheckSelfTestResults = True\<rparr>"

type_synonym test_instance = "mock_bmc ipmi_bmc_instance"

definition TestIpmiInit :: "ipmi_hdr \<Rightarrow> test_instance unit_test" where
  "TestIpmiInit M inst =
     do {
       let mIpmiInstance =
         \<lparr>Signature = SM_IPMI_BMC_SIGNATURE, IpmiTimeoutPeriod = 0, SlaveAddress = BMC_SLAVE_ADDRESS,
          TempData = zero_mem MAX_TEMP_DATA, BmcStatus = BMC_NOTREADY, ErrorStatus = 0,
          SoftErrorCount = 0, Port = Port inst\<rparr>;
       ((Status, codes), inst1) \<leftarrow> IpmiInitializeBmc (host_env M) mIpmiInstance;
       UT_ASSERT (Status = EFI_SUCCESS);
       UT_ASSERT (BmcStatus inst1 = BMC_OK);
       UT_ASSERT (SoftErrorCount inst1 = 0);
       Some inst1
     }"

definition TestIpmiGetBmcStatus :: "test_instance unit_test" where
  "TestIpmiGetBmcStatus inst =
     do {
       let ((Status, Status_Bmc, ComAddress), inst1) = IpmiGetBmcStatus inst;
       UT_ASSERT (Status = EFI_SUCCESS);
       UT_ASSERT (Status_Bmc = BMC_OK);
       UT_ASSERT (ComSlaveAddress ComAddress = BMC_SLAVE_ADDRESS);
       Some inst1
     }"

definition TestIpmiCommand :: "ipmi_hdr \<Rightarrow> test_instance unit_test" where
  "TestIpmiCommand M inst =
     do {
       let Request = fputs M [(ClearSel_AscC, 0x43), (ClearSel_AscL, 0x4C), (ClearSel_AscR, 0x52),
                              (ClearSel_Erase, unat (val_of M IPMI_CLEAR_SEL_REQUEST_INITIALIZE_ERASE))]
                       (zero_mem (sizeof M IPMI_CLEAR_SEL_REQUEST));
       ((Status, Response, DataSize), inst1) \<leftarrow>
          mock_driver M 3 (netfn_of M IPMI_NETFN_STORAGE) (cmd_of M IPMI_STORAGE_CLEAR_SEL) (Some Request)
            (of_nat (sizeof M IPMI_CLEAR_SEL_REQUEST)) (zero_mem (sizeof M IPMI_CLEAR_SEL_RESPONSE))
            (of_nat (sizeof M IPMI_CLEAR_SEL_RESPONSE)) inst;
       UT_ASSERT (Status = EFI_SUCCESS);
       UT_ASSERT (DataSize = of_nat (sizeof M IPMI_CLEAR_SEL_RESPONSE));
       UT_ASSERT (fget8 M 0 CompletionCode Response = cc_of M IPMI_COMP_CODE_NORMAL);
       Some inst1
     }"

definition TestIpmiBufferTooSmall :: "ipmi_hdr \<Rightarrow> test_instance unit_test" where
  "TestIpmiBufferTooSmall M inst =
     do {
       let Zero = zero_mem (sizeof M IPMI_GET_DEVICE_ID_RESPONSE);
       let GetId = (\<lambda>Resp DataSize. IpmiSendCommand M (SendDataToBmcPort_Mock M) ReceiveBmcDataFromPort_Mock 3
          (netfn_of M IPMI_NETFN_APP) 0 (cmd_of M IPMI_APP_GET_DEVICE_ID) None 0 Resp (Some DataSize));
       ((Status, Resp, sz), inst1) \<leftarrow> GetId (RespCaller Zero) 0 inst;
       UT_ASSERT (Status = EFI_BUFFER_TOO_SMALL);
       ((Status, Resp, sz), inst2) \<leftarrow> GetId RespNull 4 inst1;
       UT_ASSERT (Status = EFI_INVALID_PARAMETER);
       UT_ASSERT (4 < sizeof M IPMI_GET_DEVICE_ID_RESPONSE);
       ((Status, Resp, sz), inst3) \<leftarrow> GetId (RespCaller Zero) 4 inst2;
       UT_ASSERT (Status = EFI_BUFFER_TOO_SMALL);
       UT_ASSERT (sz = Some (of_nat (sizeof M IPMI_GET_DEVICE_ID_RESPONSE)));
       UT_ASSERT (Resp = RespCaller Zero);
       Some inst3
     }"

definition GenericIpmiTestMain :: "ipmi_hdr \<Rightarrow> test_instance unit_test" where
  "GenericIpmiTestMain M =
     run_tests [(TestIpmiInit M, \<lambda>s. s), (TestIpmiGetBmcStatus, \<lambda>s. s), (TestIpmiCommand M, \<lambda>s. s),
                (TestIpmiBufferTooSmall M, \<lambda>s. s)]"

section \<open>The driver over the mock transport\<close>

text \<open>A call whose response pointer is the driver's own buffer: the copy overwrites the completion code
  before it is stored, so the first byte is the second data byte; the data are where they belong.\<close>

lemma internal_reply_temp:
  assumes ex: "send (IpmiTimeoutPeriod inst) (command_frame lun nf c d n (TempData inst)) (n + 2)
             (Port inst) = Some (EFI_SUCCESS, p1)"
      "recv (IpmiTimeoutPeriod inst) (command_frame lun nf c d n (TempData inst)) 254 p1 =
           Some ((EFI_SUCCESS, reply, k), p2)"
    and reply: "length reply = 255" "3 \<le> unat k" "unat k \<le> 254" "reply ! 2 = cc_of M IPMI_COMP_CODE_NORMAL"
    and fits: "unat k - 3 \<le> unat sz" and retries: "0 < r"
  shows "\<exists>x. IpmiSendCommandInternal M send recv r nf lun c (Some d) n RespTemp (Some sz) inst =
    Some ((EFI_SUCCESS, RespTemp, Some (of_nat (unat k - 2))),
          inst\<lparr>TempData := x # take (unat k - 3) (drop 3 reply) @ drop (unat k - 2) reply,
               Port := p2, BmcStatus := BMC_OK\<rparr>)"
proof -
  obtain r' where r: "unat r = Suc r'"
    using retries by (metis gr0_conv_Suc unat_gt_0 word_gt_0)
  have k: "Suc (unat k - 3) = unat k - 2" "unat k - 3 \<le> length (drop 3 reply)" using reply by auto
  show ?thesis
    using reply fits k copy_response_eq [OF k(2), of reply]
    by (intro exI [of _ "copy_response (unat k - 3) (drop 3 reply) reply ! 2"])
      (simp add: IpmiSendCommandInternal_def r pass_exchange [where send = send and recv = recv, OF ex]
        check_response_def response_simps flip: of_nat_Suc)
qed

text \<open>One query of the initialisation, answered by the mock.\<close>

lemma fget8_byte:
  assumes "layout M f = (8 * i, 8)" "i < length bs"
  shows "fget8 M 0 f bs = bs ! i"
proof -
  have "drop i bs = bs ! i # drop (Suc i) bs" using assms(2) by (simp add: Cons_nth_drop_Suc)
  then have "drop_bit (8 * i) (le_nat bs) = unat (bs ! i) + 256 * le_nat (drop (Suc i) bs)"
    by (simp flip: le_nat_drop)
  moreover have "take_bit 8 (unat (bs ! i) + 256 * le_nat (drop (Suc i) bs)) = unat (bs ! i)"
    using u8_bound [of "bs ! i"] by (simp add: take_bit_eq_mod)
  ultimately show ?thesis by (simp add: fget8_def fget_def bits_get_def assms(1))
qed

lemma mock_query:
  assumes "mock_reply ipmi_v2 (netfn_of ipmi_v2 f) (cmd_of ipmi_v2 c) [] (Port inst) = Some (r, m')"
    "mock_ok ipmi_v2 (Port inst)" "inst_ok inst" "hd r = cc_of ipmi_v2 IPMI_COMP_CODE_NORMAL"
  shows "\<exists>inst'. query (host_env ipmi_v2) f c 255 inst = Some ((EFI_SUCCESS, of_nat (length r)), inst') \<and>
    inst_ok inst' \<and> Port inst' = m' \<and> mock_ok ipmi_v2 m' \<and> BmcStatus inst' = BMC_OK \<and>
    SoftErrorCount inst' = SoftErrorCount inst \<and> SlaveAddress inst' = SlaveAddress inst \<and>
    (\<forall>i. 0 < i \<longrightarrow> i < length r \<longrightarrow> TempData inst' ! i = r ! i)"
proof -
  let ?nf = "netfn_of ipmi_v2 f" and ?c = "cmd_of ipmi_v2 c"
  let ?F = "command_frame 0 ?nf ?c [] (of_nat (length ([] :: bytes))) (TempData inst)"
  let ?T = "copy_mem ?F 0 ([hdr_byte 0 (?nf OR 1), ?c] @ r)"
  have nf: "?nf < 64" by (rule hdr_ok_netfn [OF ipmi_v2_ok])
  obtain m1 where ex:
    "SendDataToBmcPort_Mock ipmi_v2 (IpmiTimeoutPeriod inst) ?F (of_nat (length ([] :: bytes)) + 2) (Port inst) =
       Some (EFI_SUCCESS, m1)"
    "ReceiveBmcDataFromPort_Mock (IpmiTimeoutPeriod inst) ?F 254 m1 = Some ((EFI_SUCCESS, ?T, of_nat (2 + length r)), m')"
    by (rule mock_generic_exchange [OF ipmi_v2_ok assms(1-3) nf]) simp
  have r: "0 < length r" "length r \<le> 250" "mock_ok ipmi_v2 m'"
    using mock_reply_ok [OF assms(1,2)] by simp_all
  have k: "unat (of_nat (2 + length r) :: u8) = 2 + length r" using r by (intro unat_of_nat_u8) simp
  have le: "length r - Suc 0 \<le> 255" using r(2) by linarith
  have "length ?F = 255"
    using length_command_frame [of "TempData inst" 0] assms(3) by (simp add: inst_ok_def size_defs)
  then have T: "length ?T = 255" using r by (simp add: length_copy_mem_fits)
  have T2: "?T ! 2 = cc_of ipmi_v2 IPMI_COMP_CODE_NORMAL" "take (length r - 1) (drop 3 ?T) = tl r"
    using assms(4) r(1) by (cases r; simp add: copy_mem_def hd_conv_nth nth_append)+
  obtain x where int: "IpmiSendCommandInternal ipmi_v2 (SendDataToBmcPort_Mock ipmi_v2) ReceiveBmcDataFromPort_Mock 3
      ?nf 0 ?c (Some []) 0 RespTemp (Some (ucast (255 :: u32))) inst =
    Some ((EFI_SUCCESS, RespTemp, Some (of_nat (length r))),
      inst\<lparr>TempData := x # tl r @ drop (length r) ?T, Port := m', BmcStatus := BMC_OK\<rparr>)"
    using internal_reply_temp [where send = "SendDataToBmcPort_Mock ipmi_v2" and recv = ReceiveBmcDataFromPort_Mock
        and M = ipmi_v2 and r = 3 and sz = "ucast (255 :: u32)", OF ex] T T2 k r
      Suc_leI [OF r(1)] le
    by auto
  let ?i = "inst\<lparr>TempData := x # tl r @ drop (length r) ?T, Port := m', BmcStatus := BMC_OK\<rparr>"
  have sz: "set_low8 255 (of_nat (length r)) = of_nat (length r)"
    using r by (simp add: set_low8_small word_unat_eq_iff unsigned_ucast_eq unat_of_nat take_bit_eq_mod)
  have "query (host_env ipmi_v2) f c 255 inst = Some ((EFI_SUCCESS, of_nat (length r)), ?i)"
    using int internal_None [of ipmi_v2 "SendDataToBmcPort_Mock ipmi_v2" ReceiveBmcDataFromPort_Mock 3 ?nf 0 ?c RespTemp]
    by (simp add: query_def host_env_def IpmiSendCommand_def sz)
  moreover have "length r - Suc 0 + 255 - length r = 254" "length r + (255 - length r) = 255"
    using r(1,2) by linarith+
  then have "inst_ok ?i" using T by (simp add: inst_ok_def size_defs)
  moreover have "\<forall>i. 0 < i \<longrightarrow> i < length r \<longrightarrow> TempData ?i ! i = r ! i"
    using r(1) by (auto simp: nth_Cons' nth_append nth_tl)
  ultimately show ?thesis using r(3) by (intro exI [of _ ?i]) simp
qed

text \<open>What the mock says about itself.\<close>

lemma mock_device_id:
  assumes "mock_ok ipmi_v2 m"
  shows "\<exists>r m'. mock_reply ipmi_v2 (netfn_of ipmi_v2 IPMI_NETFN_APP) (cmd_of ipmi_v2 IPMI_APP_GET_DEVICE_ID) [] m =
      Some (r, m') \<and> length r = 16 \<and> hd r = cc_of ipmi_v2 IPMI_COMP_CODE_NORMAL \<and> r ! 3 = 0"
proof -
  let ?S = IPMI_GET_DEVICE_ID_RESPONSE
  let ?m = "mock_begin ipmi_v2 (netfn_of ipmi_v2 IPMI_NETFN_APP) (cmd_of ipmi_v2 IPMI_APP_GET_DEVICE_ID) m"
  let ?r = "cc_of ipmi_v2 IPMI_COMP_CODE_INVALID_COMMAND # zero_mem 249"
  have mem: "((netfn_of ipmi_v2 IPMI_NETFN_APP, cmd_of ipmi_v2 IPMI_APP_GET_DEVICE_ID), MockIpmiGetDeviceId ipmi_v2)
      \<in> set (MockHandlers ipmi_v2)" by (simp add: MockHandlers_def)
  obtain fvs where fvs: "MockIpmiGetDeviceId ipmi_v2 ([] @ zero_mem (253 - length ([] :: bytes)))
      (of_nat (length ([] :: bytes))) ?r 250 ?m = Some ((fputs ipmi_v2 fvs ?r, of_nat (sizeof ipmi_v2 ?S)), ?m)"
    "map_of (rev fvs) CompletionCode = Some (unat (cc_of ipmi_v2 IPMI_COMP_CODE_NORMAL))"
    "map_of (rev fvs) DevId_FirmwareRev1 = Some 0" "fst ` set fvs \<subseteq> set (fields_of ?S)"
    by (simp add: MockIpmiGetDeviceId_def del: fputs_simps)
  obtain R m' where R: "mock_reply ipmi_v2 (netfn_of ipmi_v2 IPMI_NETFN_APP) (cmd_of ipmi_v2 IPMI_APP_GET_DEVICE_ID) [] m =
      Some (R, m')" "length R = sizeof ipmi_v2 ?S"
    "\<And>g. g \<in> set (fields_of ?S) \<Longrightarrow> fget ipmi_v2 0 g R =
        (case map_of (rev fvs) g of Some v \<Rightarrow> take_bit (width_of g) v | None \<Rightarrow> fget ipmi_v2 0 g ?r)"
    "hd R = fget8 ipmi_v2 0 CompletionCode R"
    by (rule mock_reply_struct [OF ipmi_v2_ok v2_commands mem fvs(1,4)]) simp_all
  have "R ! 3 = fget8 ipmi_v2 0 DevId_FirmwareRev1 R" "hd R = cc_of ipmi_v2 IPMI_COMP_CODE_NORMAL"
    using fget8_byte [of ipmi_v2 DevId_FirmwareRev1 3 R] R fvs(2) by (simp_all add: fget8_def)
  then show ?thesis using R(1-3) fvs(3) by (auto simp: fget8_def)
qed

lemma mock_self_test:
  assumes "mock_ok ipmi_v2 m"
  shows "\<exists>r m'. mock_reply ipmi_v2 (netfn_of ipmi_v2 IPMI_NETFN_APP) (cmd_of ipmi_v2 IPMI_APP_GET_SELFTEST_RESULTS) [] m =
      Some (r, m') \<and> length r = 3 \<and> hd r = cc_of ipmi_v2 IPMI_COMP_CODE_NORMAL \<and>
      r ! 1 = val_of ipmi_v2 IPMI_APP_SELFTEST_NOT_IMPLEMENTED"
proof -
  let ?S = IPMI_SELF_TEST_RESULT_RESPONSE
  let ?m = "mock_begin ipmi_v2 (netfn_of ipmi_v2 IPMI_NETFN_APP) (cmd_of ipmi_v2 IPMI_APP_GET_SELFTEST_RESULTS) m"
  let ?r = "cc_of ipmi_v2 IPMI_COMP_CODE_INVALID_COMMAND # zero_mem 249"
  have mem: "((netfn_of ipmi_v2 IPMI_NETFN_APP, cmd_of ipmi_v2 IPMI_APP_GET_SELFTEST_RESULTS), MockIpmiGetSelfTest ipmi_v2)
      \<in> set (MockHandlers ipmi_v2)" by (simp add: MockHandlers_def)
  obtain fvs where fvs: "MockIpmiGetSelfTest ipmi_v2 ([] @ zero_mem (253 - length ([] :: bytes)))
      (of_nat (length ([] :: bytes))) ?r 250 ?m = Some ((fputs ipmi_v2 fvs ?r, of_nat (sizeof ipmi_v2 ?S)), ?m)"
    "map_of (rev fvs) CompletionCode = Some (unat (cc_of ipmi_v2 IPMI_COMP_CODE_NORMAL))"
    "map_of (rev fvs) SelfTest_Result = Some (unat (val_of ipmi_v2 IPMI_APP_SELFTEST_NOT_IMPLEMENTED))"
    "fst ` set fvs \<subseteq> set (fields_of ?S)"
    by (simp add: MockIpmiGetSelfTest_def del: fputs_simps)
  obtain R m' where R: "mock_reply ipmi_v2 (netfn_of ipmi_v2 IPMI_NETFN_APP) (cmd_of ipmi_v2 IPMI_APP_GET_SELFTEST_RESULTS) [] m =
      Some (R, m')" "length R = sizeof ipmi_v2 ?S"
    "\<And>g. g \<in> set (fields_of ?S) \<Longrightarrow> fget ipmi_v2 0 g R =
        (case map_of (rev fvs) g of Some v \<Rightarrow> take_bit (width_of g) v | None \<Rightarrow> fget ipmi_v2 0 g ?r)"
    "hd R = fget8 ipmi_v2 0 CompletionCode R"
    by (rule mock_reply_struct [OF ipmi_v2_ok v2_commands mem fvs(1,4)]) simp_all
  have "R ! 1 = fget8 ipmi_v2 0 SelfTest_Result R" "hd R = cc_of ipmi_v2 IPMI_COMP_CODE_NORMAL"
    using fget8_byte [of ipmi_v2 SelfTest_Result 1 R] R fvs(2) by (simp_all add: fget8_def)
  then show ?thesis using R(1-3) fvs(3) by (auto simp: fget8_def)
qed

text \<open>Initialisation over the mock: two queries, a healthy BMC, and nothing to report.\<close>

lemma mock_initialise:
  assumes "mock_ok ipmi_v2 (Port inst)" "inst_ok inst"
  shows "\<exists>inst'. IpmiInitializeBmc (host_env ipmi_v2) inst = Some ((EFI_SUCCESS, []), inst') \<and>
    inst_ok inst' \<and> mock_ok ipmi_v2 (Port inst') \<and> BmcStatus inst' = BMC_OK \<and>
    SoftErrorCount inst' = SoftErrorCount inst \<and> SlaveAddress inst' = SlaveAddress inst"
proof -
  let ?E = "host_env ipmi_v2"
  obtain r m where r: "mock_reply ipmi_v2 (netfn_of ipmi_v2 IPMI_NETFN_APP) (cmd_of ipmi_v2 IPMI_APP_GET_DEVICE_ID) []
      (Port inst) = Some (r, m)" "length r = 16" "hd r = cc_of ipmi_v2 IPMI_COMP_CODE_NORMAL" "r ! 3 = 0"
    using mock_device_id [OF assms(1)] by blast
  obtain i1 where 1: "query ?E IPMI_NETFN_APP IPMI_APP_GET_DEVICE_ID 255 inst = Some ((EFI_SUCCESS, of_nat (length r)), i1)"
    "inst_ok i1" "Port i1 = m" "mock_ok ipmi_v2 m" "BmcStatus i1 = BMC_OK" "SoftErrorCount i1 = SoftErrorCount inst"
    "SlaveAddress i1 = SlaveAddress inst" "TempData i1 ! 3 = 0"
    using mock_query [OF r(1) assms r(3)] r(2,4) by auto
  have id: "GetDeviceId ?E inst = Some (EFI_SUCCESS, i1\<lparr>BmcStatus := BMC_OK\<rparr>)"
    using 1(1,8) by (simp add: GetDeviceId_def GetDeviceId_loop.simps [of ?E] UpdateMode_def size_defs)
  let ?j = "i1\<lparr>BmcStatus := BMC_OK, TempData := poke (TempData i1) 1 0\<rparr>"
  have j: "mock_ok ipmi_v2 (Port ?j)" "inst_ok ?j" using 1(2,3,4) by (simp_all add: inst_ok_def size_defs length_poke)
  obtain r' m' where r': "mock_reply ipmi_v2 (netfn_of ipmi_v2 IPMI_NETFN_APP)
      (cmd_of ipmi_v2 IPMI_APP_GET_SELFTEST_RESULTS) [] (Port ?j) = Some (r', m')" "length r' = 3"
    "hd r' = cc_of ipmi_v2 IPMI_COMP_CODE_NORMAL" "r' ! 1 = val_of ipmi_v2 IPMI_APP_SELFTEST_NOT_IMPLEMENTED"
    using mock_self_test [OF j(1)] by blast
  obtain i2 where 2: "query ?E IPMI_NETFN_APP IPMI_APP_GET_SELFTEST_RESULTS 255 ?j =
      Some ((EFI_SUCCESS, of_nat (length r')), i2)"
    "inst_ok i2" "Port i2 = m'" "mock_ok ipmi_v2 m'" "SoftErrorCount i2 = SoftErrorCount inst"
    "SlaveAddress i2 = SlaveAddress inst" "TempData i2 ! 1 = val_of ipmi_v2 IPMI_APP_SELFTEST_NOT_IMPLEMENTED"
    using mock_query [OF r'(1) j r'(3)] r'(2,4) 1(6,7) by auto
  have res: "fget8 ipmi_v2 0 SelfTest_Result (TempData i2) = val_of ipmi_v2 IPMI_APP_SELFTEST_NOT_IMPLEMENTED"
    using fget8_byte [of ipmi_v2 SelfTest_Result 1 "TempData i2"] 2(2,7) by (simp add: inst_ok_def size_defs)
  have "GetSelfTest_loop ?E 120 255 ?j = Some ((EFI_SUCCESS, 120, of_nat (length r')), i2)"
    using 2(1) res by (subst GetSelfTest_loop.simps) (simp add: host_env_def self_test_known_def)
  then have "GetSelfTest ?E [] (i1\<lparr>BmcStatus := BMC_OK\<rparr>) =
      Some ((EFI_SUCCESS, []), store_error_status (of_nat (length r')) i2\<lparr>BmcStatus := BMC_OK\<rparr>)"
    using res by (simp add: GetSelfTest_def host_env_def size_defs classify_self_test_def store_error_status_def)
  then show ?thesis
    using id 2 by (simp add: IpmiInitializeBmc_def host_env_def PlatformIpmiInitialize_Null_def lift_port_def
        store_error_status_def inst_ok_def)
qed

lemma mock_too_small:
  assumes "mock_ok ipmi_v2 (Port inst)" "inst_ok inst" "unat sz < 15"
  shows "\<exists>inst'. IpmiSendCommand ipmi_v2 (SendDataToBmcPort_Mock ipmi_v2) ReceiveBmcDataFromPort_Mock 3
      (netfn_of ipmi_v2 IPMI_NETFN_APP) 0 (cmd_of ipmi_v2 IPMI_APP_GET_DEVICE_ID) None 0 (RespCaller Z) (Some sz) inst =
    Some ((EFI_BUFFER_TOO_SMALL, RespCaller Z, Some 16), inst') \<and> inst_ok inst' \<and> mock_ok ipmi_v2 (Port inst')"
proof -
  let ?nf = "netfn_of ipmi_v2 IPMI_NETFN_APP" and ?c = "cmd_of ipmi_v2 IPMI_APP_GET_DEVICE_ID"
  let ?F = "command_frame 0 ?nf ?c [] (of_nat (length ([] :: bytes))) (TempData inst)"
  obtain r m' where r: "mock_reply ipmi_v2 ?nf ?c [] (Port inst) = Some (r, m')" "length r = 16"
    "hd r = cc_of ipmi_v2 IPMI_COMP_CODE_NORMAL"
    using mock_device_id [OF assms(1)] by blast
  let ?T = "copy_mem ?F 0 ([hdr_byte 0 (?nf OR 1), ?c] @ r)"
  obtain m1 where ex:
    "SendDataToBmcPort_Mock ipmi_v2 (IpmiTimeoutPeriod inst) ?F (of_nat (length ([] :: bytes)) + 2) (Port inst) =
       Some (EFI_SUCCESS, m1)"
    "ReceiveBmcDataFromPort_Mock (IpmiTimeoutPeriod inst) ?F 254 m1 = Some ((EFI_SUCCESS, ?T, of_nat (2 + length r)), m')"
    by (rule mock_generic_exchange [OF ipmi_v2_ok r(1) assms(1,2)]) simp_all
  have "length ?F = 255"
    using length_command_frame [of "TempData inst" 0] assms(2) by (simp add: inst_ok_def size_defs)
  then have T: "length ?T = 255" using r(2) by (simp add: length_copy_mem_fits)
  have T2: "?T ! 2 = cc_of ipmi_v2 IPMI_COMP_CODE_NORMAL" "?T ! 0 = hdr_byte 0 (?nf OR 1)" "?T ! 1 = ?c"
    using r(2,3) by (cases r; simp add: copy_mem_def nth_append)+
  have nf: "hdr_netfn (hdr_byte 0 (?nf OR 1)) = ?nf OR 1" by (rule hdr_fields) simp
  have sz: "unat (ucast sz :: u8) < unat (of_nat (2 + length r) :: u8) - 3"
    using assms(3) r(2) by (simp add: unsigned_ucast_eq take_bit_nat_eq_self)
  have int: "IpmiSendCommandInternal ipmi_v2 (SendDataToBmcPort_Mock ipmi_v2) ReceiveBmcDataFromPort_Mock 3
      ?nf 0 ?c (Some []) 0 (RespCaller Z) (Some (ucast sz)) inst =
    Some ((EFI_BUFFER_TOO_SMALL, RespCaller Z, Some 16), inst\<lparr>TempData := ?T, Port := m'\<rparr>)"
    using internal_too_small [where send = "SendDataToBmcPort_Mock ipmi_v2" and recv = ReceiveBmcDataFromPort_Mock
        and M = ipmi_v2 and r = 3 and sz = "ucast sz" and m = Z, OF ex _ T2(1) _ T2(3) sz] T2(2) nf r(2) by simp
  have "set_low8 sz 16 = 16" using assms(3) by (simp add: set_low8_small)
  then show ?thesis
    using int internal_None [of ipmi_v2 "SendDataToBmcPort_Mock ipmi_v2" ReceiveBmcDataFromPort_Mock 3 ?nf 0 ?c "RespCaller Z"]
      mock_reply_ok [OF r(1) assms(1)] T
    by (simp add: IpmiSendCommand_def inst_ok_def size_defs)
qed

section \<open>The tests pass\<close>

lemma generic_suite:
  assumes "mock_ok ipmi_v2 (Port inst)"
  shows "\<exists>inst'. GenericIpmiTestMain ipmi_v2 inst = Some inst' \<and> inst_ok inst' \<and> mock_ok ipmi_v2 (Port inst')"
proof -
  let ?i = "\<lparr>Signature = SM_IPMI_BMC_SIGNATURE, IpmiTimeoutPeriod = 0, SlaveAddress = BMC_SLAVE_ADDRESS,
          TempData = zero_mem MAX_TEMP_DATA, BmcStatus = BMC_NOTREADY, ErrorStatus = 0,
          SoftErrorCount = 0, Port = Port inst\<rparr>"
  have "inst_ok ?i" "mock_ok ipmi_v2 (Port ?i)" using assms by (simp_all add: inst_ok_def)
  then obtain i1 where 1: "IpmiInitializeBmc (host_env ipmi_v2) ?i = Some ((EFI_SUCCESS, []), i1)" "inst_ok i1"
    "mock_ok ipmi_v2 (Port i1)" "BmcStatus i1 = BMC_OK" "SoftErrorCount i1 = 0" "SlaveAddress i1 = BMC_SLAVE_ADDRESS"
    using mock_initialise [of ?i] by auto
  then have t1: "TestIpmiInit ipmi_v2 inst = Some i1" by (simp add: TestIpmiInit_def)
  have t2: "TestIpmiGetBmcStatus i1 = Some i1"
    using 1 by (simp add: TestIpmiGetBmcStatus_def IpmiGetBmcStatus_def IpmiBmcStatus_def BMC_OK_def BMC_SOFTFAIL_def)
  let ?d = "sel_clear_request ipmi_v2"
  have d: "length ?d = sizeof ipmi_v2 IPMI_CLEAR_SEL_REQUEST" "fget8 ipmi_v2 0 ClearSel_AscC ?d = 0x43"
    "fget8 ipmi_v2 0 ClearSel_AscL ?d = 0x4C" "fget8 ipmi_v2 0 ClearSel_AscR ?d = 0x52"
    "fget8 ipmi_v2 0 ClearSel_Erase ?d = val_of ipmi_v2 IPMI_CLEAR_SEL_REQUEST_INITIALIZE_ERASE"
    using sel_clear_request [OF ipmi_v2_ok] by simp_all
  obtain R i2 where 2: "mock_driver ipmi_v2 3 (netfn_of ipmi_v2 IPMI_NETFN_STORAGE) (cmd_of ipmi_v2 IPMI_STORAGE_CLEAR_SEL)
      (Some ?d) (of_nat (sizeof ipmi_v2 IPMI_CLEAR_SEL_REQUEST)) (zero_mem (sizeof ipmi_v2 IPMI_CLEAR_SEL_RESPONSE))
      (of_nat (sizeof ipmi_v2 IPMI_CLEAR_SEL_RESPONSE)) i1 =
      Some ((EFI_SUCCESS, R, of_nat (sizeof ipmi_v2 IPMI_CLEAR_SEL_RESPONSE)), i2)"
    "fget8 ipmi_v2 0 CompletionCode R = cc_of ipmi_v2 IPMI_COMP_CODE_NORMAL" "inst_ok i2" "mock_ok ipmi_v2 (Port i2)"
    using mock_generic.sel.clear [of i1 ?d IPMI_CLEAR_SEL_REQUEST_INITIALIZE_ERASE
        IPMI_CLEAR_SEL_RESPONSE_ERASURE_IN_PROGRESS "zero_mem (sizeof ipmi_v2 IPMI_CLEAR_SEL_RESPONSE)"] 1(2,3) d
    by auto
  have t3: "TestIpmiCommand ipmi_v2 i1 = Some i2"
    using 2(1,2) unfolding TestIpmiCommand_def Let_def
    by (fold sel_clear_request_def) (simp del: fputs_simps)
  obtain i3 where 3: "IpmiSendCommand ipmi_v2 (SendDataToBmcPort_Mock ipmi_v2) ReceiveBmcDataFromPort_Mock 3
      (netfn_of ipmi_v2 IPMI_NETFN_APP) 0 (cmd_of ipmi_v2 IPMI_APP_GET_DEVICE_ID) None 0 (RespCaller (zero_mem 16)) (Some 0) i2 =
    Some ((EFI_BUFFER_TOO_SMALL, RespCaller (zero_mem 16), Some 16), i3)" "inst_ok i3" "mock_ok ipmi_v2 (Port i3)"
    using mock_too_small [OF 2(4,3), of 0 "zero_mem 16"] by auto
  obtain i4 where 4: "IpmiSendCommand ipmi_v2 (SendDataToBmcPort_Mock ipmi_v2) ReceiveBmcDataFromPort_Mock 3
      (netfn_of ipmi_v2 IPMI_NETFN_APP) 0 (cmd_of ipmi_v2 IPMI_APP_GET_DEVICE_ID) None 0 (RespCaller (zero_mem 16)) (Some 4) i3 =
    Some ((EFI_BUFFER_TOO_SMALL, RespCaller (zero_mem 16), Some 16), i4)" "inst_ok i4" "mock_ok ipmi_v2 (Port i4)"
    using mock_too_small [OF 3(3,2), of 4 "zero_mem 16"] by auto
  have null: "IpmiSendCommand ipmi_v2 send recv 3 nf 0 c None 0 RespNull (Some 4) i =
      Some ((EFI_INVALID_PARAMETER, RespNull, Some 4), i)" for send recv nf c and i :: test_instance
    by (simp add: IpmiSendCommand_def IpmiSendCommandInternal_def set_low8_small)
  have "TestIpmiBufferTooSmall ipmi_v2 i2 = Some i4"
    using 3(1) 4(1) null by (simp add: TestIpmiBufferTooSmall_def Let_def)
  then show ?thesis using t1 t2 t3 4(2,3) by (simp add: GenericIpmiTestMain_def)
qed

text \<open>C28 The unit tests of the SSIF transport and of the generic driver pass, whatever the uninitialised
  buffers hold and whatever the mock BMC has been through: among others, the driver that is
  initialised over the mock is healthy and reports its address, a command comes back with the
  normal completion code, and a buffer that is too small is refused with the size it needs.  The
  SSIF read test depends on the write test before it: run on its own it fails.\<close>

theorem stack_unit_tests_pass:
  assumes "mock_ok ipmi_v2 (Port inst)" "\<And>n. length (junk n) = n" "length BlockBuffer = 64"
  shows "(\<exists>inst'. GenericIpmiTestMain ipmi_v2 inst = Some inst') \<and>
    (\<exists>s'. SsifTestMain BlockBuffer junk (test_reset, 0) = Some s') \<and>
    TestSsifSimpleRead BlockBuffer junk (test_reset, 0) = None"
  using generic_suite [OF assms(1)] ssif_suite [of junk BlockBuffer] read_test_first [of junk BlockBuffer] assms(2,3)
  by blast

theorem stack_unit_tests_pass_witness:
  "(\<exists>inst'. GenericIpmiTestMain ipmi_v2 (mock_instance (mock_reset ipmi_v2)) = Some inst') \<and>
   (\<exists>s'. SsifTestMain (zero_mem 64) zero_mem (test_reset, 0) = Some s')"
  using stack_unit_tests_pass [of "mock_instance (mock_reset ipmi_v2)" zero_mem "zero_mem 64"] by simp

end
