(* ===== verification/Shell_Tests.thy ===== *)
theory Shell_Tests
  imports Unit_Tests
begin

section \<open>The functional shell tests\<close>

text \<open>
  \<open>Test/FunctionalTest\<close>: the two UEFI applications that exercise a platform's IPMI stack.  What
  \<open>LocateProtocol\<close> returns is an argument, the protocol is the one \<open>IpmiSel\<close> publishes.
\<close>

unbundle bit_operations_syntax

subsection \<open>The SEL protocol\<close>

definition ManId :: bytes where "ManId = [0x61, 0x62, 0x63]"

definition SelAddEntryTestBad_call ::
    "ipmi_hdr \<Rightarrow> 's submit \<Rightarrow> (nat \<Rightarrow> bytes) \<Rightarrow> u8 \<Rightarrow> bytes option \<Rightarrow> bytes option \<Rightarrow> 's unit_test" where
  "SelAddEntryTestBad_call M submit junk RecordType ManufacturerId Data s =
     do {
       ((Status, Id), s1) \<leftarrow> AddRecordEntry (mIpmiSelProtocol M submit)
          (junk (sizeof M IPMI_ADD_SEL_ENTRY_RESPONSE)) None RecordType ManufacturerId Data s;
       UT_ASSERT (Status = EFI_INVALID_PARAMETER);
       Some s1
     }"

definition SelAddEntryTestBad :: "ipmi_hdr \<Rightarrow> 's submit \<Rightarrow> efi_status \<Rightarrow> (nat \<Rightarrow> bytes) \<Rightarrow> 's unit_test" where
  "SelAddEntryTestBad M submit LocateStatus junk s =
     do {
       let Data = [0, 1, 2, 3, 4, 5];
       UT_ASSERT (\<not> EFI_ERROR LocateStatus);
       s1 \<leftarrow> SelAddEntryTestBad_call M submit junk 0 (Some ManId) (Some Data) s;
       s2 \<leftarrow> SelAddEntryTestBad_call M submit junk 0xBF (Some ManId) (Some Data) s1;
       s3 \<leftarrow> SelAddEntryTestBad_call M submit junk 0xE0 (Some ManId) (Some Data) s2;
       s4 \<leftarrow> SelAddEntryTestBad_call M submit junk 0xFF (Some ManId) (Some Data) s3;
       s5 \<leftarrow> SelAddEntryTestBad_call M submit junk 0xC0 None (Some Data) s4;
       SelAddEntryTestBad_call M submit junk 0xC0 (Some ManId) None s5
     }"

definition NUM_SEL_ENTRIES :: nat where "NUM_SEL_ENTRIES = 10"

text \<open>The data of entry \<open>Index\<close>: \<open>selt-\<close> and the index.\<close>

definition entry_data :: "nat \<Rightarrow> bytes" where
  "entry_data Index = [0x73, 0x65, 0x6C, 0x74, 0x2D, of_nat Index]"

primrec SelAddEntryTest_adds ::
    "ipmi_hdr \<Rightarrow> 's submit \<Rightarrow> (nat \<Rightarrow> bytes) \<Rightarrow> nat list \<Rightarrow> u16 list \<Rightarrow> ('s, u16 list) op" where
  "SelAddEntryTest_adds M submit junk [] RecordIds s = Some (RecordIds, s)"
| "SelAddEntryTest_adds M submit junk (Index # is) RecordIds s =
     do {
       ((Status, Id), s1) \<leftarrow> AddRecordEntry (mIpmiSelProtocol M submit)
          (junk (sizeof M IPMI_ADD_SEL_ENTRY_RESPONSE)) (Some (RecordIds ! Index)) (0xC0 + of_nat Index)
          (Some ManId) (Some (entry_data Index)) s;
       UT_ASSERT (\<not> EFI_ERROR Status);
       RecordId \<leftarrow> Id;
       SelAddEntryTest_adds M submit junk is (RecordIds[Index := RecordId]) s1
     }"

definition rec_Oem_ManufacturerId :: "bytes \<Rightarrow> bytes" where "rec_Oem_ManufacturerId r = take 3 (drop 7 r)"

primrec SelAddEntryTest_gets ::
    "ipmi_hdr \<Rightarrow> 's submit \<Rightarrow> u16 list \<Rightarrow> nat list \<Rightarrow> bytes \<Rightarrow> u16 \<Rightarrow> 's unit_test" where
  "SelAddEntryTest_gets M submit RecordIds [] Record NextId s = Some s"
| "SelAddEntryTest_gets M submit RecordIds (Index # is) Record NextId s =
     do {
       ((Status, Rec, Next), s1) \<leftarrow> GetRecordEntry (mIpmiSelProtocol M submit) (RecordIds ! Index)
          (Some Record) (Some NextId) s;
       UT_ASSERT (\<not> EFI_ERROR Status);
       Record1 \<leftarrow> Rec;
       NextId1 \<leftarrow> Next;
       UT_ASSERT (rec_RecordType Record1 = 0xC0 + of_nat Index);
       UT_ASSERT (NextId1 \<noteq> RecordIds ! Index);
       UT_ASSERT (rec_Oem_ManufacturerId Record1 = ManId);
       UT_ASSERT (rec_Oem_Data Record1 = entry_data Index);
       SelAddEntryTest_gets M submit RecordIds is Record1 NextId1 s1
     }"

definition SelAddEntryTest :: "ipmi_hdr \<Rightarrow> 's submit \<Rightarrow> efi_status \<Rightarrow> (nat \<Rightarrow> bytes) \<Rightarrow> 's unit_test" where
  "SelAddEntryTest M submit LocateStatus junk s =
     do {
       UT_ASSERT (\<not> EFI_ERROR LocateStatus);
       (RecordIds, s1) \<leftarrow> SelAddEntryTest_adds M submit junk [0..<NUM_SEL_ENTRIES]
          (replicate NUM_SEL_ENTRIES 0) s;
       SelAddEntryTest_gets M submit RecordIds [0..<NUM_SEL_ENTRIES] (junk SEL_ENTRY_SIZE) (junk_id junk) s1
     }"

definition SelProtocolTestEntryPoint ::
    "ipmi_hdr \<Rightarrow> 's submit \<Rightarrow> efi_status \<Rightarrow> (nat \<Rightarrow> bytes) \<Rightarrow> 's unit_test" where
  "SelProtocolTestEntryPoint M submit LocateStatus junk =
     run_tests [(SelAddEntryTestBad M submit LocateStatus junk, id),
                (SelAddEntryTest M submit LocateStatus junk, id)]"

subsection \<open>IPMI commands\<close>

definition GetDeviceIdTest :: "ipmi_hdr \<Rightarrow> 's submit \<Rightarrow> (nat \<Rightarrow> bytes) \<Rightarrow> 's unit_test" where
  "GetDeviceIdTest M submit junk s =
     do {
       ((Status, DeviceId), s1) \<leftarrow> IpmiGetDeviceId M submit (junk (sizeof M IPMI_GET_DEVICE_ID_RESPONSE)) s;
       UT_ASSERT (\<not> EFI_ERROR Status);
       UT_ASSERT (fget8 M 0 CompletionCode DeviceId = 0);
       Some s1
     }"

text \<open>\<open>Cc0\<close> is the uninitialised completion code.  The suite does not register this test.\<close>

definition WatchdogTimerTest :: "ipmi_hdr \<Rightarrow> 's submit \<Rightarrow> u8 \<Rightarrow> 's unit_test" where
  "WatchdogTimerTest M submit Cc0 s =
     do {
       let TimerReq = fputs M
             [(SetWdt_TimerRunning, 0),
              (SetWdt_TimerUse, unat (val_of M IPMI_WATCHDOG_TIMER_BIOS_POST)),
              (SetWdt_TimeoutAction, unat (val_of M IPMI_WATCHDOG_TIMER_ACTION_NO_ACTION)),
              (SetWdt_PreTimeoutInterrupt, unat (val_of M IPMI_WATCHDOG_PRE_TIMEOUT_INTERRUPT_NONE)),
              (SetWdt_ExpirationFlagsClear, unat (val_of M IPMI_WATCHDOG_TIMER_EXPIRATION_FLAG_BIOS_POST)),
              (SetWdt_InitialCountdownValue, 10 * 10)]
             (zero_mem (sizeof M IPMI_SET_WATCHDOG_TIMER_REQUEST));
       ((Status, CompletionCode), s1) \<leftarrow> IpmiSetWatchdogTimer M submit TimerReq [Cc0] s;
       UT_ASSERT (\<not> EFI_ERROR Status);
       UT_ASSERT (CompletionCode ! 0 = 0);
       Some s1
     }"

definition SelGetTimeTest :: "ipmi_hdr \<Rightarrow> 's submit \<Rightarrow> (nat \<Rightarrow> bytes) \<Rightarrow> 's unit_test" where
  "SelGetTimeTest M submit junk s =
     do {
       ((Status, SelTime), s1) \<leftarrow> IpmiGetSelTime M submit (junk (sizeof M IPMI_GET_SEL_TIME_RESPONSE)) s;
       UT_ASSERT (\<not> EFI_ERROR Status);
       UT_ASSERT (fget8 M 0 CompletionCode SelTime = 0);
       UT_ASSERT (fget M 0 GetSelTime_Timestamp SelTime \<noteq> 0);
       Some s1
     }"

definition SelGetInfoTest :: "ipmi_hdr \<Rightarrow> 's submit \<Rightarrow> (nat \<Rightarrow> bytes) \<Rightarrow> 's unit_test" where
  "SelGetInfoTest M submit junk s =
     do {
       ((Status, SelInfo), s1) \<leftarrow> IpmiGetSelInfo M submit (junk (sizeof M IPMI_GET_SEL_INFO_RESPONSE)) s;
       UT_ASSERT (\<not> EFI_ERROR Status);
       UT_ASSERT (fget8 M 0 CompletionCode SelInfo = 0);
       Some s1
     }"

text \<open>Type 0xDC; sensor type 0xA, sensor number 0xB and event data 0, 0xC, 0xD of a system record.\<close>

definition SelAddEntryTest_record :: bytes where
  "SelAddEntryTest_record = (zero_mem 16)[2 := 0xDC, 10 := 0xA, 11 := 0xB, 13 := 0, 14 := 0xC, 15 := 0xD]"

definition SelAddEntryTest_Cmd :: "ipmi_hdr \<Rightarrow> 's submit \<Rightarrow> 's unit_test" where
  "SelAddEntryTest_Cmd M submit s =
     do {
       ((Status, SetResponse), s1) \<leftarrow> IpmiAddSelEntry_Cmd M submit SelAddEntryTest_record
          (zero_mem (sizeof M IPMI_ADD_SEL_ENTRY_RESPONSE)) s;
       UT_ASSERT (\<not> EFI_ERROR Status);
       UT_ASSERT (fget8 M 0 CompletionCode SetResponse = 0);
       UT_ASSERT (fget M 0 AddSel_RecordId SetResponse \<noteq> 0);
       UT_ASSERT (fget M 0 AddSel_RecordId SetResponse \<noteq> 0xFFFF);
       Some s1
     }"

definition IpmiTestEntryPoint :: "ipmi_hdr \<Rightarrow> 's submit \<Rightarrow> (nat \<Rightarrow> bytes) \<Rightarrow> 's unit_test" where
  "IpmiTestEntryPoint M submit junk =
     run_tests [(GetDeviceIdTest M submit junk, id), (SelGetInfoTest M submit junk, id),
                (SelGetTimeTest M submit junk, id), (SelAddEntryTest_Cmd M submit, id)]"

section \<open>The SEL protocol test passes\<close>

text \<open>What the test's entry of an index looks like in the log, under its record id.\<close>

definition test_entry :: "nat \<Rightarrow> u16 \<Rightarrow> bytes \<Rightarrow> bool" where
  "test_entry Index i r \<longleftrightarrow> (\<exists>t. r = le16 i @ (0xC0 + of_nat Index) # le32 t @ ManId @ entry_data Index)"

lemma test_entry_members:
  assumes "test_entry Index i r"
  shows "rec_RecordType r = 0xC0 + of_nat Index" "rec_Oem_ManufacturerId r = ManId"
    "rec_Oem_Data r = entry_data Index" "length r = 16"
  using assms
  by (auto simp: test_entry_def ManId_def entry_data_def rec_RecordType_def rec_Oem_ManufacturerId_def
      rec_Oem_Data_def length_le nth_append)

lemma u8_index: "Index < 10 \<Longrightarrow> unat (0xC0 + of_nat Index :: u8) = 0xC0 + Index"
  by (simp add: unat_word_ariths unat_of_nat)

text \<open>What the ids of the entries \<open>is\<close> promise about the log.\<close>

definition ids_in_log :: "bytes list \<Rightarrow> u16 list \<Rightarrow> nat list \<Rightarrow> bool" where
  "ids_in_log L ids is \<longleftrightarrow>
     (\<forall>i \<in> set is. unat (ids ! i) < length L \<and> test_entry i (ids ! i) (L ! unat (ids ! i)))"

lemma ids_in_log_Cons [simp]:
  "ids_in_log L ids [] "
  "ids_in_log L ids (i # is) \<longleftrightarrow>
     unat (ids ! i) < length L \<and> test_entry i (ids ! i) (L ! unat (ids ! i)) \<and> ids_in_log L ids is"
  by (auto simp: ids_in_log_def)

context sel_bmc
begin

lemma test_add:
  assumes "ok s" "length (log s) < cap" "length R0 = sizeof M IPMI_ADD_SEL_ENTRY_RESPONSE" "i < 10"
    "val_of M IPMI_SEL_OEM_TIME_STAMP_RECORD_START = 0xC0" "val_of M IPMI_SEL_OEM_TIME_STAMP_RECORD_END = 0xDF"
    "val_of M IPMI_SEL_OEM_NO_TIME_STAMP_RECORD_START = 0xE0"
  shows "\<exists>s' r. AddRecordEntry (mIpmiSelProtocol M submit) R0 (Some x) (0xC0 + of_nat i) (Some ManId)
      (Some (entry_data i)) s = Some ((EFI_SUCCESS, Some (of_nat (length (log s)))), s') \<and> ok s' \<and>
    log s' = log s @ [r] \<and> test_entry i (of_nat (length (log s))) r"
proof -
  let ?t = "0xC0 + of_nat i :: u8" and ?b = "le32 0 @ ManId @ entry_data i"
  have t: "\<not> ?t < 0xC0" "\<not> 0xDF < ?t" "?t < 0xE0" using u8_index [OF assms(4)] assms(4)
    by (simp_all add: word_less_nat_alt)
  have b: "length ?b = 13" "drop 4 ?b = ManId @ entry_data i"
    by (simp_all add: length_le ManId_def entry_data_def)
  have sel: "sel_record ?t ?b = sel_record ?t (le32 0 @ [ManId ! 0, ManId ! 1, ManId ! 2] @ take 6 (entry_data i))"
    by (simp add: ManId_def entry_data_def)
  obtain s' where "IpmiAddSelEntry M submit R0 (sel_record ?t ?b) (Some x) s =
      Some ((EFI_SUCCESS, Some (of_nat (length (log s)))), s')" "ok s'"
    "log s' = log s @ [sel_stored M (clock s) (of_nat (length (log s))) (sel_record ?t ?b)]"
    using SelAdd_room [OF assms(1) length_sel_record [OF b(1)] assms(2,3), of ?t "Some x"] by auto
  moreover have "test_entry i (of_nat (length (log s)))
      (sel_stored M (clock s) (of_nat (length (log s))) (sel_record ?t ?b))"
    using t(3) b assms(7) by (auto simp: test_entry_def stored_record [OF b(1)])
  moreover have "AddRecordEntry (mIpmiSelProtocol M submit) R0 (Some x) ?t (Some ManId) (Some (entry_data i)) s =
      IpmiAddSelEntry M submit R0 (sel_record ?t ?b) (Some x) s"
    unfolding sel using t(1,2) assms(5,6)
    by (simp add: mIpmiSelProtocol_def IpmiSelAddRecordEntry_def SelAddOemEntryEx_def)
  ultimately show ?thesis by auto
qed

lemma test_adds:
  assumes "ok s" "length (log s) + length is \<le> cap" "\<And>n. length (junk n) = n" "set is \<subseteq> {..<10}" "distinct is"
    "length ids = 10"
    and vals: "val_of M IPMI_SEL_OEM_TIME_STAMP_RECORD_START = 0xC0"
      "val_of M IPMI_SEL_OEM_TIME_STAMP_RECORD_END = 0xDF" "val_of M IPMI_SEL_OEM_NO_TIME_STAMP_RECORD_START = 0xE0"
  shows "\<exists>ids' s'. SelAddEntryTest_adds M submit junk is ids s = Some (ids', s') \<and> ok s' \<and> length ids' = 10 \<and>
    (\<forall>j. j \<notin> set is \<longrightarrow> ids' ! j = ids ! j) \<and> (\<exists>rs. log s' = log s @ rs \<and> length rs = length is) \<and>
    ids_in_log (log s') ids' is"
  using assms(1,2,4-6)
proof (induction "is" arbitrary: ids s)
  case (Cons i "is")
  let ?x = "of_nat (length (log s)) :: u16"
  obtain s1 r where 1: "AddRecordEntry (mIpmiSelProtocol M submit) (junk (sizeof M IPMI_ADD_SEL_ENTRY_RESPONSE))
      (Some (ids ! i)) (0xC0 + of_nat i) (Some ManId) (Some (entry_data i)) s = Some ((EFI_SUCCESS, Some ?x), s1)"
    "ok s1" "log s1 = log s @ [r]" "test_entry i ?x r"
    using test_add [OF Cons.prems(1) _ assms(3) _ vals, of i "ids ! i"] Cons.prems(2,3) by auto
  obtain ids' s' rs where 2: "SelAddEntryTest_adds M submit junk is (ids[i := ?x]) s1 = Some (ids', s')" "ok s'"
    "length ids' = 10" "\<forall>j. j \<notin> set is \<longrightarrow> ids' ! j = ids[i := ?x] ! j" "log s' = log s1 @ rs"
    "length rs = length is" "ids_in_log (log s') ids' is"
    using Cons.IH [of s1 "ids[i := ?x]"] Cons.prems 1(2,3) by auto
  have "ids' ! i = ?x" using 2(4) Cons.prems(3-5) by simp
  moreover have "unat ?x = length (log s)" using Cons.prems(2) cap by (simp add: unat_of_nat)
  ultimately show ?case
    using 1 2 Cons.prems(5)
    by (auto simp: nth_append)
qed simp

lemma test_gets:
  assumes "ok s" "ids_in_log (log s) ids is" "length r = 16"
  shows "\<exists>s'. SelAddEntryTest_gets M submit ids is r nx s = Some s' \<and> ok s'"
  using assms
proof (induction "is" arbitrary: s r nx)
  case (Cons i "is")
  let ?i = "ids ! i"
  let ?e = "log s ! unat ?i" and ?n = "if Suc (unat ?i) < length (log s) then ?i + 1 else 0xFFFF"
  have e: "unat ?i < length (log s)" "test_entry i ?i ?e" using Cons.prems(2) by auto
  obtain s1 where 1: "SelGetEntry M submit ?i (Some r) (Some nx) s = Some ((EFI_SUCCESS, Some ?e, Some ?n), s1)"
    "ok s1" "log s1 = log s"
    using SelGetEntry_present [OF Cons.prems(1) e(1) Cons.prems(3), of "Some nx"] by auto
  have "unat ?i < 65535" using e(1) log_ok [OF Cons.prems(1)] cap by simp
  then have "?n \<noteq> ?i" by auto
  moreover obtain s' where "SelAddEntryTest_gets M submit ids is ?e ?n s1 = Some s'" "ok s'"
    using Cons.IH [OF 1(2), of ?e ?n] Cons.prems(2) 1(3) test_entry_members(4) [OF e(2)] by auto
  ultimately show ?case
    using 1(1) test_entry_members [OF e(2)] by (simp add: mIpmiSelProtocol_def IpmiSelGetRecordEntry_def)
qed simp

end

theorem sel_protocol_test_passes:
  assumes "sel_bmc ipmi_v2 submit ok log clock cap" "ok s" "length (log s) + NUM_SEL_ENTRIES \<le> cap"
    "\<And>n. length (junk n) = n" "\<not> EFI_ERROR LocateStatus"
  shows "\<exists>s'. SelProtocolTestEntryPoint ipmi_v2 submit LocateStatus junk s = Some s'"
proof -
  have "SelAddEntryTestBad ipmi_v2 submit LocateStatus junk s = Some s"
    using assms(5)
    by (simp add: SelAddEntryTestBad_def SelAddEntryTestBad_call_def mIpmiSelProtocol_def IpmiSelAddRecordEntry_def
        SelAddOemEntryEx_def)
  moreover obtain ids s1 where 1: "SelAddEntryTest_adds ipmi_v2 submit junk [0..<10] (replicate 10 0) s = Some (ids, s1)"
    "ok s1" "ids_in_log (log s1) ids [0..<10]"
    using sel_bmc.test_adds [OF assms(1,2), of "[0..<10]" junk "replicate 10 0"] assms(3,4)
    by (auto simp: NUM_SEL_ENTRIES_def atLeast0LessThan)
  moreover obtain s2 where "SelAddEntryTest_gets ipmi_v2 submit ids [0..<10] (junk SEL_ENTRY_SIZE) (junk_id junk) s1 = Some s2"
    using sel_bmc.test_gets [OF assms(1) 1(2,3), of "junk SEL_ENTRY_SIZE" "junk_id junk"] assms(4)
    by (auto simp: SEL_ENTRY_SIZE_def)
  ultimately show ?thesis
    using assms(5) by (simp add: SelProtocolTestEntryPoint_def SelAddEntryTest_def NUM_SEL_ENTRIES_def)
qed

text \<open>The protocol test on the mock, through the mock base library and through the generic driver.\<close>

lemma sel_protocol_test_on_mock:
  "\<exists>m. SelProtocolTestEntryPoint ipmi_v2 (IpmiSubmitCommand_Mock ipmi_v2) EFI_SUCCESS zero_mem
     (mock_reset ipmi_v2) = Some m"
  "\<exists>inst. SelProtocolTestEntryPoint ipmi_v2 (mock_driver ipmi_v2 3) EFI_SUCCESS zero_mem
     (mock_instance (mock_reset ipmi_v2)) = Some inst"
  using sel_protocol_test_passes [OF mock_direct.sel.sel_bmc_axioms, of "mock_reset ipmi_v2" zero_mem EFI_SUCCESS]
    sel_protocol_test_passes [OF mock_generic.sel.sel_bmc_axioms, of "mock_instance (mock_reset ipmi_v2)" zero_mem EFI_SUCCESS]
  by (simp_all add: NUM_SEL_ENTRIES_def mock_sizes)

section \<open>The command test on the mock\<close>

text \<open>A command without data whose handler fills a structure and changes nothing else.\<close>

context mock_provider
begin

lemma reads_struct:
  assumes "ok s" "((netfn_of M f, cmd_of M c), h) \<in> set (MockHandlers M)" "length R0 = sizeof M S"
    and "h ([] @ zero_mem (253 - length ([] :: bytes))) (of_nat (length ([] :: bytes)))
        (cc_of M IPMI_COMP_CODE_INVALID_COMMAND # zero_mem 249) 250
        (mock_begin M (netfn_of M f) (cmd_of M c) (bmc s)) =
      Some ((fputs M fvs (cc_of M IPMI_COMP_CODE_INVALID_COMMAND # zero_mem 249), of_nat (sizeof M S)),
        mock_begin M (netfn_of M f) (cmd_of M c) (bmc s))"
    and "fst ` set fvs \<subseteq> set (fields_of S)" "CompletionCode \<in> set (fields_of S)"
      "map_of (rev fvs) CompletionCode = Some (unat (cc_of M IPMI_COMP_CODE_NORMAL))"
  shows "\<exists>R s'. call_fixed M submit f c None 0 (sizeof M S) R0 s = Some ((EFI_SUCCESS, R), s') \<and> ok s' \<and>
    fget8 M 0 CompletionCode R = cc_of M IPMI_COMP_CODE_NORMAL \<and> mock_log (bmc s') = mock_log (bmc s) \<and>
    mSelTime (bmc s') = mSelTime (bmc s)"
proof -
  let ?m = "mock_begin M (netfn_of M f) (cmd_of M c) (bmc s)"
  obtain R where R: "mock_reply M (netfn_of M f) (cmd_of M c) [] (bmc s) =
      Some (R, mock_end (of_nat (sizeof M S)) ?m)" "length R = sizeof M S"
    "\<And>g. g \<in> set (fields_of S) \<Longrightarrow> fget M 0 g R = (case map_of (rev fvs) g of Some v \<Rightarrow> take_bit (width_of g) v
        | None \<Rightarrow> fget M 0 g (cc_of M IPMI_COMP_CODE_INVALID_COMMAND # zero_mem 249))"
    "hd R = fget8 M 0 CompletionCode R"
    by (rule mock_reply_struct [OF hdr commands assms(2,4,5)]) (simp_all add: assms(6))
  have cc: "fget8 M 0 CompletionCode R = cc_of M IPMI_COMP_CODE_NORMAL"
    using R(3) [OF assms(6)] assms(7) by (simp add: fget8_def)
  obtain s' where "submit (netfn_of M f) (cmd_of M c) None 0 R0 (of_nat (sizeof M S)) s =
      Some ((EFI_SUCCESS, R, of_nat (sizeof M S)), s')" "ok s'" "bmc s' = mock_end (of_nat (sizeof M S)) ?m"
    using answers_struct [OF assms(1) R(1), of None S R0] R(2,4) cc assms(3) by auto
  then show ?thesis using cc by (auto simp: call_fixed_def mock_log_def)
qed

end

lemma device_id_and_info:
  assumes "mock_provider ipmi_v2 submit bmc ok" "ok s" "\<And>n. length (junk n) = n"
  shows "\<exists>s'. GetDeviceIdTest ipmi_v2 submit junk s = Some s' \<and> ok s' \<and> mock_log (bmc s') = mock_log (bmc s) \<and>
      mSelTime (bmc s') = mSelTime (bmc s)"
    "\<exists>s'. SelGetInfoTest ipmi_v2 submit junk s = Some s' \<and> ok s' \<and> mock_log (bmc s') = mock_log (bmc s) \<and>
      mSelTime (bmc s') = mSelTime (bmc s)"
proof -
  let ?r = "cc_of ipmi_v2 IPMI_COMP_CODE_INVALID_COMMAND # zero_mem 249"
  note reads = mock_provider.reads_struct [OF assms(1,2)]
  obtain fvs where 1: "MockIpmiGetDeviceId ipmi_v2 ([] @ zero_mem (253 - length ([] :: bytes)))
      (of_nat (length ([] :: bytes))) ?r 250 m = Some ((fputs ipmi_v2 fvs ?r, of_nat (sizeof ipmi_v2 IPMI_GET_DEVICE_ID_RESPONSE)), m)"
    "map_of (rev fvs) CompletionCode = Some (unat (cc_of ipmi_v2 IPMI_COMP_CODE_NORMAL))"
    "fst ` set fvs \<subseteq> set (fields_of IPMI_GET_DEVICE_ID_RESPONSE)" for m
    by (simp add: MockIpmiGetDeviceId_def del: fputs_simps)
  show "\<exists>s'. GetDeviceIdTest ipmi_v2 submit junk s = Some s' \<and> ok s' \<and> mock_log (bmc s') = mock_log (bmc s) \<and>
      mSelTime (bmc s') = mSelTime (bmc s)"
    using reads [of IPMI_NETFN_APP IPMI_APP_GET_DEVICE_ID "MockIpmiGetDeviceId ipmi_v2"
        "junk (sizeof ipmi_v2 IPMI_GET_DEVICE_ID_RESPONSE)" IPMI_GET_DEVICE_ID_RESPONSE fvs] 1 assms(3)
    by (auto simp: GetDeviceIdTest_def IpmiGetDeviceId_def MockHandlers_def)
  let ?m = "mock_begin ipmi_v2 (netfn_of ipmi_v2 IPMI_NETFN_STORAGE) (cmd_of ipmi_v2 IPMI_STORAGE_GET_SEL_INFO) (bmc s)"
  obtain fvs2 where 2: "MockIpmiSelGetInfo ipmi_v2 ([] @ zero_mem (253 - length ([] :: bytes)))
      (of_nat (length ([] :: bytes))) ?r 250 ?m = Some ((fputs ipmi_v2 fvs2 ?r, of_nat (sizeof ipmi_v2 IPMI_GET_SEL_INFO_RESPONSE)), ?m)"
    "map_of (rev fvs2) CompletionCode = Some (unat (cc_of ipmi_v2 IPMI_COMP_CODE_NORMAL))"
    "fst ` set fvs2 \<subseteq> set (fields_of IPMI_GET_SEL_INFO_RESPONSE)"
    by (simp add: MockIpmiSelGetInfo_def Let_def del: fputs_simps)
  show "\<exists>s'. SelGetInfoTest ipmi_v2 submit junk s = Some s' \<and> ok s' \<and> mock_log (bmc s') = mock_log (bmc s) \<and>
      mSelTime (bmc s') = mSelTime (bmc s)"
    using reads [of IPMI_NETFN_STORAGE IPMI_STORAGE_GET_SEL_INFO "MockIpmiSelGetInfo ipmi_v2"
        "junk (sizeof ipmi_v2 IPMI_GET_SEL_INFO_RESPONSE)" IPMI_GET_SEL_INFO_RESPONSE fvs2] 2 assms(3)
    by (auto simp: SelGetInfoTest_def IpmiGetSelInfo_def MockHandlers_def)
qed

lemma time_and_add:
  assumes "sel_bmc ipmi_v2 submit ok log clock cap" "ok s" "\<And>n. length (junk n) = n"
  shows "clock s + 1 \<noteq> 0 \<Longrightarrow> \<exists>s'. SelGetTimeTest ipmi_v2 submit junk s = Some s' \<and> ok s' \<and> log s' = log s"
    "length (log s) < cap \<Longrightarrow>
     (\<exists>s'. SelAddEntryTest_Cmd ipmi_v2 submit s = Some s') \<longleftrightarrow> log s \<noteq> []"
proof -
  let ?T = "junk (sizeof ipmi_v2 IPMI_GET_SEL_TIME_RESPONSE)"
  obtain R s' where "submit (netfn_of ipmi_v2 IPMI_NETFN_STORAGE) (cmd_of ipmi_v2 IPMI_STORAGE_GET_SEL_TIME) None 0 ?T
      (of_nat (sizeof ipmi_v2 IPMI_GET_SEL_TIME_RESPONSE)) s =
      Some ((EFI_SUCCESS, R, of_nat (sizeof ipmi_v2 IPMI_GET_SEL_TIME_RESPONSE)), s')"
    "fget8 ipmi_v2 0 CompletionCode R = cc_of ipmi_v2 IPMI_COMP_CODE_NORMAL"
    "fget ipmi_v2 0 GetSelTime_Timestamp R = unat (clock s + 1)" "ok s'" "log s' = log s"
    using sel_bmc.get_time [OF assms(1,2), of ?T] assms(3) by auto
  moreover have "0 < unat (clock s + 1)" if "clock s + 1 \<noteq> 0"
    using that unat_eq_zero [of "clock s + 1"] by (cases "unat (clock s + 1)") auto
  ultimately show "\<exists>s'. SelGetTimeTest ipmi_v2 submit junk s = Some s' \<and> ok s' \<and> log s' = log s" if "clock s + 1 \<noteq> 0"
    using that by (auto simp: SelGetTimeTest_def IpmiGetSelTime_def call_fixed_def unat_eq_zero)
  show "(\<exists>s'. SelAddEntryTest_Cmd ipmi_v2 submit s = Some s') \<longleftrightarrow> log s \<noteq> []" if room: "length (log s) < cap"
  proof -
    obtain R s' where "submit (netfn_of ipmi_v2 IPMI_NETFN_STORAGE) (cmd_of ipmi_v2 IPMI_STORAGE_ADD_SEL_ENTRY)
        (Some SelAddEntryTest_record) 16 (zero_mem (sizeof ipmi_v2 IPMI_ADD_SEL_ENTRY_RESPONSE))
        (of_nat (sizeof ipmi_v2 IPMI_ADD_SEL_ENTRY_RESPONSE)) s =
        Some ((EFI_SUCCESS, R, of_nat (sizeof ipmi_v2 IPMI_ADD_SEL_ENTRY_RESPONSE)), s')"
      "fget8 ipmi_v2 0 CompletionCode R = cc_of ipmi_v2 IPMI_COMP_CODE_NORMAL"
      "fget ipmi_v2 0 AddSel_RecordId R = length (log s)"
      using sel_bmc.add_room [OF assms(1,2) _ room, of SelAddEntryTest_record
          "zero_mem (sizeof ipmi_v2 IPMI_ADD_SEL_ENTRY_RESPONSE)"]
      by (auto simp: SelAddEntryTest_record_def)
    moreover have "length (log s) \<noteq> 0xFFFF" using room sel_bmc.cap [OF assms(1)] by simp
    ultimately show ?thesis
      by (auto simp: SelAddEntryTest_Cmd_def IpmiAddSelEntry_Cmd_def call_fixed_def)
  qed
qed

subsection \<open>The watchdog test\<close>

text \<open>It passes on every BMC that keeps the watchdog contract, and leaves the timer stopped with ten
  seconds to go, whatever ran before.\<close>

definition wdt_bios_post :: "ipmi_hdr \<Rightarrow> wdt \<Rightarrow> wdt" where
  "wdt_bios_post M w =
     \<lparr>wdt_use = take_bit 3 (unat (val_of M IPMI_WATCHDOG_TIMER_BIOS_POST)),
      wdt_action = take_bit 3 (unat (val_of M IPMI_WATCHDOG_TIMER_ACTION_NO_ACTION)),
      wdt_flags = wdt_flags w AND NOT (val_of M IPMI_WATCHDOG_TIMER_EXPIRATION_FLAG_BIOS_POST),
      wdt_initial = 100, wdt_present = 100, wdt_running = False\<rparr>"

context wdt_bmc
begin

lemma watchdog_test:
  assumes "ok s" "cc_of M IPMI_COMP_CODE_NORMAL = 0"
  shows "\<exists>s'. WatchdogTimerTest M submit Cc0 s = Some s' \<and> ok s' \<and> wdt s' = wdt_bios_post M (wdt s)"
proof -
  define fvs where "fvs = [(SetWdt_TimerRunning, 0),
      (SetWdt_TimerUse, unat (val_of M IPMI_WATCHDOG_TIMER_BIOS_POST)),
      (SetWdt_TimeoutAction, unat (val_of M IPMI_WATCHDOG_TIMER_ACTION_NO_ACTION)),
      (SetWdt_PreTimeoutInterrupt, unat (val_of M IPMI_WATCHDOG_PRE_TIMEOUT_INTERRUPT_NONE)),
      (SetWdt_ExpirationFlagsClear, unat (val_of M IPMI_WATCHDOG_TIMER_EXPIRATION_FLAG_BIOS_POST)),
      (SetWdt_InitialCountdownValue, 100)]"
  let ?d = "fputs M fvs (zero_mem (sizeof M IPMI_SET_WATCHDOG_TIMER_REQUEST))"
  obtain s' where "submit (netfn_of M IPMI_NETFN_APP) (cmd_of M IPMI_APP_SET_WATCHDOG_TIMER) (Some ?d)
      (of_nat (sizeof M IPMI_SET_WATCHDOG_TIMER_REQUEST)) [Cc0] 1 s =
      Some ((EFI_SUCCESS, [cc_of M IPMI_COMP_CODE_NORMAL], 1), s')" "wdt s' = wdt_set M ?d (wdt s)" "ok s'"
    using set_wdt [OF assms(1), of ?d Cc0] by auto
  moreover have "wdt_set M ?d (wdt s) = wdt_bios_post M (wdt s)"
    using set_request [of fvs]
    by (simp add: wdt_set_def wdt_bios_post_def fget8_def fvs_def del: fputs_simps)
  ultimately show ?thesis
    using assms(2)
    by (simp add: WatchdogTimerTest_def IpmiSetWatchdogTimer_def call_fixed_def Let_def del: fputs_simps
        flip: fvs_def)
qed

end

lemma watchdog_test_on_mock:
  "\<exists>m. WatchdogTimerTest ipmi_v2 (IpmiSubmitCommand_Mock ipmi_v2) Cc0 (mock_reset ipmi_v2) = Some m \<and>
     wdt_present (wdt_of ipmi_v2 (mWatchdog m)) = 100"
  using mock_direct.wdt.watchdog_test [of "mock_reset ipmi_v2" Cc0] by (auto simp: wdt_bios_post_def)

subsection \<open>The suite\<close>

text \<open>
  The test asks for a record id other than 0, as the IPMI specification does; the mock gives its
  first record the id 0, so the test fails on a fresh mock and passes once the log has a record.
\<close>

theorem ipmi_test_on_mock:
  assumes "mock_provider ipmi_v2 submit bmc ok" "ok s" "\<And>n. length (junk n) = n"
    and "mSelTime (bmc s) + 1 \<noteq> 0" "length (mock_log (bmc s)) < SEL_COUNT"
  shows "(\<exists>s'. IpmiTestEntryPoint ipmi_v2 submit junk s = Some s') \<longleftrightarrow> mock_log (bmc s) \<noteq> []"
proof -
  note contract = mock_provider.sel_contract [OF assms(1)]
  obtain s1 where 1: "GetDeviceIdTest ipmi_v2 submit junk s = Some s1" "ok s1"
    "mock_log (bmc s1) = mock_log (bmc s)" "mSelTime (bmc s1) = mSelTime (bmc s)"
    using device_id_and_info(1) [OF assms(1-3)] by auto
  obtain s2 where 2: "SelGetInfoTest ipmi_v2 submit junk s1 = Some s2" "ok s2"
    "mock_log (bmc s2) = mock_log (bmc s)" "mSelTime (bmc s2) = mSelTime (bmc s)"
    using device_id_and_info(2) [OF assms(1) 1(2) assms(3)] 1(3,4) by auto
  obtain s3 where 3: "SelGetTimeTest ipmi_v2 submit junk s2 = Some s3" "ok s3"
    "mock_log (bmc s3) = mock_log (bmc s)"
    using time_and_add(1) [OF contract 2(2) assms(3)] assms(4) 2(3,4) by auto
  show ?thesis
    using time_and_add(2) [OF contract 3(2) assms(3)] assms(5) 1(1) 2(1) 3(1,3)
    by (simp add: IpmiTestEntryPoint_def)
qed

end
