(* ===== verification/Test_Main.thy ===== *)
theory Test_Main
  imports Unit_Tests_Stack Shell_Tests
begin

section \<open>The test applications\<close>

text \<open>
  The functions that set the test framework up, register the tests and run them: the entry points of
  the two shell applications and what \<open>main\<close> of each host test calls.  They have one shape, and differ
  in the suites.  The framework is not in the repository; what its calls return is an argument.
\<close>

text \<open>\<open>InitUnitTestFramework\<close> returns a status and may store a handle; the suites are numbered in the
  order in which they are created.  As in \<open>run_tests\<close>, \<open>None\<close> is a run in which a test does not pass.\<close>

record ut_framework =
  fw_Init :: "efi_status \<times> bool"
  fw_CreateSuite :: "nat \<Rightarrow> efi_status"
  fw_RunAll :: efi_status

text \<open>The result is the status and whether the framework was freed; \<open>run\<close> are the registered tests.\<close>

definition test_main :: "ut_framework \<Rightarrow> nat \<Rightarrow> 's unit_test \<Rightarrow> ('s, efi_status \<times> bool) op" where
  "test_main F suites run s =
     (let (Status, Framework) = fw_Init F in
      if EFI_ERROR Status then Some ((Status, Framework), s)
      else if list_ex (\<lambda>i. EFI_ERROR (fw_CreateSuite F i)) [0..<suites]
      then Some ((EFI_OUT_OF_RESOURCES, Framework), s)
      else do { s1 \<leftarrow> run s; Some ((fw_RunAll F, Framework), s1) })"

definition SelProtocolTest_main ::
    "ut_framework \<Rightarrow> ipmi_hdr \<Rightarrow> 's submit \<Rightarrow> efi_status \<Rightarrow> (nat \<Rightarrow> bytes) \<Rightarrow> ('s, efi_status \<times> bool) op" where
  "SelProtocolTest_main F M submit LocateStatus junk = test_main F 1 (SelProtocolTestEntryPoint M submit LocateStatus junk)"

definition IpmiTest_main ::
    "ut_framework \<Rightarrow> ipmi_hdr \<Rightarrow> 's submit \<Rightarrow> (nat \<Rightarrow> bytes) \<Rightarrow> ('s, efi_status \<times> bool) op" where
  "IpmiTest_main F M submit junk = test_main F 2 (IpmiTestEntryPoint M submit junk)"

definition IpmiWatchdogTest_main ::
    "ut_framework \<Rightarrow> ipmi_hdr \<Rightarrow> (nat \<Rightarrow> bytes) \<Rightarrow> u8 \<Rightarrow> (mock_bmc, efi_status \<times> bool) op" where
  "IpmiWatchdogTest_main F M junk Cc0 = test_main F 1 (IpmiWatchdogTestMain M junk Cc0)"

definition BootOptionTest_main :: "ut_framework \<Rightarrow> ipmi_hdr \<Rightarrow> (mock_bmc, efi_status \<times> bool) op" where
  "BootOptionTest_main F M = test_main F 1 (BootOptionTestMain M)"

definition SelTest_main ::
    "ut_framework \<Rightarrow> ipmi_hdr \<Rightarrow> 's submit \<Rightarrow> bytes \<Rightarrow> (nat \<Rightarrow> bytes) \<Rightarrow> u8 \<Rightarrow> ('s, efi_status \<times> bool) op" where
  "SelTest_main F M submit manu junk Cc0 = test_main F 1 (SelTestMain M submit manu junk Cc0)"

definition UefiTest_main :: "ut_framework \<Rightarrow> ipmi_hdr \<Rightarrow> (nat \<Rightarrow> bytes) \<Rightarrow> (cmocka, efi_status \<times> bool) op" where
  "UefiTest_main F M junk = test_main F 1 (UefiTestMain M junk)"

definition SsifTest_main ::
    "ut_framework \<Rightarrow> bytes \<Rightarrow> (nat \<Rightarrow> bytes) \<Rightarrow> (ssif_test_state, efi_status \<times> bool) op" where
  "SsifTest_main F BlockBuffer junk = test_main F 1 (SsifTestMain BlockBuffer junk)"

definition GenericIpmiTest_main :: "ut_framework \<Rightarrow> ipmi_hdr \<Rightarrow> (test_instance, efi_status \<times> bool) op" where
  "GenericIpmiTest_main F M = test_main F 1 (GenericIpmiTestMain M)"

subsection \<open>What the applications do with the framework\<close>

definition fw_works :: "ut_framework \<Rightarrow> nat \<Rightarrow> bool" where
  "fw_works F suites \<longleftrightarrow> \<not> EFI_ERROR (fst (fw_Init F)) \<and> (\<forall>i < suites. \<not> EFI_ERROR (fw_CreateSuite F i))"

lemma test_main_works: "fw_works F n \<Longrightarrow>
    test_main F n run s = map_option (\<lambda>s1. ((fw_RunAll F, snd (fw_Init F)), s1)) (run s)"
  by (cases "run s") (auto simp: test_main_def fw_works_def list_ex_iff split: prod.splits)

text \<open>Without a framework no test runs and the application ends with an error.\<close>

lemma test_main_broken:
  assumes "\<not> fw_works F n"
  shows "\<exists>st. test_main F n run s = Some ((st, snd (fw_Init F)), s) \<and> EFI_ERROR st"
  using assms by (auto simp: test_main_def fw_works_def list_ex_iff split: prod.splits)

text \<open>A handle that was stored is freed on every path, and nothing else is.\<close>

lemma test_main_frees: "test_main F n run s = Some ((st, freed), s1) \<Longrightarrow> freed = snd (fw_Init F)"
  by (cases "run s") (auto simp: test_main_def split: prod.splits if_splits)

text \<open>On a platform where the framework works, the status of the applications is the framework's; the
  command test of the shell is the one that does not pass on a fresh mock.\<close>

lemma applications_report:
  assumes "fw_works F 2" "\<And>n. length (junk n) = n"
  shows "\<exists>m. BootOptionTest_main F ipmi_v2 (ResetTestState_Boot ipmi_v2 (mock_reset ipmi_v2)) =
      Some ((fw_RunAll F, snd (fw_Init F)), m)"
    "\<exists>m. IpmiWatchdogTest_main F ipmi_v2 junk Cc0 (mock_reset ipmi_v2) = Some ((fw_RunAll F, snd (fw_Init F)), m)"
    "\<exists>m. SelProtocolTest_main F ipmi_v2 (IpmiSubmitCommand_Mock ipmi_v2) EFI_SUCCESS zero_mem (mock_reset ipmi_v2) =
      Some ((fw_RunAll F, snd (fw_Init F)), m)"
    "IpmiTest_main F ipmi_v2 (IpmiSubmitCommand_Mock ipmi_v2) junk (mock_reset ipmi_v2) = None"
proof -
  have F1: "fw_works F (Suc 0)" using assms(1) by (simp add: fw_works_def)
  note suites = mock_suites [OF mock_reset_ok, of junk, OF assms(2)]
  show "\<exists>m. BootOptionTest_main F ipmi_v2 (ResetTestState_Boot ipmi_v2 (mock_reset ipmi_v2)) =
      Some ((fw_RunAll F, snd (fw_Init F)), m)"
    using suites(2) by (auto simp: BootOptionTest_main_def test_main_works [OF F1])
  show "\<exists>m. IpmiWatchdogTest_main F ipmi_v2 junk Cc0 (mock_reset ipmi_v2) = Some ((fw_RunAll F, snd (fw_Init F)), m)"
    using suites(1) by (auto simp: IpmiWatchdogTest_main_def test_main_works [OF F1])
  show "\<exists>m. SelProtocolTest_main F ipmi_v2 (IpmiSubmitCommand_Mock ipmi_v2) EFI_SUCCESS zero_mem (mock_reset ipmi_v2) =
      Some ((fw_RunAll F, snd (fw_Init F)), m)"
    using sel_protocol_test_on_mock(1) by (auto simp: SelProtocolTest_main_def test_main_works [OF F1])
  show "IpmiTest_main F ipmi_v2 (IpmiSubmitCommand_Mock ipmi_v2) junk (mock_reset ipmi_v2) = None"
    using ipmi_test_on_mock [OF mock_direct.mock_provider_axioms, of "mock_reset ipmi_v2" junk] assms(2)
    by (simp add: IpmiTest_main_def test_main_works [OF assms(1)] mock_sizes)
qed

end
