(* ===== verification/Table_Tests.thy ===== *)
theory Table_Tests
  imports Ipmi_Tables Unit_Tests
begin

section \<open>The unit tests of the tables\<close>

text \<open>
  The Google tests of \<open>SpmiTable\<close> and \<open>IpmiSmbios\<close>.  \<open>EXPECT_CALL\<close> gives a mock routine the list of the
  statuses it returns: a call that finds the list empty fails the test, and so does a list that is
  not used up.  The mocks write nothing but the interface pointers.  The two tables are variables
  of the drivers and keep their values from one test to the next.
\<close>

unbundle bit_operations_syntax

record gmock =
  LocateProtocol_calls :: "efi_status list"
  Ipmi_calls :: "efi_status list"
  Table_calls :: "efi_status list"

definition gmock_done :: gmock where
  "gmock_done = \<lparr>LocateProtocol_calls = [], Ipmi_calls = [], Table_calls = []\<rparr>"

fun pop_status :: "efi_status list \<Rightarrow> (efi_status \<times> efi_status list) option" where
  "pop_status [] = None"
| "pop_status (st # sts) = Some (st, sts)"

definition gBS_LocateProtocol :: "(unit, gmock) locate_fn" where
  "gBS_LocateProtocol g =
     do {
       (Status, rest) \<leftarrow> pop_status (LocateProtocol_calls g);
       Some ((Status, if EFI_ERROR Status then None else Some ()), g\<lparr>LocateProtocol_calls := rest\<rparr>)
     }"

text \<open>\<open>IpmiSendCommand\<close> of the one test and, below \<open>IpmiGetDeviceId\<close>, of the other.\<close>

definition Ipmi_gmock :: "gmock submit" where
  "Ipmi_gmock NetFunction Command CommandData CommandDataSize ResponseData ResponseDataSize g =
     do {
       (Status, rest) \<leftarrow> pop_status (Ipmi_calls g);
       Some ((Status, ResponseData, ResponseDataSize), g\<lparr>Ipmi_calls := rest\<rparr>)
     }"

definition IpmiTransport_gmock :: "unit \<Rightarrow> gmock ipmi_transport" where
  "IpmiTransport_gmock p =
     \<lparr>Revision = 0, tp_IpmiSubmitCommand = (\<lambda>Lun. Ipmi_gmock), tp_GetBmcStatus = (\<lambda>g. None)\<rparr>"

text \<open>\<open>InstallAcpiTable\<close> of the one test, \<open>MockSmbiosAdd\<close> of the other.\<close>

definition Table_gmock :: "'t \<Rightarrow> (gmock, efi_status) op" where
  "Table_gmock Table g =
     do {
       (Status, rest) \<leftarrow> pop_status (Table_calls g);
       Some (Status, g\<lparr>Table_calls := rest\<rparr>)
     }"

subsection \<open>SPMI\<close>

text \<open>One call of the entry point with its expectations; these tests are built without ASSERTs.\<close>

definition spmi_call ::
    "ipmi_hdr \<Rightarrow> table_env \<Rightarrow> gmock \<Rightarrow> spmi_table \<Rightarrow> (efi_status \<times> spmi_table) option" where
  "spmi_call M E g Table =
     do {
       ((AcpiStatus, AcpiTable), g1) \<leftarrow> gBS_LocateProtocol g;
       ((Status, Table1), g2) \<leftarrow> SpmiTableEntryPoint M E False AcpiStatus True gBS_LocateProtocol
          IpmiTransport_gmock Table_gmock Table g1;
       UT_ASSERT (g2 = gmock_done);
       Some (Status, Table1)
     }"

definition VerifySpmiTableEntryPointPositiveTestCase :: "ipmi_hdr \<Rightarrow> table_env \<Rightarrow> spmi_table unit_test" where
  "VerifySpmiTableEntryPointPositiveTestCase M E Table =
     do {
       (Status, T) \<leftarrow> spmi_call M E \<lparr>LocateProtocol_calls = [EFI_SUCCESS, EFI_SUCCESS],
          Ipmi_calls = [EFI_SUCCESS], Table_calls = [EFI_SUCCESS]\<rparr> Table;
       UT_ASSERT (Status = EFI_SUCCESS);
       UT_ASSERT (OemTableId T = env_AcpiDefaultOemTableId E);
       UT_ASSERT (OemRevision T = env_AcpiDefaultOemRevision E);
       UT_ASSERT (CreatorId T = env_AcpiDefaultCreatorId E);
       UT_ASSERT (CreatorRevision T = env_AcpiDefaultCreatorRevision E);
       UT_ASSERT (spmi_InterfaceType T = env_IpmiInterfaceType E);
       UT_ASSERT (spmi_InterruptType T = env_IpmiInterruptType E);
       UT_ASSERT (spmi_Gpe T = env_IpmiGpe E);
       UT_ASSERT (spmi_PciDeviceFlag T = env_IpmiPciDeviceFlag E);
       UT_ASSERT (spmi_GlobalSystemInterrupt T = env_IpmiGlobalSystemInterrupt E);
       UT_ASSERT (spmi_AddressSpaceId T = env_IpmiAddressSpaceId E);
       UT_ASSERT (spmi_RegisterBitWidth T = env_IpmiRegisterBitWidth E);
       UT_ASSERT (spmi_RegisterBitOffset T = env_IpmiRegisterBitOffset E);
       UT_ASSERT (spmi_AccessSize T = env_IpmiAccessSize E);
       Some T
     }"

definition VerifyIpmiSendCommandFailed :: "ipmi_hdr \<Rightarrow> table_env \<Rightarrow> spmi_table unit_test" where
  "VerifyIpmiSendCommandFailed M E Table =
     do {
       (Status, T) \<leftarrow> spmi_call M E \<lparr>LocateProtocol_calls = [EFI_SUCCESS, EFI_SUCCESS],
          Ipmi_calls = [EFI_UNSUPPORTED], Table_calls = []\<rparr> Table;
       UT_ASSERT (Status = EFI_UNSUPPORTED);
       Some T
     }"

definition VerifyInstallAcpiTableFailed :: "ipmi_hdr \<Rightarrow> table_env \<Rightarrow> spmi_table unit_test" where
  "VerifyInstallAcpiTableFailed M E Table =
     do {
       (Status, T) \<leftarrow> spmi_call M E \<lparr>LocateProtocol_calls = [EFI_SUCCESS, EFI_SUCCESS],
          Ipmi_calls = [EFI_SUCCESS], Table_calls = [EFI_UNSUPPORTED]\<rparr> Table;
       UT_ASSERT (Status = EFI_UNSUPPORTED);
       Some T
     }"

definition VerifyLocateProtocolNotFound :: "ipmi_hdr \<Rightarrow> table_env \<Rightarrow> spmi_table unit_test" where
  "VerifyLocateProtocolNotFound M E Table =
     do {
       (Status, T) \<leftarrow> spmi_call M E \<lparr>LocateProtocol_calls = [EFI_NOT_FOUND],
          Ipmi_calls = [], Table_calls = []\<rparr> Table;
       UT_ASSERT (Status = EFI_NOT_FOUND);
       (Status, T1) \<leftarrow> spmi_call M E \<lparr>LocateProtocol_calls = [EFI_SUCCESS, EFI_NOT_FOUND],
          Ipmi_calls = [], Table_calls = []\<rparr> T;
       UT_ASSERT (Status = EFI_NOT_FOUND);
       Some T1
     }"

definition SpmiTableGoogleTest :: "ipmi_hdr \<Rightarrow> table_env \<Rightarrow> spmi_table unit_test" where
  "SpmiTableGoogleTest M E =
     run_tests [(VerifySpmiTableEntryPointPositiveTestCase M E, id), (VerifyIpmiSendCommandFailed M E, id),
                (VerifyInstallAcpiTableFailed M E, id), (VerifyLocateProtocolNotFound M E, id)]"

subsection \<open>SMBIOS type 38\<close>

text \<open>One call of \<open>CreateIpmiSmbiosType38\<close>; its \<open>DeviceId\<close> stays uninitialised (\<open>junk\<close>).\<close>

definition smbios_call ::
    "ipmi_hdr \<Rightarrow> table_env \<Rightarrow> bytes \<Rightarrow> gmock \<Rightarrow> smbios_type38 \<Rightarrow> (efi_status \<times> smbios_type38) option" where
  "smbios_call M E junk g Table =
     do {
       ((SmbiosStatus, SmbiosProtocol), g1) \<leftarrow> gBS_LocateProtocol g;
       ((Status, Table1), g2) \<leftarrow> CreateIpmiSmbiosType38 M E Ipmi_gmock SmbiosStatus Table_gmock junk Table g1;
       UT_ASSERT (g2 = gmock_done);
       Some (Status, Table1)
     }"

definition VerifyCreateIpmiSmbiosType38TestCase ::
    "ipmi_hdr \<Rightarrow> table_env \<Rightarrow> bytes \<Rightarrow> smbios_type38 unit_test" where
  "VerifyCreateIpmiSmbiosType38TestCase M E junk Table =
     do {
       (Status, T) \<leftarrow> smbios_call M E junk \<lparr>LocateProtocol_calls = [EFI_SUCCESS], Ipmi_calls = [EFI_SUCCESS],
          Table_calls = [EFI_SUCCESS]\<rparr> Table;
       UT_ASSERT (Status = EFI_SUCCESS);
       UT_ASSERT (s38_HdrType T = EFI_SMBIOS_TYPE_IPMI_DEVICE_INFORMATION E);
       UT_ASSERT (s38_HdrLength T = sizeof_SMBIOS_TABLE_TYPE38 E);
       UT_ASSERT (s38_InterfaceType T = env_IpmiInterfaceType E);
       UT_ASSERT (s38_I2CSlaveAddress T = env_I2CSlaveAddress E);
       UT_ASSERT (s38_NVStorageDeviceAddress T = env_NVStorageDeviceAddress E);
       UT_ASSERT (s38_InterruptNumber T = env_InterruptNumber E);
       UT_ASSERT (s38_BaseAddress T = ucast (env_IpmiIoBaseAddress E OR 1));
       UT_ASSERT (s38_BaseAddressModifier_InterruptInfo T =
         ucast (push_bit 4 (env_IpmiIoBaseAddress E AND 1)) OR push_bit 3 (env_InterruptInfo E AND 1) OR
         push_bit 1 (env_InterruptPolarity E AND 1) OR (env_InterruptTriggerMode E AND 1));
       Some T
     }"

definition VerifyCreateIpmiSmbiosType38LocateProtocolFailTestCase ::
    "ipmi_hdr \<Rightarrow> table_env \<Rightarrow> bytes \<Rightarrow> smbios_type38 unit_test" where
  "VerifyCreateIpmiSmbiosType38LocateProtocolFailTestCase M E junk Table =
     do {
       (Status, T) \<leftarrow> smbios_call M E junk \<lparr>LocateProtocol_calls = [EFI_NOT_FOUND], Ipmi_calls = [],
          Table_calls = []\<rparr> Table;
       UT_ASSERT (Status = EFI_NOT_FOUND);
       Some T
     }"

definition VerifyCreateIpmiSmbiosType38IpmiSubmitCommandFailTestCase ::
    "ipmi_hdr \<Rightarrow> table_env \<Rightarrow> bytes \<Rightarrow> smbios_type38 unit_test" where
  "VerifyCreateIpmiSmbiosType38IpmiSubmitCommandFailTestCase M E junk Table =
     do {
       (Status, T) \<leftarrow> smbios_call M E junk \<lparr>LocateProtocol_calls = [EFI_SUCCESS], Ipmi_calls = [EFI_NOT_READY],
          Table_calls = []\<rparr> Table;
       UT_ASSERT (Status = EFI_NOT_READY);
       Some T
     }"

definition VerifyCreateIpmiSmbiosType38SmbiosAddFailTestCase ::
    "ipmi_hdr \<Rightarrow> table_env \<Rightarrow> bytes \<Rightarrow> smbios_type38 unit_test" where
  "VerifyCreateIpmiSmbiosType38SmbiosAddFailTestCase M E junk Table =
     do {
       (Status, T) \<leftarrow> smbios_call M E junk \<lparr>LocateProtocol_calls = [EFI_SUCCESS], Ipmi_calls = [EFI_SUCCESS],
          Table_calls = [EFI_INVALID_PARAMETER]\<rparr> Table;
       UT_ASSERT (Status = EFI_INVALID_PARAMETER);
       Some T
     }"

definition IpmiSmbiosGoogleTest :: "ipmi_hdr \<Rightarrow> table_env \<Rightarrow> bytes \<Rightarrow> smbios_type38 unit_test" where
  "IpmiSmbiosGoogleTest M E junk =
     run_tests [(VerifyCreateIpmiSmbiosType38TestCase M E junk, id),
                (VerifyCreateIpmiSmbiosType38LocateProtocolFailTestCase M E junk, id),
                (VerifyCreateIpmiSmbiosType38IpmiSubmitCommandFailTestCase M E junk, id),
                (VerifyCreateIpmiSmbiosType38SmbiosAddFailTestCase M E junk, id)]"

subsection \<open>When they pass\<close>

lemmas gmock_defs =
  gBS_LocateProtocol_def Ipmi_gmock_def IpmiTransport_gmock_def Table_gmock_def gmock_done_def

lemma spmi_tests_pass: "\<exists>T. SpmiTableGoogleTest M E (mSpmiTable E Size) = Some T"
  by (simp add: SpmiTableGoogleTest_def VerifySpmiTableEntryPointPositiveTestCase_def spmi_call_def
      VerifyIpmiSendCommandFailed_def VerifyInstallAcpiTableFailed_def VerifyLocateProtocolNotFound_def
      gmock_defs SpmiTableEntryPoint_def UpdateAcpiSpmiTables_def mSpmiTable_def)

text \<open>The expectation on the interrupt byte leaves the register spacing out.\<close>

lemma spacing_left_out:
  fixes m sp i p t :: u8
  assumes "\<And>n. bit m n \<Longrightarrow> n = 4"
  shows "m OR push_bit 6 (sp AND 0x3) OR push_bit 3 (i AND 1) OR push_bit 1 (p AND 1) OR (t AND 1) =
      m OR push_bit 3 (i AND 1) OR push_bit 1 (p AND 1) OR (t AND 1) \<longleftrightarrow> sp AND 0x3 = 0"
    (is "?actual = ?expected \<longleftrightarrow> _")
proof
  have "drop_bit 6 ?actual = sp AND 0x3" "drop_bit 6 ?expected = 0"
    using modifier_bits(5) [of m sp i p t, OF assms] modifier_bits(5) [of m 0 i p t, OF assms] by simp_all
  then show "sp AND 0x3 = 0" if "?actual = ?expected" using that by metis
qed simp

lemma smbios_interrupt_byte:
  assumes "env_IpmiInterfaceType E \<noteq> IPMIDeviceInfoInterfaceTypeSSIF E"
    and "env_IpmiAddressSpaceId E = EFI_ACPI_5_0_SYSTEM_IO E"
  shows "s38_BaseAddressModifier_InterruptInfo (fill_type38 E v T) =
      ucast (push_bit 4 (env_IpmiIoBaseAddress E AND 1)) OR push_bit 3 (env_InterruptInfo E AND 1) OR
      push_bit 1 (env_InterruptPolarity E AND 1) OR (env_InterruptTriggerMode E AND 1) \<longleftrightarrow>
    env_IpmiRegisterBitWidth E \<in> {0x08, 0x10}"
proof -
  let ?m = "ucast (push_bit 4 (env_IpmiIoBaseAddress E AND 1)) :: u8"
  have "bit ?m n \<Longrightarrow> n = 4" for n
    by (auto simp only: bit_unsigned_iff bit_push_bit_iff bit_and_iff bit_1_iff)
  moreover have "s38_BaseAddressModifier_InterruptInfo (fill_type38 E v T) =
      ?m OR push_bit 6 (IpmiRegisterSpacing E AND 0x3) OR push_bit 3 (env_InterruptInfo E AND 1) OR
      push_bit 1 (env_InterruptPolarity E AND 1) OR (env_InterruptTriggerMode E AND 1)"
    using assms by (simp add: fill_type38_def Let_def)
  ultimately show ?thesis
    using spacing_left_out [of ?m "IpmiRegisterSpacing E"] by (simp add: spacing_bits)
qed

lemma fill_type38_kept:
  "s38_HdrType (fill_type38 E v T) = s38_HdrType T" "s38_HdrLength (fill_type38 E v T) = s38_HdrLength T"
  "s38_InterfaceType (fill_type38 E v T) = s38_InterfaceType T"
  "s38_I2CSlaveAddress (fill_type38 E v T) = s38_I2CSlaveAddress T"
  "s38_NVStorageDeviceAddress (fill_type38 E v T) = s38_NVStorageDeviceAddress T"
  "s38_InterruptNumber (fill_type38 E v T) = s38_InterruptNumber T"
  by (simp_all add: fill_type38_def Let_def)

lemma fill_type38_base:
  assumes "env_IpmiInterfaceType E \<noteq> IPMIDeviceInfoInterfaceTypeSSIF E"
    and "env_IpmiAddressSpaceId E = EFI_ACPI_5_0_SYSTEM_IO E"
  shows "s38_BaseAddress (fill_type38 E v T) = ucast (env_IpmiIoBaseAddress E OR 1)"
  using assms by (simp add: fill_type38_def Let_def)

text \<open>The tests pass for byte-wide registers, which is the default; they would fail for 32-bit ones,
  whose spacing they leave out.\<close>

theorem table_tests_pass:
  assumes "env_IpmiInterfaceType E \<noteq> IPMIDeviceInfoInterfaceTypeSSIF E"
    and "env_IpmiAddressSpaceId E = EFI_ACPI_5_0_SYSTEM_IO E"
  shows "(\<exists>T. SpmiTableGoogleTest M E (mSpmiTable E Size) = Some T) \<and>
    ((\<exists>T. IpmiSmbiosGoogleTest M E junk (mSmbiosTableType38 E) = Some T) \<longleftrightarrow>
     env_IpmiRegisterBitWidth E \<in> {0x08, 0x10})"
proof -
  let ?T = "fill_type38 E (fget8 M 0 DevId_SpecificationVersion junk) (mSmbiosTableType38 E)"
  have id: "IpmiGetDeviceId M Ipmi_gmock junk g = map_option (\<lambda>(st, sts). ((st, junk), g\<lparr>Ipmi_calls := sts\<rparr>))
      (pop_status (Ipmi_calls g))" for g
    by (cases "Ipmi_calls g") (simp_all add: IpmiGetDeviceId_def call_fixed_def Ipmi_gmock_def)
  have fields: "s38_HdrType ?T = EFI_SMBIOS_TYPE_IPMI_DEVICE_INFORMATION E"
    "s38_HdrLength ?T = sizeof_SMBIOS_TABLE_TYPE38 E" "s38_InterfaceType ?T = env_IpmiInterfaceType E" "s38_I2CSlaveAddress ?T = env_I2CSlaveAddress E"
    "s38_NVStorageDeviceAddress ?T = env_NVStorageDeviceAddress E" "s38_InterruptNumber ?T = env_InterruptNumber E"
    by (simp_all add: fill_type38_kept mSmbiosTableType38_def)
  have first: "VerifyCreateIpmiSmbiosType38TestCase M E junk (mSmbiosTableType38 E) =
      (if env_IpmiRegisterBitWidth E \<in> {0x08, 0x10} then Some ?T else None)"
    using smbios_interrupt_byte [OF assms, of "fget8 M 0 DevId_SpecificationVersion junk" "mSmbiosTableType38 E"] assms
    by (simp add: VerifyCreateIpmiSmbiosType38TestCase_def smbios_call_def CreateIpmiSmbiosType38_def id gmock_defs
        fields fill_type38_base ASSERT_def)
  have rest: "VerifyCreateIpmiSmbiosType38LocateProtocolFailTestCase M E junk T = Some T"
    "VerifyCreateIpmiSmbiosType38IpmiSubmitCommandFailTestCase M E junk T = Some T"
    "\<exists>T'. VerifyCreateIpmiSmbiosType38SmbiosAddFailTestCase M E junk T = Some T'" for T
    by (simp_all add: VerifyCreateIpmiSmbiosType38LocateProtocolFailTestCase_def smbios_call_def
        VerifyCreateIpmiSmbiosType38IpmiSubmitCommandFailTestCase_def
        VerifyCreateIpmiSmbiosType38SmbiosAddFailTestCase_def CreateIpmiSmbiosType38_def id gmock_defs)
  show ?thesis
    using spmi_tests_pass [of M E Size] first rest by (simp add: IpmiSmbiosGoogleTest_def)
qed

end
