(* ===== verification/Spec2Isabelle.thy ===== *)
theory Spec2Isabelle
  imports Generic_Init Transport_Kcs Transport_Ssif Sel_Props Watchdog Boot_Props Power_State Sol_Fru
    Ipmi_Tables Status_Reporter Debug_Print Link_Mock Unit_Tests Test_Main Table_Tests
begin

text \<open>
  \<^bold>\<open>The IPMI feature package in Isabelle.\<close>  The repository (\<open>src/IpmiFeaturePkg\<close>) is UEFI firmware
  that talks to a baseboard management controller (BMC).  This library models its C code and proves
  what makes it correct, and where it is not.

  \<^bold>\<open>The parts and how they interact.\<close>  A feature (event log, watchdog, boot options, power state,
  tables) calls a library of commands, or \<open>IpmiSubmitCommand\<close> of \<open>IpmiBaseLib\<close> directly.  The base
  library of a phase (DXE, SMM, MM, PEI) looks up the protocol or PPI which the generic driver has
  published.  The driver frames the command, hands it to the transport library (KCS ports, SSIF over
  SMBus, or the mock), checks the reply, counts failures and copies the data to the caller.  For the
  host tests a mock BMC takes the place of the hardware, either below the driver
  (\<open>IpmiTransportLibMock\<close>) or directly below the features (\<open>IpmiBaseLibMock\<close>).

  \<^bold>\<open>How code becomes definitions.\<close>  Machine integers are words of their width, so that wrap-around
  and truncation are the code's.  A buffer is the list of the bytes from the pointer on.  An
  operation is a function from arguments and state to \<open>(results \<times> state) option\<close> (\<open>op\<close>): \<open>None\<close> is a
  call without a defined return, that is a failed ASSERT or a loop that never ends; an
  \<open>EFI_STATUS\<close> is a value, so every error path is a branch.  Out parameters are results, in their
  order in the signature; a pointer that may be NULL is an option; uninitialised variables are
  arguments (\<open>Response0\<close>, \<open>junk\<close>).  Loops are structural recursion where the code counts, \<open>function\<close>
  with a measure where it counts down in a word, and \<open>partial_function\<close> where nothing bounds them
  (\<open>SelClear\<close>, the SOL channel loop, the sections of \<open>BmcAcpi\<close>).  No fuel is used anywhere.
  Definitions have the names of the C functions, with a suffix where two files share one.

  \<^bold>\<open>The theories.\<close>
  \<^item> \<open>Ipmi_Prelude\<close>: statuses, byte buffers, bit fields in them; the collections \<open>mem_simps\<close> and \<open>ops\<close>.
  \<^item> \<open>Ipmi_Headers\<close>, \<open>Ipmi_V2\<close>: the industry-standard headers are not in the repository.  Their
    constants and structure layouts are the parameter \<open>M\<close>; \<open>hdr_ok M\<close> is what the code relies on and
    \<open>ipmi_v2\<close>, from the tables of the specification, satisfies it.
  \<^item> \<open>Transport\<close>: the interface of a transport library, the locale \<open>transport\<close>, and the null library.
    \<open>Transport_Kcs\<close> (\<open>KcsBmc.c\<close>) and \<open>Transport_Ssif\<close> (\<open>Ssif.c\<close>, the SMBus libraries) are its instances;
    the locales \<open>kcs_bmc\<close> and \<open>smbus\<close> are what the hardware behind them promises.
  \<^item> \<open>Generic_Ipmi\<close>: \<open>IpmiSendCommand\<close> of \<open>GenericIpmi/Common\<close>.  \<open>Generic_Init\<close>: device id, self test,
    initialisation, and the PEI, DXE, SMM and MM entry points; the step relation \<open>bmc_step\<close> and its
    reachable states.
  \<^item> \<open>Base_Lib\<close>: the base libraries, and the locales \<open>ipmi_submit\<close> and \<open>ipmi_submit_normal\<close>, what a client
    may rely on; every lawful transport gives both.
  \<^item> \<open>Mock_Bmc\<close>, \<open>Mock_Stack\<close>, \<open>Dxe_Stack\<close>: the mock (\<open>Library/MockIpmi\<close>) and the three stacks over it.
    Each is an interpretation of the locale \<open>mock_provider\<close>.
  \<^item> \<open>Link_Stack\<close>: the locale \<open>bmc_link\<close>, a transport that carries messages to a BMC (a state and a
    function \<open>serve\<close> on it), and the whole DXE stack over it.  \<open>Kcs_Stack\<close> and \<open>Ssif_Stack\<close>: the KCS ports
    and SMBus are such links for every BMC that keeps the contract \<open>kcs_bmc\<close> or \<open>ssif_bmc\<close> (phases of
    the protocol, each with the state of the BMC).  \<open>Link_Mock\<close>: the locale \<open>mock_link\<close>, a link with the
    mock at its far end; it is a \<open>mock_provider\<close> as well, over the ports and over SMBus.
  \<^item> \<open>Debug_Print\<close>: \<open>IpmiPrintCommand\<close>, the text the driver prints for each message.
  \<^item> \<open>Sel_Bmc\<close>, \<open>Sel_Lib\<close>, \<open>Sel_Props\<close>: the contract \<open>sel_bmc\<close> of a BMC with an event log (an abstract
    log and clock; the answer to record id 0xFFFF is left open), \<open>IpmiSelLib\<close> and the SEL protocol, and
    what they guarantee over the contract.
    \<open>Wdt_Bmc\<close>, \<open>Watchdog\<close> and \<open>Boot_Option\<close>, \<open>Boot_Mock\<close>, \<open>Boot_Props\<close> do the same for the watchdog and
    the boot options; \<open>sublocale\<close> gives each contract to every \<open>mock_provider\<close>.
  \<^item> \<open>Command_Lib\<close>: \<open>IpmiCommandLib\<close>.  \<open>Power_State\<close>, \<open>Sol_Fru\<close>, \<open>Ipmi_Tables\<close>, \<open>Status_Reporter\<close>: the
    drivers for the power restore policy and the ACPI power state, for serial over LAN and the FRU
    area, for the SMBIOS and ACPI tables, and the sample that reports status codes.
  \<^item> \<open>Unit_Tests\<close>, \<open>Unit_Tests_Stack\<close>, \<open>Shell_Tests\<close>, \<open>Table_Tests\<close>: the tests of the repository as
    definitions, proved to pass (or shown not to) in every state they may start from; \<open>Test_Main\<close>: the
    applications that register and run them, with the test framework as an argument.

  \<^bold>\<open>What the lemmas show.\<close>  Sending commands: a reply arrives unchanged, a refusal leaves the caller's
  memory alone, for every lawful transport at most one byte behind the caller's buffer is written
  (and that byte is written), a call returns whenever the transport does.  Transports: any BMC that
  keeps to the KCS protocol receives exactly the message and its reply is received exactly; the SSIF
  loops implement the segmentation of the specification, and carry messages and replies of every
  length to and from any BMC that keeps to it.  Driver: the state of the BMC is decided by
  the initialisation, handed from PEI to DXE and SMM, and kept by every order of calls.  Features:
  round trips through the event log, one boot of the watchdog, a boot override that is used once, a
  power policy that converges, tables that agree with the device id.  Stacks: the whole DXE stack
  and the mock base library take the BMC through the same steps, for any sequence of requests and
  over any link to the mock; over the KCS ports and over SMBus a reply crosses all layers unchanged
  and leaves a state from which the next command can start.  Limits: the theorems on truncated
  sizes, stale responses, short SSIF blocks, unbounded waits and lost requests say exactly when the
  code goes wrong; the watchdog keeps the policy it read at its entry.  The command library writes
  at most one byte behind any response.

  \<^bold>\<open>Bounds.\<close>  The driver's buffer has 255 bytes, of which 254 are offered to the transport: the
  theorems across the driver are for up to 252 data bytes in either direction.  The mock has room
  for 100 records.  Retry counts and time-outs are arguments wherever the code takes them from the
  configuration; the KCS theorems ask only that the BMC answers within the timeout, counted in polls
  (\<open>lag\<close>).

  \<^bold>\<open>Not modelled.\<close>  DEBUG messages, other than the text of \<open>IpmiPrintCommand\<close>.  The services of the firmware
  core (events, memory, HOBs, protocols, policies, ACPI and SMBIOS installation) are arguments with
  the behaviour their specification documents.  Time passes only as the number of polls.  Locking
  and TPL are not in the model: the code has none of its own.  The ASL source, the build files, the
  Google mock declarations and protocol headers nothing implements (\<open>GenericElog.h\<close>, \<open>RedirFru.h\<close>,
  \<open>BmcAcpiSwChildPolicy.h\<close>) are left out.
\<close>

text \<open>Properties that span the components: the unit tests of the SEL library pass, too, when the mock is
  at the far end of the KCS ports or of SMBus.\<close>

lemma sel_tests_over_links:
  assumes "mock_ok ipmi_v2 m" "unat (mNextRecordId m) + 3 \<le> SEL_COUNT"
    and "\<And>n. length (junk n) = n" "length PcdIpmiSelOemManufacturerId = 3"
    and "link_ready (kcs_idle fst snd 100000) 100000 kcs" "kcs_dev (fst (Port kcs)) = m"
    and "link_ready (\<lambda>b. is_SIdle (bus_phase b)) P ssif" "ssif_dev (bus_phase (Port ssif)) = m"
  shows "\<exists>b. SelTestMain ipmi_v2 (submit_over_kcs p) PcdIpmiSelOemManufacturerId junk Cc0
      \<lparr>mIpmiTransport = None, System = kcs\<rparr> = Some b"
    "\<exists>b. SelTestMain ipmi_v2 (submit_over_ssif p) PcdIpmiSelOemManufacturerId junk Cc0
      \<lparr>mIpmiTransport = None, System = ssif\<rparr> = Some b"
  using sel_suite [OF kcs_stack.mock_provider_axioms [where p = p], where junk = junk and ?Cc0.0 = Cc0
      and s = "\<lparr>mIpmiTransport = None, System = kcs\<rparr>" and manu = PcdIpmiSelOemManufacturerId]
    sel_suite [OF ssif_stack.mock_provider_axioms [where p = p and P = P], where junk = junk and ?Cc0.0 = Cc0
      and s = "\<lparr>mIpmiTransport = None, System = ssif\<rparr>" and manu = PcdIpmiSelOemManufacturerId] assms
  by auto

end
